(* ===== verification/Prelude.thy ===== *)
theory Prelude
  imports Main "HOL-Library.Word" "HOL-Library.Char_ord" "HOL-Library.List_Lexorder"
begin

text \<open>
  What the components share: machine integers, Rust's \<open>Result\<close> and \<open>Option\<close>
  combinators, strings as UTF-8 byte lists with the character and byte classes of the
  standard library that the source asks for, the \<open>Vec\<close> searches and in-place updates the
  source writes with iterators, and the contract of a machine whose every step keeps an
  invariant.
\<close>

named_theorems store_simps \<open>unfolding of the operations of a store\<close>

section \<open>Machine integers and results\<close>

type_synonym u8 = "8 word"
type_synonym u16 = "16 word"
type_synonym u64 = "64 word"

text \<open>Rust's \<open>Result<T, E>\<close>: the error on the left.\<close>

type_synonym ('a, 'e) result = "'e + 'a"

abbreviation Ok :: "'a \<Rightarrow> 'e + 'a" where "Ok \<equiv> Inr"
abbreviation Err :: "'e \<Rightarrow> 'e + 'a" where "Err \<equiv> Inl"

definition is_ok :: "'e + 'a \<Rightarrow> bool" where
  "is_ok r = (case r of Inl _ \<Rightarrow> False | Inr _ \<Rightarrow> True)"

definition map_err :: "('e \<Rightarrow> 'f) \<Rightarrow> 'e + 'a \<Rightarrow> 'f + 'a" where
  "map_err f r = (case r of Inl e \<Rightarrow> Inl (f e) | Inr a \<Rightarrow> Inr a)"

definition ok_or :: "'a option \<Rightarrow> 'e \<Rightarrow> 'e + 'a" where
  "ok_or o' e = (case o' of None \<Rightarrow> Inl e | Some a \<Rightarrow> Inr a)"

definition is_some_and :: "'a option \<Rightarrow> ('a \<Rightarrow> bool) \<Rightarrow> bool" where
  "is_some_and o' P = (case o' of None \<Rightarrow> False | Some a \<Rightarrow> P a)"

lemma is_ok_simps [simp]: "is_ok (Ok a)" "\<not> is_ok (Err e)"
  by (simp_all add: is_ok_def)

lemma map_err_simps [simp]: "map_err f (Ok a) = Ok a" "map_err f (Err e) = Err (f e)"
  by (simp_all add: map_err_def)

lemma map_err_eq_Ok [simp]: "map_err f r = Ok a \<longleftrightarrow> r = Ok a"
  by (cases r) simp_all

lemma ok_or_simps [simp]: "ok_or None e = Err e" "ok_or (Some a) e = Ok a"
  by (simp_all add: ok_or_def)

lemma ok_or_eq_Ok [simp]: "ok_or x e = Ok a \<longleftrightarrow> x = Some a"
  by (cases x) simp_all

lemma is_some_and_simps [simp]: "\<not> is_some_and None P" "is_some_and (Some a) P = P a"
  by (simp_all add: is_some_and_def)

lemma is_some_and_iff: "is_some_and x P \<longleftrightarrow> (\<exists>a. x = Some a \<and> P a)"
  by (cases x) simp_all

section \<open>Strings\<close>

text \<open>
  A Rust \<open>String\<close> is its UTF-8 bytes, here a list of \<open>char\<close>, each a byte. \<open>len()\<close> is
  the number of bytes, \<open>==\<close> and the order of strings are those of the byte lists.
\<close>

definition byte_of :: "char \<Rightarrow> nat" where
  "byte_of c = of_char c"

text \<open>A string literal outside ASCII, by its UTF-8 bytes.\<close>

definition bytes_str :: "nat list \<Rightarrow> string" where
  "bytes_str ns = map char_of ns"

definition in_bytes :: "nat \<Rightarrow> nat \<Rightarrow> char \<Rightarrow> bool" where
  "in_bytes lo hi c \<longleftrightarrow> lo \<le> byte_of c \<and> byte_of c \<le> hi"

definition is_ascii_lowercase :: "char \<Rightarrow> bool" where
  "is_ascii_lowercase c \<longleftrightarrow> in_bytes 97 122 c"

definition is_ascii_uppercase :: "char \<Rightarrow> bool" where
  "is_ascii_uppercase c \<longleftrightarrow> in_bytes 65 90 c"

definition is_ascii_digit :: "char \<Rightarrow> bool" where
  "is_ascii_digit c \<longleftrightarrow> in_bytes 48 57 c"

definition is_ascii_alphanumeric :: "char \<Rightarrow> bool" where
  "is_ascii_alphanumeric c \<longleftrightarrow> is_ascii_lowercase c \<or> is_ascii_uppercase c \<or> is_ascii_digit c"

definition is_ascii_graphic :: "char \<Rightarrow> bool" where
  "is_ascii_graphic c \<longleftrightarrow> in_bytes 33 126 c"

definition is_ascii_str :: "string \<Rightarrow> bool" where
  "is_ascii_str s \<longleftrightarrow> list_all (\<lambda>c. byte_of c < 128) s"

lemmas byte_class_defs = byte_of_def in_bytes_def is_ascii_lowercase_def is_ascii_uppercase_def
  is_ascii_digit_def is_ascii_alphanumeric_def is_ascii_graphic_def is_ascii_str_def

lemma alphanumeric_graphic: "is_ascii_alphanumeric c \<Longrightarrow> is_ascii_graphic c"
  by (auto simp: byte_class_defs)

text \<open>\<open>s.bytes().enumerate().all(|(index, byte)| P)\<close>.\<close>

definition all_indexed :: "(nat \<Rightarrow> char \<Rightarrow> bool) \<Rightarrow> string \<Rightarrow> bool" where
  "all_indexed P s \<longleftrightarrow> list_all (\<lambda>(i, c). P i c) (List.enumerate 0 s)"

lemma all_indexed_nth: "all_indexed P s \<longleftrightarrow> (\<forall>i < length s. P i (s ! i))"
  by (auto simp: all_indexed_def list_all_iff in_set_enumerate_eq)

text \<open>The pattern every identifier check of the source has: a first byte of one class, the
  later ones of a larger one.\<close>

lemma all_indexed_head:
  assumes "\<And>i c. P i c \<longleftrightarrow> Q c \<or> (R c \<and> 0 < i)"
  shows "all_indexed P (x # xs) \<longleftrightarrow> Q x \<and> list_all (\<lambda>c. Q c \<or> R c) xs"
  by (auto simp: all_indexed_nth assms list_all_length nth_Cons' less_Suc_eq_0_disj)

subsection \<open>Characters of a string\<close>

text \<open>
  \<open>s.chars()\<close>: the Unicode scalar values that the bytes encode. On the bytes of a Rust
  string, which are always valid UTF-8, the last equation is never reached.
\<close>

fun utf8_decode :: "nat list \<Rightarrow> nat list" where
  "utf8_decode [] = []"
| "utf8_decode (a # rest) =
    (if a < 128 then a # utf8_decode rest
     else if a < 224 then
       (case rest of b # more \<Rightarrow> ((a - 192) * 64 + (b - 128)) # utf8_decode more | _ \<Rightarrow> [65533])
     else if a < 240 then
       (case rest of b # c # more \<Rightarrow>
          ((a - 224) * 4096 + (b - 128) * 64 + (c - 128)) # utf8_decode more | _ \<Rightarrow> [65533])
     else
       (case rest of b # c # d # more \<Rightarrow>
          ((a - 240) * 262144 + (b - 128) * 4096 + (c - 128) * 64 + (d - 128))
            # utf8_decode more | _ \<Rightarrow> [65533]))"

definition str_chars :: "string \<Rightarrow> nat list" where
  "str_chars s = utf8_decode (map byte_of s)"

text \<open>\<open>char::is_whitespace\<close>: the code points with the property White\_Space.\<close>

definition is_whitespace :: "nat \<Rightarrow> bool" where
  "is_whitespace n \<longleftrightarrow> (9 \<le> n \<and> n \<le> 13) \<or> n = 32 \<or> n = 133 \<or> n = 160 \<or> n = 5760
     \<or> (8192 \<le> n \<and> n \<le> 8202) \<or> n = 8232 \<or> n = 8233 \<or> n = 8239 \<or> n = 8287 \<or> n = 12288"

text \<open>\<open>char::is_control\<close>: the general category Cc.\<close>

definition is_control :: "nat \<Rightarrow> bool" where
  "is_control n \<longleftrightarrow> n < 32 \<or> (127 \<le> n \<and> n < 160)"

text \<open>\<open>s.trim().is_empty()\<close>: every character is white space.\<close>

definition trim_is_empty :: "string \<Rightarrow> bool" where
  "trim_is_empty s \<longleftrightarrow> list_all is_whitespace (str_chars s)"

lemma trim_is_empty_Nil [simp]: "trim_is_empty []"
  by (simp add: trim_is_empty_def str_chars_def)

text \<open>
  The byte pattern of an identifier, which several crates repeat: letters and digits anywhere,
  and a dot, an underscore or a hyphen anywhere but first.
\<close>

definition identifier_byte :: "nat \<Rightarrow> char \<Rightarrow> bool" where
  "identifier_byte index c \<longleftrightarrow>
     is_ascii_lowercase c \<or> is_ascii_uppercase c \<or> is_ascii_digit c
     \<or> (c \<in> {CHR ''.'', CHR ''_'', CHR ''-''} \<and> 0 < index)"

definition identifier_tail_byte :: "char \<Rightarrow> bool" where
  "identifier_tail_byte c \<longleftrightarrow>
     is_ascii_alphanumeric c \<or> c \<in> {CHR ''.'', CHR ''_'', CHR ''-''}"

lemma all_indexed_identifier:
  "all_indexed identifier_byte (c # cs) \<longleftrightarrow>
     is_ascii_alphanumeric c \<and> list_all identifier_tail_byte cs"
  unfolding identifier_tail_byte_def [abs_def]
  by (rule all_indexed_head) (auto simp: identifier_byte_def is_ascii_alphanumeric_def)

lemma all_indexed_identifier_Nil [simp]: "all_indexed P []"
  by (simp add: all_indexed_def)

lemma graphic_not_blank:
  assumes "is_ascii_graphic c"
  shows "\<not> trim_is_empty (c # s)"
proof -
  have "33 \<le> byte_of c" "byte_of c \<le> 126"
    using assms by (auto simp: is_ascii_graphic_def in_bytes_def)
  then show ?thesis
    by (simp add: trim_is_empty_def str_chars_def is_whitespace_def)
qed

lemma nonblank_nonempty: "\<not> trim_is_empty s \<Longrightarrow> s \<noteq> []"
  by auto

text \<open>
  \<open>std::str::from_utf8(bytes).is_ok()\<close>: the well-formed byte sequences of the Unicode
  standard (no overlong forms, no surrogates, nothing above U+10FFFF).
\<close>

definition utf8_cont :: "nat \<Rightarrow> bool" where
  "utf8_cont b \<longleftrightarrow> 128 \<le> b \<and> b \<le> 191"

fun utf8_valid :: "nat list \<Rightarrow> bool" where
  "utf8_valid [] = True"
| "utf8_valid (a # rest) =
    (if a < 128 then utf8_valid rest
     else if 194 \<le> a \<and> a \<le> 223 then
       (case rest of b # more \<Rightarrow> utf8_cont b \<and> utf8_valid more | _ \<Rightarrow> False)
     else if 224 \<le> a \<and> a \<le> 239 then
       (case rest of b # c # more \<Rightarrow>
          utf8_cont b \<and> (a = 224 \<longrightarrow> 160 \<le> b) \<and> (a = 237 \<longrightarrow> b \<le> 159) \<and> utf8_cont c
          \<and> utf8_valid more | _ \<Rightarrow> False)
     else if 240 \<le> a \<and> a \<le> 244 then
       (case rest of b # c # d # more \<Rightarrow>
          utf8_cont b \<and> (a = 240 \<longrightarrow> 144 \<le> b) \<and> (a = 244 \<longrightarrow> b \<le> 143) \<and> utf8_cont c
          \<and> utf8_cont d \<and> utf8_valid more | _ \<Rightarrow> False)
     else False)"

definition from_utf8_ok :: "string \<Rightarrow> bool" where
  "from_utf8_ok s \<longleftrightarrow> utf8_valid (map byte_of s)"

text \<open>\<open>to\_string\<close> of an unsigned integer.\<close>

fun nat_to_string :: "nat \<Rightarrow> string" where
  "nat_to_string n =
     (if n < 10 then [char_of (48 + n)] else nat_to_string (n div 10) @ [char_of (48 + n mod 10)])"

declare nat_to_string.simps [simp del]

section \<open>Searches and in-place updates of a vector\<close>

text \<open>\<open>iter().position(P)\<close>.\<close>

fun position :: "('a \<Rightarrow> bool) \<Rightarrow> 'a list \<Rightarrow> nat option" where
  "position P [] = None"
| "position P (x # xs) = (if P x then Some 0 else map_option Suc (position P xs))"

text \<open>\<open>Vec::remove(i)\<close> for an index in range.\<close>

definition vec_remove :: "nat \<Rightarrow> 'a list \<Rightarrow> 'a list" where
  "vec_remove i xs = take i xs @ drop (Suc i) xs"

text \<open>\<open>iter\_mut().find(P)\<close> followed by a write through the reference: the first match is
  replaced.\<close>

fun update_first :: "('a \<Rightarrow> bool) \<Rightarrow> ('a \<Rightarrow> 'a) \<Rightarrow> 'a list \<Rightarrow> 'a list" where
  "update_first P f [] = []"
| "update_first P f (x # xs) = (if P x then f x # xs else x # update_first P f xs)"

lemma find_Some_split:
  "find P xs = Some x \<Longrightarrow> \<exists>ys zs. xs = ys @ x # zs \<and> P x \<and> (\<forall>y \<in> set ys. \<not> P y)"
proof (induction xs)
  case (Cons a xs)
  show ?case
  proof (cases "P a")
    case True
    then have "a # xs = [] @ x # xs \<and> P x \<and> (\<forall>y \<in> set []. \<not> P y)"
      using Cons.prems by simp
    then show ?thesis by blast
  next
    case False
    then obtain ys zs where "xs = ys @ x # zs" "P x" "\<forall>y \<in> set ys. \<not> P y"
      using Cons by auto
    then have "a # xs = (a # ys) @ x # zs \<and> P x \<and> (\<forall>y \<in> set (a # ys). \<not> P y)"
      using False by simp
    then show ?thesis by blast
  qed
qed simp

lemma find_SomeD:
  assumes "find P xs = Some x"
  shows "x \<in> set xs" "P x"
  using find_Some_split [OF assms] by auto

lemma find_split:
  assumes "find P xs = Some x"
  obtains ys zs where "xs = ys @ x # zs" "P x" "\<forall>y \<in> set ys. \<not> P y"
  using find_Some_split [OF assms] by auto

lemma find_by_key:
  assumes "distinct (map f xs)" "x \<in> set xs"
  shows "find (\<lambda>y. f y = f x) xs = Some x"
  using assms by (induction xs) (auto simp: rev_image_eqI)

lemma find_append_absent [simp]:
  "\<forall>y \<in> set ys. \<not> P y \<Longrightarrow> find P (ys @ zs) = find P zs"
  by (induction ys) auto

lemma update_first_append_absent [simp]:
  "\<forall>y \<in> set ys. \<not> P y \<Longrightarrow> update_first P f (ys @ zs) = ys @ update_first P f zs"
  by (induction ys) auto

lemma length_update_first [simp]: "length (update_first P f xs) = length xs"
  by (induction xs) auto

lemma update_first_None: "find P xs = None \<Longrightarrow> update_first P f xs = xs"
  by (induction xs) (auto split: if_splits)

lemma map_update_first [simp]:
  "(\<And>x. g (f x) = g x) \<Longrightarrow> map g (update_first P f xs) = map g xs"
  by (induction xs) auto

lemma find_update_first:
  assumes "find P xs = Some x" "P (f x)"
  shows "find P (update_first P f xs) = Some (f x)"
  using assms by (induction xs) (auto split: if_splits)

lemma set_update_first_subset: "set (update_first P f xs) \<subseteq> set xs \<union> f ` {x \<in> set xs. P x}"
  by (induction xs) auto

lemma position_SomeD:
  assumes "position P xs = Some i"
  shows "i < length xs" "P (xs ! i)" "\<And>j. j < i \<Longrightarrow> \<not> P (xs ! j)"
  using assms
proof (induction xs arbitrary: i)
  case (Cons x xs)
  { case 1 then show ?case using Cons.IH by (auto split: if_splits) }
  { case 2 then show ?case using Cons.IH by (auto split: if_splits) }
  { case (3 j) then show ?case using Cons.IH by (cases j) (auto split: if_splits) }
qed simp_all

lemma position_None_iff: "position P xs = None \<longleftrightarrow> (\<forall>x \<in> set xs. \<not> P x)"
  by (induction xs) auto

lemma position_append_absent:
  "\<forall>y \<in> set ys. \<not> P y \<Longrightarrow> P x \<Longrightarrow> position P (ys @ x # zs) = Some (length ys)"
  by (induction ys) auto

lemma position_split:
  assumes "position P xs = Some i"
  shows "xs = take i xs @ xs ! i # drop (Suc i) xs"
  using position_SomeD(1) [OF assms] by (simp add: id_take_nth_drop)

lemma set_vec_remove_subset: "set (vec_remove i xs) \<subseteq> set xs"
  by (auto simp: vec_remove_def dest: in_set_takeD in_set_dropD)

lemma length_vec_remove: "i < length xs \<Longrightarrow> length (vec_remove i xs) = length xs - 1"
  by (simp add: vec_remove_def)

lemma map_vec_remove: "map f (vec_remove i xs) = vec_remove i (map f xs)"
  by (simp add: vec_remove_def take_map drop_map)

lemma distinct_vec_remove: "distinct xs \<Longrightarrow> distinct (vec_remove i xs)"
  by (auto simp: vec_remove_def set_take_disj_set_drop_if_distinct)

lemma set_vec_remove_distinct:
  assumes "distinct xs" "i < length xs"
  shows "set (vec_remove i xs) = set xs - {xs ! i}"
proof -
  have xs: "xs = take i xs @ xs ! i # drop (Suc i) xs"
    using assms(2) by (simp add: id_take_nth_drop)
  have "distinct (take i xs @ xs ! i # drop (Suc i) xs)"
    using assms(1) xs by simp
  then have "xs ! i \<notin> set (take i xs)" "xs ! i \<notin> set (drop (Suc i) xs)"
    by auto
  moreover have "set xs = set (take i xs) \<union> insert (xs ! i) (set (drop (Suc i) xs))"
    by (subst xs) simp
  ultimately show ?thesis
    by (auto simp: vec_remove_def)
qed

text \<open>\<open>iter().min\_by(cmp)\<close>, the comparison given by its ``less'': the first least element.\<close>

definition min_by :: "('a \<Rightarrow> 'a \<Rightarrow> bool) \<Rightarrow> 'a list \<Rightarrow> 'a option" where
  "min_by lt xs =
     (case xs of [] \<Rightarrow> None | x # ys \<Rightarrow> Some (foldl (\<lambda>a y. if lt y a then y else a) x ys))"

lemma min_by_None [simp]: "min_by lt xs = None \<longleftrightarrow> xs = []"
  by (simp add: min_by_def split: list.split)

lemma foldl_min_in: "foldl (\<lambda>a y. if lt y a then y else a) x ys \<in> set (x # ys)"
proof (induction ys arbitrary: x)
  case (Cons a ys)
  show ?case
    using Cons.IH [of x] Cons.IH [of a] by auto
qed simp

lemma min_by_SomeD: "min_by lt xs = Some x \<Longrightarrow> x \<in> set xs"
  using foldl_min_in by (fastforce simp: min_by_def split: list.splits)

text \<open>
  The loop \<open>for x in xs { if \<dots> || !seen.insert(key(x)) { return Err } }\<close>: every element passes
  the check and no key repeats. The set of keys seen so far is the accumulator.
\<close>

fun all_unseen :: "('a \<Rightarrow> bool) \<Rightarrow> ('a \<Rightarrow> 'k) \<Rightarrow> 'k set \<Rightarrow> 'a list \<Rightarrow> bool" where
  "all_unseen P key seen [] = True"
| "all_unseen P key seen (x # xs) =
     (P x \<and> key x \<notin> seen \<and> all_unseen P key (insert (key x) seen) xs)"

lemma all_unseen_iff:
  "all_unseen P key seen xs \<longleftrightarrow>
     list_all P xs \<and> distinct (map key xs) \<and> key ` set xs \<inter> seen = {}"
  by (induction xs arbitrary: seen) auto

section \<open>Machines that keep an invariant\<close>

text \<open>
  The contract several components share: a state, the operations as events, and an invariant
  that every operation keeps. What follows for a whole run is proved once.
\<close>

locale invariant_machine =
  fixes step :: "'s \<Rightarrow> 'e \<Rightarrow> 's"
    and inv :: "'s \<Rightarrow> bool"
  assumes inv_step: "inv s \<Longrightarrow> inv (step s e)"
begin

lemma inv_run: "inv s \<Longrightarrow> inv (foldl step s es)"
  by (induction es arbitrary: s) (auto intro: inv_step)

lemma inv_prefix: "inv s \<Longrightarrow> inv (foldl step s (take n es))"
  by (rule inv_run)

end

text \<open>A machine whose steps also never leave the set of states above the current one: a
  reflexive, transitive order on states that every step goes up in.\<close>

locale monotone_machine = invariant_machine step inv
  for step :: "'s \<Rightarrow> 'e \<Rightarrow> 's" and inv :: "'s \<Rightarrow> bool" +
  fixes below :: "'s \<Rightarrow> 's \<Rightarrow> bool"
  assumes below_refl: "below s s"
    and below_trans: "below s t \<Longrightarrow> below t u \<Longrightarrow> below s u"
    and below_step: "inv s \<Longrightarrow> below s (step s e)"
begin

lemma below_run: "inv s \<Longrightarrow> below s (foldl step s es)"
proof (induction es arbitrary: s)
  case Nil
  show ?case by (simp add: below_refl)
next
  case (Cons e es)
  from Cons.prems have "below s (step s e)" "inv (step s e)"
    by (auto intro: below_step inv_step)
  then show ?case
    using Cons.IH [of "step s e"] by (auto intro: below_trans)
qed

end

end
