(* ===== verification/Protocol.thy ===== *)
theory Protocol
  imports Prelude
begin

text \<open>
  The crate \<open>moe-protocol\<close> (\<open>crates/moe-protocol/src/lib.rs\<close>): the protocol version, the
  description of an adapter, the bounded read-Room request that a relay peer sends, and the
  response frame. The generic JSON value and the deserializers that \<open>serde\<close> derives for the
  frames are not code of the repository: they are arguments of the parsers.
\<close>

definition PROTOCOL_VERSION :: string where
  "PROTOCOL_VERSION = ''0.1.0''"

datatype adapter_capability =
  TextInput | ImageInput | DocumentInput | Streaming | PersistentSession | ToolCalling
  | Approvals | Interrupt | InboundPush

record adapter_descriptor =
  descriptor_id :: string
  descriptor_display_name :: string
  descriptor_capabilities :: "adapter_capability list"

definition MAXIMUM_RELAY_IDENTIFIER_BYTES :: nat where
  "MAXIMUM_RELAY_IDENTIFIER_BYTES = 128"

definition RELAY_READ_ROOM_METHOD :: string where
  "RELAY_READ_ROOM_METHOD = ''moe_read_room''"

definition RELAY_MAXIMUM_REQUESTS_PER_CONNECTION :: nat where
  "RELAY_MAXIMUM_REQUESTS_PER_CONNECTION = 256"

datatype relay_frame_error = InvalidFrame | InvalidRequestId | InvalidReadRoomParams

definition valid_relay_identifier :: "string \<Rightarrow> bool" where
  "valid_relay_identifier value \<longleftrightarrow>
     value \<noteq> [] \<and> length value \<le> MAXIMUM_RELAY_IDENTIFIER_BYTES
     \<and> all_indexed identifier_byte value"

section \<open>Request frames\<close>

text \<open>\<open>'v\<close> is the JSON value type; the deserializer yields the fields of the only variant of
  \<open>RelayInboundFrame\<close>, or \<open>None\<close> where \<open>serde\<close> refuses the value.\<close>

datatype 'v relay_inbound_frame = Request (inbound_request_id: string) (inbound_method: string)
  (inbound_params: 'v)

record 'v relay_request_frame =
  frame_request_id :: string
  frame_method :: string
  frame_params :: 'v

definition relay_request_frame_parse ::
  "('v \<Rightarrow> 'v relay_inbound_frame option) \<Rightarrow> 'v \<Rightarrow> ('v relay_request_frame, relay_frame_error) result"
where
  "relay_request_frame_parse from_value value =
     (case from_value value of
        None \<Rightarrow> Err InvalidFrame
      | Some (Request request_id method params) \<Rightarrow>
          if \<not> valid_relay_identifier request_id then Err InvalidRequestId
          else Ok \<lparr>frame_request_id = request_id, frame_method = method, frame_params = params\<rparr>)"

definition default_room_id :: string where
  "default_room_id = ''moe-dev-room''"

definition default_room_limit :: u8 where
  "default_room_limit = 30"

text \<open>The parameters as they are on the wire: a field that carries a \<open>serde\<close> default may be
  absent.\<close>

record raw_read_room_params =
  raw_room_id :: "string option"
  raw_after_message_id :: "string option"
  raw_limit :: "u8 option"

record relay_read_room_params =
  params_room_id :: string
  params_after_message_id :: "string option"
  params_limit :: u8

definition fill_read_room_defaults :: "raw_read_room_params \<Rightarrow> relay_read_room_params" where
  "fill_read_room_defaults raw =
     \<lparr>params_room_id = (case raw_room_id raw of None \<Rightarrow> default_room_id | Some v \<Rightarrow> v),
      params_after_message_id = raw_after_message_id raw,
      params_limit = (case raw_limit raw of None \<Rightarrow> default_room_limit | Some v \<Rightarrow> v)\<rparr>"

definition relay_read_room_params_parse ::
  "('v \<Rightarrow> raw_read_room_params option) \<Rightarrow> 'v \<Rightarrow> (relay_read_room_params, relay_frame_error) result"
where
  "relay_read_room_params_parse from_value value =
     (case from_value value of
        None \<Rightarrow> Err InvalidReadRoomParams
      | Some raw \<Rightarrow>
          (let params = fill_read_room_defaults raw in
           if \<not> valid_relay_identifier (params_room_id params)
              \<or> is_some_and (params_after_message_id params) (\<lambda>value. \<not> valid_relay_identifier value)
              \<or> \<not> (1 \<le> params_limit params \<and> params_limit params \<le> 30)
           then Err InvalidReadRoomParams
           else Ok params))"

definition read_room_params ::
  "('v \<Rightarrow> raw_read_room_params option) \<Rightarrow> 'v relay_request_frame
     \<Rightarrow> (relay_read_room_params, relay_frame_error) result"
where
  "read_room_params from_value frame = relay_read_room_params_parse from_value (frame_params frame)"

section \<open>Response frames\<close>

datatype relay_response_error_code = UnsupportedMethod | InvalidRequest | DuplicateRequest

record relay_response_error =
  response_code :: relay_response_error_code
  response_message :: string

record 't relay_response_frame =
  frame_type :: string
  response_request_id :: string
  response_result :: "'t option"
  response_error :: "relay_response_error option"

definition relay_response_success :: "string \<Rightarrow> 't \<Rightarrow> 't relay_response_frame" where
  "relay_response_success request_id result' =
     \<lparr>frame_type = ''response'', response_request_id = request_id,
      response_result = Some result', response_error = None\<rparr>"

definition relay_response_failure ::
  "string \<Rightarrow> relay_response_error_code \<Rightarrow> string \<Rightarrow> 't relay_response_frame"
where
  "relay_response_failure request_id code message =
     \<lparr>frame_type = ''response'', response_request_id = request_id, response_result = None,
      response_error = Some \<lparr>response_code = code, response_message = message\<rparr>\<rparr>"

section \<open>What the parsers guarantee\<close>

lemma default_params_valid:
  "valid_relay_identifier default_room_id" "1 \<le> default_room_limit" "default_room_limit \<le> 30"
  by (simp_all add: valid_relay_identifier_def default_room_id_def all_indexed_identifier
      MAXIMUM_RELAY_IDENTIFIER_BYTES_def identifier_tail_byte_def byte_class_defs
      default_room_limit_def)

lemma read_room_params_bounds:
  assumes "relay_read_room_params_parse from_value value = Ok params"
  shows "valid_relay_identifier (params_room_id params)"
    and "params_after_message_id params = Some cursor \<Longrightarrow> valid_relay_identifier cursor"
    and "1 \<le> params_limit params \<and> params_limit params \<le> 30"
  using assms
  by (auto simp: relay_read_room_params_parse_def Let_def split: option.splits if_splits)

end
