(* ===== verification/Room.thy ===== *)
theory Room
  imports Protocol
begin

text \<open>
  The data of a Room (\<open>crates/moe-core/src/room.rs\<close>): participants, messages, Rooms and the
  snapshot that holds them, the drafts and queries with their checking constructors, and the
  validation of a whole snapshot. The validation is written with the loops and hash sets of the
  source; \<open>snapshot_ok\<close> states what it accepts, and \<open>validate_snapshot_iff\<close> shows the two agree.
\<close>

definition MAXIMUM_IDENTIFIER_BYTES :: nat where "MAXIMUM_IDENTIFIER_BYTES = 128"
definition MAXIMUM_DISPLAY_NAME_BYTES :: nat where "MAXIMUM_DISPLAY_NAME_BYTES = 200"
definition MAXIMUM_MESSAGE_BODY_BYTES :: nat where "MAXIMUM_MESSAGE_BODY_BYTES = 100000"
definition MAXIMUM_ROOM_WRITE_BODY_BYTES :: nat where "MAXIMUM_ROOM_WRITE_BODY_BYTES = 4000"
definition MAXIMUM_PARTICIPANTS :: nat where "MAXIMUM_PARTICIPANTS = 1000"
definition MAXIMUM_ROOMS :: nat where "MAXIMUM_ROOMS = 1000"
definition MAXIMUM_ROOM_PARTICIPANTS :: nat where "MAXIMUM_ROOM_PARTICIPANTS = 100"
definition MAXIMUM_ROOM_MESSAGES :: nat where "MAXIMUM_ROOM_MESSAGES = 10000"
definition MAXIMUM_MESSAGE_LINKS :: nat where "MAXIMUM_MESSAGE_LINKS = 100"

lemmas room_limits = MAXIMUM_IDENTIFIER_BYTES_def MAXIMUM_DISPLAY_NAME_BYTES_def
  MAXIMUM_MESSAGE_BODY_BYTES_def MAXIMUM_ROOM_WRITE_BODY_BYTES_def MAXIMUM_PARTICIPANTS_def
  MAXIMUM_ROOMS_def MAXIMUM_ROOM_PARTICIPANTS_def MAXIMUM_ROOM_MESSAGES_def
  MAXIMUM_MESSAGE_LINKS_def

section \<open>Data\<close>

datatype room_participant_kind = Human | Ai

record room_participant =
  p_id :: string
  p_display_name :: string
  p_kind :: room_participant_kind

datatype room_message_provenance = CodexOwnerProxy

record room_message =
  m_id :: string
  m_room_id :: string
  m_author_id :: string
  m_recipients :: "string list"
  m_body :: string
  m_created_at :: string
  m_artifact_ids :: "string list"
  m_provenance :: "room_message_provenance option"

record room =
  r_id :: string
  r_name :: string
  r_participant_ids :: "string list"
  r_messages :: "room_message list"

record room_snapshot =
  schema_version :: string
  generated_at :: string
  participants :: "room_participant list"
  rooms :: "room list"

datatype room_snapshot_error = InvalidSnapshot | Snapshot_SourceUnavailable

record room_summary =
  s_id :: string
  s_name :: string
  s_participant_ids :: "string list"
  s_latest_message_at :: "string option"

section \<open>Checks on strings\<close>

definition valid_identifier :: "string \<Rightarrow> bool" where
  "valid_identifier value \<longleftrightarrow>
     value \<noteq> [] \<and> length value \<le> MAXIMUM_IDENTIFIER_BYTES \<and> all_indexed identifier_byte value"

definition valid_text :: "string \<Rightarrow> nat \<Rightarrow> bool" where
  "valid_text value maximum \<longleftrightarrow> value \<noteq> [] \<and> length value \<le> maximum"

definition unique_valid_identifiers :: "string list \<Rightarrow> bool" where
  "unique_valid_identifiers values = all_unseen valid_identifier (\<lambda>v. v) {} values"

definition valid_message_shape :: "room_message \<Rightarrow> nat \<Rightarrow> bool" where
  "valid_message_shape message maximum_body_bytes \<longleftrightarrow>
     valid_identifier (m_id message)
     \<and> valid_identifier (m_room_id message)
     \<and> valid_identifier (m_author_id message)
     \<and> length (m_recipients message) \<le> MAXIMUM_MESSAGE_LINKS
     \<and> unique_valid_identifiers (m_recipients message)
     \<and> valid_text (m_body message) maximum_body_bytes
     \<and> valid_text (m_created_at message) 64
     \<and> length (m_artifact_ids message) \<le> MAXIMUM_MESSAGE_LINKS
     \<and> unique_valid_identifiers (m_artifact_ids message)"

lemma unique_valid_identifiers_iff:
  "unique_valid_identifiers values \<longleftrightarrow> list_all valid_identifier values \<and> distinct values"
  by (simp add: unique_valid_identifiers_def all_unseen_iff)

lemma valid_identifier_Cons:
  "valid_identifier (c # cs) \<longleftrightarrow>
     length cs < 128 \<and> is_ascii_alphanumeric c \<and> list_all identifier_tail_byte cs"
  by (auto simp: valid_identifier_def all_indexed_identifier MAXIMUM_IDENTIFIER_BYTES_def)

lemma valid_identifier_Nil [simp]: "\<not> valid_identifier []"
  by (simp add: valid_identifier_def)

lemma valid_identifier_eval:
  "valid_identifier s \<longleftrightarrow>
     (case s of [] \<Rightarrow> False
      | c # cs \<Rightarrow> length cs < 128 \<and> is_ascii_alphanumeric c \<and> list_all identifier_tail_byte cs)"
  by (cases s) (simp_all add: valid_identifier_Cons)

lemma valid_identifier_not_blank: "valid_identifier s \<Longrightarrow> \<not> trim_is_empty s"
  by (cases s) (auto simp: valid_identifier_Cons dest!: alphanumeric_graphic graphic_not_blank)

lemma valid_text_mono: "valid_text s n \<Longrightarrow> n \<le> m \<Longrightarrow> valid_text s m"
  by (simp add: valid_text_def)

lemma valid_message_shape_mono:
  "valid_message_shape m n \<Longrightarrow> n \<le> k \<Longrightarrow> valid_message_shape m k"
  by (auto simp: valid_message_shape_def intro: valid_text_mono)

text \<open>Everything a closed example needs to evaluate the checks on literal strings.\<close>

lemmas identifier_eval = valid_identifier_eval identifier_tail_byte_def byte_class_defs

section \<open>Drafts and queries\<close>

record room_create_draft =
  create_room_of :: room
  create_created_at :: string

datatype room_create_draft_error = InvalidRoom

definition room_create_draft_try_new ::
  "string \<Rightarrow> string \<Rightarrow> string list \<Rightarrow> string \<Rightarrow> (room_create_draft, room_create_draft_error) result"
where
  "room_create_draft_try_new id' name participant_ids created_at =
     (if \<not> valid_identifier id'
         \<or> \<not> valid_text name MAXIMUM_DISPLAY_NAME_BYTES
         \<or> participant_ids = []
         \<or> length participant_ids > MAXIMUM_ROOM_PARTICIPANTS
         \<or> \<not> unique_valid_identifiers participant_ids
         \<or> \<not> valid_text created_at 64
      then Err InvalidRoom
      else Ok \<lparr>create_room_of = \<lparr>r_id = id', r_name = name, r_participant_ids = participant_ids,
                                 r_messages = []\<rparr>,
               create_created_at = created_at\<rparr>)"

record room_read_query =
  q_room_id :: string
  q_after_message_id :: "string option"
  q_limit :: u8

datatype room_read_query_error = InvalidQuery

definition room_read_query_try_new ::
  "string \<Rightarrow> string option \<Rightarrow> u8 \<Rightarrow> (room_read_query, room_read_query_error) result"
where
  "room_read_query_try_new room_id after_message_id limit =
     (if \<not> valid_identifier room_id
         \<or> is_some_and after_message_id (\<lambda>value. \<not> valid_identifier value)
         \<or> \<not> (1 \<le> limit \<and> limit \<le> 30)
      then Err InvalidQuery
      else Ok \<lparr>q_room_id = room_id, q_after_message_id = after_message_id, q_limit = limit\<rparr>)"

datatype room_message_draft = RoomMessageDraft (draft_message: room_message)

datatype room_message_draft_error = InvalidMessage

definition room_message_draft_try_new_with_provenance ::
  "string \<Rightarrow> string \<Rightarrow> string \<Rightarrow> string list \<Rightarrow> string \<Rightarrow> string \<Rightarrow> string list
     \<Rightarrow> room_message_provenance option \<Rightarrow> (room_message_draft, room_message_draft_error) result"
where
  "room_message_draft_try_new_with_provenance id' room_id author_id recipients body created_at
       artifact_ids provenance =
     (let message = \<lparr>m_id = id', m_room_id = room_id, m_author_id = author_id,
                     m_recipients = recipients, m_body = body, m_created_at = created_at,
                     m_artifact_ids = artifact_ids, m_provenance = provenance\<rparr> in
      if \<not> valid_message_shape message MAXIMUM_ROOM_WRITE_BODY_BYTES
         \<or> trim_is_empty (m_body message)
         \<or> m_recipients message = []
      then Err InvalidMessage
      else Ok (RoomMessageDraft message))"

definition room_message_draft_try_new ::
  "string \<Rightarrow> string \<Rightarrow> string \<Rightarrow> string list \<Rightarrow> string \<Rightarrow> string \<Rightarrow> string list
     \<Rightarrow> (room_message_draft, room_message_draft_error) result"
where
  "room_message_draft_try_new id' room_id author_id recipients body created_at artifact_ids =
     room_message_draft_try_new_with_provenance id' room_id author_id recipients body created_at
       artifact_ids None"

definition draft_ok :: "room_message_draft \<Rightarrow> bool" where
  "draft_ok draft \<longleftrightarrow>
     valid_message_shape (draft_message draft) MAXIMUM_ROOM_WRITE_BODY_BYTES
     \<and> \<not> trim_is_empty (m_body (draft_message draft)) \<and> m_recipients (draft_message draft) \<noteq> []"

lemma room_message_draft_OkD:
  assumes "room_message_draft_try_new_with_provenance i r a rs b c arts prov = Ok draft"
  shows "draft_ok draft"
    and "draft_message draft = \<lparr>m_id = i, m_room_id = r, m_author_id = a, m_recipients = rs,
           m_body = b, m_created_at = c, m_artifact_ids = arts, m_provenance = prov\<rparr>"
  using assms
  by (auto simp: room_message_draft_try_new_with_provenance_def draft_ok_def Let_def
      split: if_splits)

definition create_draft_ok :: "room_create_draft \<Rightarrow> bool" where
  "create_draft_ok draft \<longleftrightarrow>
     (let r = create_room_of draft in
      valid_identifier (r_id r) \<and> valid_text (r_name r) MAXIMUM_DISPLAY_NAME_BYTES
      \<and> r_participant_ids r \<noteq> [] \<and> length (r_participant_ids r) \<le> MAXIMUM_ROOM_PARTICIPANTS
      \<and> list_all valid_identifier (r_participant_ids r) \<and> distinct (r_participant_ids r)
      \<and> r_messages r = [] \<and> valid_text (create_created_at draft) 64)"

lemma room_create_draft_OkD:
  "room_create_draft_try_new i n ps c = Ok draft \<Longrightarrow> create_draft_ok draft"
  by (auto simp: room_create_draft_try_new_def create_draft_ok_def Let_def
      unique_valid_identifiers_iff split: if_splits)

section \<open>Validation of a snapshot\<close>

text \<open>The inner loop over the messages of one Room; the set of message IDs is threaded through,
  \<open>None\<close> is the early return of the error.\<close>

fun validate_messages ::
  "room \<Rightarrow> string set \<Rightarrow> string set \<Rightarrow> room_message list \<Rightarrow> string set option"
where
  "validate_messages room room_participants message_ids [] = Some message_ids"
| "validate_messages room room_participants message_ids (message # messages) =
     (if \<not> valid_message_shape message MAXIMUM_MESSAGE_BODY_BYTES
         \<or> m_room_id message \<noteq> r_id room
         \<or> m_author_id message \<notin> room_participants
         \<or> list_ex (\<lambda>recipient. recipient \<notin> room_participants) (m_recipients message)
         \<or> m_id message \<in> message_ids
      then None
      else validate_messages room room_participants (insert (m_id message) message_ids) messages)"

fun validate_rooms ::
  "string set \<Rightarrow> string set \<Rightarrow> string set \<Rightarrow> room list \<Rightarrow> bool"
where
  "validate_rooms participant_ids room_ids message_ids [] = True"
| "validate_rooms participant_ids room_ids message_ids (room # rs) =
     (if \<not> valid_identifier (r_id room)
         \<or> \<not> valid_text (r_name room) MAXIMUM_DISPLAY_NAME_BYTES
         \<or> length (r_participant_ids room) > MAXIMUM_ROOM_PARTICIPANTS
         \<or> length (r_messages room) > MAXIMUM_ROOM_MESSAGES
         \<or> r_id room \<in> room_ids
      then False
      else
        (let room_participants = set (r_participant_ids room) in
         if card room_participants \<noteq> length (r_participant_ids room)
            \<or> (\<exists>participant_id \<in> room_participants. participant_id \<notin> participant_ids)
         then False
         else
           (case validate_messages room room_participants message_ids (r_messages room) of
              None \<Rightarrow> False
            | Some message_ids' \<Rightarrow>
                validate_rooms participant_ids (insert (r_id room) room_ids) message_ids' rs)))"

definition validate_snapshot :: "room_snapshot \<Rightarrow> (unit, room_snapshot_error) result" where
  "validate_snapshot snapshot =
     (if schema_version snapshot \<noteq> PROTOCOL_VERSION
         \<or> \<not> valid_text (generated_at snapshot) 64
         \<or> length (participants snapshot) > MAXIMUM_PARTICIPANTS
         \<or> length (rooms snapshot) > MAXIMUM_ROOMS
      then Err InvalidSnapshot
      else if \<not> all_unseen
           (\<lambda>participant. valid_identifier (p_id participant)
              \<and> valid_text (p_display_name participant) MAXIMUM_DISPLAY_NAME_BYTES)
           p_id {} (participants snapshot)
      then Err InvalidSnapshot
      else if \<not> validate_rooms (p_id ` set (participants snapshot)) {} {} (rooms snapshot)
      then Err InvalidSnapshot
      else Ok ())"

text \<open>What it accepts.\<close>

definition message_ok :: "room \<Rightarrow> room_message \<Rightarrow> bool" where
  "message_ok room message \<longleftrightarrow>
     valid_message_shape message MAXIMUM_MESSAGE_BODY_BYTES
     \<and> m_room_id message = r_id room
     \<and> m_author_id message \<in> set (r_participant_ids room)
     \<and> set (m_recipients message) \<subseteq> set (r_participant_ids room)"

definition room_ok :: "string set \<Rightarrow> room \<Rightarrow> bool" where
  "room_ok participant_ids room \<longleftrightarrow>
     valid_identifier (r_id room)
     \<and> valid_text (r_name room) MAXIMUM_DISPLAY_NAME_BYTES
     \<and> length (r_participant_ids room) \<le> MAXIMUM_ROOM_PARTICIPANTS
     \<and> length (r_messages room) \<le> MAXIMUM_ROOM_MESSAGES
     \<and> distinct (r_participant_ids room)
     \<and> set (r_participant_ids room) \<subseteq> participant_ids
     \<and> (\<forall>message \<in> set (r_messages room). message_ok room message)"

definition all_messages :: "room list \<Rightarrow> room_message list" where
  "all_messages rs = concat (map r_messages rs)"

definition snapshot_ok :: "room_snapshot \<Rightarrow> bool" where
  "snapshot_ok snapshot \<longleftrightarrow>
     schema_version snapshot = PROTOCOL_VERSION
     \<and> valid_text (generated_at snapshot) 64
     \<and> length (participants snapshot) \<le> MAXIMUM_PARTICIPANTS
     \<and> length (rooms snapshot) \<le> MAXIMUM_ROOMS
     \<and> (\<forall>p \<in> set (participants snapshot). valid_identifier (p_id p)
          \<and> valid_text (p_display_name p) MAXIMUM_DISPLAY_NAME_BYTES)
     \<and> distinct (map p_id (participants snapshot))
     \<and> distinct (map r_id (rooms snapshot))
     \<and> distinct (map m_id (all_messages (rooms snapshot)))
     \<and> (\<forall>room \<in> set (rooms snapshot). room_ok (p_id ` set (participants snapshot)) room)"

lemma all_messages_simps [simp]:
  "all_messages [] = []"
  "all_messages (r # rs) = r_messages r @ all_messages rs"
  "all_messages (xs @ ys) = all_messages xs @ all_messages ys"
  by (simp_all add: all_messages_def)

lemma set_all_messages: "set (all_messages rs) = (\<Union>r \<in> set rs. set (r_messages r))"
  by (auto simp: all_messages_def)

lemma validate_messages_iff:
  "validate_messages room (set (r_participant_ids room)) seen ms = Some seen' \<longleftrightarrow>
     (\<forall>m \<in> set ms. message_ok room m) \<and> distinct (map m_id ms)
     \<and> m_id ` set ms \<inter> seen = {} \<and> seen' = seen \<union> m_id ` set ms"
  by (induction ms arbitrary: seen) (auto simp: message_ok_def list_ex_iff)

lemma validate_messages_set:
  assumes "distinct (map m_id ms)" "m_id ` set ms \<inter> seen = {}" "\<forall>m \<in> set ms. message_ok room m"
  shows "validate_messages room (set (r_participant_ids room)) seen ms = Some (seen \<union> m_id ` set ms)"
  using assms by (simp add: validate_messages_iff)

lemma validate_rooms_iff:
  "validate_rooms P ids seen rs \<longleftrightarrow>
     (\<forall>r \<in> set rs. room_ok P r) \<and> distinct (map r_id rs) \<and> r_id ` set rs \<inter> ids = {}
     \<and> distinct (map m_id (all_messages rs)) \<and> m_id ` set (all_messages rs) \<inter> seen = {}"
proof (induction rs arbitrary: ids seen)
  case (Cons r rs)
  have card: "card (set (r_participant_ids r)) = length (r_participant_ids r)
      \<longleftrightarrow> distinct (r_participant_ids r)"
    by (metis card_distinct distinct_card)
  let ?head = "valid_identifier (r_id r) \<and> valid_text (r_name r) MAXIMUM_DISPLAY_NAME_BYTES
    \<and> length (r_participant_ids r) \<le> MAXIMUM_ROOM_PARTICIPANTS
    \<and> length (r_messages r) \<le> MAXIMUM_ROOM_MESSAGES
    \<and> distinct (r_participant_ids r) \<and> set (r_participant_ids r) \<subseteq> P"
  have ok: "room_ok P r \<longleftrightarrow> ?head \<and> (\<forall>m \<in> set (r_messages r). message_ok r m)"
    by (simp add: room_ok_def)
  have step: "validate_rooms P ids seen (r # rs) \<longleftrightarrow> ?head \<and> r_id r \<notin> ids
      \<and> (case validate_messages r (set (r_participant_ids r)) seen (r_messages r) of
           None \<Rightarrow> False | Some seen' \<Rightarrow> validate_rooms P (insert (r_id r) ids) seen' rs)"
    by (cases "validate_messages r (set (r_participant_ids r)) seen (r_messages r)")
      (auto simp: Let_def card)
  show ?case
  proof (cases "validate_messages r (set (r_participant_ids r)) seen (r_messages r)")
    case None
    then have "\<not> ((\<forall>m \<in> set (r_messages r). message_ok r m) \<and> distinct (map m_id (r_messages r))
        \<and> m_id ` set (r_messages r) \<inter> seen = {})"
      using validate_messages_set by fastforce
    then have no: "\<not> ((\<forall>m \<in> set (r_messages r). message_ok r m)
        \<and> distinct (map m_id (r_messages r) @ map m_id (all_messages rs))
        \<and> (m_id ` set (r_messages r) \<union> m_id ` set (all_messages rs)) \<inter> seen = {})"
      unfolding distinct_append Int_Un_distrib2 Un_empty by blast
    show ?thesis
      unfolding step None option.case using no by (simp add: room_ok_def image_Un) blast
  next
    case (Some seen')
    then have ms: "\<forall>m \<in> set (r_messages r). message_ok r m" "distinct (map m_id (r_messages r))"
        "m_id ` set (r_messages r) \<inter> seen = {}" "seen' = seen \<union> m_id ` set (r_messages r)"
      by (simp_all add: validate_messages_iff)
    let ?new = "m_id ` set (r_messages r)" and ?old = "m_id ` set (all_messages rs)"
    have ids: "distinct (map m_id (all_messages (r # rs))) \<longleftrightarrow>
        distinct (map m_id (all_messages rs)) \<and> ?new \<inter> ?old = {}"
      using ms(2) by (simp only: all_messages_simps map_append distinct_append set_map) simp
    have seen: "m_id ` set (all_messages (r # rs)) \<inter> seen = {} \<longleftrightarrow> ?old \<inter> seen = {}"
      using ms(3) by (simp only: all_messages_simps set_append image_Un Int_Un_distrib2) simp
    have seen': "?old \<inter> (seen \<union> ?new) = {} \<longleftrightarrow> ?old \<inter> seen = {} \<and> ?new \<inter> ?old = {}"
      by blast
    have rooms': "r_id ` set rs \<inter> insert (r_id r) ids = {} \<and> r_id r \<notin> ids
        \<and> distinct (map r_id rs) \<longleftrightarrow>
        distinct (map r_id (r # rs)) \<and> r_id ` set (r # rs) \<inter> ids = {}"
      by auto
    have rs_ok: "(\<forall>x \<in> set (r # rs). room_ok P x) \<longleftrightarrow> ?head \<and> (\<forall>x \<in> set rs. room_ok P x)"
      using ms(1) ok by simp
    show ?thesis
      unfolding step Some option.case Cons.IH ms(4) ids seen seen' rs_ok using rooms' by meson
  qed
qed simp

theorem validate_snapshot_iff: "validate_snapshot s = Ok () \<longleftrightarrow> snapshot_ok s"
  by (auto simp: validate_snapshot_def snapshot_ok_def all_unseen_iff validate_rooms_iff
      list_all_iff)

end
