(* ===== verification/Room_Store.thy ===== *)
theory Room_Store
  imports Room
begin

text \<open>
  \<open>InMemoryRoomSource\<close> (\<open>crates/moe-core/src/room.rs\<close>): the store of Rooms behind a
  read-write lock, its reads (\<open>RoomSource\<close>, \<open>RoomCatalogSource\<close>) and its mutations (\<open>RoomStore\<close>).
  A mutation returns the new state with its result. A poisoned lock, which is how the lock
  reports a panic of an earlier holder, is a flag of the state: every operation fails on it.
\<close>

section \<open>State and results\<close>

record in_memory_room_source =
  snapshot_of :: room_snapshot
  poisoned :: bool

datatype room_catalog_error = Catalog_SourceUnavailable

datatype room_mutation_status = Created | Added | Renamed | Removed | Deleted | Mutation_Duplicate

record room_mutation_success =
  mutation_ok :: bool
  mutation_status :: room_mutation_status
  mutation_room :: room_summary

datatype room_mutation_error =
  Mutation_InvalidMutation | Mutation_RoomNotFound | Mutation_ParticipantNotFound
  | Mutation_ParticipantInUse | Mutation_RequiredParticipant | Mutation_RequiredRoom
  | Mutation_IdempotencyConflict | Mutation_CapacityReached | Mutation_SourceUnavailable

datatype room_write_status = Appended | Write_Duplicate

record room_write_success =
  write_ok :: bool
  write_status :: room_write_status
  write_message :: room_message

datatype room_write_error =
  Write_RoomNotFound | Write_AuthorNotParticipant | Write_RecipientNotParticipant
  | Write_IdempotencyConflict | Write_RoomCapacityReached | Write_SourceUnavailable

datatype room_message_find_error =
  Find_InvalidLookup | Find_RoomNotFound | Find_MessageNotFound | Find_SourceUnavailable

record room_read_view =
  view_id :: string
  view_name :: string
  view_participants :: "room_participant list"
  view_messages :: "room_message list"

record room_read_page =
  page_after_message_id :: "string option"
  page_limit :: u8
  page_returned :: nat
  page_has_more_before :: bool
  page_has_more_after :: bool
  page_next_after_message_id :: "string option"

record room_read_success =
  read_ok :: bool
  read_snapshot_generated_at :: string
  read_view :: room_read_view
  read_page :: room_read_page

record room_read_failure =
  failure_ok :: bool
  failure_code :: string
  failure_message :: string

datatype room_read_result = Success room_read_success | Failure room_read_failure

fun result_participants :: "room_read_result \<Rightarrow> room_participant list option" where
  "result_participants (Success result') = Some (view_participants (read_view result'))"
| "result_participants (Failure _) = None"

definition room_summary_of :: "room \<Rightarrow> room_summary" where
  "room_summary_of room =
     \<lparr>s_id = r_id room, s_name = r_name room, s_participant_ids = r_participant_ids room,
      s_latest_message_at =
        (if r_messages room = [] then None else Some (m_created_at (last (r_messages room))))\<rparr>"

definition room_mutation_success_new :: "room_mutation_status \<Rightarrow> room \<Rightarrow> room_mutation_success" where
  "room_mutation_success_new status room =
     \<lparr>mutation_ok = True, mutation_status = status, mutation_room = room_summary_of room\<rparr>"

definition room_write_success_new :: "room_write_status \<Rightarrow> room_message \<Rightarrow> room_write_success" where
  "room_write_success_new status message =
     \<lparr>write_ok = True, write_status = status, write_message = message\<rparr>"

definition same_idempotent_payload :: "room_message \<Rightarrow> room_message \<Rightarrow> bool" where
  "same_idempotent_payload existing retried \<longleftrightarrow>
     m_id existing = m_id retried
     \<and> m_room_id existing = m_room_id retried
     \<and> m_author_id existing = m_author_id retried
     \<and> m_recipients existing = m_recipients retried
     \<and> m_body existing = m_body retried
     \<and> m_artifact_ids existing = m_artifact_ids retried
     \<and> m_provenance existing = m_provenance retried"

section \<open>Construction and whole-snapshot access\<close>

definition in_memory_new :: "room_snapshot \<Rightarrow> (in_memory_room_source, room_snapshot_error) result" where
  "in_memory_new snapshot =
     (case validate_snapshot snapshot of
        Inl e \<Rightarrow> Err e
      | Inr _ \<Rightarrow> Ok \<lparr>snapshot_of = snapshot, poisoned = False\<rparr>)"

definition in_memory_snapshot :: "in_memory_room_source \<Rightarrow> (room_snapshot, room_snapshot_error) result" where
  "in_memory_snapshot src =
     (if poisoned src then Err Snapshot_SourceUnavailable else Ok (snapshot_of src))"

definition replace_snapshot ::
  "in_memory_room_source \<Rightarrow> room_snapshot
     \<Rightarrow> in_memory_room_source \<times> (unit, room_snapshot_error) result"
where
  "replace_snapshot src snapshot =
     (case validate_snapshot snapshot of
        Inl e \<Rightarrow> (src, Err e)
      | Inr _ \<Rightarrow>
          if poisoned src then (src, Err Snapshot_SourceUnavailable)
          else (src\<lparr>snapshot_of := snapshot\<rparr>, Ok ()))"

section \<open>Reads\<close>

abbreviation read_failure :: "string \<Rightarrow> string \<Rightarrow> room_read_result" where
  "read_failure code message \<equiv>
     Failure \<lparr>failure_ok = False, failure_code = code, failure_message = message\<rparr>"

definition read_page_from ::
  "room_snapshot \<Rightarrow> room \<Rightarrow> room_read_query \<Rightarrow> nat \<Rightarrow> room_read_result"
where
  "read_page_from snapshot room query start_index =
     (let limit = unat (q_limit query);
          messages = take limit (drop start_index (r_messages room));
          view_ps = List.map_filter
            (\<lambda>participant_id. find (\<lambda>p. p_id p = participant_id) (participants snapshot))
            (r_participant_ids room);
          next_after_message_id =
            (if messages \<noteq> [] then Some (m_id (last messages)) else q_after_message_id query) in
      Success
        \<lparr>read_ok = True,
         read_snapshot_generated_at = generated_at snapshot,
         read_view = \<lparr>view_id = r_id room, view_name = r_name room,
                      view_participants = view_ps, view_messages = messages\<rparr>,
         read_page = \<lparr>page_after_message_id = q_after_message_id query,
                      page_limit = q_limit query,
                      page_returned = min (length (r_messages room) - start_index) limit,
                      page_has_more_before = (q_after_message_id query = None \<and> start_index > 0),
                      page_has_more_after = (start_index + limit < length (r_messages room)),
                      page_next_after_message_id = next_after_message_id\<rparr>\<rparr>)"

definition read_room :: "in_memory_room_source \<Rightarrow> room_read_query \<Rightarrow> room_read_result" where
  "read_room src query =
     (if poisoned src
      then read_failure ''room_unavailable'' ''The Room source is temporarily unavailable.''
      else
        (case find (\<lambda>room. r_id room = q_room_id query) (rooms (snapshot_of src)) of
           None \<Rightarrow> read_failure ''room_not_found'' ''The requested room is not available.''
         | Some room \<Rightarrow>
             (case q_after_message_id query of
                Some cursor \<Rightarrow>
                  (case position (\<lambda>message. m_id message = cursor) (r_messages room) of
                     None \<Rightarrow> read_failure ''cursor_not_found''
                               ''The requested message cursor is not available.''
                   | Some cursor_index \<Rightarrow>
                       read_page_from (snapshot_of src) room query (cursor_index + 1))
              | None \<Rightarrow>
                  read_page_from (snapshot_of src) room query
                    (length (r_messages room) - unat (q_limit query)))))"

definition find_message ::
  "in_memory_room_source \<Rightarrow> string \<Rightarrow> string \<Rightarrow> (room_message, room_message_find_error) result"
where
  "find_message src room_id message_id =
     (if \<not> valid_identifier room_id \<or> \<not> valid_identifier message_id then Err Find_InvalidLookup
      else if poisoned src then Err Find_SourceUnavailable
      else
        (case find (\<lambda>room. r_id room = room_id) (rooms (snapshot_of src)) of
           None \<Rightarrow> Err Find_RoomNotFound
         | Some room \<Rightarrow>
             ok_or (find (\<lambda>message. m_id message = message_id) (r_messages room))
               Find_MessageNotFound))"

definition list_rooms :: "in_memory_room_source \<Rightarrow> (room_summary list, room_catalog_error) result" where
  "list_rooms src =
     (if poisoned src then Err Catalog_SourceUnavailable
      else Ok (map room_summary_of (rooms (snapshot_of src))))"

section \<open>Mutations\<close>

text \<open>The write through \<open>rooms.iter_mut().find(|room| room.id == id)\<close>, with the time stamp.\<close>

definition write_room ::
  "in_memory_room_source \<Rightarrow> string \<Rightarrow> (room \<Rightarrow> room) \<Rightarrow> string \<Rightarrow> in_memory_room_source"
where
  "write_room src room_id f updated_at =
     src\<lparr>snapshot_of := (snapshot_of src)
           \<lparr>rooms := update_first (\<lambda>room. r_id room = room_id) f (rooms (snapshot_of src)),
            generated_at := updated_at\<rparr>\<rparr>"

definition append_message ::
  "in_memory_room_source \<Rightarrow> room_message_draft
     \<Rightarrow> in_memory_room_source \<times> (room_write_success, room_write_error) result"
where
  "append_message src draft =
     (let message = draft_message draft; snapshot = snapshot_of src in
      if poisoned src then (src, Err Write_SourceUnavailable)
      else
        (case find (\<lambda>existing. m_id existing = m_id message) (all_messages (rooms snapshot)) of
           Some existing \<Rightarrow>
             if same_idempotent_payload existing message
             then (src, Ok (room_write_success_new Write_Duplicate existing))
             else (src, Err Write_IdempotencyConflict)
         | None \<Rightarrow>
             (case find (\<lambda>room. r_id room = m_room_id message) (rooms snapshot) of
                None \<Rightarrow> (src, Err Write_RoomNotFound)
              | Some room \<Rightarrow>
                  if length (r_messages room) \<ge> MAXIMUM_ROOM_MESSAGES
                  then (src, Err Write_RoomCapacityReached)
                  else if \<not> list_ex (\<lambda>p. p = m_author_id message) (r_participant_ids room)
                  then (src, Err Write_AuthorNotParticipant)
                  else if list_ex (\<lambda>recipient. \<not> list_ex (\<lambda>p. p = recipient) (r_participant_ids room))
                            (m_recipients message)
                  then (src, Err Write_RecipientNotParticipant)
                  else (write_room src (m_room_id message)
                          (\<lambda>room. room\<lparr>r_messages := r_messages room @ [message]\<rparr>)
                          (m_created_at message),
                        Ok (room_write_success_new Appended message)))))"

definition create_room ::
  "in_memory_room_source \<Rightarrow> room_create_draft
     \<Rightarrow> in_memory_room_source \<times> (room_mutation_success, room_mutation_error) result"
where
  "create_room src draft =
     (let snapshot = snapshot_of src; new = create_room_of draft in
      if poisoned src then (src, Err Mutation_SourceUnavailable)
      else
        (case find (\<lambda>room. r_id room = r_id new) (rooms snapshot) of
           Some existing \<Rightarrow>
             if r_name existing = r_name new \<and> r_participant_ids existing = r_participant_ids new
             then (src, Ok (room_mutation_success_new Mutation_Duplicate existing))
             else (src, Err Mutation_IdempotencyConflict)
         | None \<Rightarrow>
             if length (rooms snapshot) \<ge> MAXIMUM_ROOMS then (src, Err Mutation_CapacityReached)
             else if list_ex (\<lambda>participant_id.
                       \<not> list_ex (\<lambda>p. p_id p = participant_id) (participants snapshot))
                     (r_participant_ids new)
             then (src, Err Mutation_ParticipantNotFound)
             else (src\<lparr>snapshot_of := snapshot\<lparr>generated_at := create_created_at draft,
                                               rooms := rooms snapshot @ [new]\<rparr>\<rparr>,
                   Ok (room_mutation_success_new Created new))))"

definition add_room_participant ::
  "in_memory_room_source \<Rightarrow> string \<Rightarrow> string \<Rightarrow> string
     \<Rightarrow> in_memory_room_source \<times> (room_mutation_success, room_mutation_error) result"
where
  "add_room_participant src room_id participant_id updated_at =
     (let snapshot = snapshot_of src in
      if \<not> valid_identifier room_id \<or> \<not> valid_identifier participant_id
         \<or> \<not> valid_text updated_at 64
      then (src, Err Mutation_InvalidMutation)
      else if poisoned src then (src, Err Mutation_SourceUnavailable)
      else if \<not> list_ex (\<lambda>p. p_id p = participant_id) (participants snapshot)
      then (src, Err Mutation_ParticipantNotFound)
      else
        (case find (\<lambda>room. r_id room = room_id) (rooms snapshot) of
           None \<Rightarrow> (src, Err Mutation_RoomNotFound)
         | Some room \<Rightarrow>
             if list_ex (\<lambda>existing. existing = participant_id) (r_participant_ids room)
             then (src, Ok (room_mutation_success_new Mutation_Duplicate room))
             else if length (r_participant_ids room) \<ge> MAXIMUM_ROOM_PARTICIPANTS
             then (src, Err Mutation_CapacityReached)
             else
               (let change = (\<lambda>room. room\<lparr>r_participant_ids := r_participant_ids room @ [participant_id]\<rparr>)
                in (write_room src room_id change updated_at,
                    Ok (room_mutation_success_new Added (change room))))))"

definition rename_room ::
  "in_memory_room_source \<Rightarrow> string \<Rightarrow> string \<Rightarrow> string
     \<Rightarrow> in_memory_room_source \<times> (room_mutation_success, room_mutation_error) result"
where
  "rename_room src room_id name updated_at =
     (let snapshot = snapshot_of src in
      if \<not> valid_identifier room_id \<or> \<not> valid_text name MAXIMUM_DISPLAY_NAME_BYTES
         \<or> \<not> valid_text updated_at 64
      then (src, Err Mutation_InvalidMutation)
      else if poisoned src then (src, Err Mutation_SourceUnavailable)
      else
        (case find (\<lambda>room. r_id room = room_id) (rooms snapshot) of
           None \<Rightarrow> (src, Err Mutation_RoomNotFound)
         | Some room \<Rightarrow>
             if r_name room = name
             then (src, Ok (room_mutation_success_new Mutation_Duplicate room))
             else
               (let change = (\<lambda>room. room\<lparr>r_name := name\<rparr>)
                in (write_room src room_id change updated_at,
                    Ok (room_mutation_success_new Renamed (change room))))))"

definition remove_room_participant ::
  "in_memory_room_source \<Rightarrow> string \<Rightarrow> string \<Rightarrow> string
     \<Rightarrow> in_memory_room_source \<times> (room_mutation_success, room_mutation_error) result"
where
  "remove_room_participant src room_id participant_id updated_at =
     (let snapshot = snapshot_of src in
      if \<not> valid_identifier room_id \<or> \<not> valid_identifier participant_id
         \<or> \<not> valid_text updated_at 64
      then (src, Err Mutation_InvalidMutation)
      else if poisoned src then (src, Err Mutation_SourceUnavailable)
      else if \<not> list_ex (\<lambda>p. p_id p = participant_id) (participants snapshot)
      then (src, Err Mutation_ParticipantNotFound)
      else
        (case find (\<lambda>room. r_id room = room_id) (rooms snapshot) of
           None \<Rightarrow> (src, Err Mutation_RoomNotFound)
         | Some room \<Rightarrow>
             (case position (\<lambda>existing. existing = participant_id) (r_participant_ids room) of
                None \<Rightarrow> (src, Ok (room_mutation_success_new Mutation_Duplicate room))
              | Some index \<Rightarrow>
                  if length (r_participant_ids room) \<le> 2
                  then (src, Err Mutation_RequiredParticipant)
                  else if list_ex (\<lambda>message. m_author_id message = participant_id
                            \<or> list_ex (\<lambda>recipient. recipient = participant_id) (m_recipients message))
                          (r_messages room)
                  then (src, Err Mutation_ParticipantInUse)
                  else
                    (let change = (\<lambda>room. room\<lparr>r_participant_ids :=
                                             vec_remove index (r_participant_ids room)\<rparr>)
                     in (write_room src room_id change updated_at,
                         Ok (room_mutation_success_new Removed (change room)))))))"

definition delete_room ::
  "in_memory_room_source \<Rightarrow> string \<Rightarrow> string
     \<Rightarrow> in_memory_room_source \<times> (room_mutation_success, room_mutation_error) result"
where
  "delete_room src room_id updated_at =
     (let snapshot = snapshot_of src in
      if \<not> valid_identifier room_id \<or> \<not> valid_text updated_at 64
      then (src, Err Mutation_InvalidMutation)
      else if poisoned src then (src, Err Mutation_SourceUnavailable)
      else if length (rooms snapshot) \<le> 1 then (src, Err Mutation_RequiredRoom)
      else
        (case position (\<lambda>room. r_id room = room_id) (rooms snapshot) of
           None \<Rightarrow> (src, Err Mutation_RoomNotFound)
         | Some index \<Rightarrow>
             (src\<lparr>snapshot_of := snapshot\<lparr>rooms := vec_remove index (rooms snapshot),
                                         generated_at := updated_at\<rparr>\<rparr>,
              Ok (room_mutation_success_new Deleted (rooms snapshot ! index)))))"

lemmas store_ops_defs = append_message_def create_room_def add_room_participant_def
  rename_room_def remove_room_participant_def delete_room_def

end
