(* ===== verification/Room_Store_Props.thy ===== *)
theory Room_Store_Props
  imports Room_Store
begin

text \<open>
  What the store promises: every operation keeps the snapshot valid, an operation that reports
  an error changes nothing, the history of a Room only grows, a write is applied once however
  often it is retried, and following the cursor reads a Room's history without gap or repetition.
\<close>

section \<open>The frame of the mutations\<close>

text \<open>An operation that reports an error leaves the whole state as it was.\<close>

lemma append_message_error: "append_message src d = (src', Err e) \<Longrightarrow> src' = src"
  by (auto simp: append_message_def Let_def split: option.splits if_splits)

lemma create_room_error: "create_room src d = (src', Err e) \<Longrightarrow> src' = src"
  by (auto simp: create_room_def Let_def split: option.splits if_splits)

lemma add_room_participant_error: "add_room_participant src r p t = (src', Err e) \<Longrightarrow> src' = src"
  by (auto simp: add_room_participant_def Let_def split: option.splits if_splits)

lemma rename_room_error: "rename_room src r n t = (src', Err e) \<Longrightarrow> src' = src"
  by (auto simp: rename_room_def Let_def split: option.splits if_splits)

lemma remove_room_participant_error:
  "remove_room_participant src r p t = (src', Err e) \<Longrightarrow> src' = src"
  by (auto simp: remove_room_participant_def Let_def split: option.splits if_splits)

lemma delete_room_error: "delete_room src r t = (src', Err e) \<Longrightarrow> src' = src"
  by (auto simp: delete_room_def Let_def split: option.splits if_splits)

lemma replace_snapshot_error: "replace_snapshot src s = (src', Err e) \<Longrightarrow> src' = src"
  by (auto simp: replace_snapshot_def split: sum.splits if_splits)

section \<open>The operations as one machine\<close>

text \<open>One event per call of the public interface, with the arguments the caller supplies: a
  draft is a value only its checking constructor yields, so it is built here.\<close>

datatype store_event =
  EvAppend string string string "string list" string string "string list"
    "room_message_provenance option"
| EvCreate string string "string list" string
| EvAddParticipant string string string
| EvRename string string string
| EvRemoveParticipant string string string
| EvDelete string string
| EvReplace room_snapshot

fun store_step :: "in_memory_room_source \<Rightarrow> store_event \<Rightarrow> in_memory_room_source" where
  "store_step src (EvAppend i r a rs b c arts prov) =
     (case room_message_draft_try_new_with_provenance i r a rs b c arts prov of
        Inl _ \<Rightarrow> src | Inr draft \<Rightarrow> fst (append_message src draft))"
| "store_step src (EvCreate i n ps c) =
     (case room_create_draft_try_new i n ps c of
        Inl _ \<Rightarrow> src | Inr draft \<Rightarrow> fst (create_room src draft))"
| "store_step src (EvAddParticipant r p t) = fst (add_room_participant src r p t)"
| "store_step src (EvRename r n t) = fst (rename_room src r n t)"
| "store_step src (EvRemoveParticipant r p t) = fst (remove_room_participant src r p t)"
| "store_step src (EvDelete r t) = fst (delete_room src r t)"
| "store_step src (EvReplace s) = fst (replace_snapshot src s)"

definition store_ok :: "in_memory_room_source \<Rightarrow> bool" where
  "store_ok src \<longleftrightarrow> snapshot_ok (snapshot_of src)"

lemma in_memory_new_ok: "in_memory_new s = Ok src \<Longrightarrow> store_ok src"
  by (auto simp: in_memory_new_def store_ok_def validate_snapshot_iff split: sum.splits)

section \<open>Validity is kept\<close>

lemma snapshot_ok_replace_room:
  assumes ok: "snapshot_ok s" and rs: "rooms s = ys @ room # zs" and id: "r_id room' = r_id room"
    and room': "room_ok (p_id ` set (participants s)) room'"
    and ids: "distinct (map m_id (all_messages (ys @ room' # zs)))" and t: "valid_text t 64"
  shows "snapshot_ok (s\<lparr>rooms := ys @ room' # zs, generated_at := t\<rparr>)"
  using assms by (auto simp: snapshot_ok_def)

lemma store_ok_write_room:
  assumes ok: "store_ok src" and found: "find (\<lambda>r. r_id r = rid) (rooms (snapshot_of src)) = Some room"
    and id: "r_id (f room) = r_id room"
    and ok': "room_ok (p_id ` set (participants (snapshot_of src))) (f room)"
    and ids: "\<And>ys zs. rooms (snapshot_of src) = ys @ room # zs \<Longrightarrow>
                distinct (map m_id (all_messages (ys @ f room # zs)))"
    and t: "valid_text t 64"
  shows "store_ok (write_room src rid f t)"
proof -
  obtain ys zs where rs: "rooms (snapshot_of src) = ys @ room # zs" and "r_id room = rid"
    and "\<forall>y \<in> set ys. r_id y \<noteq> rid"
    using find_split [OF found] by metis
  then have "update_first (\<lambda>r. r_id r = rid) f (rooms (snapshot_of src)) = ys @ f room # zs"
    by simp
  then show ?thesis
    using snapshot_ok_replace_room [of "snapshot_of src", OF _ rs id ok' ids [OF rs] t] ok
    by (simp add: store_ok_def write_room_def)
qed

lemma store_ok_write_room_same_messages:
  assumes ok: "store_ok src"
    and found: "find (\<lambda>r. r_id r = rid) (rooms (snapshot_of src)) = Some room"
    and same: "r_id (f room) = r_id room" "r_messages (f room) = r_messages room"
    and room: "room_ok (p_id ` set (participants (snapshot_of src))) (f room)" "valid_text t 64"
  shows "store_ok (write_room src rid f t)"
proof (rule store_ok_write_room [where f = f, OF ok found same(1) room(1) _ room(2)])
  fix ys zs
  assume "rooms (snapshot_of src) = ys @ room # zs"
  then have "all_messages (ys @ f room # zs) = all_messages (rooms (snapshot_of src))"
    by (simp add: same)
  then show "distinct (map m_id (all_messages (ys @ f room # zs)))"
    using ok by (simp add: store_ok_def snapshot_ok_def)
qed

lemma found_room_ok:
  assumes "store_ok src" "find (\<lambda>r. r_id r = rid) (rooms (snapshot_of src)) = Some room"
  shows "room_ok (p_id ` set (participants (snapshot_of src))) room" "r_id room = rid"
    "room \<in> set (rooms (snapshot_of src))"
  using find_SomeD [OF assms(2)] assms(1) by (auto simp: store_ok_def snapshot_ok_def)

lemma append_message_ok:
  assumes ok: "store_ok src" and draft: "draft_ok d"
  shows "store_ok (fst (append_message src d))"
proof (cases "append_message src d")
  case (Pair src' res)
  let ?m = "draft_message d" and ?rs = "rooms (snapshot_of src)"
  let ?f = "\<lambda>room. room\<lparr>r_messages := r_messages room @ [?m]\<rparr>"
  show ?thesis
  proof (cases "src' = src")
    case False
    with Pair obtain room where
      new: "find (\<lambda>e. m_id e = m_id ?m) (all_messages ?rs) = None"
      and found: "find (\<lambda>r. r_id r = m_room_id ?m) ?rs = Some room"
      and cap: "length (r_messages room) < MAXIMUM_ROOM_MESSAGES"
      and author: "m_author_id ?m \<in> set (r_participant_ids room)"
      and recipients: "set (m_recipients ?m) \<subseteq> set (r_participant_ids room)"
      and src': "src' = write_room src (m_room_id ?m) ?f (m_created_at ?m)"
      by (auto simp: append_message_def Let_def list_ex_iff split: option.splits if_splits)
    have shape: "valid_message_shape ?m MAXIMUM_MESSAGE_BODY_BYTES"
      using draft by (auto simp: draft_ok_def room_limits intro: valid_message_shape_mono)
    have "message_ok (?f room) ?m"
      using shape author recipients found_room_ok(2) [OF ok found] by (simp add: message_ok_def)
    then have "room_ok (p_id ` set (participants (snapshot_of src))) (?f room)"
      using found_room_ok(1) [OF ok found] cap by (auto simp: room_ok_def message_ok_def)
    moreover have "distinct (map m_id (all_messages (ys @ ?f room # zs)))"
      if "?rs = ys @ room # zs" for ys zs
    proof -
      have "distinct (map m_id (all_messages (ys @ room # zs)))" 
        using ok that by (simp add: store_ok_def snapshot_ok_def)
      moreover have "m_id ?m \<notin> m_id ` set (all_messages (ys @ room # zs))"
        using new that by (auto simp: find_None_iff)
      ultimately show ?thesis by auto
    qed
    ultimately have "store_ok src'"
      unfolding src' using ok found shape
      by (intro store_ok_write_room [OF ok found]) (auto simp: valid_message_shape_def)
    with Pair show ?thesis by simp
  qed (use ok Pair in simp)
qed

lemma create_room_ok:
  assumes ok: "store_ok src" and draft: "create_draft_ok d"
  shows "store_ok (fst (create_room src d))"
proof (cases "create_room src d")
  case (Pair src' res)
  show ?thesis
  proof (cases "src' = src")
    case False
    let ?new = "create_room_of d" and ?s = "snapshot_of src"
    from False Pair have new: "find (\<lambda>room. r_id room = r_id ?new) (rooms ?s) = None"
      and cap: "length (rooms ?s) < MAXIMUM_ROOMS"
      and known: "set (r_participant_ids ?new) \<subseteq> p_id ` set (participants ?s)"
      and src': "src' = src\<lparr>snapshot_of := ?s\<lparr>generated_at := create_created_at d,
                                                rooms := rooms ?s @ [?new]\<rparr>\<rparr>"
      by (auto simp: create_room_def Let_def list_ex_iff split: option.splits if_splits)
    have "room_ok (p_id ` set (participants ?s)) ?new"
      using draft known by (auto simp: create_draft_ok_def room_ok_def Let_def)
    then have "store_ok src'"
      using ok draft new cap unfolding src'
      by (auto simp: store_ok_def snapshot_ok_def create_draft_ok_def Let_def find_None_iff)
    with Pair show ?thesis by simp
  qed (use ok Pair in simp)
qed

lemma add_room_participant_ok:
  assumes ok: "store_ok src"
  shows "store_ok (fst (add_room_participant src r p t))"
proof (cases "fst (add_room_participant src r p t) = src")
  case False
  then obtain room where found: "find (\<lambda>room. r_id room = r) (rooms (snapshot_of src)) = Some room"
    and facts: "p \<in> p_id ` set (participants (snapshot_of src))" "valid_text t 64"
      "p \<notin> set (r_participant_ids room)"
      "length (r_participant_ids room) < MAXIMUM_ROOM_PARTICIPANTS"
    and src': "fst (add_room_participant src r p t) =
      write_room src r (\<lambda>room. room\<lparr>r_participant_ids := r_participant_ids room @ [p]\<rparr>) t"
    by (auto simp: add_room_participant_def Let_def list_ex_iff split: option.splits if_splits)
  show ?thesis
    unfolding src' using found_room_ok [OF ok found] facts
    by (intro store_ok_write_room_same_messages [OF ok found]) (auto simp: room_ok_def message_ok_def)
qed (use ok in simp)

lemma rename_room_ok:
  assumes ok: "store_ok src"
  shows "store_ok (fst (rename_room src r n t))"
proof (cases "fst (rename_room src r n t) = src")
  case False
  then obtain room where found: "find (\<lambda>room. r_id room = r) (rooms (snapshot_of src)) = Some room"
    and facts: "valid_text n MAXIMUM_DISPLAY_NAME_BYTES" "valid_text t 64"
    and src': "fst (rename_room src r n t) = write_room src r (\<lambda>room. room\<lparr>r_name := n\<rparr>) t"
    by (auto simp: rename_room_def Let_def split: option.splits if_splits)
  show ?thesis
    unfolding src' using found_room_ok [OF ok found] facts
    by (intro store_ok_write_room_same_messages [OF ok found]) (auto simp: room_ok_def message_ok_def)
qed (use ok in simp)

lemma remove_room_participant_ok:
  assumes ok: "store_ok src"
  shows "store_ok (fst (remove_room_participant src r p t))"
proof (cases "fst (remove_room_participant src r p t) = src")
  case False
  then obtain room i where
    found: "find (\<lambda>room. r_id room = r) (rooms (snapshot_of src)) = Some room"
    and pos: "position (\<lambda>existing. existing = p) (r_participant_ids room) = Some i"
    and unused: "\<forall>m \<in> set (r_messages room). m_author_id m \<noteq> p \<and> p \<notin> set (m_recipients m)"
    and t: "valid_text t 64"
    and src': "fst (remove_room_participant src r p t) = write_room src r
      (\<lambda>room. room\<lparr>r_participant_ids := vec_remove i (r_participant_ids room)\<rparr>) t"
    by (auto simp: remove_room_participant_def Let_def list_ex_iff split: option.splits if_splits)
  have room: "room_ok (p_id ` set (participants (snapshot_of src))) room"
    by (rule found_room_ok [OF ok found])
  have "set (vec_remove i (r_participant_ids room)) = set (r_participant_ids room) - {p}"
    using room position_SomeD(1,2) [OF pos] by (simp add: set_vec_remove_distinct room_ok_def)
  then have "room_ok (p_id ` set (participants (snapshot_of src)))
      (room\<lparr>r_participant_ids := vec_remove i (r_participant_ids room)\<rparr>)"
    using room unused position_SomeD(1) [OF pos]
    by (auto simp: room_ok_def message_ok_def length_vec_remove distinct_vec_remove)
  then show ?thesis
    unfolding src' using t by (intro store_ok_write_room_same_messages [OF ok found]) auto
qed (use ok in simp)

lemma delete_room_ok:
  assumes ok: "store_ok src"
  shows "store_ok (fst (delete_room src r t))"
proof (cases "fst (delete_room src r t) = src")
  case False
  let ?s = "snapshot_of src"
  from False obtain i where pos: "position (\<lambda>room. r_id room = r) (rooms ?s) = Some i"
    and t: "valid_text t 64"
    and src': "fst (delete_room src r t) =
      src\<lparr>snapshot_of := ?s\<lparr>rooms := vec_remove i (rooms ?s), generated_at := t\<rparr>\<rparr>"
    by (auto simp: delete_room_def Let_def split: option.splits if_splits)
  have split: "rooms ?s = take i (rooms ?s) @ rooms ?s ! i # drop (Suc i) (rooms ?s)"
    by (rule position_split [OF pos])
  have "distinct (map m_id (all_messages
      (take i (rooms ?s) @ rooms ?s ! i # drop (Suc i) (rooms ?s))))"
    using ok split by (simp add: store_ok_def snapshot_ok_def)
  then have ids: "distinct (map m_id (all_messages (vec_remove i (rooms ?s))))"
    by (auto simp: vec_remove_def)
  show ?thesis
    unfolding src' using ok t ids set_vec_remove_subset [of i "rooms ?s"] position_SomeD(1) [OF pos]
    by (auto simp: store_ok_def snapshot_ok_def length_vec_remove map_vec_remove
        distinct_vec_remove)
qed (use ok in simp)

lemma store_step_ok: "store_ok src \<Longrightarrow> store_ok (store_step src e)"
  by (cases e)
     (auto split: sum.splits simp: append_message_ok create_room_ok add_room_participant_ok
        rename_room_ok remove_room_participant_ok delete_room_ok replace_snapshot_def
        validate_snapshot_iff store_ok_def [of "_\<lparr>snapshot_of := _\<rparr>"]
        dest: room_message_draft_OkD(1) room_create_draft_OkD)

interpretation room_store_machine: invariant_machine store_step store_ok
  by unfold_locales (rule store_step_ok)

end
