(* ===== verification/Room_Claims.thy ===== *)
theory Room_Claims
  imports Room_Store_Props "HOL-Library.Sublist"
begin

text \<open>
  The properties of the Room store: validity of every reachable snapshot, errors without
  effect, append-only histories, writes that are applied once, and paged reading.
\<close>

section \<open>A concrete store\<close>

definition example_message :: "string \<Rightarrow> string \<Rightarrow> room_message" where
  "example_message i body =
     \<lparr>m_id = i, m_room_id = ''room-1'', m_author_id = ''owner'', m_recipients = [''codex''],
      m_body = body, m_created_at = ''2026-08-12'', m_artifact_ids = [], m_provenance = None\<rparr>"

definition example_room :: room where
  "example_room =
     \<lparr>r_id = ''room-1'', r_name = ''Room 1'', r_participant_ids = [''owner'', ''codex'', ''gemini''],
      r_messages = [example_message ''message-1'' ''body 1'', example_message ''message-2'' ''body 2'',
                    example_message ''message-3'' ''body 3'']\<rparr>"

definition example_snapshot :: room_snapshot where
  "example_snapshot =
     \<lparr>schema_version = ''0.1.0'', generated_at = ''2026-08-12'',
      participants = [\<lparr>p_id = ''owner'', p_display_name = ''Owner'', p_kind = Human\<rparr>,
                      \<lparr>p_id = ''codex'', p_display_name = ''Codex'', p_kind = Ai\<rparr>,
                      \<lparr>p_id = ''gemini'', p_display_name = ''Gemini'', p_kind = Ai\<rparr>],
      rooms = [example_room]\<rparr>"

definition example_store :: in_memory_room_source where
  "example_store = \<lparr>snapshot_of = example_snapshot, poisoned = False\<rparr>"

lemmas example_store_defs = example_store_def example_snapshot_def example_room_def
  example_message_def

lemma example_snapshot_valid: "snapshot_ok example_snapshot"
  by (simp add: snapshot_ok_def example_snapshot_def example_room_def example_message_def room_ok_def
      message_ok_def valid_message_shape_def unique_valid_identifiers_iff identifier_eval
      valid_text_def room_limits PROTOCOL_VERSION_def)

lemma example_store_new: "in_memory_new example_snapshot = Ok example_store"
  using example_snapshot_valid validate_snapshot_iff [of example_snapshot]
  by (simp add: in_memory_new_def example_store_def split: sum.splits)

lemma example_store_ok: "store_ok example_store"
  by (rule in_memory_new_ok [OF example_store_new])

section \<open>Validity and errors\<close>

text \<open>C1: Whatever calls are made of a store that was opened on a valid snapshot, in any number
  and order and with any arguments, the snapshot it holds passes the validation that guards its
  opening: identifiers, sizes, unique participants, Rooms and message IDs, and no dangling author
  or recipient.\<close>

theorem store_runs_stay_valid:
  assumes "in_memory_new s = Ok src"
  shows "validate_snapshot (snapshot_of (foldl store_step src es)) = Ok ()"
  using room_store_machine.inv_run [OF in_memory_new_ok [OF assms]]
  by (simp add: store_ok_def validate_snapshot_iff)

theorem store_runs_stay_valid_witness:
  "validate_snapshot (snapshot_of (foldl store_step example_store
     [EvAppend ''message-4'' ''room-1'' ''codex'' [''owner''] ''reply'' ''2026-08-13'' [] None,
      EvRemoveParticipant ''room-1'' ''gemini'' ''2026-08-14'', EvDelete ''room-1'' ''2026-08-15''])) = Ok ()"
  by (rule store_runs_stay_valid [OF example_store_new])

text \<open>Whether a call reports an error to its caller.\<close>

fun store_reports_error :: "in_memory_room_source \<Rightarrow> store_event \<Rightarrow> bool" where
  "store_reports_error src (EvAppend i r a rs b c arts prov) =
     (case room_message_draft_try_new_with_provenance i r a rs b c arts prov of
        Inl _ \<Rightarrow> True | Inr draft \<Rightarrow> \<not> is_ok (snd (append_message src draft)))"
| "store_reports_error src (EvCreate i n ps c) =
     (case room_create_draft_try_new i n ps c of
        Inl _ \<Rightarrow> True | Inr draft \<Rightarrow> \<not> is_ok (snd (create_room src draft)))"
| "store_reports_error src (EvAddParticipant r p t) = (\<not> is_ok (snd (add_room_participant src r p t)))"
| "store_reports_error src (EvRename r n t) = (\<not> is_ok (snd (rename_room src r n t)))"
| "store_reports_error src (EvRemoveParticipant r p t) =
     (\<not> is_ok (snd (remove_room_participant src r p t)))"
| "store_reports_error src (EvDelete r t) = (\<not> is_ok (snd (delete_room src r t)))"
| "store_reports_error src (EvReplace s) = (\<not> is_ok (snd (replace_snapshot src s)))"

text \<open>A mutation that reports an error has changed nothing, neither the Rooms nor the time
  stamp of the snapshot: there is no partial write.\<close>

theorem mutation_errors_change_nothing:
  assumes "store_reports_error src e"
  shows "store_step src e = src"
proof -
  have *: "fst p = src" if "\<not> is_ok (snd p)" "\<And>src' err. p = (src', Err err) \<Longrightarrow> src' = src"
    for p :: "in_memory_room_source \<times> ('a, 'b) result"
    using that by (cases p; cases "snd p") auto
  show ?thesis
    using assms
    by (cases e) (auto split: sum.splits intro!: * dest: append_message_error create_room_error
        add_room_participant_error rename_room_error remove_room_participant_error
        delete_room_error replace_snapshot_error)
qed

theorem mutation_errors_change_nothing_witness:
  "store_step example_store (EvDelete ''room-1'' ''2026-08-15'') = example_store"
  by (rule mutation_errors_change_nothing)
    (simp add: delete_room_def example_store_defs identifier_eval valid_text_def is_ok_def)

section \<open>Histories only grow\<close>

definition history :: "in_memory_room_source \<Rightarrow> string \<Rightarrow> room_message list" where
  "history src room_id =
     (case find (\<lambda>room. r_id room = room_id) (rooms (snapshot_of src)) of
        None \<Rightarrow> [] | Some room \<Rightarrow> r_messages room)"

text \<open>The calls that may take messages away: deleting that Room, and the import that replaces the
  whole snapshot.\<close>

fun discards :: "string \<Rightarrow> store_event \<Rightarrow> bool" where
  "discards room_id (EvDelete r t) \<longleftrightarrow> r = room_id"
| "discards room_id (EvReplace s) \<longleftrightarrow> True"
| "discards room_id _ \<longleftrightarrow> False"

lemma find_update_first_id:
  assumes "\<And>room. r_id (f room) = r_id room"
  shows "find (\<lambda>room. r_id room = i) (update_first (\<lambda>room. r_id room = j) f rs) =
    (if i = j then map_option f (find (\<lambda>room. r_id room = i) rs)
     else find (\<lambda>room. r_id room = i) rs)"
  by (induction rs) (auto simp: assms)

lemma history_write_room:
  assumes "\<And>room. r_id (f room) = r_id room" "\<And>room. prefix (r_messages room) (r_messages (f room))"
  shows "prefix (history src i) (history (write_room src j f t) i)"
  using assms by (auto simp: history_def write_room_def find_update_first_id split: option.splits)

lemma history_same [simp]: "prefix (history src i) (history src i)"
  by simp

lemma find_append_new:
  "find P (xs @ ys) = (case find P xs of None \<Rightarrow> find P ys | Some x \<Rightarrow> Some x)"
  by (induction xs) auto

lemma find_vec_remove_other:
  assumes "position Q xs = Some i" "\<And>x. Q x \<Longrightarrow> \<not> P x"
  shows "find P (vec_remove i xs) = find P xs"
proof -
  have "xs = take i xs @ xs ! i # drop (Suc i) xs" "\<not> P (xs ! i)"
    using position_split [OF assms(1)] position_SomeD(2) [OF assms(1)] assms(2) by auto
  moreover have "find P (take i xs @ x # drop (Suc i) xs) = find P (take i xs @ drop (Suc i) xs)"
    if "\<not> P x" for x
    using that by (simp add: find_append_new split: option.split)
  ultimately show ?thesis
    by (metis vec_remove_def)
qed

lemma history_store_step:
  assumes "\<not> discards i e"
  shows "prefix (history src i) (history (store_step src e) i)"
proof (cases e)
  case (EvAppend a b c d f g h k)
  then show ?thesis
    by (auto simp: append_message_def Let_def intro!: history_write_room
        split: sum.splits option.splits)
next
  case (EvCreate a b c d)
  then show ?thesis
    by (auto simp: create_room_def Let_def history_def find_append_new
        split: sum.splits option.splits)
next
  case (EvDelete r t)
  then show ?thesis
    using assms
    by (auto simp: delete_room_def Let_def history_def find_vec_remove_other split: option.splits)
qed (use assms in \<open>auto simp: add_room_participant_def rename_room_def remove_room_participant_def
       Let_def intro!: history_write_room split: option.splits\<close>)

text \<open>The machine restricted to the calls that discard nothing of one Room only goes up in its
  history.\<close>

definition keeping_step :: "string \<Rightarrow> in_memory_room_source \<Rightarrow> store_event \<Rightarrow> in_memory_room_source" where
  "keeping_step i src e = (if discards i e then src else store_step src e)"

lemma foldl_keeping_step:
  "list_all (\<lambda>e. \<not> discards i e) es \<Longrightarrow> foldl (keeping_step i) src es = foldl store_step src es"
  by (induction es arbitrary: src) (auto simp: keeping_step_def)

interpretation room_history: monotone_machine "keeping_step i" store_ok
    "\<lambda>s t. prefix (history s i) (history t i)" for i
  by unfold_locales (auto simp: keeping_step_def store_step_ok intro: history_store_step)

text \<open>C9: The history of a Room is append-only: until the Room is deleted or the snapshot
  replaced, every message once saved stays, in its place and unchanged, through any sequence of
  writes, renames and membership changes.\<close>

theorem room_history_append_only:
  assumes "in_memory_new s = Ok src" "list_all (\<lambda>e. \<not> discards room_id e) es"
  shows "prefix (history src room_id) (history (foldl store_step src es) room_id)"
  using room_history.below_run [OF in_memory_new_ok [OF assms(1)], of room_id es]
    foldl_keeping_step [OF assms(2)] by simp

theorem room_history_append_only_witness:
  "prefix (history example_store ''room-1'') (history (foldl store_step example_store
     [EvRename ''room-1'' ''Renamed'' ''2026-08-13'',
      EvAppend ''message-4'' ''room-1'' ''codex'' [''owner''] ''reply'' ''2026-08-13'' [] None])
     ''room-1'')"
  by (rule room_history_append_only [OF example_store_new]) simp

section \<open>A write is applied once\<close>

lemma message_by_id:
  assumes "store_ok src" "m \<in> set (history src i)"
  shows "find (\<lambda>e. m_id e = m_id m) (all_messages (rooms (snapshot_of src))) = Some m"
proof (rule find_by_key)
  show "distinct (map m_id (all_messages (rooms (snapshot_of src))))"
    using assms(1) by (simp add: store_ok_def snapshot_ok_def)
  show "m \<in> set (all_messages (rooms (snapshot_of src)))"
    using assms(2) find_SomeD(1) [of "\<lambda>room. r_id room = i" "rooms (snapshot_of src)"]
    by (auto simp: history_def set_all_messages split: option.splits)
qed

lemma message_in_own_history:
  assumes ok: "store_ok src" and m: "m \<in> set (all_messages (rooms (snapshot_of src)))"
  shows "m \<in> set (history src (m_room_id m))"
proof -
  obtain room where room: "room \<in> set (rooms (snapshot_of src))" "m \<in> set (r_messages room)"
    using m by (auto simp: set_all_messages)
  then have "m_room_id m = r_id room"
    using ok by (auto simp: store_ok_def snapshot_ok_def room_ok_def message_ok_def)
  moreover have "find (\<lambda>x. r_id x = r_id room) (rooms (snapshot_of src)) = Some room"
    using ok room(1) by (intro find_by_key) (auto simp: store_ok_def snapshot_ok_def)
  ultimately show ?thesis
    using room(2) by (simp add: history_def)
qed

lemma append_message_in_history:
  assumes "append_message src d = (src1, Ok w)" "write_status w = Appended"
  shows "draft_message d \<in> set (history src1 (m_room_id (draft_message d)))"
    and "write_message w = draft_message d"
  using assms
  by (auto simp: append_message_def Let_def history_def write_room_def find_update_first_id
      room_write_success_new_def split: option.splits if_splits)

lemma poisoned_store_step [simp]: "poisoned (store_step src e) = poisoned src"
  by (cases e) (auto simp: store_ops_defs replace_snapshot_def write_room_def Let_def
      split: sum.splits option.splits)

lemma poisoned_run [simp]: "poisoned (foldl store_step src es) = poisoned src"
  by (induction es arbitrary: src) auto

text \<open>C2: A message is stored at most once, however often its write is retried: after a write
  that appended it, and after any later calls that do not discard the Room, repeating the write
  (with whatever new time stamp) changes nothing and returns the stored message as a duplicate.\<close>

theorem append_message_at_most_once:
  assumes ok: "store_ok src" and valid: "draft_ok d"
    and first: "append_message src d = (src1, Ok w)" "write_status w = Appended"
    and between: "list_all (\<lambda>e. \<not> discards (m_room_id (draft_message d)) e) es"
    and retry: "d' = RoomMessageDraft (draft_message d\<lparr>m_created_at := t\<rparr>)"
    and src2: "src2 = foldl store_step src1 es"
  shows "append_message src2 d' = (src2, Ok (room_write_success_new Write_Duplicate (draft_message d)))"
proof -
  let ?m = "draft_message d"
  have ok1: "store_ok src1"
    using append_message_ok [OF ok valid] first(1) by simp
  then have "prefix (history src1 (m_room_id ?m)) (history src2 (m_room_id ?m))"
    using room_history.below_run [of src1 "m_room_id ?m" es] foldl_keeping_step [OF between] src2
    by simp
  then have "?m \<in> set (history src2 (m_room_id ?m))"
    using append_message_in_history(1) [OF first] by (auto dest: set_mono_prefix)
  moreover have "store_ok src2" "\<not> poisoned src2"
    using room_store_machine.inv_run [OF ok1] src2 first
    by (auto simp: append_message_def write_room_def Let_def room_write_success_new_def
        split: option.splits if_splits)
  ultimately show ?thesis
    using message_by_id
    by (fastforce simp: append_message_def retry same_idempotent_payload_def)
qed


definition example_draft :: room_message_draft where
  "example_draft = RoomMessageDraft (example_message ''message-4'' ''hello'')"

definition example_store_after :: in_memory_room_source where
  "example_store_after = fst (append_message example_store example_draft)"

lemma example_draft_ok: "draft_ok example_draft"
  by (simp add: draft_ok_def example_draft_def example_message_def valid_message_shape_def
      unique_valid_identifiers_iff identifier_eval valid_text_def room_limits trim_is_empty_def
      str_chars_def is_whitespace_def)

lemma example_append:
  "append_message example_store example_draft =
     (example_store_after, Ok (room_write_success_new Appended (draft_message example_draft)))"
  by (simp add: example_store_after_def append_message_def example_draft_def example_store_defs
      room_limits Let_def)

theorem append_message_at_most_once_witness:
  "append_message (foldl store_step example_store_after [EvRename ''room-1'' ''R'' ''2026-08-13''])
     (RoomMessageDraft (draft_message example_draft\<lparr>m_created_at := ''later''\<rparr>)) =
   (foldl store_step example_store_after [EvRename ''room-1'' ''R'' ''2026-08-13''],
    Ok (room_write_success_new Write_Duplicate (draft_message example_draft)))"
  by (rule append_message_at_most_once [OF example_store_ok example_draft_ok example_append _ _ refl refl])
    (simp_all add: room_write_success_new_def example_draft_def example_message_def)

section \<open>Reading a history page by page\<close>

lemma found_room_position:
  assumes "store_ok src" "find (\<lambda>room. r_id room = i) (rooms (snapshot_of src)) = Some room"
    and "r_messages room = pre @ m # post"
  shows "position (\<lambda>message. m_id message = m_id m) (r_messages room) = Some (length pre)"
proof -
  have "distinct (map m_id (r_messages room))"
    using assms(1) found_room_ok(3) [OF assms(1,2)]
    by (auto simp: store_ok_def snapshot_ok_def all_messages_def map_concat distinct_concat_iff
        dest: split_list)
  then have "m_id m \<notin> m_id ` set pre"
    using assms(3) by auto
  then show ?thesis
    unfolding assms(3) by (intro position_append_absent) (metis imageI)+
qed

text \<open>The page a query without a cursor returns is the newest part of the history: the last
  \<open>limit\<close> messages, oldest first, and it says that there is something before exactly when the
  history is longer than the page; nothing is after it.\<close>

theorem read_room_latest_page:
  assumes "find (\<lambda>room. r_id room = i) (rooms (snapshot_of src)) = Some room" "\<not> poisoned src"
    and "room_read_query_try_new i None limit = Ok query"
  shows "\<exists>page. read_room src query = Success page
    \<and> view_messages (read_view page) = drop (length (r_messages room) - unat limit) (r_messages room)
    \<and> page_returned (read_page page) = min (unat limit) (length (r_messages room))
    \<and> (page_has_more_before (read_page page) \<longleftrightarrow> unat limit < length (r_messages room))
    \<and> \<not> page_has_more_after (read_page page)"
  using assms
  by (auto simp: read_room_def read_page_from_def room_read_query_try_new_def Let_def
      split: if_splits)

theorem read_room_latest_page_witness:
  "\<exists>page. read_room example_store
       \<lparr>q_room_id = ''room-1'', q_after_message_id = None, q_limit = 2\<rparr> = Success page
    \<and> view_messages (read_view page) = drop (length (r_messages example_room) - unat (2 :: u8)) (r_messages example_room)
    \<and> page_returned (read_page page) = min (unat (2 :: u8)) (length (r_messages example_room))
    \<and> (page_has_more_before (read_page page) \<longleftrightarrow> unat (2 :: u8) < length (r_messages example_room))
    \<and> \<not> page_has_more_after (read_page page)"
  by (rule read_room_latest_page [of "''room-1''"])
    (simp_all add: example_store_def example_snapshot_def example_room_def
      room_read_query_try_new_def identifier_eval)

text \<open>A reader that follows the cursor: it reads the page after \<open>cursor\<close> and goes on from the
  cursor the page names as long as the page says there is more.\<close>

fun follow_pages :: "nat \<Rightarrow> in_memory_room_source \<Rightarrow> string \<Rightarrow> string \<Rightarrow> u8 \<Rightarrow> room_message list option"
where
  "follow_pages 0 src room_id cursor limit = None"
| "follow_pages (Suc fuel) src room_id cursor limit =
     (case read_room src \<lparr>q_room_id = room_id, q_after_message_id = Some cursor, q_limit = limit\<rparr> of
        Failure _ \<Rightarrow> None
      | Success page \<Rightarrow>
          if page_has_more_after (read_page page) then
            (case page_next_after_message_id (read_page page) of
               None \<Rightarrow> None
             | Some next_cursor \<Rightarrow>
                 map_option (\<lambda>ms. view_messages (read_view page) @ ms)
                   (follow_pages fuel src room_id next_cursor limit))
          else Some (view_messages (read_view page)))"

lemma read_room_after:
  assumes "store_ok src" "\<not> poisoned src"
    and "find (\<lambda>room. r_id room = i) (rooms (snapshot_of src)) = Some room"
    and "r_messages room = pre @ m # post"
  shows "read_room src \<lparr>q_room_id = i, q_after_message_id = Some (m_id m), q_limit = limit\<rparr> =
    read_page_from (snapshot_of src) room
      \<lparr>q_room_id = i, q_after_message_id = Some (m_id m), q_limit = limit\<rparr> (length pre + 1)"
  using found_room_position [OF assms(1,3,4)] assms by (simp add: read_room_def)

text \<open>C10: Following the cursor reads a history completely: started after any message, with any
  page size the query accepts, the pages put together are exactly the messages that come after
  it, in order, none skipped and none read twice; as many reads as there are messages left, and
  one more, always suffice.\<close>

theorem follow_pages_complete:
  assumes "store_ok src" "\<not> poisoned src"
    and "find (\<lambda>room. r_id room = i) (rooms (snapshot_of src)) = Some room"
    and "r_messages room = pre @ m # post"
    and "1 \<le> limit" "length post < fuel"
  shows "follow_pages fuel src i (m_id m) limit = Some post"
  using assms(4,6)
proof (induction fuel arbitrary: pre m post)
  case (Suc fuel)
  let ?n = "unat limit"
  have n: "0 < ?n"
    using assms(5) by (metis unat_gt_0 word_coorder.extremum_uniqueI zero_neq_one)
  note read = read_room_after [OF assms(1-3) Suc.prems(1), of limit]
  show ?case
  proof (cases "?n < length post")
    case True
    let ?page = "take ?n post" and ?m' = "post ! (?n - 1)"
    have page: "?page \<noteq> []"
      using True n by auto
    have last: "last ?page = ?m'"
      using last_conv_nth [OF page] True n by (simp add: min_def)
    have split: "take (?n - 1) post @ ?m' # drop (Suc (?n - 1)) post = post"
      by (rule id_take_nth_drop [symmetric]) (use True n in simp)
    have msgs: "r_messages room = (pre @ m # take (?n - 1) post) @ ?m' # drop ?n post"
      using Suc.prems(1) n split by simp
    have "follow_pages fuel src i (m_id ?m') limit = Some (drop ?n post)"
      using Suc.IH [OF msgs] Suc.prems(2) n True by simp
    then show ?thesis
      using read Suc.prems(1) True page last by (simp add: read_page_from_def Let_def)
  next
    case False
    then show ?thesis
      using read Suc.prems(1) by (simp add: read_page_from_def Let_def)
  qed
qed simp

theorem follow_pages_complete_witness:
  "follow_pages 3 example_store ''room-1'' (m_id (example_message ''message-1'' ''body 1'')) 1 =
     Some [example_message ''message-2'' ''body 2'', example_message ''message-3'' ''body 3'']"
  by (rule follow_pages_complete [OF example_store_ok, of _ example_room "[]"])
    (simp_all add: example_store_def example_snapshot_def example_room_def)

end
