(* ===== verification/Mcp_Tools.thy ===== *)
theory Mcp_Tools
  imports Room_Claims
begin

text \<open>
  The crate \<open>moe-mcp\<close> (\<open>crates/moe-mcp/src/lib.rs\<close>): the tools a local MCP client may call.
  \<open>MioTools<R>\<close> is generic in the Room store it works on; here the tools take the store's
  operations as a record, the locale \<open>room_contract\<close> holds what the tools rely on of them, and
  its interpretation on \<open>InMemoryRoomSource\<close> discharges it.
\<close>

definition DEFAULT_ROOM_READ_LIMIT :: u8 where "DEFAULT_ROOM_READ_LIMIT = 30"
definition OWNER_PROXY_MESSAGE_ID_PREFIX :: string where
  "OWNER_PROXY_MESSAGE_ID_PREFIX = ''mcp-owner-''"
definition MCP_API_VERSION :: string where "MCP_API_VERSION = ''mio.mcp.v1''"
definition MIO_STATUS_TOOL :: string where "MIO_STATUS_TOOL = ''mio_status''"
definition MIO_ROOM_LIST_TOOL :: string where "MIO_ROOM_LIST_TOOL = ''mio_room_list''"
definition MIO_ROOM_READ_TOOL :: string where "MIO_ROOM_READ_TOOL = ''mio_room_read''"
definition MIO_ROOM_POST_AS_OWNER_TOOL :: string where
  "MIO_ROOM_POST_AS_OWNER_TOOL = ''mio_room_post_as_owner''"

section \<open>The store the tools work on\<close>

record 's room_ops =
  op_read_room :: "'s \<Rightarrow> room_read_query \<Rightarrow> room_read_result"
  op_list_rooms :: "'s \<Rightarrow> (room_summary list, room_catalog_error) result"
  op_append_message ::
    "'s \<Rightarrow> room_message_draft \<Rightarrow> 's \<times> (room_write_success, room_write_error) result"

definition in_memory_ops :: "in_memory_room_source room_ops" where
  "in_memory_ops = \<lparr>op_read_room = read_room, op_list_rooms = list_rooms,
                     op_append_message = append_message\<rparr>"

section \<open>Inputs and outputs\<close>

record mio_status_output =
  status_ok :: bool
  status_server_name :: string
  status_api_version :: string
  status_ready :: bool
  status_capabilities :: "string list"

record mio_room_list_output =
  list_ok :: bool
  list_rooms_of :: "room_summary list"

record mio_tool_error =
  tool_code :: string
  tool_message :: string

record mio_room_read_input =
  input_room_id :: string
  input_after_message_id :: "string option"
  input_limit :: "u8 option"

record mio_room_post_input =
  post_request_id :: string
  post_room_id :: string
  post_recipient_ids :: "string list"
  post_body :: string

section \<open>The tools\<close>

definition mio_status :: "'s room_ops \<Rightarrow> 's \<Rightarrow> mio_status_output" where
  "mio_status ops src =
     (let ready = is_ok (op_list_rooms ops src) in
      \<lparr>status_ok = ready, status_server_name = ''mio'', status_api_version = MCP_API_VERSION,
       status_ready = ready,
       status_capabilities = [MIO_STATUS_TOOL, MIO_ROOM_LIST_TOOL, MIO_ROOM_READ_TOOL,
                              MIO_ROOM_POST_AS_OWNER_TOOL]\<rparr>)"

definition mio_room_list :: "'s room_ops \<Rightarrow> 's \<Rightarrow> (mio_room_list_output, mio_tool_error) result" where
  "mio_room_list ops src =
     (case op_list_rooms ops src of
        Inr rs \<Rightarrow> Ok \<lparr>list_ok = True, list_rooms_of = rs\<rparr>
      | Inl _ \<Rightarrow> Err \<lparr>tool_code = ''roomCatalogUnavailable'',
                     tool_message = ''The Room catalog is temporarily unavailable.''\<rparr>)"

definition mio_room_read ::
  "'s room_ops \<Rightarrow> 's \<Rightarrow> mio_room_read_input \<Rightarrow> (room_read_result, mio_tool_error) result"
where
  "mio_room_read ops src input =
     (case room_read_query_try_new (input_room_id input) (input_after_message_id input)
             (case input_limit input of None \<Rightarrow> DEFAULT_ROOM_READ_LIMIT | Some l \<Rightarrow> l) of
        Inl _ \<Rightarrow> Err \<lparr>tool_code = ''invalidRoomRequest'',
                     tool_message = ''The Room read request is invalid.''\<rparr>
      | Inr query \<Rightarrow> Ok (op_read_room ops src query))"

definition valid_request_id :: "string \<Rightarrow> bool" where
  "valid_request_id value \<longleftrightarrow>
     value \<noteq> [] \<and> length value \<le> 118 \<and> all_indexed identifier_byte value"

definition invalid_owner_proxy_message :: mio_tool_error where
  "invalid_owner_proxy_message =
     \<lparr>tool_code = ''invalidRoomMessage'', tool_message = ''The Owner-proxy Room message is invalid.''\<rparr>"

definition room_owner_unavailable :: mio_tool_error where
  "room_owner_unavailable =
     \<lparr>tool_code = ''roomOwnerUnavailable'',
      tool_message = ''The Room does not have exactly one human Owner.''\<rparr>"

fun map_write_error :: "room_write_error \<Rightarrow> mio_tool_error" where
  "map_write_error Write_RoomNotFound =
     \<lparr>tool_code = ''roomNotFound'', tool_message = ''The Room is not available.''\<rparr>"
| "map_write_error Write_AuthorNotParticipant =
     \<lparr>tool_code = ''roomParticipantInvalid'',
      tool_message = ''A message participant is not available in the Room.''\<rparr>"
| "map_write_error Write_RecipientNotParticipant =
     \<lparr>tool_code = ''roomParticipantInvalid'',
      tool_message = ''A message participant is not available in the Room.''\<rparr>"
| "map_write_error Write_IdempotencyConflict =
     \<lparr>tool_code = ''messageConflict'',
      tool_message = ''The request ID was already used for different content.''\<rparr>"
| "map_write_error Write_RoomCapacityReached =
     \<lparr>tool_code = ''roomCapacityReached'', tool_message = ''The Room cannot accept more messages.''\<rparr>"
| "map_write_error Write_SourceUnavailable =
     \<lparr>tool_code = ''roomWriteUnavailable'', tool_message = ''The Room is temporarily unavailable.''\<rparr>"

definition resolve_room_owner :: "room_read_result \<Rightarrow> (string, mio_tool_error) result" where
  "resolve_room_owner result' =
     (case result_participants result' of
        None \<Rightarrow> Err room_owner_unavailable
      | Some ps \<Rightarrow>
          (case map p_id (filter (\<lambda>p. p_kind p = Human) ps) of
             [] \<Rightarrow> Err room_owner_unavailable
           | owner # others \<Rightarrow> if others \<noteq> [] then Err room_owner_unavailable else Ok owner))"

text \<open>The tool reads the Room and appends the message in two calls of the store; \<open>between\<close> is what
  other callers do to the store from the one to the other.\<close>

definition owner_proxy_draft ::
  "'s room_ops \<Rightarrow> 's \<Rightarrow> mio_room_post_input \<Rightarrow> string \<Rightarrow> (room_message_draft, mio_tool_error) result"
where
  "owner_proxy_draft ops src input created_at =
     (if \<not> valid_request_id (post_request_id input) then Err invalid_owner_proxy_message
      else
        (case room_read_query_try_new (post_room_id input) None 1 of
           Inl _ \<Rightarrow> Err invalid_owner_proxy_message
         | Inr query \<Rightarrow>
             (case resolve_room_owner (op_read_room ops src query) of
                Inl e \<Rightarrow> Err e
              | Inr owner_id \<Rightarrow>
                  (case room_message_draft_try_new_with_provenance
                          (OWNER_PROXY_MESSAGE_ID_PREFIX @ post_request_id input)
                          (post_room_id input) owner_id (post_recipient_ids input)
                          (post_body input) created_at [] (Some CodexOwnerProxy) of
                     Inl _ \<Rightarrow> Err invalid_owner_proxy_message
                   | Inr draft \<Rightarrow> Ok draft))))"

definition room_post_as_owner ::
  "'s room_ops \<Rightarrow> ('s \<Rightarrow> 's) \<Rightarrow> 's \<Rightarrow> mio_room_post_input \<Rightarrow> string
     \<Rightarrow> 's \<times> (room_write_success, mio_tool_error) result"
where
  "room_post_as_owner ops between src input created_at =
     (case owner_proxy_draft ops src input created_at of
        Inl e \<Rightarrow> (src, Err e)
      | Inr draft \<Rightarrow>
          (case op_append_message ops (between src) draft of
             (src', r) \<Rightarrow> (src', map_err map_write_error r)))"

section \<open>What the tools rely on of a store\<close>

text \<open>
  The laws of \<open>RoomStore::append_message\<close>: it returns a message with the payload of the draft,
  reports an error or a duplicate without effect, and a repeated write of the same payload is a
  duplicate of the stored message. \<open>ready\<close> are the states in which the store can be used.
\<close>

locale room_contract =
  fixes ops :: "'s room_ops" and ready :: "'s \<Rightarrow> bool"
  assumes append_payload:
      "op_append_message ops s d = (s', Ok w) \<Longrightarrow>
         same_idempotent_payload (write_message w) (draft_message d)"
    and append_error: "op_append_message ops s d = (s', Err e) \<Longrightarrow> s' = s"
    and append_duplicate:
      "op_append_message ops s d = (s', Ok w) \<Longrightarrow> write_status w = Write_Duplicate \<Longrightarrow> s' = s"
    and append_ready: "ready s \<Longrightarrow> draft_ok d \<Longrightarrow> ready (fst (op_append_message ops s d))"
    and append_again:
      "ready s \<Longrightarrow> draft_ok d \<Longrightarrow> op_append_message ops s d = (s', Ok w) \<Longrightarrow>
         draft_message d' = draft_message d\<lparr>m_created_at := t\<rparr> \<Longrightarrow>
         op_append_message ops s' d' =
           (s', Ok (room_write_success_new Write_Duplicate (write_message w)))"
    and append_same_readers:
      "op_append_message ops s d = (s', Ok w) \<Longrightarrow> q_after_message_id q = None \<Longrightarrow>
         result_participants (op_read_room ops s' q) = result_participants (op_read_room ops s q)"
begin

lemma post_OkD:
  assumes "room_post_as_owner ops between s input t = (s', Ok w)"
  obtains query owner_id draft where
    "valid_request_id (post_request_id input)"
    "room_read_query_try_new (post_room_id input) None 1 = Ok query"
    "resolve_room_owner (op_read_room ops s query) = Ok owner_id"
    "room_message_draft_try_new_with_provenance
       (OWNER_PROXY_MESSAGE_ID_PREFIX @ post_request_id input) (post_room_id input) owner_id
       (post_recipient_ids input) (post_body input) t [] (Some CodexOwnerProxy) = Ok draft"
    "op_append_message ops (between s) draft = (s', Ok w)"
  using assms
  by (auto simp: room_post_as_owner_def owner_proxy_draft_def map_err_def
      split: if_splits sum.splits prod.splits)

lemma post_error_unchanged:
  "room_post_as_owner ops between s input t = (s', Err e) \<Longrightarrow> s' \<in> {s, between s}"
  by (auto simp: room_post_as_owner_def map_err_def split: sum.splits prod.splits dest: append_error)

lemma resolve_room_owner_cong:
  "result_participants r = result_participants r' \<Longrightarrow> resolve_room_owner r = resolve_room_owner r'"
  by (simp add: resolve_room_owner_def)

lemma post_retry:
  assumes s: "ready s" and post: "room_post_as_owner ops id s input t = (s', Ok w)"
    and t': "valid_text t' 64"
  shows "room_post_as_owner ops id s' input t' =
           (s', Ok (room_write_success_new Write_Duplicate (write_message w)))"
proof -
  from post obtain query owner_id draft where
    q: "valid_request_id (post_request_id input)"
       "room_read_query_try_new (post_room_id input) None 1 = Ok query"
    and owner: "resolve_room_owner (op_read_room ops s query) = Ok owner_id"
    and draft: "room_message_draft_try_new_with_provenance
       (OWNER_PROXY_MESSAGE_ID_PREFIX @ post_request_id input) (post_room_id input) owner_id
       (post_recipient_ids input) (post_body input) t [] (Some CodexOwnerProxy) = Ok draft"
    and append: "op_append_message ops s draft = (s', Ok w)"
    by (rule post_OkD) simp
  have "q_after_message_id query = None"
    using q(2) by (auto simp: room_read_query_try_new_def split: if_splits)
  with owner have owner': "resolve_room_owner (op_read_room ops s' query) = Ok owner_id"
    using resolve_room_owner_cong [OF append_same_readers [OF append]] by simp
  obtain draft' where draft': "room_message_draft_try_new_with_provenance
       (OWNER_PROXY_MESSAGE_ID_PREFIX @ post_request_id input) (post_room_id input) owner_id
       (post_recipient_ids input) (post_body input) t' [] (Some CodexOwnerProxy) = Ok draft'"
    and same: "draft_message draft' = draft_message draft\<lparr>m_created_at := t'\<rparr>"
    using draft t'
    by (auto simp: room_message_draft_try_new_with_provenance_def valid_message_shape_def Let_def
        split: if_splits)
  have "op_append_message ops s' draft' =
      (s', Ok (room_write_success_new Write_Duplicate (write_message w)))"
    by (rule append_again [OF s room_message_draft_OkD(1) [OF draft] append same])
  then show ?thesis
    using q owner' draft' by (simp add: room_post_as_owner_def owner_proxy_draft_def map_err_def)
qed

end

section \<open>The in-memory store keeps the contract\<close>

lemma append_message_OkD:
  assumes "append_message src d = (src', Ok w)"
  shows "same_idempotent_payload (write_message w) (draft_message d)"
    and "write_status w = Write_Duplicate \<Longrightarrow> src' = src"
  using assms
  by (auto simp: append_message_def room_write_success_new_def same_idempotent_payload_def Let_def
      split: option.splits if_splits)

lemma append_message_repeat:
  assumes "store_ok src" "append_message src d = (src', Ok w)" "draft_ok d"
    and "draft_message d' = draft_message d\<lparr>m_created_at := t\<rparr>"
  shows "append_message src' d' = (src', Ok (room_write_success_new Write_Duplicate (write_message w)))"
proof (cases "write_status w")
  case Appended
  have d': "d' = RoomMessageDraft (draft_message d\<lparr>m_created_at := t\<rparr>)"
    using assms(4) by (cases d') simp
  note m = append_message_in_history [OF assms(2) Appended]
  have "store_ok src'"
    using append_message_ok [OF assms(1,3)] assms(2) by simp
  then have "find (\<lambda>e. m_id e = m_id (draft_message d)) (all_messages (rooms (snapshot_of src'))) =
      Some (draft_message d)"
    by (rule message_by_id [OF _ m(1)])
  moreover have "\<not> poisoned src'"
    using assms(2) by (auto simp: append_message_def Let_def write_room_def
        split: option.splits if_splits)
  ultimately show ?thesis
    using m(2) by (simp add: append_message_def d' same_idempotent_payload_def)
next
  case Write_Duplicate
  then have "src' = src"
    by (rule append_message_OkD(2) [OF assms(2)])
  then show ?thesis
    using assms(2,4) Write_Duplicate
    by (auto simp: append_message_def Let_def same_idempotent_payload_def room_write_success_new_def
        split: option.splits if_splits)
qed

lemma read_room_participants_append:
  assumes "append_message src d = (src', Ok w)" "q_after_message_id q = None"
  shows "result_participants (read_room src' q) = result_participants (read_room src q)"
  using assms
  by (auto simp: append_message_def Let_def read_room_def write_room_def find_update_first_id
      read_page_from_def split: option.splits if_splits)

interpretation in_memory_contract: room_contract in_memory_ops store_ok
  by unfold_locales
    (auto simp: in_memory_ops_def append_message_repeat read_room_participants_append
      dest: append_message_error append_message_OkD intro: append_message_ok)

section \<open>What an owner-proxy post does\<close>

text \<open>The members of a Room that are human.\<close>

definition human_members :: "in_memory_room_source \<Rightarrow> string \<Rightarrow> string list" where
  "human_members src room_id =
     (case find (\<lambda>room. r_id room = room_id) (rooms (snapshot_of src)) of
        None \<Rightarrow> []
      | Some room \<Rightarrow>
          map p_id (filter (\<lambda>p. p_kind p = Human)
            (List.map_filter (\<lambda>i. find (\<lambda>p. p_id p = i) (participants (snapshot_of src)))
              (r_participant_ids room))))"

lemma resolve_owner_human:
  assumes "resolve_room_owner (read_room src query) = Ok owner_id"
    and "room_read_query_try_new i None 1 = Ok query"
  shows "human_members src i = [owner_id]"
  using assms
  by (auto simp: resolve_room_owner_def room_read_query_try_new_def read_room_def
      read_page_from_def human_members_def Let_def split: if_splits option.splits list.splits)

lemma append_message_stored:
  assumes "store_ok src" "append_message src d = (src', Ok w)"
  shows "write_message w \<in> set (history src' (m_room_id (draft_message d)))"
proof (cases "write_status w")
  case Appended
  then show ?thesis
    using append_message_in_history [OF assms(2)] by simp
next
  case Write_Duplicate
  then have "src' = src" "write_message w \<in> set (all_messages (rooms (snapshot_of src)))"
    "m_room_id (write_message w) = m_room_id (draft_message d)"
    using assms(2) by (auto simp: append_message_def Let_def room_write_success_new_def
        same_idempotent_payload_def dest: find_SomeD split: option.splits if_splits)
  then show ?thesis
    using message_in_own_history [OF assms(1)] by metis
qed

text \<open>C11: An owner-proxy post that is accepted stores, in the Room it names, one message whose
  author is the one human member of the Room (when the tool looked for it), whoever called, which
  carries the mark that a proxy wrote it, and whose ID, recipients and body are those of the request;
  whatever other callers do to the store between the look and the append, as long as it is in order
  then.\<close>

theorem mcp_post_speaks_for_owner:
  assumes "store_ok (between src)" "room_post_as_owner in_memory_ops between src input t = (src', Ok w)"
  shows "write_message w \<in> set (history src' (post_room_id input))
    \<and> human_members src (post_room_id input) = [m_author_id (write_message w)]
    \<and> m_id (write_message w) = OWNER_PROXY_MESSAGE_ID_PREFIX @ post_request_id input
    \<and> m_recipients (write_message w) = post_recipient_ids input
    \<and> m_body (write_message w) = post_body input
    \<and> m_provenance (write_message w) = Some CodexOwnerProxy"
proof -
  from assms(2) obtain query owner_id draft where
    "room_read_query_try_new (post_room_id input) None 1 = Ok query"
    "resolve_room_owner (read_room src query) = Ok owner_id"
    "room_message_draft_try_new_with_provenance
       (OWNER_PROXY_MESSAGE_ID_PREFIX @ post_request_id input) (post_room_id input) owner_id
       (post_recipient_ids input) (post_body input) t [] (Some CodexOwnerProxy) = Ok draft"
    "append_message (between src) draft = (src', Ok w)"
    by (rule in_memory_contract.post_OkD) (simp add: in_memory_ops_def)
  then show ?thesis
    using append_message_stored [OF assms(1), of draft src' w]
      append_message_OkD(1) [of "between src" draft src' w]
      resolve_owner_human [of src query owner_id] room_message_draft_OkD(2)
    by (fastforce simp: same_idempotent_payload_def)
qed

definition example_post :: mio_room_post_input where
  "example_post = \<lparr>post_request_id = ''r1'', post_room_id = ''room-1'',
     post_recipient_ids = [''codex''], post_body = ''hello''\<rparr>"

definition example_posted :: room_message where
  "example_posted = example_message ''mcp-owner-r1'' ''hello''
     \<lparr>m_created_at := ''2026-08-13'', m_provenance := Some CodexOwnerProxy\<rparr>"

definition example_store_posted :: in_memory_room_source where
  "example_store_posted = fst (append_message example_store (RoomMessageDraft example_posted))"

lemma example_post_eval:
  "room_post_as_owner in_memory_ops id example_store example_post ''2026-08-13'' =
     (example_store_posted, Ok (room_write_success_new Appended example_posted))"
proof -
  have "room_message_draft_try_new_with_provenance ''mcp-owner-r1'' ''room-1'' ''owner'' [''codex'']
      ''hello'' ''2026-08-13'' [] (Some CodexOwnerProxy) = Ok (RoomMessageDraft example_posted)"
    by (simp add: room_message_draft_try_new_with_provenance_def example_posted_def
        example_message_def valid_message_shape_def unique_valid_identifiers_iff identifier_eval
        valid_text_def room_limits trim_is_empty_def str_chars_def is_whitespace_def Let_def)
  moreover have "append_message example_store (RoomMessageDraft example_posted) =
      (example_store_posted, Ok (room_write_success_new Appended example_posted))"
    by (simp add: example_store_posted_def append_message_def example_posted_def
        example_store_defs room_limits Let_def)
  moreover have "valid_request_id ''r1''"
    by (simp add: valid_request_id_def all_indexed_identifier identifier_eval)
  moreover have "room_read_query_try_new ''room-1'' None 1 =
      Ok \<lparr>q_room_id = ''room-1'', q_after_message_id = None, q_limit = 1\<rparr>"
    by (simp add: room_read_query_try_new_def identifier_eval)
  moreover have "resolve_room_owner (read_room example_store
      \<lparr>q_room_id = ''room-1'', q_after_message_id = None, q_limit = 1\<rparr>) = Ok ''owner''"
    by (simp add: resolve_room_owner_def read_room_def read_page_from_def example_store_defs
        List.map_filter_def Let_def)
  ultimately show ?thesis
    by (simp add: room_post_as_owner_def owner_proxy_draft_def in_memory_ops_def example_post_def
        OWNER_PROXY_MESSAGE_ID_PREFIX_def map_err_def)
qed

theorem mcp_post_speaks_for_owner_witness:
  "example_posted \<in> set (history example_store_posted ''room-1'')
    \<and> human_members example_store ''room-1'' = [''owner'']"
  using mcp_post_speaks_for_owner [where between = id and src = example_store, OF _ example_post_eval] example_store_ok
  by (simp add: room_write_success_new_def example_post_def example_posted_def example_message_def)

text \<open>Posting is idempotent: a client that repeats an accepted request, at a later time,
  gets the stored message back as a duplicate, and the store is not changed.\<close>

theorem mcp_post_retry:
  assumes "store_ok src" "room_post_as_owner in_memory_ops id src input t = (src', Ok w)"
    and "valid_text t' 64"
  shows "room_post_as_owner in_memory_ops id src' input t' =
           (src', Ok (room_write_success_new Write_Duplicate (write_message w)))"
  by (rule in_memory_contract.post_retry [OF assms])

theorem mcp_post_retry_witness:
  "room_post_as_owner in_memory_ops id example_store_posted example_post ''2026-08-14'' =
     (example_store_posted, Ok (room_write_success_new Write_Duplicate example_posted))"
  using mcp_post_retry [OF example_store_ok example_post_eval, of "''2026-08-14''"]
  by (simp add: room_write_success_new_def valid_text_def trim_is_empty_def str_chars_def
      is_whitespace_def byte_class_defs)

lemma request_id_makes_message_id:
  "valid_request_id i \<Longrightarrow> valid_identifier (OWNER_PROXY_MESSAGE_ID_PREFIX @ i)"
  by (cases i) (auto simp: valid_request_id_def OWNER_PROXY_MESSAGE_ID_PREFIX_def
      all_indexed_identifier identifier_eval list_all_iff)

end
