(* ===== verification/Conductor_Ids.thy ===== *)
theory Conductor_Ids
  imports Room
begin

text \<open>
  The identities of a conductor operation (\<open>crates/moe-core/src/conductor.rs\<close>): every message
  and dispatch ID is derived from the source message and the conductor by a 128-bit FNV-1a hash
  over length-prefixed parts, so that a restarted application derives the same ones.
\<close>

unbundle bit_operations_syntax

section \<open>Limits and checks\<close>

definition CONDUCTOR_MAXIMUM_IDENTIFIER_BYTES :: nat where "CONDUCTOR_MAXIMUM_IDENTIFIER_BYTES = 128"
definition MAXIMUM_PLAN_BYTES :: nat where "MAXIMUM_PLAN_BYTES = 16000"
definition MAXIMUM_DIRECT_ANSWER_BYTES :: nat where "MAXIMUM_DIRECT_ANSWER_BYTES = 100000"
definition MAXIMUM_DELEGATION_TASK_BYTES :: nat where "MAXIMUM_DELEGATION_TASK_BYTES = 4000"
definition MAXIMUM_RESULT_TEXT_BYTES :: nat where "MAXIMUM_RESULT_TEXT_BYTES = 100000"
definition MAXIMUM_WORKERS :: nat where "MAXIMUM_WORKERS = 3"

definition conductor_valid_identifier :: "string \<Rightarrow> bool" where
  "conductor_valid_identifier value \<longleftrightarrow>
     value \<noteq> [] \<and> length value \<le> CONDUCTOR_MAXIMUM_IDENTIFIER_BYTES
     \<and> all_indexed identifier_byte value"

definition valid_bounded_text :: "string \<Rightarrow> nat \<Rightarrow> bool" where
  "valid_bounded_text value maximum_bytes \<longleftrightarrow>
     \<not> trim_is_empty value \<and> length value \<le> maximum_bytes"

lemma conductor_valid_identifier_eq: "conductor_valid_identifier = valid_identifier"
  by (auto simp: fun_eq_iff conductor_valid_identifier_def valid_identifier_def
      CONDUCTOR_MAXIMUM_IDENTIFIER_BYTES_def MAXIMUM_IDENTIFIER_BYTES_def)

section \<open>The hash\<close>

definition fnv_step :: "u64 \<Rightarrow> u8 \<Rightarrow> u64" where
  "fnv_step state byte = (state XOR ucast byte) * 0x00000100000001b3"

text \<open>\<open>u64::to_le_bytes\<close> and \<open>str::as_bytes\<close>.\<close>

definition to_le_bytes :: "u64 \<Rightarrow> u8 list" where
  "to_le_bytes n = map (\<lambda>i. ucast (drop_bit (8 * i) n)) [0..<8]"

definition as_bytes :: "string \<Rightarrow> u8 list" where
  "as_bytes s = map (\<lambda>c. word_of_nat (byte_of c)) s"

text \<open>The format \<open>{:016x}\<close>.\<close>

definition hex_digit :: "nat \<Rightarrow> char" where
  "hex_digit n = char_of (if n < 10 then 48 + n else 87 + n)"

definition hex16 :: "u64 \<Rightarrow> string" where
  "hex16 w = map (\<lambda>i. hex_digit (unat (drop_bit (4 * (15 - i)) w AND 0xf))) [0..<16]"

fun stable_bytes :: "u64 \<times> u64 \<Rightarrow> u8 list \<Rightarrow> u64 \<times> u64" where
  "stable_bytes (first, second) [] = (first, second)"
| "stable_bytes (first, second) (byte # bytes) =
     stable_bytes (fnv_step first byte, fnv_step second (byte XOR 0xa5)) bytes"

fun stable_parts :: "u64 \<times> u64 \<Rightarrow> string list \<Rightarrow> u64 \<times> u64" where
  "stable_parts st [] = st"
| "stable_parts st (part # parts) =
     stable_parts
       (stable_bytes (stable_bytes st (to_le_bytes (word_of_nat (length part)))) (as_bytes part))
       parts"

definition stable_identifier :: "string \<Rightarrow> string list \<Rightarrow> string" where
  "stable_identifier pre parts =
     (case stable_parts (0xcbf29ce484222325, 0x84222325cbf29ce4) parts of
        (first, second) \<Rightarrow> pre @ ''-'' @ hex16 first @ hex16 second)"

section \<open>The identities\<close>

datatype conductor_operation_error =
  InvalidIdentity | InvalidStage | InvalidOutcome | ConflictingReplay | UnknownWorker

record conductor_operation_ids =
  operation_id :: string
  final_message_id :: string

record conductor_delegation_ids =
  message_id :: string
  dispatch_id :: string

definition conductor_operation_ids_derive ::
  "string \<Rightarrow> string \<Rightarrow> (conductor_operation_ids, conductor_operation_error) result"
where
  "conductor_operation_ids_derive source_message_id conductor_id =
     (if \<not> conductor_valid_identifier source_message_id \<or> \<not> conductor_valid_identifier conductor_id
      then Err InvalidIdentity
      else
        (let operation_id' =
           stable_identifier ''conductor-operation-v1'' [source_message_id, conductor_id] in
         Ok \<lparr>operation_id = operation_id',
             final_message_id = stable_identifier ''conductor-final-v1'' [operation_id']\<rparr>))"

definition delegation_ids ::
  "conductor_operation_ids \<Rightarrow> string \<Rightarrow> nat
     \<Rightarrow> (conductor_delegation_ids, conductor_operation_error) result"
where
  "delegation_ids ids target_participant_id ordinal =
     (if \<not> conductor_valid_identifier target_participant_id \<or> ordinal \<ge> MAXIMUM_WORKERS
      then Err InvalidIdentity
      else
        (let parts = [operation_id ids, target_participant_id, nat_to_string ordinal] in
         Ok \<lparr>message_id = stable_identifier ''conductor-delegation-v1'' parts,
             dispatch_id = stable_identifier ''conductor-dispatch-v1'' parts\<rparr>))"

section \<open>Derived identities are valid\<close>

lemma hex_digit_alphanumeric: "n < 16 \<Longrightarrow> is_ascii_alphanumeric (hex_digit n)"
  by (auto simp: hex_digit_def byte_class_defs)

lemma length_hex16 [simp]: "length (hex16 w) = 16"
  by (simp add: hex16_def)

lemma nibble_less: "unat (w AND 0xf :: u64) < 16"
proof -
  have "w AND 0xf < (16 :: u64)"
    using word_and_le1 [of w "0xf"] by (rule le_less_trans) simp
  then show ?thesis
    by (simp add: word_less_nat_alt)
qed

lemma hex16_alphanumeric: "list_all is_ascii_alphanumeric (hex16 w)"
  by (auto simp: hex16_def list_all_iff intro!: hex_digit_alphanumeric nibble_less)

lemma stable_identifier_valid:
  assumes "conductor_valid_identifier pre" "length pre \<le> 95"
  shows "conductor_valid_identifier (stable_identifier pre parts)"
proof (cases pre)
  case Nil
  with assms show ?thesis by (simp add: conductor_valid_identifier_def)
next
  case (Cons c cs)
  obtain a b where ab: "stable_parts (0xcbf29ce484222325, 0x84222325cbf29ce4) parts = (a, b)"
    by (cases "stable_parts (0xcbf29ce484222325, 0x84222325cbf29ce4) parts")
  have "list_all identifier_tail_byte (hex16 w)" for w
    using hex16_alphanumeric [of w] by (auto simp: list_all_iff identifier_tail_byte_def)
  then show ?thesis
    using assms Cons ab
    by (simp add: stable_identifier_def conductor_valid_identifier_eq valid_identifier_Cons)
      (simp add: identifier_tail_byte_def)
qed

lemma stable_prefixes_valid:
  "conductor_valid_identifier ''conductor-operation-v1''"
  "conductor_valid_identifier ''conductor-final-v1''"
  "conductor_valid_identifier ''conductor-delegation-v1''"
  "conductor_valid_identifier ''conductor-dispatch-v1''"
  by (simp_all add: conductor_valid_identifier_eq identifier_eval)

lemma conductor_operation_ids_valid:
  assumes "conductor_operation_ids_derive m c = Ok ids"
  shows "valid_identifier (operation_id ids)" "valid_identifier (final_message_id ids)"
  using assms stable_identifier_valid [OF stable_prefixes_valid(1)]
    stable_identifier_valid [OF stable_prefixes_valid(2)]
  by (auto simp: conductor_operation_ids_derive_def Let_def conductor_valid_identifier_eq
      split: if_splits)

lemma delegation_ids_valid:
  assumes "delegation_ids ids t n = Ok d"
  shows "valid_identifier (message_id d)" "valid_identifier (dispatch_id d)"
  using assms stable_identifier_valid [OF stable_prefixes_valid(3)]
    stable_identifier_valid [OF stable_prefixes_valid(4)]
  by (auto simp: delegation_ids_def Let_def conductor_valid_identifier_eq split: if_splits)

section \<open>Identities of different roles differ\<close>

lemma stable_identifier_prefix_eq:
  assumes "stable_identifier p xs = stable_identifier q ys"
  shows "p = q"
proof -
  obtain a b c d where "stable_identifier p xs = p @ ''-'' @ hex16 a @ hex16 b"
    and "stable_identifier q ys = q @ ''-'' @ hex16 c @ hex16 d"
    by (cases "stable_parts (0xcbf29ce484222325, 0x84222325cbf29ce4) xs";
        cases "stable_parts (0xcbf29ce484222325, 0x84222325cbf29ce4) ys")
      (simp add: stable_identifier_def)
  then have "p @ ''-'' @ hex16 a @ hex16 b = q @ ''-'' @ hex16 c @ hex16 d"
    using assms by simp
  then show ?thesis
    by (subst (asm) append_eq_append_conv) auto
qed

section \<open>The hash separates what differs in one byte\<close>

lemma fnv_prime_inverse: "(0x00000100000001b3 :: u64) * 0xce965057aff6957b = 1"
  by simp

lemma fnv_prime_inj: "(a :: u64) * 0x00000100000001b3 = b * 0x00000100000001b3 \<longleftrightarrow> a = b"
proof
  assume "a * 0x00000100000001b3 = b * 0x00000100000001b3"
  then have "a * 0x00000100000001b3 * 0xce965057aff6957b = b * 0x00000100000001b3 * 0xce965057aff6957b"
    by simp
  then show "a = b"
    by (simp only: mult.assoc fnv_prime_inverse mult_1_right)
qed simp

lemma xor_cancel_right: "(a :: 'a :: len word) XOR c = b XOR c \<longleftrightarrow> a = b"
  by (metis bit.xor_self xor.assoc xor.right_neutral)

lemma xor_cancel_left: "(c :: 'a :: len word) XOR a = c XOR b \<longleftrightarrow> a = b"
  by (metis xor_cancel_right xor.commute)

lemma fnv_step_state_inj [simp]: "fnv_step s b = fnv_step t b \<longleftrightarrow> s = t"
  by (simp add: fnv_step_def fnv_prime_inj xor_cancel_right)

lemma ucast_u8_u64_u8: "(ucast (ucast (a :: u8) :: u64) :: u8) = a"
  by (rule bit_word_eqI) (simp add: bit_ucast_iff)

lemma fnv_step_byte_inj [simp]: "fnv_step s a = fnv_step s b \<longleftrightarrow> a = b"
proof -
  have "(ucast a :: u64) = ucast b \<longleftrightarrow> a = b"
    by (metis ucast_u8_u64_u8)
  then show ?thesis
    by (simp add: fnv_step_def fnv_prime_inj xor_cancel_left)
qed


text \<open>The bytes the hash reads: each part behind its length, so that the parts can be told apart.\<close>

definition framed :: "string list \<Rightarrow> u8 list" where
  "framed parts =
     concat (map (\<lambda>part. to_le_bytes (word_of_nat (length part)) @ as_bytes part) parts)"

lemma stable_bytes_append: "stable_bytes st (xs @ ys) = stable_bytes (stable_bytes st xs) ys"
  by (induction st xs rule: stable_bytes.induct) auto

lemma stable_parts_framed: "stable_parts st parts = stable_bytes st (framed parts)"
  by (induction st parts rule: stable_parts.induct) (auto simp: framed_def stable_bytes_append)

lemma stable_bytes_state_inj: "fst (stable_bytes s xs) = fst (stable_bytes t xs) \<Longrightarrow> fst s = fst t"
proof (induction s xs arbitrary: t rule: stable_bytes.induct)
  case (1 a b)
  then show ?case by (cases t) simp
next
  case (2 a b x xs)
  obtain c d where t: "t = (c, d)" by fastforce
  with 2 show ?case by fastforce
qed

lemma stable_bytes_separate:
  assumes "a \<noteq> b"
  shows "fst (stable_bytes st (xs @ a # ys)) \<noteq> fst (stable_bytes st (xs @ b # ys))"
proof
  obtain c d where st: "stable_bytes st xs = (c, d)" by fastforce
  assume "fst (stable_bytes st (xs @ a # ys)) = fst (stable_bytes st (xs @ b # ys))"
  then have "fnv_step c a = fnv_step c b"
    using stable_bytes_state_inj [of "(fnv_step c a, fnv_step d (a XOR 0xa5))" ys
        "(fnv_step c b, fnv_step d (b XOR 0xa5))"]
    by (simp add: stable_bytes_append st)
  with assms show False by simp
qed

lemma hex_digit_inj: "m < 16 \<Longrightarrow> n < 16 \<Longrightarrow> hex_digit m = hex_digit n \<longleftrightarrow> m = n"
  by (auto simp: hex_digit_def char_of_eq_iff take_bit_eq_mod split: if_splits)

lemma hex16_inj: "hex16 v = hex16 w \<longleftrightarrow> v = w"
proof
  assume hex: "hex16 v = hex16 w"
  have nibble: "drop_bit (4 * k) v AND 0xf = drop_bit (4 * k) w AND 0xf" if "k < 16" for k
  proof -
    have "hex16 v ! (15 - k) = hex16 w ! (15 - k)" "15 - (15 - k) = k"
      using hex that by simp_all
    then show ?thesis
      using that nibble_less by (simp add: hex16_def hex_digit_inj word_unat_eq_iff)
  qed
  have mask: "(0xf :: u64) = mask 4"
    by (simp add: mask_eq_exp_minus_1)
  show "v = w"
  proof (rule bit_word_eqI)
    fix n assume n: "n < LENGTH(64)"
    have "bit (drop_bit (4 * (n div 4)) v AND mask 4) (n mod 4) =
        bit (drop_bit (4 * (n div 4)) w AND mask 4) (n mod 4)"
      using nibble [of "n div 4"] n by (simp add: mask)
    moreover have "n mod 4 < 4"
      by simp
    then have "n mod 4 < 64"
      by linarith
    ultimately show "bit v n = bit w n"
      by (simp add: bit_and_iff bit_drop_bit_eq bit_mask_iff)
  qed
qed simp

lemma stable_identifier_separate:
  assumes "framed xs = us @ a # vs" "framed ys = us @ b # vs" "a \<noteq> b"
  shows "stable_identifier p xs \<noteq> stable_identifier q ys"
proof
  assume eq: "stable_identifier p xs = stable_identifier q ys"
  obtain c d e f where
    st: "stable_parts (0xcbf29ce484222325, 0x84222325cbf29ce4) xs = (c, d)"
        "stable_parts (0xcbf29ce484222325, 0x84222325cbf29ce4) ys = (e, f)"
    by fastforce
  then have "c \<noteq> e"
    using stable_bytes_separate [OF assms(3), of "(0xcbf29ce484222325, 0x84222325cbf29ce4)" us vs]
      assms(1,2) by (simp add: stable_parts_framed)
  moreover have "hex16 c = hex16 e"
    using eq stable_identifier_prefix_eq [OF eq] st by (simp add: stable_identifier_def)
  ultimately show False
    by (simp add: hex16_inj)
qed

text \<open>The framing loses nothing: it can be read back.\<close>

lemma to_le_bytes_inj: "to_le_bytes v = to_le_bytes w \<longleftrightarrow> v = w"
proof
  assume eq: "to_le_bytes v = to_le_bytes w"
  have byte: "(ucast (drop_bit (8 * k) v) :: u8) = ucast (drop_bit (8 * k) w)" if "k < 8" for k
  proof -
    have "to_le_bytes v ! k = to_le_bytes w ! k"
      using eq by simp
    then show ?thesis
      using that by (simp add: to_le_bytes_def)
  qed
  show "v = w"
  proof (rule bit_word_eqI)
    fix n assume n: "n < LENGTH(64)"
    have "bit (ucast (drop_bit (8 * (n div 8)) v) :: u8) (n mod 8) =
        bit (ucast (drop_bit (8 * (n div 8)) w) :: u8) (n mod 8)"
      using byte [of "n div 8"] n by simp
    then show "bit v n = bit w n"
      by (simp add: bit_ucast_iff bit_drop_bit_eq)
  qed
qed simp

lemma as_bytes_inj: "as_bytes s = as_bytes t \<longleftrightarrow> s = t"
proof -
  have "inj (\<lambda>c. word_of_nat (byte_of c) :: u8)"
  proof (rule injI)
    fix x y assume "(word_of_nat (byte_of x) :: u8) = word_of_nat (byte_of y)"
    moreover have "byte_of x < 256" "byte_of y < 256"
      by (simp_all add: byte_of_def)
    ultimately have "byte_of x = byte_of y"
      by (simp add: unat_of_nat word_unat_eq_iff)
    then show "x = y"
      by (simp add: byte_of_def)
  qed
  then show ?thesis
    unfolding as_bytes_def by (simp add: inj_map_eq_map)
qed

lemma framed_inj:
  assumes "list_all (\<lambda>s. length s < 2 ^ 64) xs" "list_all (\<lambda>s. length s < 2 ^ 64) ys"
  shows "framed xs = framed ys \<longleftrightarrow> xs = ys"
  using assms
proof (induction xs arbitrary: ys)
  case Nil
  then show ?case
    by (cases ys) (auto simp: framed_def to_le_bytes_def)
next
  case (Cons x xs)
  show ?case
  proof (cases ys)
    case Nil
    then show ?thesis by (auto simp: framed_def to_le_bytes_def)
  next
    case ys: (Cons y ys')
    have len: "length (to_le_bytes w) = 8" for w
      by (simp add: to_le_bytes_def)
    have n: "(word_of_nat (length x) :: u64) = word_of_nat (length y) \<longleftrightarrow> length x = length y"
      using Cons.prems ys by (simp add: word_unat_eq_iff unat_of_nat)
    show ?thesis
    proof
      assume eq: "framed (x # xs) = framed ys"
      then have "to_le_bytes (word_of_nat (length x)) = to_le_bytes (word_of_nat (length y))"
        and rest: "as_bytes x @ framed xs = as_bytes y @ framed ys'"
        using len by (auto simp: framed_def ys append_eq_append_conv)
      then have "length (as_bytes x) = length (as_bytes y)"
        by (simp add: to_le_bytes_inj n) (simp add: as_bytes_def)
      with rest have "x = y" "framed xs = framed ys'"
        by (auto simp: append_eq_append_conv as_bytes_inj)
      then show "x # xs = ys"
        using Cons.IH [of ys'] Cons.prems ys by simp
    qed simp
  qed
qed

section \<open>The identities of operations\<close>

text \<open>The bytes of the parts of an identity, and their hash.\<close>

definition part_hash :: "string list \<Rightarrow> u64 \<times> u64" where
  "part_hash parts = stable_bytes (0xcbf29ce484222325, 0x84222325cbf29ce4) (framed parts)"

lemma stable_identifier_hash:
  "stable_identifier p xs = stable_identifier q ys \<longleftrightarrow> p = q \<and> part_hash xs = part_hash ys"
proof
  assume eq: "stable_identifier p xs = stable_identifier q ys"
  note p = stable_identifier_prefix_eq [OF eq]
  show "p = q \<and> part_hash xs = part_hash ys"
    using eq p hex16_inj
    by (auto simp: stable_identifier_def part_hash_def stable_parts_framed append_eq_append_conv
        split: prod.splits)
qed (simp add: stable_identifier_def part_hash_def stable_parts_framed)

lemma nat_to_string_digit: "k < 3 \<Longrightarrow> nat_to_string k = [char_of (48 + k)]"
  by (simp add: nat_to_string.simps)

lemma nat_to_string_small_inj: "m < 3 \<Longrightarrow> n < 3 \<Longrightarrow> nat_to_string m = nat_to_string n \<longleftrightarrow> m = n"
  by (simp add: nat_to_string_digit char_of_eq_iff take_bit_eq_mod)

lemma short_identifier: "valid_identifier s \<Longrightarrow> length s < 2 ^ 64"
  by (simp add: valid_identifier_def MAXIMUM_IDENTIFIER_BYTES_def)

lemma delegation_parts_inj:
  assumes "list_all valid_identifier [x, t, y, u]" "m < 3" "n < 3"
  shows "framed [x, t, nat_to_string m] = framed [y, u, nat_to_string n] \<longleftrightarrow> x = y \<and> t = u \<and> m = n"
proof -
  have "length (nat_to_string k) < 2 ^ 64" if "k < 3" for k
    using that by (simp add: nat_to_string_digit)
  then show ?thesis
    using assms short_identifier by (subst framed_inj) (auto simp: nat_to_string_small_inj)
qed

lemma byte_word_inj: "(word_of_nat (byte_of a) :: u8) = word_of_nat (byte_of b) \<longleftrightarrow> a = b"
  using as_bytes_inj [of "[a]" "[b]"] by (simp add: as_bytes_def)

text \<open>Two identities of the same form whose parts differ in one byte are different.\<close>

lemma one_byte_separates:
  assumes "a \<noteq> b"
  shows "stable_identifier p (xs @ (us @ a # vs) # ys) \<noteq> stable_identifier q (xs @ (us @ b # vs) # ys)"
proof -
  have frame: "framed (xs @ (us @ c # vs) # ys) =
      (framed xs @ to_le_bytes (word_of_nat (Suc (length us + length vs))) @ as_bytes us)
        @ word_of_nat (byte_of c) # as_bytes vs @ framed ys" for c
    by (simp add: framed_def as_bytes_def)
  show ?thesis
    by (rule stable_identifier_separate [OF frame frame]) (simp add: byte_word_inj assms)
qed

text \<open>C18: All the identities of an operation can be used as message and dispatch identifiers, and
  none is taken for another: whatever the operations, the targets and the positions, an identity of
  one role is never one of another role. Within a role, the identities of two delegations are equal
  exactly when the hashes of their parts are, and the bytes that are hashed are the same for the
  same operation, target and position only; those of two operations whose source messages, or
  whose conductors, differ in one byte are always different.\<close>

theorem conductor_ids_separate_roles:
  assumes "conductor_operation_ids_derive source conductor = Ok ids"
    and "conductor_operation_ids_derive source' conductor' = Ok ids'"
    and "delegation_ids ids target m = Ok d" "delegation_ids ids' target' n = Ok e"
  shows "list_all valid_identifier [operation_id ids, final_message_id ids, message_id d, dispatch_id d]
    \<and> operation_id ids \<notin> {final_message_id ids', message_id e, dispatch_id e}
    \<and> final_message_id ids \<notin> {message_id e, dispatch_id e} \<and> message_id d \<noteq> dispatch_id e
    \<and> (let parts = [operation_id ids, target, nat_to_string m];
           parts' = [operation_id ids', target', nat_to_string n] in
       (message_id d = message_id e \<longleftrightarrow> part_hash parts = part_hash parts')
       \<and> (dispatch_id d = dispatch_id e \<longleftrightarrow> part_hash parts = part_hash parts')
       \<and> (framed parts = framed parts' \<longleftrightarrow>
            operation_id ids = operation_id ids' \<and> target = target' \<and> m = n))
    \<and> (\<forall>us a b vs. a \<noteq> b \<longrightarrow>
         source = us @ a # vs \<and> source' = us @ b # vs \<and> conductor = conductor'
         \<or> source = source' \<and> conductor = us @ a # vs \<and> conductor' = us @ b # vs \<longrightarrow>
         operation_id ids \<noteq> operation_id ids')"
proof -
  have op: "operation_id ids = stable_identifier ''conductor-operation-v1'' [source, conductor]"
      "operation_id ids' = stable_identifier ''conductor-operation-v1'' [source', conductor']"
    and final: "\<exists>xs. final_message_id ids = stable_identifier ''conductor-final-v1'' xs"
      "\<exists>xs. final_message_id ids' = stable_identifier ''conductor-final-v1'' xs"
    using assms(1,2) by (auto simp: conductor_operation_ids_derive_def Let_def split: if_splits)
  have roles: "message_id x = stable_identifier ''conductor-delegation-v1'' [operation_id i, u, nat_to_string k]
      \<and> dispatch_id x = stable_identifier ''conductor-dispatch-v1'' [operation_id i, u, nat_to_string k]
      \<and> valid_identifier u \<and> k < 3"
    if "delegation_ids i u k = Ok x" for i u k x
    using that by (auto simp: delegation_ids_def Let_def MAXIMUM_WORKERS_def
        conductor_valid_identifier_eq split: if_splits)
  note valid = conductor_operation_ids_valid [OF assms(1)] conductor_operation_ids_valid [OF assms(2)]
    delegation_ids_valid [OF assms(3)]
  have "operation_id ids \<noteq> operation_id ids'"
    if "a \<noteq> b" "source = us @ a # vs \<and> source' = us @ b # vs \<and> conductor = conductor'
         \<or> source = source' \<and> conductor = us @ a # vs \<and> conductor' = us @ b # vs" for us a b vs
    using that one_byte_separates [OF that(1), of _ "[]" us vs "[conductor]"]
      one_byte_separates [OF that(1), of _ "[source]" us vs "[]"] op by auto
  moreover have "framed [operation_id ids, target, nat_to_string m] = framed [operation_id ids', target', nat_to_string n]
      \<longleftrightarrow> operation_id ids = operation_id ids' \<and> target = target' \<and> m = n"
    using valid roles [OF assms(3)] roles [OF assms(4)] by (intro delegation_parts_inj) simp_all
  ultimately show ?thesis
    using valid roles [OF assms(3)] roles [OF assms(4)] final
    by (auto simp: Let_def op(1) stable_identifier_hash) (simp_all add: op stable_identifier_hash)
qed

definition example_ids :: conductor_operation_ids where
  "example_ids = \<lparr>operation_id = stable_identifier ''conductor-operation-v1'' [''source-1'', ''codex''],
     final_message_id = stable_identifier ''conductor-final-v1''
       [stable_identifier ''conductor-operation-v1'' [''source-1'', ''codex'']]\<rparr>"

definition example_delegation :: "nat \<Rightarrow> conductor_delegation_ids" where
  "example_delegation n =
     \<lparr>message_id = stable_identifier ''conductor-delegation-v1''
        [operation_id example_ids, ''gemini'', nat_to_string n],
      dispatch_id = stable_identifier ''conductor-dispatch-v1''
        [operation_id example_ids, ''gemini'', nat_to_string n]\<rparr>"

lemma example_ids_derive: "conductor_operation_ids_derive ''source-1'' ''codex'' = Ok example_ids"
  by (simp add: conductor_operation_ids_derive_def conductor_valid_identifier_eq identifier_eval
      example_ids_def Let_def)

lemma example_delegation_ids:
  "n < 3 \<Longrightarrow> delegation_ids example_ids ''gemini'' n = Ok (example_delegation n)"
  by (simp add: delegation_ids_def conductor_valid_identifier_eq identifier_eval
      example_delegation_def MAXIMUM_WORKERS_def Let_def)

lemma example_ids_derive': "conductor_operation_ids_derive ''source-2'' ''codex'' = Ok
    \<lparr>operation_id = stable_identifier ''conductor-operation-v1'' [''source-2'', ''codex''],
     final_message_id = stable_identifier ''conductor-final-v1''
       [stable_identifier ''conductor-operation-v1'' [''source-2'', ''codex'']]\<rparr>"
  by (simp add: conductor_operation_ids_derive_def conductor_valid_identifier_eq identifier_eval Let_def)

theorem conductor_ids_separate_roles_witness:
  "operation_id example_ids \<noteq> stable_identifier ''conductor-operation-v1'' [''source-2'', ''codex'']
   \<and> message_id (example_delegation 0) \<noteq> dispatch_id (example_delegation 1)"
proof -
  have "delegation_ids \<lparr>operation_id = stable_identifier ''conductor-operation-v1'' [''source-2'', ''codex''],
     final_message_id = stable_identifier ''conductor-final-v1''
       [stable_identifier ''conductor-operation-v1'' [''source-2'', ''codex'']]\<rparr> ''gemini'' 1 = Ok
    \<lparr>message_id = stable_identifier ''conductor-delegation-v1''
        [stable_identifier ''conductor-operation-v1'' [''source-2'', ''codex''], ''gemini'', nat_to_string 1],
      dispatch_id = stable_identifier ''conductor-dispatch-v1''
        [stable_identifier ''conductor-operation-v1'' [''source-2'', ''codex''], ''gemini'', nat_to_string 1]\<rparr>"
    by (simp add: delegation_ids_def conductor_valid_identifier_eq identifier_eval MAXIMUM_WORKERS_def Let_def)
  note two = conductor_ids_separate_roles [OF example_ids_derive example_ids_derive'
      example_delegation_ids [of 0, simplified] this]
  have "operation_id example_ids \<noteq> stable_identifier ''conductor-operation-v1'' [''source-2'', ''codex'']"
    using two [THEN conjunct2, THEN conjunct2, THEN conjunct2, THEN conjunct2, THEN conjunct2,
        THEN spec [where x = "''source-''"], THEN spec [where x = "CHR ''1''"],
        THEN spec [where x = "CHR ''2''"], THEN spec [where x = "[]"]]
    by simp
  moreover have "message_id (example_delegation 0) \<noteq> dispatch_id (example_delegation 1)"
    using conductor_ids_separate_roles [OF example_ids_derive example_ids_derive
      example_delegation_ids [of 0, simplified] example_delegation_ids [of 1, simplified]]
    by simp
  ultimately show ?thesis ..
qed

end
