(* ===== verification/Conductor_Plan.thy ===== *)
theory Conductor_Plan
  imports Conductor_Ids
begin

text \<open>
  The plan an AI conductor answers with (\<open>crates/moe-core/src/conductor.rs\<close>): its parser refuses
  everything but a direct answer or one to three delegations to distinct capable AI members of
  the Room. \<open>serde\_json::from\_slice\<close> is a parameter.
\<close>

section \<open>Data\<close>

definition CONDUCTOR_PLAN_V1_CAPABILITY :: string where
  "CONDUCTOR_PLAN_V1_CAPABILITY = ''conductorPlanV1''"

datatype conductor_capabilities = ConductorCapabilities (conductor_plan_v1_capable: bool)

definition conductor_capabilities_default :: conductor_capabilities where
  "conductor_capabilities_default = ConductorCapabilities False"

record conductor_participant =
  cp_id :: string
  cp_kind :: room_participant_kind
  can_receive_delegation :: bool

record conductor_plan_context =
  ctxt_owner_id :: string
  ctxt_conductor_id :: string
  ctxt_participants :: "conductor_participant list"

datatype conductor_plan_mode = Answer | Delegate

record conductor_delegation =
  target_participant_id :: string
  task :: string

record conductor_plan_v1 =
  plan_version :: u8
  plan_mode :: conductor_plan_mode
  plan_direct_answer :: "string option"
  plan_delegations :: "conductor_delegation list"

datatype conductor_plan_error =
  InvalidContext | InvalidUtf8 | EnvelopeTooLarge | InvalidEnvelope | UnsupportedVersion
  | InvalidDirectAnswer | InvalidDelegationCount | InvalidDelegationTask | DuplicateTarget
  | TargetIsOwner | TargetIsConductor | TargetNotRoomMember | TargetIsHuman | TargetUnsupported

text \<open>\<open>serde\_json::Value\<close>; a number is its text.\<close>

datatype json_value =
  Null | Bool bool | Number string | String string | Array "json_value list"
  | Object "(string \<times> json_value) list"

record raw_conductor_plan_v1 =
  raw_version :: u8
  raw_mode :: conductor_plan_mode
  raw_direct_answer :: json_value
  raw_delegations :: "conductor_delegation list"

section \<open>Checks\<close>

definition validate_context :: "conductor_plan_context \<Rightarrow> (unit, conductor_plan_error) result" where
  "validate_context ctxt =
     (if \<not> conductor_valid_identifier (ctxt_owner_id ctxt)
         \<or> \<not> conductor_valid_identifier (ctxt_conductor_id ctxt)
         \<or> ctxt_owner_id ctxt = ctxt_conductor_id ctxt
      then Err InvalidContext
      else if \<not> all_unseen (\<lambda>participant. conductor_valid_identifier (cp_id participant)) cp_id {}
                  (ctxt_participants ctxt)
      then Err InvalidContext
      else
        (let owner = find (\<lambda>participant. cp_id participant = ctxt_owner_id ctxt)
               (ctxt_participants ctxt);
             conductor = find (\<lambda>participant. cp_id participant = ctxt_conductor_id ctxt)
               (ctxt_participants ctxt) in
         if \<not> is_some_and owner (\<lambda>participant. cp_kind participant = Human)
            \<or> \<not> is_some_and conductor (\<lambda>participant. cp_kind participant = Ai)
         then Err InvalidContext
         else Ok ()))"

fun validate_delegations_loop ::
  "conductor_plan_context \<Rightarrow> string set \<Rightarrow> conductor_delegation list
     \<Rightarrow> (unit, conductor_plan_error) result"
where
  "validate_delegations_loop ctxt targets [] = Ok ()"
| "validate_delegations_loop ctxt targets (delegation # delegations) =
     (let target = target_participant_id delegation in
      if \<not> valid_bounded_text (task delegation) MAXIMUM_DELEGATION_TASK_BYTES
      then Err InvalidDelegationTask
      else if target = ctxt_owner_id ctxt then Err TargetIsOwner
      else if target = ctxt_conductor_id ctxt then Err TargetIsConductor
      else if target \<in> targets then Err DuplicateTarget
      else
        (case find (\<lambda>participant. cp_id participant = target) (ctxt_participants ctxt) of
           None \<Rightarrow> Err TargetNotRoomMember
         | Some participant \<Rightarrow>
             if cp_kind participant \<noteq> Ai then Err TargetIsHuman
             else if \<not> can_receive_delegation participant then Err TargetUnsupported
             else validate_delegations_loop ctxt (insert target targets) delegations))"

definition validate_delegations ::
  "conductor_delegation list \<Rightarrow> conductor_plan_context \<Rightarrow> (unit, conductor_plan_error) result"
where
  "validate_delegations delegations ctxt = validate_delegations_loop ctxt {} delegations"

section \<open>The parser\<close>

definition parse_conductor_plan_v1 ::
  "(string \<Rightarrow> raw_conductor_plan_v1 option) \<Rightarrow> string \<Rightarrow> conductor_plan_context
     \<Rightarrow> (conductor_plan_v1, conductor_plan_error) result"
where
  "parse_conductor_plan_v1 from_slice input ctxt =
     (case validate_context ctxt of
        Inl e \<Rightarrow> Err e
      | Inr _ \<Rightarrow>
        if length input > MAXIMUM_PLAN_BYTES then Err EnvelopeTooLarge
        else if \<not> from_utf8_ok input then Err InvalidUtf8
        else
          (case from_slice input of
             None \<Rightarrow> Err InvalidEnvelope
           | Some raw \<Rightarrow>
             if raw_version raw \<noteq> 1 then Err UnsupportedVersion
             else
               (case (case raw_direct_answer raw of
                        Null \<Rightarrow> Ok None
                      | String answer \<Rightarrow> Ok (Some answer)
                      | _ \<Rightarrow> Err InvalidDirectAnswer) of
                  Inl e \<Rightarrow> Err e
                | Inr direct_answer \<Rightarrow>
                  (case raw_mode raw of
                     Answer \<Rightarrow>
                       if raw_delegations raw = []
                          \<and> is_some_and direct_answer
                               (\<lambda>answer. valid_bounded_text answer MAXIMUM_DIRECT_ANSWER_BYTES)
                       then Ok \<lparr>plan_version = 1, plan_mode = raw_mode raw,
                                plan_direct_answer = direct_answer, plan_delegations = []\<rparr>
                       else Err InvalidDirectAnswer
                   | Delegate \<Rightarrow>
                       if direct_answer \<noteq> None
                          \<or> \<not> (1 \<le> length (raw_delegations raw)
                                \<and> length (raw_delegations raw) \<le> MAXIMUM_WORKERS)
                       then Err InvalidDelegationCount
                       else
                         (case validate_delegations (raw_delegations raw) ctxt of
                            Inl e \<Rightarrow> Err e
                          | Inr _ \<Rightarrow>
                              Ok \<lparr>plan_version = 1, plan_mode = raw_mode raw,
                                  plan_direct_answer = None,
                                  plan_delegations = raw_delegations raw\<rparr>)))))"

section \<open>What it accepts\<close>

text \<open>The people and AIs of the Room are known and distinct; its owner is one of the people, the
  conductor one of the AIs.\<close>

definition context_ok :: "conductor_plan_context \<Rightarrow> bool" where
  "context_ok ctxt \<longleftrightarrow>
     (\<forall>p \<in> set (ctxt_participants ctxt). valid_identifier (cp_id p))
     \<and> distinct (map cp_id (ctxt_participants ctxt))
     \<and> (\<exists>p \<in> set (ctxt_participants ctxt). cp_id p = ctxt_owner_id ctxt \<and> cp_kind p = Human)
     \<and> (\<exists>p \<in> set (ctxt_participants ctxt). cp_id p = ctxt_conductor_id ctxt \<and> cp_kind p = Ai)"

definition delegation_ok :: "conductor_plan_context \<Rightarrow> conductor_delegation \<Rightarrow> bool" where
  "delegation_ok ctxt d \<longleftrightarrow>
     valid_bounded_text (task d) 4000
     \<and> target_participant_id d \<noteq> ctxt_conductor_id ctxt
     \<and> (\<exists>p \<in> set (ctxt_participants ctxt).
          cp_id p = target_participant_id d \<and> cp_kind p = Ai \<and> can_receive_delegation p)"

definition plan_ok :: "conductor_plan_context \<Rightarrow> conductor_plan_v1 \<Rightarrow> bool" where
  "plan_ok ctxt plan \<longleftrightarrow>
     plan_version plan = 1
     \<and> (case plan_mode plan of
          Answer \<Rightarrow> plan_delegations plan = []
            \<and> (\<exists>a. plan_direct_answer plan = Some a \<and> valid_bounded_text a 100000)
        | Delegate \<Rightarrow> plan_direct_answer plan = None
            \<and> plan_delegations plan \<noteq> [] \<and> length (plan_delegations plan) \<le> 3
            \<and> distinct (map target_participant_id (plan_delegations plan))
            \<and> list_all (delegation_ok ctxt) (plan_delegations plan))"

lemma find_key_eq:
  assumes "distinct (map f xs)"
  shows "find (\<lambda>y. f y = k) xs = Some x \<longleftrightarrow> x \<in> set xs \<and> f x = k"
  using find_by_key [OF assms] find_SomeD [of "\<lambda>y. f y = k" xs] by auto

lemma find_key_None: "find (\<lambda>y. f y = k) xs = None \<longleftrightarrow> k \<notin> f ` set xs"
  by (auto simp: find_None_iff)

lemma validate_context_iff: "validate_context ctxt = Ok () \<longleftrightarrow> context_ok ctxt"
proof (cases "all_unseen (\<lambda>p. valid_identifier (cp_id p)) cp_id {} (ctxt_participants ctxt)")
  case True
  then have d: "distinct (map cp_id (ctxt_participants ctxt))"
    and v: "\<forall>p \<in> set (ctxt_participants ctxt). valid_identifier (cp_id p)"
    by (auto simp: all_unseen_iff list_all_iff)
  let ?has = "\<lambda>i k. \<exists>p \<in> set (ctxt_participants ctxt). cp_id p = i \<and> cp_kind p = k"
  have has: "is_some_and (find (\<lambda>p. cp_id p = i) (ctxt_participants ctxt)) (\<lambda>p. cp_kind p = k) \<longleftrightarrow>
      ?has i k" for i k
    by (auto simp: is_some_and_iff find_key_eq [OF d])
  have "p = q" if "p \<in> set (ctxt_participants ctxt)" "q \<in> set (ctxt_participants ctxt)"
    "cp_id p = cp_id q" for p q
    using d that by (auto simp: distinct_map dest: inj_onD)
  then have "\<not> (?has i Human \<and> ?has i Ai)" for i
    by (metis room_participant_kind.distinct(1))
  moreover have "valid_identifier i" if "?has i k" for i k
    using v that by auto
  ultimately show ?thesis
    unfolding validate_context_def context_ok_def conductor_valid_identifier_eq Let_def has
    using True d v by auto metis+
next
  case False
  then show ?thesis
    by (auto simp: validate_context_def conductor_valid_identifier_eq context_ok_def all_unseen_iff
        list_all_iff)
qed

lemma validate_delegations_loop_iff:
  assumes ctxt: "context_ok ctxt"
  shows "validate_delegations_loop ctxt targets ds = Ok () \<longleftrightarrow>
     list_all (delegation_ok ctxt) ds \<and> distinct (map target_participant_id ds)
     \<and> target_participant_id ` set ds \<inter> targets = {}"
proof (induction ds arbitrary: targets)
  case (Cons d ds)
  let ?t = "target_participant_id d"
  have dist: "distinct (map cp_id (ctxt_participants ctxt))"
    using ctxt by (simp add: context_ok_def)
  have uniq: "p = q" if "p \<in> set (ctxt_participants ctxt)" "q \<in> set (ctxt_participants ctxt)"
    "cp_id p = cp_id q" for p q
    using dist that by (auto simp: distinct_map dest: inj_onD)
  have not_owner: "?t \<noteq> ctxt_owner_id ctxt" if "delegation_ok ctxt d"
    using ctxt that uniq by (fastforce simp: context_ok_def delegation_ok_def)
  show ?case
  proof (cases "find (\<lambda>p. cp_id p = ?t) (ctxt_participants ctxt)")
    case None
    then have "\<not> delegation_ok ctxt d"
      by (auto simp: find_key_None delegation_ok_def image_iff)
    with None show ?thesis
      by (simp add: Let_def)
  next
    case (Some p)
    then have p: "p \<in> set (ctxt_participants ctxt)" "cp_id p = ?t"
      by (simp_all add: find_key_eq [OF dist])
    then have "delegation_ok ctxt d \<longleftrightarrow> valid_bounded_text (task d) 4000
        \<and> ?t \<noteq> ctxt_conductor_id ctxt \<and> cp_kind p = Ai \<and> can_receive_delegation p"
      unfolding delegation_ok_def by (metis p uniq)
    then show ?thesis
      using Some not_owner Cons.IH [of "insert ?t targets"]
      by (auto simp: Let_def MAXIMUM_DELEGATION_TASK_BYTES_def)
  qed
qed simp

lemma result_unit_cases: "(r :: (unit, 'e) result) = Ok () \<or> (\<exists>e. r = Err e)"
  by (cases r) auto

lemma parse_conductor_plan_accepts_iff:
  "parse_conductor_plan_v1 from_slice input ctxt = Ok plan \<longleftrightarrow>
     context_ok ctxt \<and> length input \<le> 16000 \<and> from_utf8_ok input
     \<and> plan_ok ctxt plan
     \<and> from_slice input = Some
         \<lparr>raw_version = plan_version plan, raw_mode = plan_mode plan,
          raw_direct_answer = (case plan_direct_answer plan of None \<Rightarrow> Null | Some a \<Rightarrow> String a),
          raw_delegations = plan_delegations plan\<rparr>"
proof (cases "context_ok ctxt \<and> length input \<le> 16000 \<and> from_utf8_ok input")
  case True
  then have v: "validate_context ctxt = Ok ()"
    by (simp add: validate_context_iff)
  note ds = validate_delegations_loop_iff [of ctxt "{}"]
  show ?thesis
  proof (cases "from_slice input")
    case None
    then show ?thesis by (simp add: parse_conductor_plan_v1_def v)
  next
    case (Some raw)
    obtain ver md da dels where raw: "raw = \<lparr>raw_version = ver, raw_mode = md,
        raw_direct_answer = da, raw_delegations = dels\<rparr>" by (cases raw)
    obtain ver' md' da' dels' where plan: "plan = \<lparr>plan_version = ver', plan_mode = md',
        plan_direct_answer = da', plan_delegations = dels'\<rparr>" by (cases plan)
    show ?thesis
      using True Some v raw plan ds [of dels] ds [of dels'] result_unit_cases [of "validate_delegations dels ctxt"]
      by (cases md; cases md'; cases da; cases da')
        (auto simp: parse_conductor_plan_v1_def plan_ok_def MAXIMUM_PLAN_BYTES_def
          MAXIMUM_DIRECT_ANSWER_BYTES_def MAXIMUM_WORKERS_def validate_delegations_def Suc_le_eq
          split: if_splits sum.splits)
  qed
next
  case False
  then show ?thesis
    using result_unit_cases [of "validate_context ctxt"] validate_context_iff [of ctxt]
    by (auto simp: parse_conductor_plan_v1_def MAXIMUM_PLAN_BYTES_def split: if_splits)
qed

text \<open>C17: The plan parser accepts exactly the answers it is meant to accept: the Room is as
  required, the text is within 16,000 bytes of UTF-8, its version is 1, and the plan is either a
  non-empty direct answer without delegations or one to three bounded tasks for distinct AI
  members that can receive them, never the owner, the conductor or another person. The plan it
  yields says what the text said.\<close>

theorem parse_conductor_plan_accepts_exactly:
  "parse_conductor_plan_v1 from_slice input ctxt = Ok plan \<longleftrightarrow>
     context_ok ctxt \<and> length input \<le> 16000 \<and> from_utf8_ok input
     \<and> plan_ok ctxt plan
     \<and> from_slice input = Some
         \<lparr>raw_version = plan_version plan, raw_mode = plan_mode plan,
          raw_direct_answer = (case plan_direct_answer plan of None \<Rightarrow> Null | Some a \<Rightarrow> String a),
          raw_delegations = plan_delegations plan\<rparr>"
  by (rule parse_conductor_plan_accepts_iff)

end
