(* ===== verification/Conductor_Op.thy ===== *)
theory Conductor_Op
  imports Conductor_Plan
begin

text \<open>
  \<open>ConductorOperation\<close> (\<open>crates/moe-core/src/conductor.rs\<close>): one run of a conductor, from the
  owner's message to the saved answer. Every operation takes the state and returns it updated
  with its result.
\<close>

section \<open>State\<close>

datatype conductor_operation_stage =
  Prepared | Planning | Delegating | Synthesizing | Completed | Failed | Unknown

datatype worker_outcome =
  Worker_Succeeded (reply_message_id: string) (reply_body: string)
| Worker_Failed (failure_reason: string)
| Worker_Unknown

record conductor_delegation_state =
  state_delegation :: conductor_delegation
  state_ids :: conductor_delegation_ids
  state_outcome :: "worker_outcome option"

datatype conductor_next_action =
  BeginPlanning
| RequestPlan string
| DispatchWorkers "conductor_delegation_state list"
| RequestSynthesis string "conductor_delegation_state list"
| SaveFinalAnswer string string

record conductor_operation =
  op_ids :: conductor_operation_ids
  op_source_message_id :: string
  op_conductor_id :: string
  op_stage :: conductor_operation_stage
  op_plan :: "conductor_plan_v1 option"
  op_delegations :: "conductor_delegation_state list"
  op_pending_final_answer :: "string option"

fun valid_worker_outcome :: "worker_outcome \<Rightarrow> bool" where
  "valid_worker_outcome (Worker_Succeeded reply_id body) \<longleftrightarrow>
     conductor_valid_identifier reply_id \<and> valid_bounded_text body MAXIMUM_RESULT_TEXT_BYTES"
| "valid_worker_outcome (Worker_Failed reason) \<longleftrightarrow>
     valid_bounded_text reason MAXIMUM_DELEGATION_TASK_BYTES"
| "valid_worker_outcome Worker_Unknown \<longleftrightarrow> True"

section \<open>Operations\<close>

definition conductor_operation_try_new ::
  "string \<Rightarrow> string \<Rightarrow> (conductor_operation, conductor_operation_error) result"
where
  "conductor_operation_try_new source_message_id conductor_id =
     (case conductor_operation_ids_derive source_message_id conductor_id of
        Inl e \<Rightarrow> Err e
      | Inr ids \<Rightarrow>
          Ok \<lparr>op_ids = ids, op_source_message_id = source_message_id,
              op_conductor_id = conductor_id, op_stage = Prepared, op_plan = None,
              op_delegations = [], op_pending_final_answer = None\<rparr>)"

definition next_action :: "conductor_operation \<Rightarrow> conductor_next_action option" where
  "next_action op =
     (case op_stage op of
        Prepared \<Rightarrow> Some BeginPlanning
      | Planning \<Rightarrow> Some (RequestPlan (operation_id (op_ids op)))
      | Delegating \<Rightarrow>
          (let pending = filter (\<lambda>d. state_outcome d = None) (op_delegations op) in
           if pending \<noteq> [] then Some (DispatchWorkers pending) else None)
      | Synthesizing \<Rightarrow>
          (case op_pending_final_answer op of
             Some body \<Rightarrow> Some (SaveFinalAnswer (final_message_id (op_ids op)) body)
           | None \<Rightarrow> Some (RequestSynthesis (operation_id (op_ids op)) (op_delegations op)))
      | _ \<Rightarrow> None)"

definition begin_planning ::
  "conductor_operation \<Rightarrow> conductor_operation \<times> (unit, conductor_operation_error) result"
where
  "begin_planning op =
     (case op_stage op of
        Prepared \<Rightarrow> (op\<lparr>op_stage := Planning\<rparr>, Ok ())
      | Planning \<Rightarrow> (op, Ok ())
      | _ \<Rightarrow> (op, Err InvalidStage))"

text \<open>The loop of \<open>accept\_plan\<close> over the delegations, with the ordinal and the targets seen.\<close>

fun accept_delegations ::
  "conductor_operation_ids \<Rightarrow> nat \<Rightarrow> string set \<Rightarrow> conductor_delegation list
     \<Rightarrow> (conductor_delegation_state list, conductor_operation_error) result"
where
  "accept_delegations ids ordinal targets [] = Ok []"
| "accept_delegations ids ordinal targets (d # ds) =
     (if \<not> conductor_valid_identifier (target_participant_id d)
         \<or> \<not> valid_bounded_text (task d) MAXIMUM_DELEGATION_TASK_BYTES
         \<or> target_participant_id d \<in> targets
      then Err InvalidOutcome
      else
        (case delegation_ids ids (target_participant_id d) ordinal of
           Inl e \<Rightarrow> Err e
         | Inr dids \<Rightarrow>
             (case accept_delegations ids (ordinal + 1) (insert (target_participant_id d) targets) ds of
                Inl e \<Rightarrow> Err e
              | Inr states \<Rightarrow>
                  Ok (\<lparr>state_delegation = d, state_ids = dids, state_outcome = None\<rparr> # states))))"

definition accept_plan ::
  "conductor_operation \<Rightarrow> conductor_plan_v1
     \<Rightarrow> conductor_operation \<times> (unit, conductor_operation_error) result"
where
  "accept_plan op plan =
     (case op_plan op of
        Some existing \<Rightarrow> if existing = plan then (op, Ok ()) else (op, Err ConflictingReplay)
      | None \<Rightarrow>
        if op_stage op \<noteq> Planning then (op, Err InvalidStage)
        else
          (case plan_mode plan of
             Answer \<Rightarrow>
               (case plan_direct_answer plan of
                  None \<Rightarrow> (op, Err InvalidOutcome)
                | Some answer \<Rightarrow>
                    if \<not> valid_bounded_text answer MAXIMUM_DIRECT_ANSWER_BYTES
                    then (op, Err InvalidOutcome)
                    else if plan_delegations plan \<noteq> [] then (op, Err InvalidOutcome)
                    else (op\<lparr>op_pending_final_answer := Some answer, op_stage := Synthesizing,
                             op_plan := Some plan\<rparr>, Ok ()))
           | Delegate \<Rightarrow>
               if plan_direct_answer plan \<noteq> None
                  \<or> \<not> (1 \<le> length (plan_delegations plan)
                        \<and> length (plan_delegations plan) \<le> MAXIMUM_WORKERS)
               then (op, Err InvalidOutcome)
               else
                 (case accept_delegations (op_ids op) 0 {} (plan_delegations plan) of
                    Inl e \<Rightarrow> (op, Err e)
                  | Inr states \<Rightarrow>
                      (op\<lparr>op_delegations := states, op_stage := Delegating, op_plan := Some plan\<rparr>,
                       Ok ()))))"

definition record_worker_outcome ::
  "conductor_operation \<Rightarrow> string \<Rightarrow> worker_outcome
     \<Rightarrow> conductor_operation \<times> (unit, conductor_operation_error) result"
where
  "record_worker_outcome op target outcome =
     (let matches = (\<lambda>state. target_participant_id (state_delegation state) = target) in
      case find matches (op_delegations op) of
        None \<Rightarrow> (op, Err UnknownWorker)
      | Some state \<Rightarrow>
          (case state_outcome state of
             Some existing \<Rightarrow>
               if existing = outcome then (op, Ok ()) else (op, Err ConflictingReplay)
           | None \<Rightarrow>
               if op_stage op \<noteq> Delegating \<or> \<not> valid_worker_outcome outcome
               then (op, Err InvalidOutcome)
               else
                 (let ds = update_first matches (\<lambda>state. state\<lparr>state_outcome := Some outcome\<rparr>)
                        (op_delegations op);
                      op' = op\<lparr>op_delegations := ds\<rparr> in
                  if list_all (\<lambda>d. state_outcome d \<noteq> None) ds
                  then (op'\<lparr>op_stage := Synthesizing\<rparr>, Ok ()) else (op', Ok ()))))"

definition record_synthesis ::
  "conductor_operation \<Rightarrow> string \<Rightarrow> conductor_operation \<times> (unit, conductor_operation_error) result"
where
  "record_synthesis op answer =
     (case op_pending_final_answer op of
        Some existing \<Rightarrow> if existing = answer then (op, Ok ()) else (op, Err ConflictingReplay)
      | None \<Rightarrow>
          if op_stage op \<noteq> Synthesizing
             \<or> (case op_plan op of None \<Rightarrow> True | Some plan \<Rightarrow> plan_mode plan \<noteq> Delegate)
             \<or> \<not> valid_bounded_text answer MAXIMUM_RESULT_TEXT_BYTES
          then (op, Err InvalidOutcome)
          else (op\<lparr>op_pending_final_answer := Some answer\<rparr>, Ok ()))"

definition mark_final_saved ::
  "conductor_operation \<Rightarrow> conductor_operation \<times> (unit, conductor_operation_error) result"
where
  "mark_final_saved op =
     (if op_stage op = Synthesizing \<and> op_pending_final_answer op \<noteq> None
      then (op\<lparr>op_stage := Completed\<rparr>, Ok ())
      else if op_stage op = Completed then (op, Ok ())
      else (op, Err InvalidStage))"

definition mark_failed ::
  "conductor_operation \<Rightarrow> conductor_operation \<times> (unit, conductor_operation_error) result"
where
  "mark_failed op =
     (if op_stage op \<in> {Completed, Failed, Unknown}
      then (if op_stage op = Failed then (op, Ok ()) else (op, Err InvalidStage))
      else (op\<lparr>op_stage := Failed\<rparr>, Ok ()))"

definition mark_external_unknown ::
  "conductor_operation \<Rightarrow> conductor_operation \<times> (unit, conductor_operation_error) result"
where
  "mark_external_unknown op =
     (if op_stage op \<in> {Completed, Failed, Unknown}
      then (if op_stage op = Unknown then (op, Ok ()) else (op, Err InvalidStage))
      else (op\<lparr>op_stage := Unknown\<rparr>, Ok ()))"

lemmas conductor_ops_defs = begin_planning_def accept_plan_def record_worker_outcome_def
  record_synthesis_def mark_final_saved_def mark_failed_def mark_external_unknown_def

section \<open>The operations as one machine\<close>

datatype conductor_event =
  EvBeginPlanning | EvAcceptPlan conductor_plan_v1 | EvWorkerOutcome string worker_outcome
| EvSynthesis string | EvFinalSaved | EvFailed | EvExternalUnknown

fun conductor_call ::
  "conductor_operation \<Rightarrow> conductor_event
     \<Rightarrow> conductor_operation \<times> (unit, conductor_operation_error) result"
where
  "conductor_call op EvBeginPlanning = begin_planning op"
| "conductor_call op (EvAcceptPlan plan) = accept_plan op plan"
| "conductor_call op (EvWorkerOutcome target outcome) = record_worker_outcome op target outcome"
| "conductor_call op (EvSynthesis answer) = record_synthesis op answer"
| "conductor_call op EvFinalSaved = mark_final_saved op"
| "conductor_call op EvFailed = mark_failed op"
| "conductor_call op EvExternalUnknown = mark_external_unknown op"

definition conductor_step :: "conductor_operation \<Rightarrow> conductor_event \<Rightarrow> conductor_operation" where
  "conductor_step op e = fst (conductor_call op e)"

section \<open>The invariant\<close>

text \<open>The delegations are those of the plan, each under the IDs its target and position give it,
  and what was recorded of them is well-formed.\<close>

definition delegations_follow_plan ::
  "conductor_operation_ids \<Rightarrow> nat \<Rightarrow> conductor_delegation list \<Rightarrow> conductor_delegation_state list \<Rightarrow> bool"
where
  "delegations_follow_plan ids n ds states \<longleftrightarrow>
     map state_delegation states = ds
     \<and> (\<forall>i < length states. delegation_ids ids (target_participant_id (ds ! i)) (n + i)
           = Ok (state_ids (states ! i)))
     \<and> distinct (map target_participant_id ds)
     \<and> (\<forall>s \<in> set states. \<forall>r. state_outcome s = Some r \<longrightarrow> valid_worker_outcome r)"

definition all_reported :: "conductor_operation \<Rightarrow> bool" where
  "all_reported op \<longleftrightarrow> list_all (\<lambda>d. state_outcome d \<noteq> None) (op_delegations op)"

definition conductor_ok :: "conductor_operation \<Rightarrow> bool" where
  "conductor_ok op \<longleftrightarrow>
     conductor_operation_ids_derive (op_source_message_id op) (op_conductor_id op) = Ok (op_ids op)
     \<and> (case op_plan op of
          None \<Rightarrow> op_delegations op = [] \<and> op_pending_final_answer op = None
            \<and> op_stage op \<in> {Prepared, Planning, Failed, Unknown}
        | Some plan \<Rightarrow>
            op_stage op \<notin> {Prepared, Planning}
            \<and> (case plan_mode plan of
                 Answer \<Rightarrow> op_delegations op = [] \<and> op_stage op \<noteq> Delegating
                   \<and> op_pending_final_answer op \<noteq> None
                   \<and> op_pending_final_answer op = plan_direct_answer plan
               | Delegate \<Rightarrow>
                   1 \<le> length (op_delegations op) \<and> length (op_delegations op) \<le> MAXIMUM_WORKERS
                   \<and> delegations_follow_plan (op_ids op) 0 (plan_delegations plan) (op_delegations op)
                   \<and> (op_pending_final_answer op \<noteq> None \<longrightarrow> all_reported op)
                   \<and> (op_stage op = Delegating \<longrightarrow> \<not> all_reported op)
                   \<and> (op_stage op = Synthesizing \<longrightarrow> all_reported op)))
     \<and> (op_stage op = Completed \<longrightarrow> op_pending_final_answer op \<noteq> None)
     \<and> (\<forall>a. op_pending_final_answer op = Some a \<longrightarrow> valid_bounded_text a MAXIMUM_RESULT_TEXT_BYTES)"

lemma accept_delegations_follow:
  assumes "accept_delegations ids n targets ds = Ok states"
  shows "map state_delegation states = ds"
    and "\<forall>i < length states. delegation_ids ids (target_participant_id (ds ! i)) (n + i)
           = Ok (state_ids (states ! i))"
    and "distinct (map target_participant_id ds)"
    and "target_participant_id ` set ds \<inter> targets = {}"
    and "\<forall>s \<in> set states. state_outcome s = None"
  using assms
proof (induction ids n targets ds arbitrary: states rule: accept_delegations.induct)
  case (2 ids n targets d ds)
  { case 1 then show ?case using 2 by (auto split: if_splits sum.splits) }
  { case 2 then show ?case using "2.IH"(2)
      by (auto split: if_splits sum.splits simp: nth_Cons' less_Suc_eq_0_disj) }
  { case 3 then show ?case using "2.IH"(3,4) by (fastforce split: if_splits sum.splits) }
  { case 4 then show ?case using "2.IH"(4) by (fastforce split: if_splits sum.splits) }
  { case 5 then show ?case using "2.IH"(5) by (fastforce split: if_splits sum.splits) }
qed auto

end
