(* ===== verification/Conductor_Claims.thy ===== *)
theory Conductor_Claims
  imports Conductor_Op
begin

text \<open>
  What \<open>ConductorOperation\<close> promises: an invariant of every reachable state, stages that only go
  forward and records that are never rewritten, replays without effect, and a driver that always
  reaches the saved answer when the participants answer.
\<close>

section \<open>The invariant is kept\<close>

lemma conductor_new_ok: "conductor_operation_try_new m c = Ok op \<Longrightarrow> conductor_ok op"
  by (auto simp: conductor_operation_try_new_def conductor_ok_def split: sum.splits)

lemma begin_planning_ok: "conductor_ok op \<Longrightarrow> conductor_ok (fst (begin_planning op))"
  by (cases "op_stage op"; cases "op_plan op") (simp_all add: begin_planning_def conductor_ok_def)

lemma length_follow: "delegations_follow_plan ids n ds states \<Longrightarrow> length states = length ds"
  by (auto simp: delegations_follow_plan_def)

lemma accept_plan_ok: "conductor_ok op \<Longrightarrow> conductor_ok (fst (accept_plan op plan))"
proof (cases "op_plan op")
  case None
  assume ok: "conductor_ok op"
  show ?thesis
  proof (cases "plan_mode plan")
    case Answer
    then show ?thesis
      using ok None
      by (auto simp: accept_plan_def conductor_ok_def MAXIMUM_DIRECT_ANSWER_BYTES_def
          MAXIMUM_RESULT_TEXT_BYTES_def split: option.splits)
  next
    case Delegate
    show ?thesis
    proof (cases "accept_delegations (op_ids op) 0 {} (plan_delegations plan)")
      case (Inr states)
      note f = accept_delegations_follow [OF Inr]
      then have "delegations_follow_plan (op_ids op) 0 (plan_delegations plan) states"
        by (auto simp: delegations_follow_plan_def)
      moreover have "\<not> list_all (\<lambda>d. state_outcome d \<noteq> None) states"
        if "1 \<le> length (plan_delegations plan)"
        using f(1,5) that by (cases states) auto
      moreover have "length states = length (plan_delegations plan)"
        using arg_cong [OF f(1), of length] by simp
      ultimately show ?thesis
        using ok None Delegate Inr
        by (auto simp: accept_plan_def conductor_ok_def all_reported_def)
    qed (use ok None Delegate in \<open>simp add: accept_plan_def\<close>)
  qed
qed (simp add: accept_plan_def)

lemma follow_update_first:
  assumes "delegations_follow_plan ids n ds states" "valid_worker_outcome r"
  shows "delegations_follow_plan ids n ds
    (update_first P (\<lambda>s. s\<lparr>state_outcome := Some r\<rparr>) states)"
proof -
  let ?f = "\<lambda>s. s\<lparr>state_outcome := Some r\<rparr> :: conductor_delegation_state"
  have m: "map state_delegation (update_first P ?f states) = map state_delegation states"
    "map state_ids (update_first P ?f states) = map state_ids states"
    by simp_all
  have "state_ids (update_first P ?f states ! i) = state_ids (states ! i)" if "i < length states" for i
    using that by (metis length_update_first m(2) nth_map)
  moreover have "\<forall>s \<in> set (update_first P ?f states). \<forall>r. state_outcome s = Some r \<longrightarrow> valid_worker_outcome r"
    using assms set_update_first_subset [of P ?f states]
    by (fastforce simp: delegations_follow_plan_def)
  ultimately show ?thesis
    using assms(1) m(1) by (simp add: delegations_follow_plan_def)
qed

lemma record_worker_outcome_ok:
  assumes ok: "conductor_ok op"
  shows "conductor_ok (fst (record_worker_outcome op t r))"
proof (cases "fst (record_worker_outcome op t r) = op")
  case False
  let ?P = "\<lambda>s. target_participant_id (state_delegation s) = t"
  let ?ds = "update_first ?P (\<lambda>s. s\<lparr>state_outcome := Some r\<rparr>) (op_delegations op)"
  obtain state where found: "find ?P (op_delegations op) = Some state" "state_outcome state = None"
    and stage: "op_stage op = Delegating" "valid_worker_outcome r"
    and op': "fst (record_worker_outcome op t r) =
      (if list_all (\<lambda>d. state_outcome d \<noteq> None) ?ds
       then op\<lparr>op_delegations := ?ds, op_stage := Synthesizing\<rparr>
       else op\<lparr>op_delegations := ?ds\<rparr>)"
    using False by (auto simp: record_worker_outcome_def Let_def split: option.splits if_splits)
  have "op_delegations op \<noteq> []"
    using found(1) by auto
  moreover have "\<not> all_reported op"
    using find_SomeD [OF found(1)] found(2) by (auto simp: all_reported_def list_all_iff)
  ultimately show ?thesis
    using ok stage follow_update_first [of "op_ids op" 0 _ "op_delegations op" r ?P] unfolding op'
    by (auto simp: conductor_ok_def all_reported_def split: option.splits conductor_plan_mode.splits)
qed (use ok in simp)

lemma record_synthesis_ok: "conductor_ok op \<Longrightarrow> conductor_ok (fst (record_synthesis op a))"
  by (auto simp: record_synthesis_def conductor_ok_def all_reported_def
      split: option.splits conductor_plan_mode.splits)

lemma mark_ok:
  assumes "conductor_ok op"
  shows "conductor_ok (fst (mark_final_saved op))" "conductor_ok (fst (mark_failed op))"
    "conductor_ok (fst (mark_external_unknown op))"
  using assms
  by (auto simp: mark_final_saved_def mark_failed_def mark_external_unknown_def conductor_ok_def
      all_reported_def split: option.splits conductor_plan_mode.splits)

lemma conductor_step_ok: "conductor_ok op \<Longrightarrow> conductor_ok (conductor_step op e)"
  by (cases e)
    (auto simp: conductor_step_def begin_planning_ok accept_plan_ok record_worker_outcome_ok
      record_synthesis_ok mark_ok)

section \<open>Nothing recorded is rewritten\<close>

fun stage_rank :: "conductor_operation_stage \<Rightarrow> nat" where
  "stage_rank Prepared = 0"
| "stage_rank Planning = 1"
| "stage_rank Delegating = 2"
| "stage_rank Synthesizing = 3"
| "stage_rank Completed = 4"
| "stage_rank Failed = 4"
| "stage_rank Unknown = 4"

definition terminal :: "conductor_operation_stage \<Rightarrow> bool" where
  "terminal stage \<longleftrightarrow> stage \<in> {Completed, Failed, Unknown}"

definition extends :: "'a option \<Rightarrow> 'a option \<Rightarrow> bool" where
  "extends a b \<longleftrightarrow> a = None \<or> b = a"

definition outcome_of :: "conductor_operation \<Rightarrow> string \<Rightarrow> worker_outcome option" where
  "outcome_of op target =
     (case find (\<lambda>s. target_participant_id (state_delegation s) = target) (op_delegations op) of
        None \<Rightarrow> None | Some s \<Rightarrow> state_outcome s)"

definition conductor_below :: "conductor_operation \<Rightarrow> conductor_operation \<Rightarrow> bool" where
  "conductor_below op op' \<longleftrightarrow>
     op_ids op' = op_ids op
     \<and> stage_rank (op_stage op) \<le> stage_rank (op_stage op')
     \<and> (terminal (op_stage op) \<longrightarrow> op_stage op' = op_stage op)
     \<and> extends (op_plan op) (op_plan op')
     \<and> extends (op_pending_final_answer op) (op_pending_final_answer op')
     \<and> (\<forall>target. extends (outcome_of op target) (outcome_of op' target))"

lemma extends_refl [simp]: "extends a a"
  by (simp add: extends_def)

lemma extends_None [simp]: "extends None a"
  by (simp add: extends_def)

lemma extends_trans: "extends a b \<Longrightarrow> extends b c \<Longrightarrow> extends a c"
  by (auto simp: extends_def)

lemma find_update_first_key:
  assumes "\<And>x. key (f x) = key x"
  shows "find (\<lambda>x. key x = k) (update_first (\<lambda>x. key x = j) f xs) =
    (if k = j then map_option f (find (\<lambda>x. key x = k) xs) else find (\<lambda>x. key x = k) xs)"
  by (induction xs) (auto simp: assms)

lemma stage_rank_le [simp]: "stage_rank s \<le> 4"
  by (cases s) simp_all

lemma record_worker_outcome_below: "conductor_below op (fst (record_worker_outcome op t r))"
proof -
  have "outcome_of (op\<lparr>op_delegations := update_first
          (\<lambda>s. target_participant_id (state_delegation s) = t)
          (\<lambda>s. s\<lparr>state_outcome := Some r\<rparr>) (op_delegations op), op_stage := st\<rparr>) target =
      (if target = t then map_option (\<lambda>_. r)
         (find (\<lambda>s. target_participant_id (state_delegation s) = t) (op_delegations op))
       else outcome_of op target)" for target st
    by (auto simp: outcome_of_def find_update_first_key split: option.split)
  then show ?thesis
    by (auto simp: record_worker_outcome_def conductor_below_def Let_def terminal_def outcome_of_def
        find_update_first_key split: option.splits)
qed

lemma conductor_step_below: 
  assumes "conductor_ok op"
  shows "conductor_below op (conductor_step op e)"
proof (cases e)
  case (EvWorkerOutcome t r)
  then show ?thesis by (simp add: conductor_step_def record_worker_outcome_below)
next
  case (EvAcceptPlan plan)
  have "op_delegations op = []" "op_pending_final_answer op = None" if "op_plan op = None"
    using assms that by (simp_all add: conductor_ok_def)
  then show ?thesis
    using EvAcceptPlan
    by (auto simp: conductor_step_def accept_plan_def conductor_below_def terminal_def
        outcome_of_def split: option.splits conductor_plan_mode.splits sum.splits)
qed (auto simp: conductor_step_def conductor_ops_defs conductor_below_def terminal_def outcome_of_def
    split: conductor_operation_stage.splits option.splits)

interpretation conductor_machine: monotone_machine conductor_step conductor_ok conductor_below
proof unfold_locales
  fix s t u :: conductor_operation and e
  show "conductor_ok s \<Longrightarrow> conductor_ok (conductor_step s e)" by (rule conductor_step_ok)
  show "conductor_below s s" by (simp add: conductor_below_def)
  show "conductor_below s t \<Longrightarrow> conductor_below t u \<Longrightarrow> conductor_below s u"
    unfolding conductor_below_def by (auto intro: extends_trans)
  show "conductor_ok s \<Longrightarrow> conductor_below s (conductor_step s e)" by (rule conductor_step_below)
qed

section \<open>Properties of every run\<close>

text \<open>C13: Whatever calls are made of a new operation, in any order and number, it stays
  consistent: its delegations are those of the accepted plan under their derived IDs, synthesis
  only starts when every worker has reported, no final answer is pending before that, and a
  completed operation has an answer.\<close>

theorem conductor_runs_stay_consistent:
  assumes "conductor_operation_try_new m c = Ok op"
  shows "conductor_ok (foldl conductor_step op es)"
  by (rule conductor_machine.inv_run [OF conductor_new_ok [OF assms]])

definition example_op :: conductor_operation where
  "example_op = \<lparr>op_ids = example_ids, op_source_message_id = ''source-1'',
     op_conductor_id = ''codex'', op_stage = Prepared, op_plan = None, op_delegations = [],
     op_pending_final_answer = None\<rparr>"

lemma example_op_new: "conductor_operation_try_new ''source-1'' ''codex'' = Ok example_op"
  by (simp add: conductor_operation_try_new_def example_ids_derive example_op_def)

theorem conductor_runs_stay_consistent_witness:
  "conductor_ok (foldl conductor_step example_op
     [EvBeginPlanning, EvSynthesis ''too early'', EvExternalUnknown, EvFinalSaved])"
  by (rule conductor_runs_stay_consistent [OF example_op_new])

text \<open>C14: Nothing that an operation has recorded is ever rewritten: through any calls its stage
  only goes forward, a terminal stage is final, and the accepted plan, every worker's outcome and
  the final answer stay what they were when they were first recorded.\<close>

theorem conductor_records_are_final:
  assumes "conductor_operation_try_new m c = Ok op"
  shows "conductor_below (foldl conductor_step op es) (foldl conductor_step op (es @ es'))"
  using conductor_machine.below_run [OF conductor_machine.inv_run [OF conductor_new_ok [OF assms]]]
  by simp

theorem conductor_records_are_final_witness:
  "conductor_below (foldl conductor_step example_op [EvBeginPlanning])
     (foldl conductor_step example_op ([EvBeginPlanning] @ [EvFailed, EvExternalUnknown]))"
  by (rule conductor_records_are_final [OF example_op_new])

text \<open>A call that fails leaves the operation as it was.\<close>

theorem conductor_errors_change_nothing:
  assumes "conductor_call op e = (op', Err x)"
  shows "op' = op"
  using assms
  by (cases e) (auto simp: conductor_ops_defs Let_def
      split: conductor_operation_stage.splits option.splits conductor_plan_mode.splits sum.splits
        if_splits)

theorem conductor_errors_change_nothing_witness:
  "fst (conductor_call example_op EvFinalSaved) = example_op"
proof -
  have "conductor_call example_op EvFinalSaved = (example_op, Err InvalidStage)"
    by (simp add: mark_final_saved_def example_op_def)
  from conductor_errors_change_nothing [OF this] this show ?thesis by simp
qed

text \<open>The calls that record what a participant said.\<close>

fun recording_call :: "conductor_event \<Rightarrow> bool" where
  "recording_call (EvAcceptPlan plan) \<longleftrightarrow> True"
| "recording_call (EvWorkerOutcome target outcome) \<longleftrightarrow> True"
| "recording_call (EvSynthesis answer) \<longleftrightarrow> True"
| "recording_call _ \<longleftrightarrow> False"

lemma outcome_recorded:
  "record_worker_outcome op t r = (op', Ok ()) \<Longrightarrow> outcome_of op' t = Some r"
  by (auto simp: record_worker_outcome_def outcome_of_def Let_def find_update_first_key
      split: option.splits if_splits)

lemma recorded_replay:
  "op_plan op = Some plan \<Longrightarrow> accept_plan op plan = (op, Ok ())"
  "outcome_of op t = Some r \<Longrightarrow> record_worker_outcome op t r = (op, Ok ())"
  "op_pending_final_answer op = Some a \<Longrightarrow> record_synthesis op a = (op, Ok ())"
  by (auto simp: accept_plan_def record_worker_outcome_def record_synthesis_def outcome_of_def
      split: option.splits)

text \<open>Replays are harmless: a call that succeeded succeeds again without effect, at once, and
  for the plan, a worker's outcome and the final answer also after any other calls.\<close>

theorem conductor_replay:
  assumes ok: "conductor_ok op" and call: "conductor_call op e = (op', Ok ())"
    and later: "later = foldl conductor_step op' es" "recording_call e \<or> es = []"
  shows "conductor_call later e = (later, Ok ())"
proof -
  have "conductor_ok op'"
    using conductor_step_ok [OF ok, of e] call by (simp add: conductor_step_def)
  then have below: "conductor_below op' later"
    unfolding later(1) by (rule conductor_machine.below_run)
  show ?thesis
  proof (cases e)
    case (EvAcceptPlan plan)
    then have "op_plan op' = Some plan"
      using call by (auto simp: accept_plan_def split: option.splits conductor_plan_mode.splits
          sum.splits if_splits)
    then show ?thesis
      using below EvAcceptPlan by (simp add: conductor_below_def extends_def recorded_replay)
  next
    case (EvWorkerOutcome t r)
    then have "outcome_of op' t = Some r"
      using call outcome_recorded by simp
    then have "outcome_of later t = Some r"
      using below by (simp add: conductor_below_def extends_def) (metis option.distinct(1))
    then show ?thesis
      using EvWorkerOutcome by (simp add: recorded_replay)
  next
    case (EvSynthesis a)
    then have "op_pending_final_answer op' = Some a"
      using call by (auto simp: record_synthesis_def split: option.splits if_splits)
    then show ?thesis
      using below EvSynthesis by (simp add: conductor_below_def extends_def recorded_replay)
  qed (use call later in \<open>auto simp: begin_planning_def mark_final_saved_def mark_failed_def
      mark_external_unknown_def split: conductor_operation_stage.splits if_splits\<close>)
qed

theorem conductor_replay_witness:
  "conductor_call (example_op\<lparr>op_stage := Planning\<rparr>) EvBeginPlanning =
     (example_op\<lparr>op_stage := Planning\<rparr>, Ok ())"
  by (rule conductor_replay [OF conductor_new_ok [OF example_op_new], of _ _ _ "[]"])
    (simp_all add: begin_planning_def example_op_def)

text \<open>An operation is never stuck: in every reachable state it names a next action unless it
  is completed, failed or unknown.\<close>

theorem conductor_next_action_unless_terminal:
  assumes "conductor_operation_try_new m c = Ok op"
  shows "next_action (foldl conductor_step op es) = None \<longleftrightarrow>
           terminal (op_stage (foldl conductor_step op es))"
proof -
  have "conductor_ok (foldl conductor_step op es)"
    by (rule conductor_machine.inv_run [OF conductor_new_ok [OF assms]])
  then show ?thesis
    by (cases "op_stage (foldl conductor_step op es)")
      (auto simp: next_action_def terminal_def conductor_ok_def all_reported_def list_all_iff
        filter_empty_conv Let_def split: option.splits conductor_plan_mode.splits)
qed

theorem conductor_next_action_unless_terminal_witness:
  "next_action (foldl conductor_step example_op [EvBeginPlanning, EvFailed]) = None"
  using conductor_next_action_unless_terminal [OF example_op_new, of "[EvBeginPlanning, EvFailed]"]
  by (simp add: conductor_step_def begin_planning_def mark_failed_def example_op_def terminal_def)

end
