(* ===== verification/Conductor_Driver.thy ===== *)
theory Conductor_Driver
  imports Conductor_Claims
begin

text \<open>
  The parser and the operation together: a plan that was parsed is always accepted, and an
  operation whose participants answer reaches its saved answer in five rounds.
\<close>

section \<open>A parsed plan is accepted\<close>

lemma accept_delegations_total:
  assumes "list_all (\<lambda>d. valid_identifier (target_participant_id d)
      \<and> valid_bounded_text (task d) 4000) ds"
    and "distinct (map target_participant_id ds)" "target_participant_id ` set ds \<inter> targets = {}"
    and "n + length ds \<le> MAXIMUM_WORKERS"
  shows "\<exists>states. accept_delegations ids n targets ds = Ok states"
  using assms
proof (induction ids n targets ds rule: accept_delegations.induct)
  case (2 ids n targets d ds)
  obtain dids where dids: "delegation_ids ids (target_participant_id d) n = Ok dids"
    using "2.prems"(1,4) by (auto simp: delegation_ids_def conductor_valid_identifier_eq Let_def)
  have "\<exists>states. accept_delegations ids (n + 1) (insert (target_participant_id d) targets) ds = Ok states"
    using "2.IH" [OF _ dids] "2.prems"
    by (auto simp: conductor_valid_identifier_eq MAXIMUM_DELEGATION_TASK_BYTES_def)
  then show ?case
    using dids "2.prems"
    by (auto simp: conductor_valid_identifier_eq MAXIMUM_DELEGATION_TASK_BYTES_def)
qed simp

lemma plan_ok_accept_delegations:
  assumes "plan_ok ctxt plan" "context_ok ctxt" "plan_mode plan = Delegate"
  shows "\<exists>states. accept_delegations ids 0 {} (plan_delegations plan) = Ok states"
proof (rule accept_delegations_total)
  show "list_all (\<lambda>d. valid_identifier (target_participant_id d) \<and> valid_bounded_text (task d) 4000)
      (plan_delegations plan)"
    using assms by (fastforce simp: plan_ok_def context_ok_def delegation_ok_def list_all_iff)
qed (use assms in \<open>auto simp: plan_ok_def MAXIMUM_WORKERS_def\<close>)

lemma accept_parsed_plan:
  assumes parsed: "parse_conductor_plan_v1 from_slice input ctxt = Ok plan"
    and planning: "conductor_ok op" "op_stage op = Planning"
  shows "\<exists>op'. accept_plan op plan = (op', Ok ()) \<and> op_plan op' = Some plan"
proof -
  have ok: "context_ok ctxt" "plan_ok ctxt plan"
    using parsed unfolding parse_conductor_plan_accepts_iff by simp_all
  have "op_plan op = None"
    using planning by (auto simp: conductor_ok_def split: option.splits)
  then show ?thesis
    using planning(2) ok(2) plan_ok_accept_delegations [OF ok(2,1), of "op_ids op"]
    by (cases "plan_mode plan")
      (auto simp: accept_plan_def plan_ok_def MAXIMUM_DIRECT_ANSWER_BYTES_def MAXIMUM_WORKERS_def
        Suc_le_eq)
qed

text \<open>The parser and the operation agree on plans: every plan the parser yields is accepted by
  an operation that waits for one.\<close>

theorem parsed_plan_is_accepted:
  assumes "parse_conductor_plan_v1 from_slice input ctxt = Ok plan"
    and "conductor_operation_try_new m c = Ok op"
    and "op_stage (foldl conductor_step op es) = Planning"
  shows "\<exists>op'. accept_plan (foldl conductor_step op es) plan = (op', Ok ())
           \<and> op_plan op' = Some plan"
  by (rule accept_parsed_plan
      [OF assms(1) conductor_machine.inv_run [OF conductor_new_ok [OF assms(2)]] assms(3)])

section \<open>Driving an operation\<close>

text \<open>What the participants answer: the plan, each worker's outcome, and the synthesis.\<close>

record participants_answers =
  answer_plan :: conductor_plan_v1
  answer_worker :: "conductor_delegation \<Rightarrow> worker_outcome"
  answer_synthesis :: "conductor_delegation_state list \<Rightarrow> string"

fun respond :: "participants_answers \<Rightarrow> conductor_next_action \<Rightarrow> conductor_event list" where
  "respond ans BeginPlanning = [EvBeginPlanning]"
| "respond ans (RequestPlan _) = [EvAcceptPlan (answer_plan ans)]"
| "respond ans (DispatchWorkers ds) =
     map (\<lambda>d. EvWorkerOutcome (target_participant_id (state_delegation d))
            (answer_worker ans (state_delegation d))) ds"
| "respond ans (RequestSynthesis _ results) = [EvSynthesis (answer_synthesis ans results)]"
| "respond ans (SaveFinalAnswer _ _) = [EvFinalSaved]"

fun drive :: "nat \<Rightarrow> participants_answers \<Rightarrow> conductor_operation \<Rightarrow> conductor_operation" where
  "drive 0 ans op = op"
| "drive (Suc n) ans op =
     (case next_action op of
        None \<Rightarrow> op
      | Some action \<Rightarrow> drive n ans (foldl conductor_step op (respond ans action)))"

definition reported ::
  "participants_answers \<Rightarrow> conductor_delegation_state \<Rightarrow> conductor_delegation_state"
where
  "reported ans d = d\<lparr>state_outcome := Some (answer_worker ans (state_delegation d))\<rparr>"

lemma reported_simps [simp]:
  "state_delegation (reported ans d) = state_delegation d"
  "state_outcome (reported ans d) = Some (answer_worker ans (state_delegation d))"
  by (simp_all add: reported_def)

lemma record_reported:
  fixes op :: conductor_operation
  assumes stage: "op_stage op = Delegating" and ds: "op_delegations op = prior @ d # ds"
    and prior: "list_all (\<lambda>d. state_outcome d \<noteq> None) prior"
    and pending: "list_all (\<lambda>d. state_outcome d = None) (d # ds)"
    and dist: "distinct (map (\<lambda>d. target_participant_id (state_delegation d)) (prior @ d # ds))"
    and valid: "valid_worker_outcome (answer_worker ans (state_delegation d))"
    and op1: "op1 = op\<lparr>op_delegations := prior @ reported ans d # ds\<rparr>"
  shows "conductor_step op (EvWorkerOutcome (target_participant_id (state_delegation d))
            (answer_worker ans (state_delegation d))) =
      (if ds = [] then op1\<lparr>op_stage := Synthesizing\<rparr> else op1)"
proof -
  let ?t = "target_participant_id (state_delegation d)"
  let ?P = "\<lambda>s. target_participant_id (state_delegation s) = ?t"
  let ?f = "\<lambda>s. s\<lparr>state_outcome := Some (answer_worker ans (state_delegation d))\<rparr>"
  have "?t \<notin> (\<lambda>d. target_participant_id (state_delegation d)) ` set prior"
    using dist by simp
  then have absent: "\<forall>y \<in> set prior. \<not> ?P y"
    by (metis imageI)
  have found: "find ?P (op_delegations op) = Some d"
    unfolding ds by (simp add: absent)
  have upd: "update_first ?P ?f (op_delegations op) = prior @ reported ans d # ds"
    unfolding ds by (simp add: absent reported_def)
  show ?thesis
    using pending prior
    by (cases ds)
      (simp_all add: conductor_step_def record_worker_outcome_def Let_def found upd stage valid op1)
qed

lemma dispatch_workers:
  assumes "op_stage op = Delegating" "op_delegations op = prior @ pending" "pending \<noteq> []"
    and "list_all (\<lambda>d. state_outcome d \<noteq> None) prior" "list_all (\<lambda>d. state_outcome d = None) pending"
    and "distinct (map (\<lambda>d. target_participant_id (state_delegation d)) (prior @ pending))"
    and valid: "\<And>d. valid_worker_outcome (answer_worker ans d)"
  shows "foldl conductor_step op (respond ans (DispatchWorkers pending)) =
    op\<lparr>op_delegations := prior @ map (reported ans) pending, op_stage := Synthesizing\<rparr>"
  using assms(1-6)
proof (induction pending arbitrary: op prior)
  case (Cons d ds)
  note step = record_reported [OF Cons.prems(1,2,4,5,6) valid refl]
  show ?case
  proof (cases "ds = []")
    case True
    then show ?thesis using step by simp
  next
    case False
    let ?op1 = "op\<lparr>op_delegations := prior @ reported ans d # ds\<rparr>"
    have "foldl conductor_step ?op1 (respond ans (DispatchWorkers ds)) =
        ?op1\<lparr>op_delegations := (prior @ [reported ans d]) @ map (reported ans) ds,
             op_stage := Synthesizing\<rparr>"
      by (rule Cons.IH) (use Cons.prems False in \<open>simp_all del: distinct_append\<close>)
    then show ?thesis
      using step False by simp
  qed
qed simp

text \<open>The answer the run ends with.\<close>

definition driven_answer :: "participants_answers \<Rightarrow> conductor_operation_ids \<Rightarrow> string" where
  "driven_answer ans ids =
     (case plan_direct_answer (answer_plan ans) of
        Some a \<Rightarrow> a
      | None \<Rightarrow>
          (case accept_delegations ids 0 {} (plan_delegations (answer_plan ans)) of
             Inl _ \<Rightarrow> []
           | Inr states \<Rightarrow> answer_synthesis ans (map (reported ans) states)))"

lemma drive_step:
  "next_action op = Some a \<Longrightarrow> drive (Suc n) ans op = drive n ans (foldl conductor_step op (respond ans a))"
  by simp

lemma drive_pending:
  assumes "op_stage op = Synthesizing" "op_pending_final_answer op = Some a"
  shows "drive (Suc n) ans op = drive n ans (op\<lparr>op_stage := Completed\<rparr>)"
  using assms by (simp add: next_action_def conductor_step_def mark_final_saved_def)

lemma drive_completed: "op_stage op = Completed \<Longrightarrow> drive n ans op = op"
  by (cases n) (simp_all add: next_action_def)

lemma drive_delegated:
  assumes "op_stage op = Delegating" "op_pending_final_answer op = None" "op_plan op = Some plan"
    and "plan_mode plan = Delegate" "op_delegations op = states" "states \<noteq> []"
    and "list_all (\<lambda>d. state_outcome d = None) states"
    and "distinct (map (\<lambda>d. target_participant_id (state_delegation d)) states)"
    and "\<And>d. valid_worker_outcome (answer_worker ans d)"
    and "valid_bounded_text (answer_synthesis ans (map (reported ans) states)) 100000"
  shows "drive 3 ans op =
    op\<lparr>op_delegations := map (reported ans) states, op_stage := Completed,
       op_pending_final_answer := Some (answer_synthesis ans (map (reported ans) states))\<rparr>"
proof -
  let ?op1 = "op\<lparr>op_delegations := map (reported ans) states, op_stage := Synthesizing\<rparr>"
  let ?a = "answer_synthesis ans (map (reported ans) states)"
  let ?op2 = "?op1\<lparr>op_pending_final_answer := Some ?a\<rparr>"
  have all: "filter (\<lambda>d. state_outcome d = None) states = states"
    using assms(7) by (simp add: list_all_iff filter_id_conv)
  have "next_action op = Some (DispatchWorkers states)"
    using assms by (simp add: next_action_def all)
  moreover have "foldl conductor_step op (respond ans (DispatchWorkers states)) = ?op1"
    using dispatch_workers [of op "[]" states ans] assms by simp
  moreover have "next_action ?op1 = Some (RequestSynthesis (operation_id (op_ids op)) (map (reported ans) states))"
    using assms(2) by (simp add: next_action_def)
  moreover have "conductor_step ?op1 (EvSynthesis ?a) = ?op2"
    using assms(2-4,10)
    by (simp add: conductor_step_def record_synthesis_def MAXIMUM_RESULT_TEXT_BYTES_def)
  moreover have "drive (Suc 0) ans ?op2 = ?op2\<lparr>op_stage := Completed\<rparr>"
    by (subst drive_pending) simp_all
  ultimately show ?thesis
    by (simp add: numeral_3_eq_3)
qed

text \<open>C12: The operation reaches its end: when the conductor's plan parses, every worker reports
  something well-formed (success, failure or unknown) and the synthesis is a bounded text, then
  following the named actions for five rounds completes the operation, with the direct answer or
  the synthesis of the workers' reports as its final answer.\<close>

theorem conductor_drive_completes:
  assumes new: "conductor_operation_try_new m c = Ok op"
    and parsed: "parse_conductor_plan_v1 from_slice input ctxt = Ok (answer_plan ans)"
    and workers: "\<And>d. valid_worker_outcome (answer_worker ans d)"
    and synthesis: "\<And>results. valid_bounded_text (answer_synthesis ans results) 100000"
  shows "op_stage (drive 5 ans op) = Completed
    \<and> op_pending_final_answer (drive 5 ans op) = Some (driven_answer ans (op_ids op))"
proof -
  let ?plan = "answer_plan ans"
  let ?op1 = "op\<lparr>op_stage := Planning\<rparr>"
  have ok: "plan_ok ctxt ?plan" "context_ok ctxt"
    using parsed unfolding parse_conductor_plan_accepts_iff by simp_all
  have op: "op_stage op = Prepared" "op_plan op = None" "op_delegations op = []"
    "op_pending_final_answer op = None"
    using new by (auto simp: conductor_operation_try_new_def split: sum.splits)
  have drive5: "drive 5 ans op = drive 3 ans (fst (accept_plan ?op1 ?plan))"
    using op by (simp add: eval_nat_numeral next_action_def conductor_step_def begin_planning_def)
  show ?thesis
  proof (cases "plan_mode ?plan")
    case Answer
    then obtain a where a: "plan_direct_answer ?plan = Some a" "valid_bounded_text a 100000"
      and "plan_delegations ?plan = []"
      using ok(1) by (auto simp: plan_ok_def)
    then have "fst (accept_plan ?op1 ?plan) =
        op\<lparr>op_pending_final_answer := Some a, op_stage := Synthesizing, op_plan := Some ?plan\<rparr>"
      using Answer op by (simp add: accept_plan_def MAXIMUM_DIRECT_ANSWER_BYTES_def)
    then show ?thesis
      unfolding drive5 using a(1)
      by (simp add: numeral_3_eq_3 drive_pending drive_completed driven_answer_def del: drive.simps)
  next
    case Delegate
    obtain states where states: "accept_delegations (op_ids op) 0 {} (plan_delegations ?plan) = Ok states"
      using plan_ok_accept_delegations [OF ok Delegate] by metis
    note f = accept_delegations_follow [OF states]
    have none: "plan_direct_answer ?plan = None" "1 \<le> length (plan_delegations ?plan)"
      "length (plan_delegations ?plan) \<le> 3"
      using ok(1) Delegate by (auto simp: plan_ok_def Suc_le_eq)
    let ?op2 = "op\<lparr>op_delegations := states, op_stage := Delegating, op_plan := Some ?plan\<rparr>"
    have "fst (accept_plan ?op1 ?plan) = ?op2"
      using Delegate op none states by (simp add: accept_plan_def MAXIMUM_WORKERS_def)
    moreover have "drive 3 ans ?op2 = ?op2
      \<lparr>op_delegations := map (reported ans) states, op_stage := Completed,
       op_pending_final_answer := Some (answer_synthesis ans (map (reported ans) states))\<rparr>"
    proof (rule drive_delegated [OF _ _ _ Delegate])
      show "distinct (map (\<lambda>d. target_participant_id (state_delegation d)) states)"
        using f(1,3) by (metis comp_apply map_map map_cong)
    qed (use f none op workers synthesis in \<open>auto simp: list_all_iff\<close>)
    ultimately show ?thesis
      unfolding drive5 using none(1) states by (simp add: driven_answer_def)
  qed
qed

section \<open>A concrete run\<close>

definition example_context :: conductor_plan_context where
  "example_context = \<lparr>ctxt_owner_id = ''owner'', ctxt_conductor_id = ''codex'',
     ctxt_participants =
       [\<lparr>cp_id = ''owner'', cp_kind = Human, can_receive_delegation = False\<rparr>,
        \<lparr>cp_id = ''codex'', cp_kind = Ai, can_receive_delegation = True\<rparr>,
        \<lparr>cp_id = ''gemini'', cp_kind = Ai, can_receive_delegation = True\<rparr>]\<rparr>"

definition example_plan :: conductor_plan_v1 where
  "example_plan = \<lparr>plan_version = 1, plan_mode = Delegate, plan_direct_answer = None,
     plan_delegations = [\<lparr>target_participant_id = ''gemini'', task = ''read''\<rparr>]\<rparr>"

text \<open>A deserializer that knows one text.\<close>

definition example_from_slice :: "string \<Rightarrow> raw_conductor_plan_v1 option" where
  "example_from_slice input =
     (if input = ''plan'' then
        Some \<lparr>raw_version = 1, raw_mode = Delegate, raw_direct_answer = Null,
              raw_delegations = plan_delegations example_plan\<rparr>
      else None)"

definition example_answers :: participants_answers where
  "example_answers = \<lparr>answer_plan = example_plan, answer_worker = (\<lambda>_. Worker_Unknown),
     answer_synthesis = (\<lambda>_. ''done'')\<rparr>"

lemma example_text_eval:
  "\<not> trim_is_empty ''read''" "\<not> trim_is_empty ''done''"
  by (simp_all add: trim_is_empty_def str_chars_def is_whitespace_def byte_class_defs)

lemma example_plan_parses:
  "parse_conductor_plan_v1 example_from_slice ''plan'' example_context = Ok example_plan"
  unfolding parse_conductor_plan_accepts_iff
  by (simp add: context_ok_def plan_ok_def delegation_ok_def example_context_def example_plan_def
      example_from_slice_def valid_bounded_text_def example_text_eval identifier_eval
      from_utf8_ok_def)

theorem parsed_plan_is_accepted_witness:
  "\<exists>op'. accept_plan (foldl conductor_step example_op [EvBeginPlanning]) example_plan = (op', Ok ())
     \<and> op_plan op' = Some example_plan"
  by (rule parsed_plan_is_accepted [OF example_plan_parses example_op_new])
    (simp add: conductor_step_def begin_planning_def example_op_def)

theorem conductor_drive_completes_witness:
  "op_stage (drive 5 example_answers example_op) = Completed
   \<and> op_pending_final_answer (drive 5 example_answers example_op) =
       Some (driven_answer example_answers (op_ids example_op))"
  using conductor_drive_completes [OF example_op_new, of example_from_slice "''plan''"
      example_context example_answers] example_plan_parses
  by (simp add: example_answers_def valid_bounded_text_def example_text_eval)

end
