(* ===== verification/Btree_Map.thy ===== *)
theory Btree_Map
  imports Prelude
begin

text \<open>
  \<open>std::collections::BTreeMap\<close>: a list of entries in ascending order of their keys. Iteration,
  \<open>first\_key\_value\<close> and \<open>retain\<close> go through the list; \<open>get\<close> is \<open>map\_of\<close>.
\<close>

type_synonym ('k, 'v) btree = "('k \<times> 'v) list"

definition bt_ok :: "('k :: linorder, 'v) btree \<Rightarrow> bool" where
  "bt_ok m \<longleftrightarrow> sorted_wrt (<) (map fst m)"

abbreviation bt_get :: "('k, 'v) btree \<Rightarrow> 'k \<Rightarrow> 'v option" where
  "bt_get \<equiv> map_of"

definition bt_contains_key :: "('k, 'v) btree \<Rightarrow> 'k \<Rightarrow> bool" where
  "bt_contains_key m k \<longleftrightarrow> bt_get m k \<noteq> None"

fun bt_insert :: "'k :: linorder \<Rightarrow> 'v \<Rightarrow> ('k, 'v) btree \<Rightarrow> ('k, 'v) btree" where
  "bt_insert k v [] = [(k, v)]"
| "bt_insert k v ((a, b) # m) =
     (if k < a then (k, v) # (a, b) # m
      else if k = a then (k, v) # m
      else (a, b) # bt_insert k v m)"

definition bt_remove :: "'k \<Rightarrow> ('k, 'v) btree \<Rightarrow> ('k, 'v) btree" where
  "bt_remove k m = filter (\<lambda>(a, b). a \<noteq> k) m"

definition bt_retain :: "('k \<Rightarrow> 'v \<Rightarrow> bool) \<Rightarrow> ('k, 'v) btree \<Rightarrow> ('k, 'v) btree" where
  "bt_retain P m = filter (\<lambda>(a, b). P a b) m"

text \<open>The write through \<open>get\_mut\<close>.\<close>

definition bt_update :: "'k \<Rightarrow> ('v \<Rightarrow> 'v) \<Rightarrow> ('k, 'v) btree \<Rightarrow> ('k, 'v) btree" where
  "bt_update k f m = map (\<lambda>(a, b). (a, if a = k then f b else b)) m"

lemma bt_ok_Nil [simp]: "bt_ok []"
  by (simp add: bt_ok_def)

lemma bt_ok_Cons: "bt_ok ((a, b) # m) \<longleftrightarrow> (\<forall>x \<in> fst ` set m. a < x) \<and> bt_ok m"
  by (auto simp: bt_ok_def)

lemma bt_ok_distinct: "bt_ok m \<Longrightarrow> distinct (map fst m)"
  by (auto simp: bt_ok_def strict_sorted_iff)

lemma bt_get_insert [simp]: "bt_get (bt_insert k v m) = (bt_get m)(k \<mapsto> v)"
  by (induction k v m rule: bt_insert.induct) (auto simp: fun_eq_iff)

lemma fst_set_bt_insert [simp]: "fst ` set (bt_insert k v m) = insert k (fst ` set m)"
  by (induction k v m rule: bt_insert.induct) auto

lemma bt_ok_insert [simp]: "bt_ok m \<Longrightarrow> bt_ok (bt_insert k v m)"
  by (induction k v m rule: bt_insert.induct) (auto simp: bt_ok_Cons)

lemma bt_get_remove [simp]: "bt_get (bt_remove k m) = (bt_get m)(k := None)"
  unfolding bt_remove_def by (induction m) auto

lemma bt_ok_filter: "bt_ok m \<Longrightarrow> bt_ok (filter P m)"
  by (induction m) (auto simp: bt_ok_Cons)

lemma bt_ok_remove [simp]: "bt_ok m \<Longrightarrow> bt_ok (bt_remove k m)"
  by (simp add: bt_remove_def bt_ok_filter)

lemma bt_ok_retain [simp]: "bt_ok m \<Longrightarrow> bt_ok (bt_retain P m)"
  by (simp add: bt_retain_def bt_ok_filter)

lemma bt_get_retain:
  assumes "bt_ok m"
  shows "bt_get (bt_retain P m) k =
    (case bt_get m k of None \<Rightarrow> None | Some v \<Rightarrow> if P k v then Some v else None)"
  using bt_ok_distinct [OF assms] unfolding bt_retain_def
  by (induction m) (auto simp: map_of_eq_None_iff split: option.split)

lemma bt_get_retain_SomeD:
  "bt_ok m \<Longrightarrow> bt_get (bt_retain P m) k = Some v \<Longrightarrow> bt_get m k = Some v \<and> P k v"
  by (auto simp: bt_get_retain split: option.splits if_splits)

lemma bt_get_update [simp]: "bt_get (bt_update k f m) j =
    (if j = k then map_option f (bt_get m k) else bt_get m j)"
  unfolding bt_update_def by (induction m) auto

lemma fst_bt_update [simp]: "map fst (bt_update k f m) = map fst m"
  unfolding bt_update_def by (induction m) auto

lemma length_bt_update [simp]: "length (bt_update k f m) = length m"
  by (simp add: bt_update_def)

lemma bt_ok_update [simp]: "bt_ok (bt_update k f m) = bt_ok m"
  by (simp add: bt_ok_def)

lemma bt_get_in_set: "bt_ok m \<Longrightarrow> (k, v) \<in> set m \<longleftrightarrow> bt_get m k = Some v"
  by (auto simp: bt_ok_distinct)

lemma length_bt_insert:
  "length (bt_insert k v m) \<le> Suc (length m)"
  by (induction k v m rule: bt_insert.induct) auto

lemma length_bt_insert_present:
  "bt_ok m \<Longrightarrow> bt_get m k \<noteq> None \<Longrightarrow> length (bt_insert k v m) = length m"
proof (induction k v m rule: bt_insert.induct)
  case (2 k v a b m)
  have "\<not> k < a"
  proof
    assume "k < a"
    moreover have "k = a \<or> k \<in> fst ` set m"
      using "2.prems"(2) by (auto dest!: map_of_SomeD intro: rev_image_eqI split: if_splits)
    ultimately show False
      using "2.prems"(1) by (auto simp: bt_ok_Cons)
  qed
  then show ?case
    using 2 by (auto simp: bt_ok_Cons)
qed simp

lemma length_bt_remove [simp]: "length (bt_remove k m) \<le> length m"
  by (simp add: bt_remove_def)

lemma length_bt_remove_present:
  assumes "bt_get m k \<noteq> None"
  shows "length (bt_remove k m) < length m"
proof -
  obtain v where "(k, v) \<in> set m"
    using assms by (auto dest: map_of_SomeD)
  then show ?thesis
    unfolding bt_remove_def by (intro length_filter_less) auto
qed

lemma length_bt_retain [simp]: "length (bt_retain P m) \<le> length m"
  by (simp add: bt_retain_def)

lemma bt_ok_snoc: "bt_ok (m @ [(k, v)]) \<longleftrightarrow> bt_ok m \<and> (\<forall>x \<in> fst ` set m. x < k)"
  by (auto simp: bt_ok_def sorted_wrt_append)

lemma bt_insert_last: "\<forall>x \<in> fst ` set m. x < k \<Longrightarrow> bt_insert k v m = m @ [(k, v)]"
  by (induction k v m rule: bt_insert.induct) auto

lemma bt_ok_append_single:
  assumes "bt_ok (m @ (k, v) # n)"
  shows "bt_insert k w m = m @ [(k, w)]" "bt_get m k = None"
proof -
  have less: "\<forall>x \<in> fst ` set m. x < k"
    using assms by (auto simp: bt_ok_def sorted_wrt_append)
  then show "bt_insert k w m = m @ [(k, w)]" "bt_get m k = None"
    by (auto simp: bt_insert_last map_of_eq_None_iff)
qed

text \<open>Capacity checks.\<close>

lemma bt_insert_bounds:
  "\<not> n \<le> length m \<Longrightarrow> length (bt_insert k v m) \<le> n"
  "\<not> n \<le> length m + a \<Longrightarrow> length (bt_insert k v m) + a \<le> n"
  "\<not> n \<le> a + length m \<Longrightarrow> a + length (bt_insert k v m) \<le> n"
  using length_bt_insert [of k v m] by linarith+

lemma bt_move_bound:
  assumes "bt_get m k \<noteq> None" "length m + length m' \<le> n"
  shows "length (bt_remove k m) + length (bt_insert k v m') \<le> n"
  using length_bt_remove_present [OF assms(1)] length_bt_insert [of k v m'] assms(2) by linarith

lemma bt_shrink_bounds:
  assumes "length m + length m' \<le> n"
  shows "length (bt_remove k m) + length m' \<le> n" "length m + length (bt_remove k' m') \<le> n"
    "length (bt_retain P m) + length (bt_retain Q m') \<le> n"
  using assms length_bt_remove [of k m] length_bt_remove [of k' m'] length_bt_retain [of P m]
    length_bt_retain [of Q m'] by linarith+

section \<open>The contract of a map\<close>

text \<open>What the clients rely on: a lookup sees the last write of its key and no other, and the
  representation invariant is kept.\<close>

locale keyed_map =
  fixes get :: "'m \<Rightarrow> 'k \<Rightarrow> 'v option" and insert_entry :: "'k \<Rightarrow> 'v \<Rightarrow> 'm \<Rightarrow> 'm"
    and remove_entry :: "'k \<Rightarrow> 'm \<Rightarrow> 'm" and wf :: "'m \<Rightarrow> bool"
  assumes get_insert: "wf m \<Longrightarrow> get (insert_entry k v m) j = (if j = k then Some v else get m j)"
    and get_remove: "wf m \<Longrightarrow> get (remove_entry k m) j = (if j = k then None else get m j)"
    and wf_insert: "wf m \<Longrightarrow> wf (insert_entry k v m)"
    and wf_remove: "wf m \<Longrightarrow> wf (remove_entry k m)"
begin

text \<open>A move of an entry under its key from one map to another keeps the two disjoint.\<close>

lemma move_disjoint:
  assumes "wf m" "wf n" "\<forall>j. get m j = None \<or> get n j = None"
  shows "\<forall>j. get (remove_entry k m) j = None \<or> get (insert_entry k v n) j = None"
  using assms by (simp add: get_insert get_remove)

lemma insert_absent_disjoint:
  assumes "wf m" "\<forall>j. get m j = None \<or> get' j = None" "get' k = None"
  shows "\<forall>j. get (insert_entry k v m) j = None \<or> get' j = None"
  using assms by (simp add: get_insert)

end

interpretation btree: keyed_map bt_get bt_insert bt_remove bt_ok
  by unfold_locales auto

definition disjoint_keys :: "('k, 'v) btree \<Rightarrow> ('k, 'w) btree \<Rightarrow> bool" where
  "disjoint_keys m n \<longleftrightarrow> (\<forall>k. bt_get m k = None \<or> bt_get n k = None)"

lemma disjoint_keysD:
  "disjoint_keys m n \<Longrightarrow> bt_get m k = Some v \<Longrightarrow> bt_get n k = None"
  "disjoint_keys m n \<Longrightarrow> bt_get n k = Some w \<Longrightarrow> bt_get m k = None"
  by (auto simp: disjoint_keys_def dest: spec [where x = k])

lemma disjoint_keys_retain:
  assumes "disjoint_keys m n" "bt_ok m" "bt_ok n"
  shows "disjoint_keys (bt_retain P m) (bt_retain Q n)"
  unfolding disjoint_keys_def
proof
  fix k
  show "bt_get (bt_retain P m) k = None \<or> bt_get (bt_retain Q n) k = None"
    using assms by (cases "bt_get m k") (auto simp: bt_get_retain dest: disjoint_keysD)
qed

lemma disjoint_keys_intros:
  "disjoint_keys m n \<Longrightarrow> disjoint_keys (bt_remove k m) n"
  "disjoint_keys m n \<Longrightarrow> disjoint_keys m (bt_remove k n)"
  "disjoint_keys m n \<Longrightarrow> disjoint_keys (bt_remove k m) (bt_insert k v n)"
  "disjoint_keys m n \<Longrightarrow> bt_get n k = None \<Longrightarrow> disjoint_keys (bt_insert k w m) n"
  "disjoint_keys m n \<Longrightarrow> bt_get m k = None \<Longrightarrow> disjoint_keys m (bt_insert k v n)"
  by (simp_all add: disjoint_keys_def)

end
