(* ===== verification/Command_Broker.thy ===== *)
theory Command_Broker
  imports Prelude
begin

text \<open>
  The policy for commands in a Room's workspace (\<open>crates/moe-command-broker/src/lib.rs\<close>): a
  request is a baseline command of a fixed list, a command that needs the owner's confirmation,
  or is refused. Paths are those of \<open>std::path\<close> on a Unix system, as bytes; the check of path
  segments is modelled for both targets. \<open>semver::Version\<close> is a parameter.
\<close>

section \<open>Commands\<close>

definition MAXIMUM_RELATIVE_PATH_BYTES :: nat where "MAXIMUM_RELATIVE_PATH_BYTES = 4096"
definition MAXIMUM_RELATIVE_PATH_COMPONENTS :: nat where "MAXIMUM_RELATIVE_PATH_COMPONENTS = 256"
definition MAXIMUM_NPM_PACKAGE_NAME_BYTES :: nat where "MAXIMUM_NPM_PACKAGE_NAME_BYTES = 214"
definition MAXIMUM_NPM_EXACT_VERSION_BYTES :: nat where "MAXIMUM_NPM_EXACT_VERSION_BYTES = 128"
definition MAXIMUM_COMMAND_OUTPUT_BYTES :: nat where "MAXIMUM_COMMAND_OUTPUT_BYTES = 256 * 1024"
definition MAXIMUM_COMMAND_SECONDS :: u64 where "MAXIMUM_COMMAND_SECONDS = 300"

datatype workspace_command_access = ReadOnly | ReadWrite

datatype registered_tool = Git | Node | Npm | Cargo

datatype baseline_command =
  GitStatus | GitDiff | GitDiffStaged | GitLog | NodeRun | NpmBuild | NpmTest | NpmTypecheck
  | CargoCheck | CargoBuild | CargoTest | CargoClippy | CargoFmtCheck

fun baseline_tool :: "baseline_command \<Rightarrow> registered_tool" where
  "baseline_tool GitStatus = Git"
| "baseline_tool GitDiff = Git"
| "baseline_tool GitDiffStaged = Git"
| "baseline_tool GitLog = Git"
| "baseline_tool NodeRun = Node"
| "baseline_tool NpmBuild = Npm"
| "baseline_tool NpmTest = Npm"
| "baseline_tool NpmTypecheck = Npm"
| "baseline_tool CargoCheck = Cargo"
| "baseline_tool CargoBuild = Cargo"
| "baseline_tool CargoTest = Cargo"
| "baseline_tool CargoClippy = Cargo"
| "baseline_tool CargoFmtCheck = Cargo"

definition baseline_writes_workspace :: "baseline_command \<Rightarrow> bool" where
  "baseline_writes_workspace command \<longleftrightarrow> command \<notin> {GitStatus, GitDiff, GitDiffStaged, GitLog}"

datatype action_time_command =
  GitPush | PackageInstall | CargoFetch | UnregisteredTool | CredentialUse
  | AdministratorOperation | DestructiveOperation

datatype confirmation_reason =
  ExternalMutation | NetworkDownload | Reason_UnregisteredTool | Reason_CredentialUse
  | PrivilegeExpansion | DestructiveChange

fun action_reason :: "action_time_command \<Rightarrow> confirmation_reason" where
  "action_reason GitPush = ExternalMutation"
| "action_reason PackageInstall = NetworkDownload"
| "action_reason CargoFetch = NetworkDownload"
| "action_reason UnregisteredTool = Reason_UnregisteredTool"
| "action_reason CredentialUse = Reason_CredentialUse"
| "action_reason AdministratorOperation = PrivilegeExpansion"
| "action_reason DestructiveOperation = DestructiveChange"

definition action_writes_workspace :: "action_time_command \<Rightarrow> bool" where
  "action_writes_workspace command \<longleftrightarrow>
     command \<in> {GitPush, PackageInstall, CargoFetch, DestructiveOperation}"

definition action_allows_room_session :: "action_time_command \<Rightarrow> bool" where
  "action_allows_room_session command \<longleftrightarrow> command \<in> {GitPush, PackageInstall, CargoFetch}"

section \<open>Paths\<close>

datatype path_component = RootDir | CurDir | ParentDir | Normal string

text \<open>\<open>str::split\<close> at a character: never empty.\<close>

fun split_at :: "char \<Rightarrow> string \<Rightarrow> string list" where
  "split_at c [] = [[]]"
| "split_at c (x # xs) =
     (if x = c then [] # split_at c xs
      else (case split_at c xs of [] \<Rightarrow> [[x]] | s # ss \<Rightarrow> (x # s) # ss))"

definition path_is_absolute :: "string \<Rightarrow> bool" where
  "path_is_absolute path \<longleftrightarrow> (case path of [] \<Rightarrow> False | c # _ \<Rightarrow> c = CHR ''/'')"

definition component_of :: "string \<Rightarrow> path_component" where
  "component_of segment = (if segment = ''..'' then ParentDir else Normal segment)"

text \<open>\<open>Path::components\<close>: empty segments and every \<open>.\<close> but a leading one are left out.\<close>

definition path_components :: "string \<Rightarrow> path_component list" where
  "path_components path =
     (let segments = split_at (CHR ''/'') path in
      (if path_is_absolute path then [RootDir] else if hd segments = ''.'' then [CurDir] else [])
      @ map component_of (filter (\<lambda>s. s \<noteq> [] \<and> s \<noteq> ''.'') segments))"

text \<open>\<open>PathBuf::push\<close>.\<close>

definition path_push :: "string \<Rightarrow> string \<Rightarrow> string" where
  "path_push base segment =
     (if path_is_absolute segment then segment
      else if base = [] \<or> last base = CHR ''/'' then base @ segment
      else base @ ''/'' @ segment)"

text \<open>The check of one segment, on Unix and on Windows (there for a segment that is Unicode).\<close>

definition valid_path_segment :: "string \<Rightarrow> bool" where
  "valid_path_segment segment \<longleftrightarrow> CHR 0x00 \<notin> set segment"

definition to_ascii_uppercase :: "string \<Rightarrow> string" where
  "to_ascii_uppercase s = map (\<lambda>c. if is_ascii_lowercase c then char_of (byte_of c - 32) else c) s"

definition strip_prefix :: "string \<Rightarrow> string \<Rightarrow> string option" where
  "strip_prefix pre s = (if take (length pre) s = pre then Some (drop (length pre) s) else None)"

definition windows_numbered_device_name :: "string \<Rightarrow> bool" where
  "windows_numbered_device_name device_name =
     (case (case strip_prefix ''COM'' device_name of
              Some n \<Rightarrow> Some n | None \<Rightarrow> strip_prefix ''LPT'' device_name) of
        None \<Rightarrow> False
      | Some number \<Rightarrow>
          number \<in> set [''0'', ''1'', ''2'', ''3'', ''4'', ''5'', ''6'', ''7'', ''8'', ''9'',
            bytes_str [226, 129, 176], bytes_str [194, 185], bytes_str [194, 178],
            bytes_str [194, 179], bytes_str [226, 129, 180], bytes_str [226, 129, 181],
            bytes_str [226, 129, 182], bytes_str [226, 129, 183], bytes_str [226, 129, 184],
            bytes_str [226, 129, 185]])"

definition valid_path_segment_windows :: "string \<Rightarrow> bool" where
  "valid_path_segment_windows segment =
     (if segment = [] \<or> last segment \<in> {CHR '' '', CHR ''.''}
         \<or> CHR '':'' \<in> set segment \<or> CHR 0x00 \<in> set segment
      then False
      else
        (let device_name = to_ascii_uppercase (hd (split_at (CHR ''.'') segment)) in
         device_name \<notin> set [''CON'', ''PRN'', ''AUX'', ''NUL'', ''CLOCK$'', ''CONIN$'', ''CONOUT$'']
         \<and> \<not> windows_numbered_device_name device_name))"

fun push_components :: "string \<Rightarrow> nat \<Rightarrow> path_component list \<Rightarrow> (string, unit) result" where
  "push_components relative component_count [] = Ok relative"
| "push_components relative component_count (Normal segment # cs) =
     (if \<not> valid_path_segment segment then Err ()
      else if component_count + 1 > MAXIMUM_RELATIVE_PATH_COMPONENTS then Err ()
      else push_components (path_push relative segment) (component_count + 1) cs)"
| "push_components relative component_count (_ # cs) = Err ()"

definition workspace_relative_directory :: "string \<Rightarrow> (string, unit) result" where
  "workspace_relative_directory path =
     (if path_components path = path_components ''.'' then Ok ''.''
      else if path = [] \<or> length path > MAXIMUM_RELATIVE_PATH_BYTES \<or> path_is_absolute path
      then Err ()
      else
        (case push_components [] 0 (path_components path) of
           Inl _ \<Rightarrow> Err ()
         | Inr relative \<Rightarrow> if relative = [] then Err () else Ok relative))"

section \<open>Classification\<close>

datatype workspace_command_intent =
  Intent_Baseline baseline_command | Intent_ActionTime action_time_command

record workspace_command_request =
  request_working_directory :: string
  request_intent :: workspace_command_intent

record workspace_command_plan =
  plan_working_directory :: string
  plan_command :: baseline_command
  plan_tool :: registered_tool
  network_enabled :: bool
  accepts_shell_command_string :: bool
  maximum_output_bytes :: nat
  maximum_seconds :: u64

datatype command_denial_reason =
  InvalidWorkingDirectory | InvalidPackageName | InvalidExactVersion | WorkspaceWriteRequired

datatype command_classification =
  Baseline workspace_command_plan
| ActionTimeConfirmationRequired confirmation_reason
| Denied command_denial_reason

definition classify_command ::
  "workspace_command_request \<Rightarrow> workspace_command_access \<Rightarrow> command_classification"
where
  "classify_command request access =
     (case workspace_relative_directory (request_working_directory request) of
        Inl _ \<Rightarrow> Denied InvalidWorkingDirectory
      | Inr working_directory \<Rightarrow>
          (case request_intent request of
             Intent_Baseline command \<Rightarrow>
               if baseline_writes_workspace command \<and> access \<noteq> ReadWrite
               then Denied WorkspaceWriteRequired
               else Baseline
                 \<lparr>plan_working_directory = working_directory, plan_command = command,
                  plan_tool = baseline_tool command, network_enabled = False,
                  accepts_shell_command_string = False,
                  maximum_output_bytes = MAXIMUM_COMMAND_OUTPUT_BYTES,
                  maximum_seconds = MAXIMUM_COMMAND_SECONDS\<rparr>
           | Intent_ActionTime command \<Rightarrow>
               if action_writes_workspace command \<and> access \<noteq> ReadWrite
               then Denied WorkspaceWriteRequired
               else ActionTimeConfirmationRequired (action_reason command)))"

section \<open>Package installation\<close>

record npm_package_install_request =
  install_working_directory :: string
  install_package_name :: string
  install_exact_version :: string

record npm_package_install_plan =
  npm_working_directory :: string
  npm_package_name :: string
  npm_exact_version :: string

datatype npm_package_install_classification =
  Npm_ActionTimeConfirmationRequired npm_package_install_plan
| Npm_Denied command_denial_reason

definition valid_npm_name_component :: "string \<Rightarrow> bool" where
  "valid_npm_name_component component \<longleftrightarrow>
     (case component of [] \<Rightarrow> False | c # _ \<Rightarrow> is_ascii_lowercase c \<or> is_ascii_digit c)
     \<and> list_all (\<lambda>c. is_ascii_lowercase c \<or> is_ascii_digit c \<or> c \<in> {CHR ''-'', CHR ''_'', CHR ''.''})
         component"

definition valid_npm_package_name :: "string \<Rightarrow> bool" where
  "valid_npm_package_name name =
     (if name = [] \<or> length name > MAXIMUM_NPM_PACKAGE_NAME_BYTES \<or> \<not> is_ascii_str name
         \<or> list_ex is_ascii_uppercase name
      then False
      else
        (case split_at (CHR ''/'') name of
           [first] \<Rightarrow> valid_npm_name_component first
         | [first, package] \<Rightarrow>
             is_some_and (strip_prefix ''@'' first) valid_npm_name_component
             \<and> valid_npm_name_component package
         | _ \<Rightarrow> False))"

text \<open>\<open>parse\<close> yields the version as it prints and whether its build metadata is empty.\<close>

definition valid_exact_npm_version :: "(string \<Rightarrow> (string \<times> bool) option) \<Rightarrow> string \<Rightarrow> bool" where
  "valid_exact_npm_version semver_parse version =
     (if version = [] \<or> length version > MAXIMUM_NPM_EXACT_VERSION_BYTES \<or> \<not> is_ascii_str version
      then False
      else is_some_and (semver_parse version)
             (\<lambda>(printed, build_is_empty). printed = version \<and> build_is_empty))"

definition classify_npm_package_install ::
  "(string \<Rightarrow> (string \<times> bool) option) \<Rightarrow> npm_package_install_request \<Rightarrow> workspace_command_access
     \<Rightarrow> npm_package_install_classification"
where
  "classify_npm_package_install semver_parse request access =
     (case workspace_relative_directory (install_working_directory request) of
        Inl _ \<Rightarrow> Npm_Denied InvalidWorkingDirectory
      | Inr working_directory \<Rightarrow>
          if access \<noteq> ReadWrite then Npm_Denied WorkspaceWriteRequired
          else if \<not> valid_npm_package_name (install_package_name request)
          then Npm_Denied InvalidPackageName
          else if \<not> valid_exact_npm_version semver_parse (install_exact_version request)
          then Npm_Denied InvalidExactVersion
          else Npm_ActionTimeConfirmationRequired
            \<lparr>npm_working_directory = working_directory,
             npm_package_name = install_package_name request,
             npm_exact_version = install_exact_version request\<rparr>)"

definition npm_target_label :: "npm_package_install_plan \<Rightarrow> string" where
  "npm_target_label plan =
     npm_package_name plan @ ''@'' @ npm_exact_version plan @ '' in '' @ npm_working_directory plan"

section \<open>Accepted directories stay in the workspace\<close>

lemma split_at_ne [simp]: "split_at c s \<noteq> []"
  by (induction s) (auto split: list.split)

lemma split_at_no_sep: "c \<notin> set s \<Longrightarrow> split_at c s = [s]"
  by (induction s) auto

lemma split_at_append_sep: "split_at c (xs @ c # ys) = split_at c xs @ split_at c ys"
  by (induction xs) (auto split: list.split)

lemma split_at_parts: "s' \<in> set (split_at c s) \<Longrightarrow> c \<notin> set s'"
  by (induction s arbitrary: s') (fastforce split: if_splits list.splits)+

lemma split_at_size: "sum_list (map (\<lambda>s. Suc (length s)) (split_at c s)) = Suc (length s)"
  by (induction s) (auto split: list.split)

lemma sum_list_filter_le: "sum_list (map f (filter P xs)) \<le> (sum_list (map f xs) :: nat)"
  by (induction xs) auto

text \<open>A segment that \<open>components\<close> reports as \<open>Normal\<close>.\<close>

definition plain_segment :: "string \<Rightarrow> bool" where
  "plain_segment s \<longleftrightarrow> s \<noteq> [] \<and> CHR ''/'' \<notin> set s \<and> s \<noteq> ''.'' \<and> s \<noteq> ''..''"

lemma plain_not_absolute: "plain_segment s \<Longrightarrow> \<not> path_is_absolute s"
  by (auto simp: plain_segment_def path_is_absolute_def split: list.splits)

abbreviation join_path :: "string list \<Rightarrow> string" where
  "join_path \<equiv> foldl path_push []"

lemma path_push_plain:
  assumes "plain_segment s" "b = [] \<or> last b \<noteq> CHR ''/''"
  shows "path_push b s = (if b = [] then s else b @ ''/'' @ s)"
    and "path_push b s \<noteq> []" "last (path_push b s) \<noteq> CHR ''/''"
proof -
  have "s \<noteq> []" "last s \<noteq> CHR ''/''"
    using assms(1) by (auto simp: plain_segment_def dest: last_in_set)
  then show "path_push b s = (if b = [] then s else b @ ''/'' @ s)"
    and "path_push b s \<noteq> []" "last (path_push b s) \<noteq> CHR ''/''"
    using assms by (auto simp: path_push_def plain_not_absolute)
qed

lemma join_path_ends:
  "list_all plain_segment segs \<Longrightarrow> segs \<noteq> [] \<Longrightarrow>
     join_path segs \<noteq> [] \<and> last (join_path segs) \<noteq> CHR ''/''"
proof (induction segs rule: rev_induct)
  case (snoc s segs)
  then have "join_path segs = [] \<or> last (join_path segs) \<noteq> CHR ''/''"
    by (cases "segs = []") auto
  with snoc.prems show ?case
    by (simp add: path_push_plain(2,3))
qed simp

lemma join_path_snoc:
  assumes "list_all plain_segment (segs @ [s])"
  shows "join_path (segs @ [s]) = (if segs = [] then s else join_path segs @ ''/'' @ s)"
  using assms join_path_ends [of segs] by (cases "segs = []") (simp_all add: path_push_plain)

lemma split_join_path:
  assumes "list_all plain_segment segs" "segs \<noteq> []"
  shows "split_at (CHR ''/'') (join_path segs) = segs"
  using assms
proof (induction segs rule: rev_induct)
  case (snoc s segs)
  have s: "split_at (CHR ''/'') s = [s]"
    using snoc.prems(1) by (simp add: split_at_no_sep plain_segment_def)
  show ?case
    using snoc s join_path_snoc [OF snoc.prems(1)]
    by (cases "segs = []") (simp_all add: split_at_append_sep del: foldl_append)
qed simp

lemma absolute_split: "path_is_absolute p \<longleftrightarrow> (\<exists>ss. split_at (CHR ''/'') p = [] # ss \<and> ss \<noteq> [])"
  by (cases p) (auto simp: path_is_absolute_def split: list.split)

lemma components_join_path:
  assumes "list_all plain_segment segs" "segs \<noteq> []"
  shows "path_components (join_path segs) = map Normal segs" "\<not> path_is_absolute (join_path segs)"
proof -
  have hd: "plain_segment (hd segs)"
    using assms by (cases segs) simp_all
  show abs: "\<not> path_is_absolute (join_path segs)"
    using hd assms by (auto simp: absolute_split split_join_path plain_segment_def)
  have "filter (\<lambda>s. s \<noteq> [] \<and> s \<noteq> ''.'') segs = segs" "map component_of segs = map Normal segs"
    using assms(1) by (auto simp: filter_id_conv list_all_iff plain_segment_def component_of_def)
  then show "path_components (join_path segs) = map Normal segs"
    using hd abs assms by (simp add: path_components_def Let_def split_join_path)
      (simp add: plain_segment_def)
qed

lemma push_components_Ok:
  "push_components relative n cs = Ok r \<longleftrightarrow>
     (\<exists>segs. cs = map Normal segs \<and> list_all valid_path_segment segs
        \<and> (segs \<noteq> [] \<longrightarrow> n + length segs \<le> 256) \<and> r = foldl path_push relative segs)"
proof (induction relative n cs rule: push_components.induct)
  case (2 relative n s cs)
  have "(\<exists>segs. Normal s # cs = map Normal segs \<and> Q segs) \<longleftrightarrow>
      (\<exists>segs. cs = map Normal segs \<and> Q (s # segs))" for Q
    by (auto simp: Cons_eq_map_conv)
  then show ?case
    using 2 by (auto simp: MAXIMUM_RELATIVE_PATH_COMPONENTS_def)
qed auto

lemma join_path_length:
  assumes "list_all plain_segment segs" "segs \<noteq> []"
  shows "Suc (length (join_path segs)) = sum_list (map (\<lambda>s. Suc (length s)) segs)"
  using split_at_size [of "CHR ''/''" "join_path segs"] split_join_path [OF assms] by simp

lemma map_component_of_Normal: "map component_of xs = map Normal ys \<Longrightarrow> xs = ys"
  by (induction xs arbitrary: ys) (auto simp: component_of_def Cons_eq_map_conv split: if_splits)

lemma components_Normal:
  assumes "path_components path = map Normal segs"
  shows "list_all plain_segment segs"
    and "sum_list (map (\<lambda>s. Suc (length s)) segs) \<le> Suc (length path)"
proof -
  let ?fs = "filter (\<lambda>s. s \<noteq> [] \<and> s \<noteq> ''.'') (split_at (CHR ''/'') path)"
  have eq: "map component_of ?fs = map Normal segs"
    using assms by (auto simp: path_components_def Let_def split: if_splits)
  then have fs: "?fs = segs"
    by (rule map_component_of_Normal)
  have comp: "\<forall>s \<in> set segs. component_of s = Normal s"
    using eq unfolding fs by simp
  show "list_all plain_segment segs"
    unfolding list_all_iff
  proof
    fix s assume s: "s \<in> set segs"
    then have "s \<in> set ?fs"
      unfolding fs .
    then have "s \<noteq> []" "s \<noteq> ''.''" "CHR ''/'' \<notin> set s"
      by (auto dest: split_at_parts)
    then show "plain_segment s"
      using comp s by (auto simp: plain_segment_def component_of_def split: if_splits)
  qed
  have "sum_list (map (\<lambda>s. Suc (length s)) ?fs) \<le> Suc (length path)"
    using sum_list_filter_le [of "\<lambda>s. Suc (length s)" "\<lambda>s. s \<noteq> [] \<and> s \<noteq> ''.''" "split_at (CHR ''/'') path"]
    by (simp only: split_at_size)
  then show "sum_list (map (\<lambda>s. Suc (length s)) segs) \<le> Suc (length path)"
    unfolding fs .
qed

text \<open>A directory that names a place inside the workspace: the workspace itself, or names of
  directories one after the other, none of them a step up and none with a NUL byte.\<close>

definition inside_workspace :: "string \<Rightarrow> bool" where
  "inside_workspace dir \<longleftrightarrow>
     dir = ''.''
     \<or> (\<exists>segs. segs \<noteq> [] \<and> length segs \<le> 256 \<and> dir = join_path segs
          \<and> path_components dir = map Normal segs \<and> list_all valid_path_segment segs)"

lemma workspace_directory_cases:
  assumes "workspace_relative_directory path = Ok dir"
  shows "path_components dir = path_components path \<and> inside_workspace dir \<and> length dir \<le> 4096"
proof (cases "path_components path = path_components ''.''")
  case True
  then show ?thesis
    using assms by (auto simp: workspace_relative_directory_def inside_workspace_def)
next
  case False
  with assms have push: "push_components [] 0 (path_components path) = Ok dir" "dir \<noteq> []"
    and len: "length path \<le> 4096"
    by (auto simp: workspace_relative_directory_def MAXIMUM_RELATIVE_PATH_BYTES_def
        split: if_splits sum.splits)
  then obtain segs where segs: "path_components path = map Normal segs"
      "list_all valid_path_segment segs" "segs \<noteq> [] \<longrightarrow> length segs \<le> 256" "dir = join_path segs"
    by (auto simp: push_components_Ok)
  then have "segs \<noteq> []"
    using push(2) by auto
  moreover note plain = components_Normal [OF segs(1)]
  ultimately have "path_components dir = map Normal segs" "length dir \<le> 4096"
    using components_join_path join_path_length [of segs] len segs(4) by auto
  then show ?thesis
    using segs \<open>segs \<noteq> []\<close> by (auto simp: inside_workspace_def)
qed

lemma workspace_directory_idem:
  assumes "workspace_relative_directory path = Ok dir"
  shows "workspace_relative_directory dir = Ok dir"
proof (cases "dir = ''.''")
  case True
  then show ?thesis by (simp add: workspace_relative_directory_def)
next
  case False
  then obtain segs where segs: "segs \<noteq> []" "length segs \<le> 256" "dir = join_path segs"
      "path_components dir = map Normal segs" "list_all valid_path_segment segs"
    using workspace_directory_cases [OF assms] by (auto simp: inside_workspace_def)
  have plain: "list_all plain_segment segs"
    by (rule components_Normal(1) [OF segs(4)])
  have "push_components [] 0 (path_components dir) = Ok dir"
    unfolding push_components_Ok using segs by auto
  moreover have "path_components dir \<noteq> path_components ''.''"
    unfolding segs(4) using segs(1)
    by (cases segs) (auto simp: path_components_def path_is_absolute_def)
  moreover have "dir \<noteq> []" "\<not> path_is_absolute dir"
    using join_path_ends [OF plain segs(1)] components_join_path(2) [OF plain segs(1)] segs(3) by auto
  ultimately show ?thesis
    using workspace_directory_cases [OF assms]
      by (simp add: workspace_relative_directory_def MAXIMUM_RELATIVE_PATH_BYTES_def)
qed

text \<open>C32: A working directory that is accepted lies in the workspace: the path it is normalised
  to has the same components as the request, all of them plain names (no root, no step up), and
  checking it again accepts it as it is.\<close>

theorem workspace_directory_stays_inside:
  assumes "workspace_relative_directory path = Ok dir"
  shows "inside_workspace dir \<and> path_components dir = path_components path
    \<and> workspace_relative_directory dir = Ok dir"
  using workspace_directory_cases [OF assms] workspace_directory_idem [OF assms] by simp

lemma workspace_directory_example:
  "workspace_relative_directory ''crates//./moe-core/'' = Ok ''crates/moe-core''"
  by (simp add: workspace_relative_directory_def path_components_def path_is_absolute_def
      component_of_def Let_def MAXIMUM_RELATIVE_PATH_BYTES_def MAXIMUM_RELATIVE_PATH_COMPONENTS_def
      valid_path_segment_def path_push_def)

theorem workspace_directory_stays_inside_witness:
  "inside_workspace ''crates/moe-core''
   \<and> workspace_relative_directory ''crates/moe-core'' = Ok ''crates/moe-core''"
  using workspace_directory_stays_inside [OF workspace_directory_example] by simp

text \<open>C33: The policy grants exactly what it says. Without confirmation a request runs exactly when its
  directory is accepted and it asks for a baseline command that the Room may run: with read access
  these are the four inspections of git and nothing that builds, tests or runs code. What runs works
  in the directory of the request, inside the workspace, with the command's own tool, without network
  and without a shell string, under the fixed limits of output and time. The owner is asked exactly
  for the other commands, in an accepted directory, and with read access only for those that leave the
  workspace as it is; everything else is denied, with the reason that holds.\<close>

theorem classify_command_grants:
  "(\<exists>plan. classify_command request access = Baseline plan) =
      (\<exists>dir command. workspace_relative_directory (request_working_directory request) = Ok dir
        \<and> request_intent request = Intent_Baseline command
        \<and> (access = ReadOnly \<longrightarrow> command \<in> {GitStatus, GitDiff, GitDiffStaged, GitLog}))
   \<and> (\<forall>plan. classify_command request access = Baseline plan \<longrightarrow>
      inside_workspace (plan_working_directory plan)
      \<and> path_components (plan_working_directory plan)
          = path_components (request_working_directory request)
      \<and> request_intent request = Intent_Baseline (plan_command plan)
      \<and> plan_tool plan = baseline_tool (plan_command plan)
      \<and> (access = ReadOnly \<longrightarrow> plan_tool plan = Git)
      \<and> \<not> network_enabled plan \<and> \<not> accepts_shell_command_string plan
      \<and> maximum_output_bytes plan = 262144 \<and> maximum_seconds plan = 300)
   \<and> (\<forall>reason. classify_command request access = ActionTimeConfirmationRequired reason \<longleftrightarrow>
      (\<exists>dir command. workspace_relative_directory (request_working_directory request) = Ok dir
        \<and> request_intent request = Intent_ActionTime command
        \<and> (access = ReadOnly \<longrightarrow> command \<in> {UnregisteredTool, CredentialUse, AdministratorOperation})
        \<and> reason = action_reason command))
   \<and> (\<forall>reason. classify_command request access = Denied reason \<longrightarrow>
      reason = (if \<exists>dir. workspace_relative_directory (request_working_directory request) = Ok dir
                then WorkspaceWriteRequired else InvalidWorkingDirectory)
      \<and> (reason = WorkspaceWriteRequired \<longrightarrow> access = ReadOnly))"
proof (cases "workspace_relative_directory (request_working_directory request)")
  case (Inr dir)
  have access: "access \<noteq> ReadWrite \<longleftrightarrow> access = ReadOnly"
    by (cases access) simp_all
  show ?thesis
  proof (cases "request_intent request")
    case (Intent_Baseline command)
    then show ?thesis
      using workspace_directory_cases [OF Inr] Inr access
      by (cases command) (auto simp: classify_command_def baseline_writes_workspace_def
          MAXIMUM_COMMAND_OUTPUT_BYTES_def MAXIMUM_COMMAND_SECONDS_def)
  next
    case (Intent_ActionTime command)
    then show ?thesis
      using Inr access by (cases command) (auto simp: classify_command_def action_writes_workspace_def)
  qed
qed (simp add: classify_command_def)

theorem classify_command_grants_witness:
  "inside_workspace ''crates/moe-core''
   \<and> classify_command \<lparr>request_working_directory = ''.'', request_intent = Intent_Baseline CargoBuild\<rparr> ReadOnly
       = Denied WorkspaceWriteRequired"
proof
  show "inside_workspace ''crates/moe-core''"
    using classify_command_grants
      [of "\<lparr>request_working_directory = ''crates//./moe-core/'', request_intent = Intent_Baseline CargoTest\<rparr>"
          ReadWrite]
    by (simp add: classify_command_def workspace_directory_example)
  show "classify_command \<lparr>request_working_directory = ''.'', request_intent = Intent_Baseline CargoBuild\<rparr> ReadOnly
      = Denied WorkspaceWriteRequired"
    by (simp add: classify_command_def workspace_relative_directory_def baseline_writes_workspace_def)
qed

end
