(* ===== verification/Confirmation.thy ===== *)
theory Confirmation
  imports Btree_Map Command_Broker
begin

text \<open>
  \<open>CommandConfirmationRegistry\<close> (\<open>crates/moe-command-broker/src/confirmation.rs\<close>): the owner's
  confirmations of commands, from the request over the decision to the one use of the
  authorization. Maps are \<open>BTreeMap\<close>s, the set of grants is a finite set.
\<close>

section \<open>Data\<close>

definition MAXIMUM_CONFIRMATION_ID_BYTES :: nat where "MAXIMUM_CONFIRMATION_ID_BYTES = 128"
definition MAXIMUM_SCOPE_ID_BYTES :: nat where "MAXIMUM_SCOPE_ID_BYTES = 256"
definition MAXIMUM_TARGET_CHARACTERS :: nat where "MAXIMUM_TARGET_CHARACTERS = 256"
definition MAXIMUM_PENDING_CONFIRMATIONS :: nat where "MAXIMUM_PENDING_CONFIRMATIONS = 32"
definition MAXIMUM_TERMINAL_CONFIRMATIONS :: nat where "MAXIMUM_TERMINAL_CONFIRMATIONS = 1024"

definition scope_valid_identifier :: "string \<Rightarrow> nat \<Rightarrow> bool" where
  "scope_valid_identifier value maximum_bytes \<longleftrightarrow>
     value \<noteq> [] \<and> length value \<le> maximum_bytes \<and> list_all is_ascii_graphic value"

definition valid_target_label :: "string \<Rightarrow> bool" where
  "valid_target_label value \<longleftrightarrow>
     value \<noteq> [] \<and> length (str_chars value) \<le> MAXIMUM_TARGET_CHARACTERS
     \<and> list_all (\<lambda>c. \<not> is_control c) (str_chars value)"

record command_confirmation_scope =
  scope_room_id :: string
  scope_session_id :: string
  scope_workspace_key :: string
  scope_command :: action_time_command
  scope_target_label :: string

datatype confirmation_contract_error =
  InvalidRequestId_Contract | InvalidScope | RequestIdConflict | RequestAlreadyResolved
  | UnknownRequest | TooManyPending | TerminalRegistryFull | ScopeMismatch

definition command_confirmation_scope_new ::
  "string \<Rightarrow> string \<Rightarrow> string \<Rightarrow> action_time_command \<Rightarrow> string
     \<Rightarrow> (command_confirmation_scope, confirmation_contract_error) result"
where
  "command_confirmation_scope_new room_id session_id workspace_key command target_label =
     (if \<not> scope_valid_identifier room_id MAXIMUM_SCOPE_ID_BYTES
         \<or> \<not> scope_valid_identifier session_id MAXIMUM_SCOPE_ID_BYTES
         \<or> \<not> scope_valid_identifier workspace_key MAXIMUM_SCOPE_ID_BYTES
         \<or> \<not> valid_target_label target_label
      then Err InvalidScope
      else Ok \<lparr>scope_room_id = room_id, scope_session_id = session_id,
               scope_workspace_key = workspace_key, scope_command = command,
               scope_target_label = target_label\<rparr>)"

definition scope_allows_room_session :: "command_confirmation_scope \<Rightarrow> bool" where
  "scope_allows_room_session scope \<longleftrightarrow> action_allows_room_session (scope_command scope)"

record command_confirmation_request =
  confirmation_request_id :: string
  confirmation_scope :: command_confirmation_scope

definition command_confirmation_request_new ::
  "string \<Rightarrow> command_confirmation_scope
     \<Rightarrow> (command_confirmation_request, confirmation_contract_error) result"
where
  "command_confirmation_request_new request_id scope =
     (if \<not> scope_valid_identifier request_id MAXIMUM_CONFIRMATION_ID_BYTES
      then Err InvalidRequestId_Contract
      else Ok \<lparr>confirmation_request_id = request_id, confirmation_scope = scope\<rparr>)"

datatype confirmation_decision = AllowOnce | AllowRoomSession | Deny | Dismissed | TimedOut

datatype confirmation_denial =
  Denial_OwnerDenied | Denial_Dismissed | Denial_TimedOut | SessionLifetimeNotAllowed

datatype authorization_lifetime = Once | RoomSession

record command_authorization =
  authorization_request_id :: string
  authorization_scope :: command_confirmation_scope
  authorization_lifetime :: authorization_lifetime

datatype confirmation_register_outcome = Register_Pending | AlreadyPending | AuthorizedByRoomSession

datatype confirmation_resolve_outcome = AuthorizationReady | Resolve_Denied confirmation_denial

record ready_authorization =
  ready_scope :: command_confirmation_scope
  ready_lifetime :: authorization_lifetime

record command_confirmation_registry =
  pending :: "(string, command_confirmation_scope) btree"
  ready :: "(string, ready_authorization) btree"
  terminal_of :: "(string, string) btree"
  room_session_grants :: "command_confirmation_scope set"

definition registry_default :: command_confirmation_registry where
  "registry_default = \<lparr>pending = [], ready = [], terminal_of = [], room_session_grants = {}\<rparr>"

section \<open>Operations\<close>

definition register_confirmation ::
  "command_confirmation_registry \<Rightarrow> command_confirmation_request
     \<Rightarrow> command_confirmation_registry
        \<times> (confirmation_register_outcome, confirmation_contract_error) result"
where
  "register_confirmation reg request =
     (let id' = confirmation_request_id request; scope = confirmation_scope request in
      case bt_get (pending reg) id' of
        Some existing \<Rightarrow>
          if existing = scope then (reg, Ok AlreadyPending) else (reg, Err RequestIdConflict)
      | None \<Rightarrow>
          if bt_contains_key (ready reg) id' \<or> bt_contains_key (terminal_of reg) id'
          then (reg, Err RequestAlreadyResolved)
          else if length (terminal_of reg) \<ge> MAXIMUM_TERMINAL_CONFIRMATIONS
          then (reg, Err TerminalRegistryFull)
          else if length (pending reg) + length (ready reg) \<ge> MAXIMUM_PENDING_CONFIRMATIONS
          then (reg, Err TooManyPending)
          else if scope \<in> room_session_grants reg
          then (reg\<lparr>ready := bt_insert id' \<lparr>ready_scope = scope, ready_lifetime = RoomSession\<rparr>
                              (ready reg)\<rparr>,
                Ok AuthorizedByRoomSession)
          else (reg\<lparr>pending := bt_insert id' scope (pending reg)\<rparr>, Ok Register_Pending))"

definition finish_terminal ::
  "command_confirmation_registry \<Rightarrow> string \<Rightarrow> string
     \<Rightarrow> command_confirmation_registry \<times> (unit, confirmation_contract_error) result"
where
  "finish_terminal reg request_id session_id =
     (if length (terminal_of reg) \<ge> MAXIMUM_TERMINAL_CONFIRMATIONS
      then (reg, Err TerminalRegistryFull)
      else (reg\<lparr>terminal_of := bt_insert request_id session_id (terminal_of reg)\<rparr>, Ok ()))"

definition finish_denied ::
  "command_confirmation_registry \<Rightarrow> string \<Rightarrow> string \<Rightarrow> confirmation_denial
     \<Rightarrow> command_confirmation_registry
        \<times> (confirmation_resolve_outcome, confirmation_contract_error) result"
where
  "finish_denied reg request_id session_id denial =
     (case finish_terminal reg request_id session_id of
        (reg', Inl e) \<Rightarrow> (reg', Err e)
      | (reg', Inr _) \<Rightarrow> (reg', Ok (Resolve_Denied denial)))"

definition resolve_confirmation ::
  "command_confirmation_registry \<Rightarrow> string \<Rightarrow> confirmation_decision
     \<Rightarrow> command_confirmation_registry
        \<times> (confirmation_resolve_outcome, confirmation_contract_error) result"
where
  "resolve_confirmation reg request_id decision =
     (if length (terminal_of reg) \<ge> MAXIMUM_TERMINAL_CONFIRMATIONS
      then (reg, Err TerminalRegistryFull)
      else if bt_contains_key (ready reg) request_id \<or> bt_contains_key (terminal_of reg) request_id
      then (reg, Err RequestAlreadyResolved)
      else
        (case bt_get (pending reg) request_id of
           None \<Rightarrow> (reg, Err UnknownRequest)
         | Some scope \<Rightarrow>
             (let reg1 = reg\<lparr>pending := bt_remove request_id (pending reg)\<rparr> in
              case decision of
                AllowOnce \<Rightarrow>
                  (reg1\<lparr>ready := bt_insert request_id
                                  \<lparr>ready_scope = scope, ready_lifetime = Once\<rparr> (ready reg1)\<rparr>,
                   Ok AuthorizationReady)
              | AllowRoomSession \<Rightarrow>
                  if scope_allows_room_session scope
                  then (reg1\<lparr>room_session_grants := insert scope (room_session_grants reg1),
                             ready := bt_insert request_id
                                  \<lparr>ready_scope = scope, ready_lifetime = RoomSession\<rparr> (ready reg1)\<rparr>,
                        Ok AuthorizationReady)
                  else finish_denied reg1 request_id (scope_session_id scope) SessionLifetimeNotAllowed
              | Deny \<Rightarrow>
                  finish_denied reg1 request_id (scope_session_id scope) Denial_OwnerDenied
              | Dismissed \<Rightarrow>
                  finish_denied reg1 request_id (scope_session_id scope) Denial_Dismissed
              | TimedOut \<Rightarrow>
                  finish_denied reg1 request_id (scope_session_id scope) Denial_TimedOut)))"

definition missing_request_error ::
  "command_confirmation_registry \<Rightarrow> string \<Rightarrow> confirmation_contract_error"
where
  "missing_request_error reg request_id =
     (if bt_contains_key (terminal_of reg) request_id then RequestAlreadyResolved else UnknownRequest)"

definition consume_authorization ::
  "command_confirmation_registry \<Rightarrow> string \<Rightarrow> command_confirmation_scope
     \<Rightarrow> command_confirmation_registry \<times> (command_authorization, confirmation_contract_error) result"
where
  "consume_authorization reg request_id expected_scope =
     (if length (terminal_of reg) \<ge> MAXIMUM_TERMINAL_CONFIRMATIONS
      then (reg, Err TerminalRegistryFull)
      else
        (case bt_get (ready reg) request_id of
           None \<Rightarrow> (reg, Err (missing_request_error reg request_id))
         | Some authorization \<Rightarrow>
             (let reg1 = reg\<lparr>ready := bt_remove request_id (ready reg)\<rparr>;
                  scope = ready_scope authorization in
              case finish_terminal reg1 request_id (scope_session_id scope) of
                (reg2, Inl e) \<Rightarrow> (reg2, Err e)
              | (reg2, Inr _) \<Rightarrow>
                  if scope \<noteq> expected_scope then (reg2, Err ScopeMismatch)
                  else (reg2, Ok \<lparr>authorization_request_id = request_id,
                                  authorization_scope = scope,
                                  authorization_lifetime = ready_lifetime authorization\<rparr>))))"

definition pending_requests ::
  "command_confirmation_registry \<Rightarrow> command_confirmation_request list"
where
  "pending_requests reg =
     map (\<lambda>(request_id, scope).
            \<lparr>confirmation_request_id = request_id, confirmation_scope = scope\<rparr>)
       (pending reg)"

definition registry_size :: "command_confirmation_registry \<Rightarrow> nat" where
  "registry_size reg =
     length (pending reg) + length (ready reg) + length (terminal_of reg)
       + card (room_session_grants reg)"

definition end_room_session ::
  "command_confirmation_registry \<Rightarrow> string \<Rightarrow> command_confirmation_registry \<times> nat"
where
  "end_room_session reg session_id =
     (let before = registry_size reg;
          reg' = \<lparr>pending = bt_retain (\<lambda>_ scope. scope_session_id scope \<noteq> session_id) (pending reg),
                  ready = bt_retain
                    (\<lambda>_ authorization. scope_session_id (ready_scope authorization) \<noteq> session_id)
                    (ready reg),
                  terminal_of = bt_retain
                    (\<lambda>_ terminal_session_id. terminal_session_id \<noteq> session_id) (terminal_of reg),
                  room_session_grants = Set.filter
                    (\<lambda>scope. scope_session_id scope \<noteq> session_id) (room_session_grants reg)\<rparr> in
      (reg', before - registry_size reg'))"

lemmas registry_ops_defs = register_confirmation_def resolve_confirmation_def finish_denied_def
  finish_terminal_def consume_authorization_def end_room_session_def

section \<open>The registry as a machine\<close>

datatype registry_event =
  EvRegister string command_confirmation_scope
| EvResolve string confirmation_decision
| EvConsume string command_confirmation_scope
| EvEndSession string

fun registry_step ::
  "command_confirmation_registry \<Rightarrow> registry_event \<Rightarrow> command_confirmation_registry"
where
  "registry_step reg (EvRegister i scope) =
     (case command_confirmation_request_new i scope of
        Inl _ \<Rightarrow> reg | Inr request \<Rightarrow> fst (register_confirmation reg request))"
| "registry_step reg (EvResolve i decision) = fst (resolve_confirmation reg i decision)"
| "registry_step reg (EvConsume i scope) = fst (consume_authorization reg i scope)"
| "registry_step reg (EvEndSession session_id) = fst (end_room_session reg session_id)"

text \<open>Each request is in one state, the sizes are bounded, and whatever holds for a Room session
  belongs to a command for which that is allowed.\<close>

definition registry_ok :: "command_confirmation_registry \<Rightarrow> bool" where
  "registry_ok reg \<longleftrightarrow>
     bt_ok (pending reg) \<and> bt_ok (ready reg) \<and> bt_ok (terminal_of reg)
     \<and> finite (room_session_grants reg)
     \<and> disjoint_keys (pending reg) (ready reg) \<and> disjoint_keys (pending reg) (terminal_of reg)
     \<and> disjoint_keys (ready reg) (terminal_of reg)
     \<and> length (pending reg) + length (ready reg) \<le> 32
     \<and> length (terminal_of reg) \<le> 1024
     \<and> (\<forall>scope \<in> room_session_grants reg. scope_allows_room_session scope)
     \<and> (\<forall>i a. bt_get (ready reg) i = Some a \<longrightarrow> ready_lifetime a = RoomSession \<longrightarrow>
          scope_allows_room_session (ready_scope a))"

lemma registry_default_ok: "registry_ok registry_default"
  by (simp add: registry_ok_def registry_default_def disjoint_keys_def)

lemma register_ok:
  assumes "registry_ok reg"
  shows "registry_ok (fst (register_confirmation reg request))"
  using assms
  by (auto simp: register_confirmation_def registry_ok_def Let_def bt_contains_key_def
      MAXIMUM_PENDING_CONFIRMATIONS_def intro!: disjoint_keys_intros bt_insert_bounds split: option.splits)

lemma finish_denied_ok:
  assumes "registry_ok reg" "bt_get (pending reg) i \<noteq> None"
    "length (terminal_of reg) < 1024"
  shows "registry_ok (fst (finish_denied (reg\<lparr>pending := bt_remove i (pending reg)\<rparr>) i s d))"
  using assms
  by (auto dest: disjoint_keysD simp: finish_denied_def finish_terminal_def registry_ok_def
      MAXIMUM_TERMINAL_CONFIRMATIONS_def intro!: disjoint_keys_intros bt_insert_bounds bt_shrink_bounds)

lemma resolve_ok:
  assumes ok: "registry_ok reg"
  shows "registry_ok (fst (resolve_confirmation reg i d))"
proof (cases "bt_get (pending reg) i = None \<or> length (terminal_of reg) \<ge> 1024
    \<or> bt_contains_key (ready reg) i \<or> bt_contains_key (terminal_of reg) i")
  case True
  then show ?thesis
    using ok by (auto simp: resolve_confirmation_def MAXIMUM_TERMINAL_CONFIRMATIONS_def)
next
  case False
  then obtain scope where scope: "bt_get (pending reg) i = Some scope" by auto
  let ?reg1 = "reg\<lparr>pending := bt_remove i (pending reg)\<rparr>"
  have ready: "registry_ok (?reg1\<lparr>ready := bt_insert i \<lparr>ready_scope = scope, ready_lifetime = l\<rparr> (ready reg)\<rparr>)"
    if "l = Once \<or> scope_allows_room_session scope" for l
    using ok scope False that
    by (auto dest: disjoint_keysD simp: registry_ok_def bt_contains_key_def intro!: disjoint_keys_intros bt_move_bound)
  then have "registry_ok (?reg1\<lparr>room_session_grants := insert scope (room_session_grants reg),
      ready := bt_insert i \<lparr>ready_scope = scope, ready_lifetime = RoomSession\<rparr> (ready reg)\<rparr>)"
    if "scope_allows_room_session scope"
    using that by (simp add: registry_ok_def)
  then show ?thesis
    using finish_denied_ok [OF ok] ready [of Once] scope False
    by (cases d) (auto simp: resolve_confirmation_def MAXIMUM_TERMINAL_CONFIRMATIONS_def Let_def)
qed

lemma consume_ok:
  assumes "registry_ok reg"
  shows "registry_ok (fst (consume_authorization reg i scope))"
  using assms
  by (auto dest: disjoint_keysD simp: consume_authorization_def finish_terminal_def registry_ok_def Let_def
      MAXIMUM_TERMINAL_CONFIRMATIONS_def intro!: disjoint_keys_intros bt_insert_bounds bt_shrink_bounds
      split: option.splits)

lemma end_session_ok:
  assumes "registry_ok reg"
  shows "registry_ok (fst (end_room_session reg s))"
proof -
  have "length (bt_retain P (terminal_of reg)) \<le> 1024" for P
    using assms length_bt_retain [of P "terminal_of reg"] unfolding registry_ok_def by linarith
  then show ?thesis
    using assms
    by (auto simp: end_room_session_def registry_ok_def Let_def disjoint_keys_retain
        intro!: bt_shrink_bounds dest: bt_get_retain_SomeD)
qed

lemma registry_step_ok: "registry_ok reg \<Longrightarrow> registry_ok (registry_step reg e)"
  by (cases e) (auto simp: register_ok resolve_ok consume_ok end_session_ok split: sum.split)

interpretation registry_machine: invariant_machine registry_step registry_ok
  by unfold_locales (rule registry_step_ok)

end
