(* ===== verification/Confirmation_Claims.thy ===== *)
theory Confirmation_Claims
  imports Confirmation
begin

text \<open>
  What the confirmation registry promises: nothing runs that the owner did not allow, an
  authorization is used at most once, and the registry stays within its capacities.
\<close>

definition registry_run :: "registry_event list \<Rightarrow> command_confirmation_registry" where
  "registry_run es = foldl registry_step registry_default es"

lemma registry_run_simps [simp]:
  "registry_run [] = registry_default"
  "registry_run (es @ [e]) = registry_step (registry_run es) e"
  by (simp_all add: registry_run_def)

lemma registry_run_ok: "registry_ok (registry_run es)"
  unfolding registry_run_def by (rule registry_machine.inv_run [OF registry_default_ok])

section \<open>Bounds\<close>

text \<open>Whatever requests arrive, the registry stays bounded and consistent: at most 32 requests
  wait for a decision or for their use, at most 1,024 are remembered as finished, each request is
  in one of the three states, and what is granted for a Room session is one of the commands that
  may be.\<close>

theorem registry_stays_bounded:
  "registry_ok (foldl registry_step registry_default es)"
  using registry_run_ok [of es] by (simp add: registry_run_def)

section \<open>The owner allowed it\<close>

text \<open>In the run \<open>es\<close> the owner answered a request that was pending under this scope with one of
  the two decisions that allow it, and the session has not been ended since.\<close>

definition owner_allowed :: "registry_event list \<Rightarrow> command_confirmation_scope \<Rightarrow> bool" where
  "owner_allowed es scope \<longleftrightarrow>
     (\<exists>es1 i decision es2. es = es1 @ EvResolve i decision # es2
        \<and> bt_get (pending (registry_run es1)) i = Some scope
        \<and> (decision = AllowOnce \<or> decision = AllowRoomSession \<and> scope_allows_room_session scope)
        \<and> EvEndSession (scope_session_id scope) \<notin> set es2)"

definition owner_allowed_session :: "registry_event list \<Rightarrow> command_confirmation_scope \<Rightarrow> bool" where
  "owner_allowed_session es scope \<longleftrightarrow>
     scope_allows_room_session scope
     \<and> (\<exists>es1 i es2. es = es1 @ EvResolve i AllowRoomSession # es2
          \<and> bt_get (pending (registry_run es1)) i = Some scope
          \<and> EvEndSession (scope_session_id scope) \<notin> set es2)"

lemma owner_allowed_session: "owner_allowed_session es scope \<Longrightarrow> owner_allowed es scope"
  unfolding owner_allowed_session_def owner_allowed_def by blast

lemma owner_allowed_snoc:
  assumes "e \<noteq> EvEndSession (scope_session_id scope)"
  shows "owner_allowed es scope \<Longrightarrow> owner_allowed (es @ [e]) scope"
    and "owner_allowed_session es scope \<Longrightarrow> owner_allowed_session (es @ [e]) scope"
proof -
  have *: "(es1 @ x # es2) @ [e] = es1 @ x # (es2 @ [e])" for es1 x es2
    by simp
  show "owner_allowed es scope \<Longrightarrow> owner_allowed (es @ [e]) scope"
    unfolding owner_allowed_def using assms * by (metis Un_iff empty_iff insert_iff list.set set_append)
  show "owner_allowed_session es scope \<Longrightarrow> owner_allowed_session (es @ [e]) scope"
    unfolding owner_allowed_session_def using assms *
    by (metis Un_iff empty_iff insert_iff list.set set_append)
qed

lemma owner_allowed_now:
  assumes "bt_get (pending (registry_run es)) i = Some scope"
  shows "owner_allowed (es @ [EvResolve i AllowOnce]) scope"
    and "scope_allows_room_session scope \<Longrightarrow>
           owner_allowed_session (es @ [EvResolve i AllowRoomSession]) scope"
  using assms unfolding owner_allowed_def owner_allowed_session_def by fastforce+

text \<open>How one call can make an authorization ready or a grant.\<close>

lemma ready_step:
  assumes "bt_get (ready (registry_step reg e)) i = Some a" "registry_ok reg"
  shows "bt_get (ready reg) i = Some a \<and> e \<noteq> EvEndSession (scope_session_id (ready_scope a))
    \<or> ready_scope a \<in> room_session_grants reg \<and> (\<exists>s. e = EvRegister i s)
    \<or> bt_get (pending reg) i = Some (ready_scope a)
      \<and> (e = EvResolve i AllowOnce
         \<or> e = EvResolve i AllowRoomSession \<and> scope_allows_room_session (ready_scope a))"
proof (cases e)
  case (EvRegister j s)
  with assms(1) show ?thesis
    by (auto simp: register_confirmation_def command_confirmation_request_new_def Let_def
        split: sum.splits option.splits if_splits)
next
  case (EvResolve j d)
  with assms(1) show ?thesis
    by (cases d) (auto simp: resolve_confirmation_def finish_denied_def finish_terminal_def Let_def
        split: option.splits if_splits)
next
  case (EvConsume j s)
  with assms(1) show ?thesis
    by (auto simp: consume_authorization_def finish_terminal_def Let_def
        split: option.splits if_splits)
next
  case (EvEndSession s)
  with assms show ?thesis
    by (auto simp: end_room_session_def Let_def registry_ok_def dest!: bt_get_retain_SomeD)
qed

lemma grants_step:
  assumes "scope \<in> room_session_grants (registry_step reg e)"
  shows "scope \<in> room_session_grants reg \<and> e \<noteq> EvEndSession (scope_session_id scope)
    \<or> (\<exists>i. e = EvResolve i AllowRoomSession \<and> bt_get (pending reg) i = Some scope
         \<and> scope_allows_room_session scope)"
proof (cases e)
  case (EvResolve j d)
  with assms show ?thesis
    by (cases d) (auto simp: resolve_confirmation_def finish_denied_def finish_terminal_def Let_def
        split: option.splits if_splits)
qed (use assms in \<open>auto simp: register_confirmation_def command_confirmation_request_new_def
    consume_authorization_def finish_terminal_def end_room_session_def Let_def
    split: sum.splits option.splits if_splits\<close>)

lemma grants_allowed: "scope \<in> room_session_grants (registry_run es) \<Longrightarrow> owner_allowed_session es scope"
proof (induction es rule: rev_induct)
  case (snoc e es)
  then show ?case
    using grants_step [of scope "registry_run es" e] owner_allowed_snoc(2) [of e scope es]
      owner_allowed_now(2) [of es _ scope] by auto
qed (simp add: registry_default_def)

lemma ready_allowed:
  "bt_get (ready (registry_run es)) i = Some a \<Longrightarrow> owner_allowed es (ready_scope a)"
proof (induction es rule: rev_induct)
  case (snoc e es)
  then show ?case
    using ready_step [of "registry_run es" e i a] registry_run_ok [of es]
      owner_allowed_snoc(1) [of e "ready_scope a" es] owner_allowed_now [of es i "ready_scope a"]
      owner_allowed_session [OF grants_allowed, of "ready_scope a" es] owner_allowed_session
    by auto
qed (simp add: registry_default_def)

text \<open>C19: No command is authorized that the owner did not allow: if, after any calls, an
  authorization is handed out, it is for the scope that was asked for, and earlier in the same
  Room session the owner answered a pending request of exactly that scope (Room, session,
  workspace, command and target) with ``allow''; for a lifetime beyond one use the command must be
  one that may have it.\<close>

theorem authorization_needs_the_owner:
  assumes "consume_authorization (foldl registry_step registry_default es) i scope = (reg', Ok auth)"
  shows "authorization_scope auth = scope \<and> authorization_request_id auth = i
    \<and> owner_allowed es scope
    \<and> (authorization_lifetime auth = RoomSession \<longrightarrow> scope_allows_room_session scope)"
proof -
  from assms obtain a where a: "bt_get (ready (registry_run es)) i = Some a" "ready_scope a = scope"
    and auth: "auth = \<lparr>authorization_request_id = i, authorization_scope = scope,
      authorization_lifetime = ready_lifetime a\<rparr>"
    by (auto simp: consume_authorization_def finish_terminal_def Let_def registry_run_def
        split: option.splits if_splits)
  then show ?thesis
    using ready_allowed [OF a(1)] registry_run_ok [of es] by (auto simp: registry_ok_def)
qed

section \<open>Used once\<close>

lemma consumed_is_terminal:
  assumes "consume_authorization reg i scope = (reg', Ok auth)"
  shows "bt_get (terminal_of reg') i = Some (scope_session_id scope)"
  using assms
  by (auto simp: consume_authorization_def finish_terminal_def Let_def split: option.splits if_splits)

lemma terminal_step:
  assumes "bt_get (terminal_of reg) i = Some s" "e \<noteq> EvEndSession s" "registry_ok reg"
  shows "bt_get (terminal_of (registry_step reg e)) i = Some s"
proof -
  have none: "bt_get (ready reg) i = None" "bt_get (pending reg) i = None"
    using assms(1,3) by (auto simp: registry_ok_def dest: disjoint_keysD)
  show ?thesis
  proof (cases e)
    case (EvEndSession t)
    then show ?thesis
      using assms by (simp add: end_room_session_def Let_def bt_get_retain registry_ok_def)
  qed (use assms none in \<open>auto simp: register_confirmation_def command_confirmation_request_new_def
      resolve_confirmation_def finish_denied_def consume_authorization_def finish_terminal_def Let_def
      split: sum.splits option.splits if_splits confirmation_decision.splits\<close>)
qed

lemma terminal_run:
  assumes "bt_get (terminal_of reg) i = Some s" "registry_ok reg"
    and "list_all (\<lambda>e. e \<noteq> EvEndSession s) es"
  shows "bt_get (terminal_of (foldl registry_step reg es)) i = Some s
    \<and> registry_ok (foldl registry_step reg es)"
  using assms by (induction es arbitrary: reg) (auto simp: terminal_step registry_step_ok)

text \<open>C20: An authorization is used once: after it has been handed out, and until its Room session
  ends, the same request is never authorized again, whatever is registered, resolved or asked
  for in between and whatever scope is named.\<close>

theorem authorization_used_once:
  assumes "consume_authorization (foldl registry_step registry_default es) i scope = (reg', Ok auth)"
    and "list_all (\<lambda>e. e \<noteq> EvEndSession (scope_session_id scope)) es'"
  shows "\<not> is_ok (snd (consume_authorization (foldl registry_step reg' es') i scope'))"
proof -
  let ?reg = "foldl registry_step reg' es'"
  have "registry_ok reg'"
    using consume_ok [OF registry_run_ok, of es i scope] assms(1) by (simp add: registry_run_def)
  then have "bt_get (terminal_of ?reg) i = Some (scope_session_id scope)" "registry_ok ?reg"
    using terminal_run [OF consumed_is_terminal [OF assms(1)] _ assms(2)] by auto
  then have "bt_get (ready ?reg) i = None"
    by (auto simp: registry_ok_def dest: disjoint_keysD)
  then show ?thesis
    by (simp add: consume_authorization_def is_ok_def)
qed

section \<open>A concrete run\<close>

definition example_scope :: command_confirmation_scope where
  "example_scope = \<lparr>scope_room_id = ''room-1'', scope_session_id = ''s1'',
     scope_workspace_key = ''w'', scope_command = GitPush, scope_target_label = ''origin''\<rparr>"

definition example_registry_events :: "registry_event list" where
  "example_registry_events = [EvRegister ''r1'' example_scope, EvResolve ''r1'' AllowRoomSession]"

lemma example_consume:
  "\<exists>reg'. consume_authorization (foldl registry_step registry_default example_registry_events)
     ''r1'' example_scope =
     (reg', Ok \<lparr>authorization_request_id = ''r1'', authorization_scope = example_scope,
                authorization_lifetime = RoomSession\<rparr>)"
  by (simp add: example_registry_events_def register_confirmation_def resolve_confirmation_def
      consume_authorization_def finish_terminal_def command_confirmation_request_new_def
      scope_valid_identifier_def registry_default_def bt_contains_key_def bt_remove_def Let_def
      scope_allows_room_session_def action_allows_room_session_def example_scope_def
      MAXIMUM_PENDING_CONFIRMATIONS_def MAXIMUM_TERMINAL_CONFIRMATIONS_def
      MAXIMUM_CONFIRMATION_ID_BYTES_def byte_class_defs)

theorem authorization_needs_the_owner_witness:
  "owner_allowed example_registry_events example_scope"
  using authorization_needs_the_owner [of example_registry_events "''r1''" example_scope]
    example_consume by blast

theorem authorization_used_once_witness:
  "\<not> is_ok (snd (consume_authorization (foldl registry_step
      (fst (consume_authorization (foldl registry_step registry_default example_registry_events)
              ''r1'' example_scope))
      [EvRegister ''r1'' example_scope, EvResolve ''r1'' AllowOnce]) ''r1'' example_scope))"
proof -
  obtain reg' auth where reg': "consume_authorization
      (foldl registry_step registry_default example_registry_events) ''r1'' example_scope
      = (reg', Ok auth)"
    using example_consume by blast
  show ?thesis
    unfolding reg' fst_conv by (rule authorization_used_once [OF reg']) simp
qed

end
