(* ===== verification/File_System.thy ===== *)
theory File_System
  imports Prelude
begin

text \<open>
  The part of \<open>std::fs\<close> that the ledgers use. A path is its directory and its file name. Every
  operation that touches the disk may fail with an error or be cut off by a crash of the process,
  before or after it took effect, as the fault script says; a write that is cut off leaves a part
  of its bytes. A rename is atomic. What reaches the disk after a loss of power is not modelled.
\<close>

section \<open>Worlds and programs\<close>

type_synonym path = "string \<times> string"

datatype node = Regular string | Directory

datatype fault = NoFault | IoError nat | CrashBefore nat | CrashAfter

record world =
  files :: "path \<Rightarrow> node option"
  directories :: "string set"
  faults :: "fault list"
  temp_sequence :: u64
  process_id :: nat

datatype 'a outcome = Ret 'a world | Crashed world

type_synonym 'a io = "world \<Rightarrow> 'a outcome"

definition io_return :: "'a \<Rightarrow> 'a io" where
  "io_return x w = Ret x w"

definition io_bind :: "'a io \<Rightarrow> ('a \<Rightarrow> 'b io) \<Rightarrow> 'b io" where
  "io_bind m f w = (case m w of Ret x w' \<Rightarrow> f x w' | Crashed w' \<Rightarrow> Crashed w')"

text \<open>\<open>m.map\_err(|\_| e)?\<close> and what follows it.\<close>

definition io_try :: "('a, 'd) result io \<Rightarrow> 'e \<Rightarrow> ('a \<Rightarrow> ('b, 'e) result io) \<Rightarrow> ('b, 'e) result io" where
  "io_try m e f = io_bind m (\<lambda>r. case r of Inl _ \<Rightarrow> io_return (Err e) | Inr x \<Rightarrow> f x)"

text \<open>The result of a call, without what it returns.\<close>

definition io_drop :: "('s \<times> ('a, 'e) result) io \<Rightarrow> ('s \<times> (unit, 'e) result) io" where
  "io_drop m = io_bind m (\<lambda>(s, r). io_return (s, case r of Inl e \<Rightarrow> Err e | Inr _ \<Rightarrow> Ok ()))"

lemma io_drop_return: "io_drop (io_return (l, r)) = io_return (l, case r of Inl e \<Rightarrow> Err e | Inr _ \<Rightarrow> Ok ())"
  by (simp add: io_drop_def io_bind_def io_return_def fun_eq_iff)

section \<open>Operations\<close>

definition fs_is_file :: "path \<Rightarrow> world \<Rightarrow> bool" where
  "fs_is_file p w = (case files w p of Some (Regular _) \<Rightarrow> True | _ \<Rightarrow> False)"

definition fs_exists :: "path \<Rightarrow> world \<Rightarrow> bool" where
  "fs_exists p w \<longleftrightarrow> files w p \<noteq> None"

definition fs_is_dir :: "string \<Rightarrow> world \<Rightarrow> bool" where
  "fs_is_dir d w \<longleftrightarrow> d \<in> directories w"

definition next_fault :: "world \<Rightarrow> fault \<times> world" where
  "next_fault w = (case faults w of [] \<Rightarrow> (NoFault, w) | f # fs \<Rightarrow> (f, w\<lparr>faults := fs\<rparr>))"

text \<open>An operation whose effect is all or nothing.\<close>

definition atomic_op :: "(world \<Rightarrow> ('a, unit) result \<times> world) \<Rightarrow> ('a, unit) result io" where
  "atomic_op act w =
     (case next_fault w of
        (NoFault, w1) \<Rightarrow> (case act w1 of (r, w2) \<Rightarrow> Ret r w2)
      | (IoError _, w1) \<Rightarrow> Ret (Err ()) w1
      | (CrashBefore _, w1) \<Rightarrow> Crashed w1
      | (CrashAfter, w1) \<Rightarrow> (case act w1 of (r, w2) \<Rightarrow> Crashed w2))"

definition put_file :: "path \<Rightarrow> string \<Rightarrow> world \<Rightarrow> world" where
  "put_file p body w = w\<lparr>files := (files w)(p \<mapsto> Regular body)\<rparr>"

definition fs_create_dir_all :: "string \<Rightarrow> (unit, unit) result io" where
  "fs_create_dir_all d = atomic_op (\<lambda>w. (Ok (), w\<lparr>directories := insert d (directories w)\<rparr>))"

text \<open>\<open>OpenOptions::new().write(true).create\_new(true).open(p)\<close>.\<close>

definition fs_create_new :: "path \<Rightarrow> (unit, unit) result io" where
  "fs_create_new p = atomic_op (\<lambda>w.
     if fs_exists p w \<or> \<not> fs_is_dir (fst p) w then (Err (), w) else (Ok (), put_file p [] w))"

text \<open>The same where the caller tells \<open>ErrorKind::AlreadyExists\<close>, as \<open>Ok False\<close>, from other errors.\<close>

definition fs_try_create_new :: "path \<Rightarrow> (bool, unit) result io" where
  "fs_try_create_new p = atomic_op (\<lambda>w.
     if fs_exists p w then (Ok False, w)
     else if \<not> fs_is_dir (fst p) w then (Err (), w)
     else (Ok True, put_file p [] w))"

text \<open>\<open>write\_all\<close> and \<open>sync\_all\<close> on a file just created.\<close>

definition fs_write_all_sync :: "path \<Rightarrow> string \<Rightarrow> (unit, unit) result io" where
  "fs_write_all_sync p body w =
     (case next_fault w of
        (NoFault, w1) \<Rightarrow> Ret (Ok ()) (put_file p body w1)
      | (IoError n, w1) \<Rightarrow> Ret (Err ()) (put_file p (take n body) w1)
      | (CrashBefore n, w1) \<Rightarrow> Crashed (put_file p (take n body) w1)
      | (CrashAfter, w1) \<Rightarrow> Crashed (put_file p body w1))"

definition fs_remove_file :: "path \<Rightarrow> (unit, unit) result io" where
  "fs_remove_file p = atomic_op (\<lambda>w.
     if fs_is_file p w then (Ok (), w\<lparr>files := (files w)(p := None)\<rparr>) else (Err (), w))"

definition fs_rename :: "path \<Rightarrow> path \<Rightarrow> (unit, unit) result io" where
  "fs_rename p q = atomic_op (\<lambda>w.
     (case files w p of
        Some (Regular body) \<Rightarrow>
          if files w q = Some Directory then (Err (), w)
          else (Ok (), w\<lparr>files := (files w)(p := None, q \<mapsto> Regular body)\<rparr>)
      | _ \<Rightarrow> (Err (), w)))"

text \<open>\<open>File::open\<close>, \<open>metadata\<close> and \<open>read\_to\_end\<close>, as one operation that may fail.\<close>

definition fs_read :: "path \<Rightarrow> (string, unit) result io" where
  "fs_read p = atomic_op (\<lambda>w.
     (case files w p of Some (Regular body) \<Rightarrow> (Ok body, w) | _ \<Rightarrow> (Err (), w)))"

section \<open>Replacing a file\<close>

text \<open>\<open>TempGuard\<close>: on every early return the temporary file is removed, errors ignored.\<close>

definition with_temp_guard :: "path \<Rightarrow> ('a, 'e) result io \<Rightarrow> ('a, 'e) result io" where
  "with_temp_guard temp body =
     io_bind body (\<lambda>r. case r of
        Inr x \<Rightarrow> io_return (Ok x)
      | Inl e \<Rightarrow> io_bind (fs_remove_file temp) (\<lambda>_. io_return (Err e)))"

text \<open>The new file takes its place; if that fails, the backup is put back.\<close>

definition install_temp :: "'e \<Rightarrow> path \<Rightarrow> path \<Rightarrow> path \<Rightarrow> (unit, 'e) result io" where
  "install_temp e backup temp p =
     io_bind (fs_rename temp p)
       (\<lambda>r w. if is_ok r then Ret (Ok ()) w
          else if \<not> fs_exists p w \<and> fs_is_file backup w
          then io_bind (fs_rename backup p) (\<lambda>_. io_return (Err e)) w
          else Ret (Err e) w)"

section \<open>Names\<close>

text \<open>\<open>Path::file\_stem\<close> and \<open>Path::with\_extension\<close> on a file name.\<close>

definition file_stem :: "string \<Rightarrow> string" where
  "file_stem name =
     (case position (\<lambda>c. c = CHR ''.'') (rev name) of
        None \<Rightarrow> name
      | Some k \<Rightarrow> if length name = Suc k then name else take (length name - Suc k) name)"

definition with_extension :: "path \<Rightarrow> string \<Rightarrow> path" where
  "with_extension p ext = (fst p, file_stem (snd p) @ ''.'' @ ext)"

text \<open>\<open>format!(".\{name\}.\{pid\}.\{sequence\}.tmp")\<close> in the directory of the path.\<close>

definition temp_path :: "path \<Rightarrow> nat \<Rightarrow> u64 \<Rightarrow> path" where
  "temp_path p pid sequence =
     (fst p, ''.'' @ snd p @ ''.'' @ nat_to_string pid @ ''.'' @ nat_to_string (unat sequence) @ ''.tmp'')"

lemma temp_path_distinct:
  "temp_path p pid n \<noteq> p" "temp_path p pid n \<noteq> with_extension p ''json.backup''"
proof -
  show "temp_path p pid n \<noteq> p"
  proof
    assume "temp_path p pid n = p"
    then have "length (snd (temp_path p pid n)) = length (snd p)" by simp
    then show False by (simp add: temp_path_def)
  qed
  have "take 2 (rev (snd (temp_path p pid n))) \<noteq> take 2 (rev (snd (with_extension p ''json.backup'')))"
    by (simp add: temp_path_def with_extension_def)
  then show "temp_path p pid n \<noteq> with_extension p ''json.backup''"
    by metis
qed

lemma fst_temp_path [simp]: "fst (temp_path p pid n) = fst p"
  by (simp add: temp_path_def)

lemma file_stem_suffix: "\<exists>rest. name = file_stem name @ rest \<and> CHR ''.'' \<notin> set (drop 1 rest)"
proof (cases "position (\<lambda>c. c = CHR ''.'') (rev name)")
  case None
  then show ?thesis by (auto simp: file_stem_def)
next
  case (Some k)
  have k: "k < length name" "\<And>j. j < k \<Longrightarrow> rev name ! j \<noteq> CHR ''.''"
    using position_SomeD [OF Some] by auto
  show ?thesis
  proof (cases "length name = Suc k")
    case True
    then show ?thesis using Some by (auto simp: file_stem_def)
  next
    case False
    have "CHR ''.'' \<notin> set (drop (length name - k) name)"
    proof
      assume "CHR ''.'' \<in> set (drop (length name - k) name)"
      then obtain j where j: "j < k" "name ! (length name - k + j) = CHR ''.''"
        using k(1) by (auto simp: in_set_conv_nth)
      then have "rev name ! (k - Suc j) = CHR ''.''"
        using k(1) by (simp add: rev_nth Suc_diff_Suc)
      with k(2) [of "k - Suc j"] j show False by simp
    qed
    moreover have "Suc (length name - Suc k) = length name - k"
      using k(1) by simp
    ultimately have "CHR ''.'' \<notin> set (drop 1 (drop (length name - Suc k) name))"
      by simp
    then show ?thesis
      using Some False
      by (intro exI [of _ "drop (length name - Suc k) name"]) (simp add: file_stem_def)
  qed
qed

lemma backup_path_distinct: "with_extension p ''json.backup'' \<noteq> p"
proof
  assume "with_extension p ''json.backup'' = p"
  then have "file_stem (snd p) @ ''.json.backup'' = snd p"
    by (auto simp: with_extension_def prod_eq_iff)
  moreover obtain rest where "snd p = file_stem (snd p) @ rest" "CHR ''.'' \<notin> set (drop 1 rest)"
    using file_stem_suffix by metis
  ultimately have "rest = ''.json.backup''"
    by (metis same_append_eq)
  then show False
    using \<open>CHR ''.'' \<notin> set (drop 1 rest)\<close> by simp
qed

lemmas paths_distinct = temp_path_distinct temp_path_distinct [symmetric]
  backup_path_distinct backup_path_distinct [symmetric]

section \<open>Reasoning about programs\<close>

text \<open>\<open>wp m Q C w\<close>: whatever happens from \<open>w\<close>, a return satisfies \<open>Q\<close> and a crash \<open>C\<close>.\<close>

definition wp :: "'a io \<Rightarrow> ('a \<Rightarrow> world \<Rightarrow> bool) \<Rightarrow> (world \<Rightarrow> bool) \<Rightarrow> world \<Rightarrow> bool" where
  "wp m Q C w = (case m w of Ret x w' \<Rightarrow> Q x w' | Crashed w' \<Rightarrow> C w')"

named_theorems wp_rules

lemma wp_return [wp_rules]: "Q x w \<Longrightarrow> wp (io_return x) Q C w"
  by (simp add: wp_def io_return_def)

lemma wp_bind [wp_rules]: "wp m (\<lambda>x. wp (f x) Q C) C w \<Longrightarrow> wp (io_bind m f) Q C w"
  by (auto simp: wp_def io_bind_def split: outcome.splits)

lemma wp_try [wp_rules]:
  "wp m (\<lambda>r w'. (\<forall>d. r = Err d \<longrightarrow> Q (Err e) w') \<and> (\<forall>x. r = Ok x \<longrightarrow> wp (f x) Q C w')) C w
     \<Longrightarrow> wp (io_try m e f) Q C w"
  unfolding io_try_def
  by (rule wp_bind) (auto simp: wp_def io_return_def split: outcome.splits sum.splits)

lemma wp_mono:
  "wp m Q C w \<Longrightarrow> (\<And>x w'. Q x w' \<Longrightarrow> Q' x w') \<Longrightarrow> (\<And>w'. C w' \<Longrightarrow> C' w') \<Longrightarrow> wp m Q' C' w"
  by (auto simp: wp_def split: outcome.splits)

lemma wp_Ret: "wp m Q C w \<Longrightarrow> m w = Ret x w' \<Longrightarrow> Q x w'"
  by (simp add: wp_def)

lemma wp_Crashed: "wp m Q C w \<Longrightarrow> m w = Crashed w' \<Longrightarrow> C w'"
  by (simp add: wp_def)

text \<open>Assertions about the files alone: the fault script does not matter.\<close>

lemma wp_atomic_op:
  assumes "\<And>w1 r w2. files w1 = files w \<Longrightarrow> act w1 = (r, w2) \<Longrightarrow> Q r w2 \<and> C w2"
    and "\<And>w1. files w1 = files w \<Longrightarrow> Q (Err ()) w1 \<and> C w1"
  shows "wp (atomic_op act) Q C w"
  using assms(1) [of w] assms(1) [of "w\<lparr>faults := tl (faults w)\<rparr>"]
    assms(2) [of "w\<lparr>faults := tl (faults w)\<rparr>"]
  by (auto simp: wp_def atomic_op_def next_fault_def split: list.splits fault.splits prod.splits)

lemma wp_create_dir_all [wp_rules]:
  assumes "\<And>r w'. files w' = files w \<Longrightarrow> Q r w' \<and> C w'"
  shows "wp (fs_create_dir_all d) Q C w"
  unfolding fs_create_dir_all_def by (rule wp_atomic_op) (auto intro!: assms)

lemma wp_create_new [wp_rules]:
  assumes "\<And>w'. files w' = files w \<Longrightarrow> Q (Err ()) w' \<and> C w'"
    and "\<And>w'. files w p = None \<Longrightarrow> files w' = (files w)(p \<mapsto> Regular []) \<Longrightarrow> Q (Ok ()) w' \<and> C w'"
  shows "wp (fs_create_new p) Q C w"
  unfolding fs_create_new_def
  by (rule wp_atomic_op) (auto intro!: assms simp: fs_exists_def put_file_def split: if_splits)

lemma wp_try_create_new [wp_rules]:
  assumes "\<And>w'. files w' = files w \<Longrightarrow> Q (Err ()) w' \<and> Q (Ok False) w' \<and> C w'"
    and "\<And>w'. files w p = None \<Longrightarrow> files w' = (files w)(p \<mapsto> Regular []) \<Longrightarrow> Q (Ok True) w' \<and> C w'"
  shows "wp (fs_try_create_new p) Q C w"
  unfolding fs_try_create_new_def
  by (rule wp_atomic_op) (use assms in \<open>auto simp: fs_exists_def put_file_def split: if_splits\<close>)

lemma wp_write_all_sync [wp_rules]:
  assumes "\<And>part w'. files w' = (files w)(p \<mapsto> Regular part) \<Longrightarrow> Q (Err ()) w' \<and> C w'"
    and "\<And>w'. files w' = (files w)(p \<mapsto> Regular body) \<Longrightarrow> Q (Ok ()) w'"
  shows "wp (fs_write_all_sync p body) Q C w"
  using assms
  by (auto simp: wp_def fs_write_all_sync_def next_fault_def put_file_def
      split: list.splits fault.splits)

lemma wp_remove_file [wp_rules]:
  assumes "\<And>w'. files w' = files w \<Longrightarrow> Q (Err ()) w' \<and> C w'"
    and "\<And>w' body. files w p = Some (Regular body) \<Longrightarrow> files w' = (files w)(p := None) \<Longrightarrow> Q (Ok ()) w' \<and> C w'"
  shows "wp (fs_remove_file p) Q C w"
  unfolding fs_remove_file_def
  by (rule wp_atomic_op)
    (auto intro!: assms simp: fs_is_file_def split: if_splits option.splits node.splits)

lemma wp_rename [wp_rules]:
  assumes "\<And>w'. files w' = files w \<Longrightarrow> Q (Err ()) w' \<and> C w'"
    and "\<And>w' body. files w p = Some (Regular body) \<Longrightarrow>
           files w' = (files w)(p := None, q \<mapsto> Regular body) \<Longrightarrow> Q (Ok ()) w' \<and> C w'"
  shows "wp (fs_rename p q) Q C w"
  unfolding fs_rename_def
  by (rule wp_atomic_op) (auto intro!: assms split: if_splits option.splits node.splits)

lemma wp_read [wp_rules]:
  assumes "\<And>w'. files w' = files w \<Longrightarrow> Q (Err ()) w' \<and> C w'"
    and "\<And>w' body. files w p = Some (Regular body) \<Longrightarrow> files w' = files w \<Longrightarrow> Q (Ok body) w' \<and> C w'"
  shows "wp (fs_read p) Q C w"
  unfolding fs_read_def
  by (rule wp_atomic_op) (auto intro!: assms split: option.splits node.splits)

text \<open>Programs that look at the world first.\<close>

lemma wp_Ret_const [wp_rules]: "Q x w \<Longrightarrow> wp (Ret x) Q C w"
  by (simp add: wp_def)

lemma wp_if [wp_rules]:
  "(b w \<Longrightarrow> wp m Q C w) \<Longrightarrow> (\<not> b w \<Longrightarrow> wp n Q C w) \<Longrightarrow>
     wp (\<lambda>w. if b w then m w else n w) Q C w"
  by (simp add: wp_def)

lemma wp_point: "wp (\<lambda>_. m w) Q C w \<Longrightarrow> wp m Q C w"
  by (simp add: wp_def)

lemma wp_point_eq: "wp (\<lambda>_. m w) Q C w' = wp m Q C w"
  by (simp add: wp_def)

lemma wp_same: "wp m' Q C w \<Longrightarrow> m w = m' w \<Longrightarrow> wp m Q C w"
  by (simp add: wp_def)

lemma wp_conj:
  "wp m Q C w \<Longrightarrow> wp m Q' C' w \<Longrightarrow> wp m (\<lambda>x w'. Q x w' \<and> Q' x w') (\<lambda>w'. C w' \<and> C' w') w"
  by (simp add: wp_def split: outcome.splits)

section \<open>What a restart finds\<close>

text \<open>The bytes that a load reads: the main file, or the backup when there is no main file.\<close>

definition durable :: "path \<Rightarrow> path \<Rightarrow> (path \<Rightarrow> node option) \<Rightarrow> string option" where
  "durable main backup f =
     (case f main of
        Some (Regular body) \<Rightarrow> Some body
      | Some Directory \<Rightarrow> None
      | None \<Rightarrow> (case f backup of Some (Regular body) \<Rightarrow> Some body | _ \<Rightarrow> None))"

lemma durable_SomeE:
  assumes "durable main backup f = Some body"
  obtains "f main = Some (Regular body)" | "f main = None" "f backup = Some (Regular body)"
  using assms by (auto simp: durable_def split: option.splits node.splits)

lemma durable_other [simp]:
  "p \<noteq> main \<Longrightarrow> p \<noteq> backup \<Longrightarrow> durable main backup (f(p := x)) = durable main backup f"
  by (auto simp: durable_def split: option.split node.split)

lemma wp_with_temp_guard:
  assumes "wp m (\<lambda>r w'. (is_ok r \<longrightarrow> Q r w')
      \<and> (\<forall>w''. \<not> is_ok r \<longrightarrow> files w'' = files w' \<or> files w'' = (files w')(t := None) \<longrightarrow> Q r w'' \<and> C w'')) C w"
  shows "wp (with_temp_guard t m) Q C w"
  unfolding with_temp_guard_def
  apply (rule wp_bind)
  apply (rule wp_mono [OF assms])
  by (auto intro!: wp_rules simp: is_ok_def split: sum.splits)

lemma wp_install_temp:
  assumes "files w p = None" "files w t = Some (Regular body)" "t \<noteq> p" "t \<noteq> b" "b \<noteq> p"
  shows "wp (install_temp e b t p)
    (\<lambda>r w'. durable p b (files w') = (if is_ok r then Some body else durable p b (files w))
       \<and> (is_ok r \<longrightarrow> files w' p = Some (Regular body))
       \<and> (\<not> is_ok r \<longrightarrow> files w' t = files w t))
    (\<lambda>w'. durable p b (files w') \<in> {durable p b (files w), Some body}) w"
  unfolding install_temp_def [abs_def]
  apply (intro wp_rules)
  using assms
  by (auto intro!: wp_rules simp: durable_def fs_exists_def fs_is_file_def
      split: option.splits node.splits)

text \<open>The old file is moved out of the way by a rotation, and the temporary file takes its place.\<close>

lemma wp_rotate_install:
  fixes rot :: "(unit, 'e) result io"
  assumes t: "t \<noteq> p" "t \<noteq> b" "b \<noteq> p"
    and rotate: "wp rot
      (\<lambda>r w'. durable p b (files w') = old \<and> files w' t = Some (Regular body)
         \<and> (is_ok r \<longrightarrow> files w' p = None))
      (\<lambda>w'. durable p b (files w') = old) w"
  shows "wp (io_bind rot
      (\<lambda>r. case r of Inl e \<Rightarrow> io_return (Err e) | Inr _ \<Rightarrow> install_temp e' b t p))
    (\<lambda>r w'. durable p b (files w') = (if is_ok r then Some body else old)
       \<and> (is_ok r \<longrightarrow> files w' p = Some (Regular body)))
    (\<lambda>w'. durable p b (files w') \<in> {old, Some body}) w"
    (is "wp _ ?Q ?C w")
proof -
  have install: "wp (case r of Inl e \<Rightarrow> io_return (Err e) | Inr _ \<Rightarrow> install_temp e' b t p) ?Q ?C w2"
    if "durable p b (files w2) = old" "files w2 t = Some (Regular body)"
      "is_ok r \<longrightarrow> files w2 p = None" for r :: "(unit, 'e) result" and w2
    using that by (cases r) (auto intro!: wp_return wp_mono [OF wp_install_temp [OF _ _ t]])
  show ?thesis
    by (rule wp_bind, rule wp_mono [OF rotate], rule install) auto
qed

text \<open>The whole replacement of a file: a temporary file is written, the old file is moved out of
  the way by a rotation, and the temporary file takes its place.\<close>

lemma wp_replace_file:
  fixes rot :: "(unit, 'e) result io"
  assumes t: "t \<noteq> p" "t \<noteq> b" "b \<noteq> p"
    and rotate: "\<And>w2. files w2 = (files w)(t \<mapsto> Regular body) \<Longrightarrow> wp rot
      (\<lambda>r w'. durable p b (files w') = durable p b (files w) \<and> files w' t = Some (Regular body)
         \<and> (is_ok r \<longrightarrow> files w' p = None))
      (\<lambda>w'. durable p b (files w') = durable p b (files w)) w2"
    and w0: "files w0 = files w"
  shows "wp (with_temp_guard t
      (io_try (fs_create_new t) e
        (\<lambda>_. io_try (fs_write_all_sync t body) e
          (\<lambda>_. io_bind rot
            (\<lambda>r. case r of Inl e \<Rightarrow> io_return (Err e) | Inr _ \<Rightarrow> install_temp e' b t p)))))
    (\<lambda>r w'. durable p b (files w') = (if is_ok r then Some body else durable p b (files w))
       \<and> (is_ok r \<longrightarrow> files w' p = Some (Regular body)))
    (\<lambda>w'. durable p b (files w') \<in> {durable p b (files w), Some body}) w0"
    (is "wp _ ?Q ?C w0")
proof -
  note whole = wp_rotate_install [OF t rotate]
  show ?thesis
    using t w0
    by (auto intro!: wp_with_temp_guard wp_try wp_create_new wp_write_all_sync wp_mono [OF whole])
qed

text \<open>The same where the temporary file is there already.\<close>

lemma wp_replace_written:
  fixes rot :: "(unit, 'e) result io"
  assumes t: "t \<noteq> p" "t \<noteq> b" "b \<noteq> p"
    and rotate: "\<And>w2. files w2 = (files w)(t \<mapsto> Regular body) \<Longrightarrow> wp rot
      (\<lambda>r w'. durable p b (files w') = durable p b (files w) \<and> files w' t = Some (Regular body)
         \<and> (is_ok r \<longrightarrow> files w' p = None))
      (\<lambda>w'. durable p b (files w') = durable p b (files w)) w2"
    and w0: "files w0 = (files w)(t \<mapsto> x)"
  shows "wp (with_temp_guard t
      (io_try (fs_write_all_sync t body) e
        (\<lambda>_. io_bind rot
          (\<lambda>r. case r of Inl e \<Rightarrow> io_return (Err e) | Inr _ \<Rightarrow> install_temp e' b t p))))
    (\<lambda>r w'. durable p b (files w') = (if is_ok r then Some body else durable p b (files w)))
    (\<lambda>w'. durable p b (files w') \<in> {durable p b (files w), Some body}) w0"
  using t w0
  by (auto intro!: wp_with_temp_guard wp_try wp_write_all_sync
      wp_mono [OF wp_rotate_install [OF t rotate]])

end
