(* ===== verification/Orchestration_Ledger.thy ===== *)
theory Orchestration_Ledger
  imports Btree_Map File_System Conductor_Claims
begin

text \<open>
  \<open>DesktopRoomOrchestrationLedger\<close>
  (\<open>apps/desktop/src-tauri/src/room\_orchestration\_ledger.rs\<close>): the durable record of every conductor
  operation, kept in memory behind a lock and written through to a file with a backup. The JSON
  encoder and decoder (\<open>serde\_json\<close>) are parameters.
\<close>

section \<open>Records\<close>

definition ORCH_FILE_VERSION :: u8 where "ORCH_FILE_VERSION = 1"
definition ORCH_FILE_NAME :: string where "ORCH_FILE_NAME = ''room-orchestration-ledger-v1.json''"
definition ORCH_MAXIMUM_FILE_BYTES :: nat where "ORCH_MAXIMUM_FILE_BYTES = 1024 * 1024"
definition ORCH_MAXIMUM_RECORDS :: nat where "ORCH_MAXIMUM_RECORDS = 512"
definition ORCH_MAXIMUM_WORKERS :: nat where "ORCH_MAXIMUM_WORKERS = 3"

record orchestration_delegation_link =
  link_target :: string
  link_message_id :: string
  link_dispatch_id :: string

record orchestration_record =
  o_operation_id :: string
  o_room_id :: string
  o_source_message_id :: string
  o_conductor_id :: string
  o_conductor_session_id :: "string option"
  o_final_message_id :: string
  o_stage :: conductor_operation_stage
  o_delegations :: "orchestration_delegation_link list"
  o_updated_at :: string

datatype orchestration_begin =
  Reserved orchestration_record | Existing orchestration_record

datatype orchestration_ledger_error = Orch_Invalid | Orch_Conflict | Orch_Io

record persisted_file =
  file_version :: u8
  file_records :: "orchestration_record list"

definition orch_valid_identifier :: "string \<Rightarrow> bool" where
  "orch_valid_identifier value \<longleftrightarrow>
     value \<noteq> [] \<and> length value \<le> 128 \<and> all_indexed identifier_byte value"

definition orch_valid_timestamp :: "string \<Rightarrow> bool" where
  "orch_valid_timestamp value \<longleftrightarrow>
     value \<noteq> [] \<and> length value \<le> 64 \<and> list_all is_ascii_graphic value"

definition orch_valid_session_id :: "string \<Rightarrow> bool" where
  "orch_valid_session_id value \<longleftrightarrow>
     value \<noteq> [] \<and> length value \<le> 256 \<and> list_all is_ascii_graphic value"

fun validate_links ::
  "conductor_operation_ids \<Rightarrow> nat \<Rightarrow> string set \<Rightarrow> orchestration_delegation_link list
     \<Rightarrow> (unit, orchestration_ledger_error) result"
where
  "validate_links ids ordinal targets [] = Ok ()"
| "validate_links ids ordinal targets (d # ds) =
     (if \<not> orch_valid_identifier (link_target d) \<or> link_target d \<in> targets then Err Orch_Invalid
      else
        (case delegation_ids ids (link_target d) ordinal of
           Inl _ \<Rightarrow> Err Orch_Invalid
         | Inr expected \<Rightarrow>
             if link_message_id d \<noteq> message_id expected \<or> link_dispatch_id d \<noteq> dispatch_id expected
             then Err Orch_Invalid
             else validate_links ids (ordinal + 1) (insert (link_target d) targets) ds))"

definition orch_validate_delegations ::
  "orchestration_record \<Rightarrow> orchestration_delegation_link list
     \<Rightarrow> (unit, orchestration_ledger_error) result"
where
  "orch_validate_delegations record' delegations =
     validate_links \<lparr>operation_id = o_operation_id record',
                     final_message_id = o_final_message_id record'\<rparr> 0 {} delegations"

definition orch_validate_record ::
  "orchestration_record \<Rightarrow> (unit, orchestration_ledger_error) result"
where
  "orch_validate_record record' =
     (if \<not> orch_valid_identifier (o_operation_id record')
         \<or> \<not> orch_valid_identifier (o_room_id record')
         \<or> \<not> orch_valid_identifier (o_source_message_id record')
         \<or> \<not> orch_valid_identifier (o_conductor_id record')
         \<or> is_some_and (o_conductor_session_id record') (\<lambda>s. \<not> orch_valid_session_id s)
         \<or> \<not> orch_valid_identifier (o_final_message_id record')
         \<or> \<not> orch_valid_timestamp (o_updated_at record')
         \<or> length (o_delegations record') > ORCH_MAXIMUM_WORKERS
      then Err Orch_Invalid
      else
        (case conductor_operation_ids_derive (o_source_message_id record') (o_conductor_id record') of
           Inl _ \<Rightarrow> Err Orch_Invalid
         | Inr ids \<Rightarrow>
             if o_operation_id record' \<noteq> operation_id ids
                \<or> o_final_message_id record' \<noteq> final_message_id ids
             then Err Orch_Invalid
             else orch_validate_delegations record' (o_delegations record')))"

definition same_identity :: "orchestration_record \<Rightarrow> orchestration_record \<Rightarrow> bool" where
  "same_identity left right \<longleftrightarrow>
     o_operation_id left = o_operation_id right
     \<and> o_room_id left = o_room_id right
     \<and> o_source_message_id left = o_source_message_id right
     \<and> o_conductor_id left = o_conductor_id right
     \<and> o_final_message_id left = o_final_message_id right"

type_synonym orchestration_records = "(string, orchestration_record) btree"

definition prune_terminal_record :: "orchestration_records \<Rightarrow> orchestration_records" where
  "prune_terminal_record records =
     (if length records < ORCH_MAXIMUM_RECORDS then records
      else
        (case min_by (\<lambda>l r. o_updated_at l < o_updated_at r
                 \<or> o_updated_at l = o_updated_at r \<and> o_operation_id l < o_operation_id r)
               (filter (\<lambda>r. o_stage r \<in> {Completed, Failed}) (map snd records)) of
           None \<Rightarrow> records
         | Some oldest \<Rightarrow> bt_remove (o_operation_id oldest) records))"

section \<open>The file\<close>

abbreviation orch_backup_path :: "path \<Rightarrow> path" where
  "orch_backup_path p \<equiv> with_extension p ''json.backup''"

definition orch_read_file ::
  "(string \<Rightarrow> persisted_file option) \<Rightarrow> path \<Rightarrow> (persisted_file, orchestration_ledger_error) result io"
where
  "orch_read_file from_slice p w =
     (if \<not> fs_is_file p w then Ret (Err Orch_Invalid) w
      else io_try (fs_read p) Orch_Io
        (\<lambda>body. io_return
           (if length body = 0 \<or> length body > ORCH_MAXIMUM_FILE_BYTES then Err Orch_Invalid
            else ok_or (from_slice body) Orch_Invalid)) w)"

fun load_records ::
  "orchestration_record list \<Rightarrow> orchestration_records \<Rightarrow> bool
     \<Rightarrow> (orchestration_records \<times> bool, orchestration_ledger_error) result"
where
  "load_records [] records normalized = Ok (records, normalized)"
| "load_records (r # rs) records normalized =
     (case orch_validate_record r of
        Inl e \<Rightarrow> Err e
      | Inr _ \<Rightarrow>
          (let interrupted = o_stage r \<in> {Planning, Synthesizing};
               r' = (if interrupted then r\<lparr>o_stage := Unknown\<rparr> else r) in
           if bt_contains_key records (o_operation_id r') then Err Orch_Invalid
           else load_records rs (bt_insert (o_operation_id r') r' records) (normalized \<or> interrupted)))"

definition records_of_file ::
  "persisted_file \<Rightarrow> (orchestration_records \<times> bool, orchestration_ledger_error) result"
where
  "records_of_file persisted =
     (if file_version persisted \<noteq> ORCH_FILE_VERSION
         \<or> length (file_records persisted) > ORCH_MAXIMUM_RECORDS
      then Err Orch_Invalid
      else load_records (file_records persisted) [] False)"

definition orch_load ::
  "(string \<Rightarrow> persisted_file option) \<Rightarrow> path
     \<Rightarrow> (orchestration_records \<times> bool, orchestration_ledger_error) result io"
where
  "orch_load from_slice p w =
     (let backup = orch_backup_path p;
          finish = (\<lambda>r. io_return (case r of Inl e \<Rightarrow> Err e | Inr persisted \<Rightarrow> records_of_file persisted)) in
      if fs_is_file p w then io_bind (orch_read_file from_slice p) finish w
      else if \<not> fs_exists p w \<and> fs_is_file backup w
      then io_bind (orch_read_file from_slice backup) finish w
      else if \<not> fs_exists p w \<and> \<not> fs_exists backup w then Ret (Ok ([], False)) w
      else Ret (Err Orch_Invalid) w)"

text \<open>The old file becomes the backup, if it can still be read.\<close>

definition orch_rotate ::
  "(string \<Rightarrow> persisted_file option) \<Rightarrow> path \<Rightarrow> (unit, orchestration_ledger_error) result io"
where
  "orch_rotate from_slice p w =
     (let backup = orch_backup_path p in
      if fs_exists backup w \<and> \<not> fs_is_file backup w then Ret (Err Orch_Invalid) w
      else if fs_exists p w then
        (if \<not> fs_is_file p w then Ret (Err Orch_Invalid) w
         else io_bind (orch_read_file from_slice p)
           (\<lambda>r w1. if is_ok r
              then (if fs_exists backup w1
                    then io_try (fs_remove_file backup) Orch_Io
                           (\<lambda>_. io_try (fs_rename p backup) Orch_Io (\<lambda>_. io_return (Ok ()))) w1
                    else io_try (fs_rename p backup) Orch_Io (\<lambda>_. io_return (Ok ())) w1)
              else Ret (Err Orch_Invalid) w1) w)
      else Ret (Ok ()) w)"

text \<open>The encoded file is written under a temporary name, then put in place.\<close>

definition orch_write_file ::
  "(string \<Rightarrow> persisted_file option) \<Rightarrow> path \<Rightarrow> string
     \<Rightarrow> (unit, orchestration_ledger_error) result io"
where
  "orch_write_file from_slice p body w =
     (let temp = temp_path p (process_id w) (temp_sequence w);
          w1 = w\<lparr>temp_sequence := temp_sequence w + 1\<rparr> in
      with_temp_guard temp
        (io_try (fs_create_new temp) Orch_Io
           (\<lambda>_. io_try (fs_write_all_sync temp body) Orch_Io
             (\<lambda>_. io_bind (orch_rotate from_slice p)
               (\<lambda>r. case r of
                  Inl e \<Rightarrow> io_return (Err e)
                | Inr _ \<Rightarrow> install_temp Orch_Io (orch_backup_path p) temp p)))) w1)"

definition orch_persist_file ::
  "(persisted_file \<Rightarrow> string option) \<Rightarrow> (string \<Rightarrow> persisted_file option) \<Rightarrow> path
     \<Rightarrow> orchestration_records \<Rightarrow> (unit, orchestration_ledger_error) result io"
where
  "orch_persist_file to_vec from_slice p records =
     (if length records > ORCH_MAXIMUM_RECORDS \<or> fst p = [] then io_return (Err Orch_Invalid)
      else io_try (fs_create_dir_all (fst p)) Orch_Io
        (\<lambda>_ w.
           if \<not> fs_is_dir (fst p) w \<or> (fs_exists p w \<and> \<not> fs_is_file p w)
           then Ret (Err Orch_Invalid) w
           else
             (case to_vec \<lparr>file_version = ORCH_FILE_VERSION, file_records = map snd records\<rparr> of
                None \<Rightarrow> Ret (Err Orch_Invalid) w
              | Some body \<Rightarrow>
                  if length body > ORCH_MAXIMUM_FILE_BYTES then Ret (Err Orch_Invalid) w
                  else orch_write_file from_slice p body w)))"

section \<open>The ledger\<close>

record orchestration_ledger =
  ledger_records :: orchestration_records
  ledger_persistence :: "path option"
  ledger_poisoned :: bool

definition orch_persist ::
  "(persisted_file \<Rightarrow> string option) \<Rightarrow> (string \<Rightarrow> persisted_file option) \<Rightarrow> orchestration_ledger
     \<Rightarrow> orchestration_records \<Rightarrow> (unit, orchestration_ledger_error) result io"
where
  "orch_persist to_vec from_slice l records =
     (case ledger_persistence l of
        None \<Rightarrow> io_return (Ok ())
      | Some p \<Rightarrow> orch_persist_file to_vec from_slice p records)"

definition orch_open ::
  "(persisted_file \<Rightarrow> string option) \<Rightarrow> (string \<Rightarrow> persisted_file option) \<Rightarrow> path
     \<Rightarrow> (orchestration_ledger, orchestration_ledger_error) result io"
where
  "orch_open to_vec from_slice p =
     (if \<not> (case fst p of [] \<Rightarrow> False | c # _ \<Rightarrow> c = CHR ''/'') \<or> snd p = [] then io_return (Err Orch_Invalid)
      else io_bind (orch_load from_slice p)
        (\<lambda>r. case r of
           Inl e \<Rightarrow> io_return (Err e)
         | Inr (records, normalized) \<Rightarrow>
             (let l = \<lparr>ledger_records = records, ledger_persistence = Some p,
                      ledger_poisoned = False\<rparr> in
              if normalized
              then io_bind (orch_persist_file to_vec from_slice p records)
                     (\<lambda>r. io_return (case r of Inl e \<Rightarrow> Err e | Inr _ \<Rightarrow> Ok l))
              else io_return (Ok l))))"

text \<open>The common end of the mutations: write \<open>next\<close> through, then replace the map.\<close>

definition orch_commit ::
  "(persisted_file \<Rightarrow> string option) \<Rightarrow> (string \<Rightarrow> persisted_file option) \<Rightarrow> orchestration_ledger
     \<Rightarrow> orchestration_records \<Rightarrow> 'a
     \<Rightarrow> (orchestration_ledger \<times> ('a, orchestration_ledger_error) result) io"
where
  "orch_commit to_vec from_slice l next' x =
     io_bind (orch_persist to_vec from_slice l next')
       (\<lambda>r. io_return (case r of
          Inl e \<Rightarrow> (l, Err e) | Inr _ \<Rightarrow> (l\<lparr>ledger_records := next'\<rparr>, Ok x)))"

definition orch_begin ::
  "(persisted_file \<Rightarrow> string option) \<Rightarrow> (string \<Rightarrow> persisted_file option) \<Rightarrow> orchestration_ledger
     \<Rightarrow> string \<Rightarrow> string \<Rightarrow> string \<Rightarrow> string
     \<Rightarrow> (orchestration_ledger \<times> (orchestration_begin, orchestration_ledger_error) result) io"
where
  "orch_begin to_vec from_slice l room_id source_message_id conductor_id updated_at =
     (case conductor_operation_ids_derive source_message_id conductor_id of
        Inl _ \<Rightarrow> io_return (l, Err Orch_Invalid)
      | Inr ids \<Rightarrow>
          (let record' = \<lparr>o_operation_id = operation_id ids, o_room_id = room_id,
                o_source_message_id = source_message_id, o_conductor_id = conductor_id,
                o_conductor_session_id = None, o_final_message_id = final_message_id ids,
                o_stage = Prepared, o_delegations = [], o_updated_at = updated_at\<rparr> in
           case orch_validate_record record' of
             Inl e \<Rightarrow> io_return (l, Err e)
           | Inr _ \<Rightarrow>
               if ledger_poisoned l then io_return (l, Err Orch_Io)
               else
                 (case bt_get (ledger_records l) (o_operation_id record') of
                    Some existing \<Rightarrow>
                      io_return (l, if same_identity existing record' then Ok (Existing existing)
                                    else Err Orch_Conflict)
                  | None \<Rightarrow>
                      (let next' = prune_terminal_record (ledger_records l) in
                       if length next' \<ge> ORCH_MAXIMUM_RECORDS then io_return (l, Err Orch_Invalid)
                       else orch_commit to_vec from_slice l
                              (bt_insert (o_operation_id record') record' next') (Reserved record')))))"

definition orch_transition ::
  "(persisted_file \<Rightarrow> string option) \<Rightarrow> (string \<Rightarrow> persisted_file option) \<Rightarrow> orchestration_ledger
     \<Rightarrow> string \<Rightarrow> conductor_operation_stage list \<Rightarrow> conductor_operation_stage \<Rightarrow> string
     \<Rightarrow> (orchestration_ledger \<times> (unit, orchestration_ledger_error) result) io"
where
  "orch_transition to_vec from_slice l op_id expected next_stage updated_at =
     (if \<not> orch_valid_identifier op_id \<or> \<not> orch_valid_timestamp updated_at
      then io_return (l, Err Orch_Invalid)
      else if ledger_poisoned l then io_return (l, Err Orch_Io)
      else
        (case bt_get (ledger_records l) op_id of
           None \<Rightarrow> io_return (l, Err Orch_Invalid)
         | Some current \<Rightarrow>
             if o_stage current = next_stage then io_return (l, Ok ())
             else if o_stage current \<notin> set expected then io_return (l, Err Orch_Conflict)
             else orch_commit to_vec from_slice l
                    (bt_update op_id
                       (\<lambda>r. r\<lparr>o_stage := next_stage, o_updated_at := updated_at\<rparr>)
                       (ledger_records l)) ()))"

definition orch_mark_planning where
  "orch_mark_planning to_vec from_slice l op_id updated_at =
     orch_transition to_vec from_slice l op_id [Prepared] Planning updated_at"

definition orch_mark_synthesizing where
  "orch_mark_synthesizing to_vec from_slice l op_id updated_at =
     orch_transition to_vec from_slice l op_id [Planning, Delegating] Synthesizing updated_at"

definition orch_mark_completed where
  "orch_mark_completed to_vec from_slice l op_id updated_at =
     orch_transition to_vec from_slice l op_id [Synthesizing] Completed updated_at"

definition orch_mark_failed where
  "orch_mark_failed to_vec from_slice l op_id updated_at =
     orch_transition to_vec from_slice l op_id [Prepared, Planning, Delegating, Synthesizing] Failed
       updated_at"

definition orch_mark_unknown where
  "orch_mark_unknown to_vec from_slice l op_id updated_at =
     orch_transition to_vec from_slice l op_id [Planning, Synthesizing] Unknown updated_at"

definition orch_mark_delegating ::
  "(persisted_file \<Rightarrow> string option) \<Rightarrow> (string \<Rightarrow> persisted_file option) \<Rightarrow> orchestration_ledger
     \<Rightarrow> string \<Rightarrow> string \<Rightarrow> orchestration_delegation_link list \<Rightarrow> string
     \<Rightarrow> (orchestration_ledger \<times> (unit, orchestration_ledger_error) result) io"
where
  "orch_mark_delegating to_vec from_slice l op_id conductor_session_id delegations updated_at =
     (if \<not> orch_valid_session_id conductor_session_id
         \<or> \<not> (1 \<le> length delegations \<and> length delegations \<le> ORCH_MAXIMUM_WORKERS)
      then io_return (l, Err Orch_Invalid)
      else if ledger_poisoned l then io_return (l, Err Orch_Io)
      else
        (case bt_get (ledger_records l) op_id of
           None \<Rightarrow> io_return (l, Err Orch_Invalid)
         | Some current \<Rightarrow>
             if o_stage current = Delegating
             then io_return (l,
                    if o_conductor_session_id current = Some conductor_session_id
                       \<and> o_delegations current = delegations
                    then Ok () else Err Orch_Conflict)
             else if o_stage current \<noteq> Planning \<or> \<not> orch_valid_timestamp updated_at
             then io_return (l, Err Orch_Conflict)
             else
               (case orch_validate_delegations current delegations of
                  Inl e \<Rightarrow> io_return (l, Err e)
                | Inr _ \<Rightarrow>
                    orch_commit to_vec from_slice l
                      (bt_update op_id
                         (\<lambda>r. r\<lparr>o_conductor_session_id := Some conductor_session_id,
                               o_delegations := delegations, o_stage := Delegating,
                               o_updated_at := updated_at\<rparr>)
                         (ledger_records l)) ())))"

end
