(* ===== verification/Settings_File.thy ===== *)
theory Settings_File
  imports File_System
begin

text \<open>
  The file of a small store of the desktop, as \<open>room\_ai\_continuity.rs\<close> and \<open>room\_workspace.rs\<close>
  write it, word for word but for the names: the whole content goes to a temporary file, the old
  file becomes the backup, and the temporary file takes its place. The locale is the contract of
  such a store: what is on disk is what is in memory.
\<close>

section \<open>Reading and writing\<close>

text \<open>The three errors \<open>Invalid\<close> and \<open>Io\<close> are the store's own; \<open>decode\<close> is everything after
  the reading of the bytes.\<close>

definition settings_load ::
  "'e \<Rightarrow> 'e \<Rightarrow> nat \<Rightarrow> 'm \<Rightarrow> (string \<Rightarrow> ('m, 'e) result) \<Rightarrow> path \<Rightarrow> ('m, 'e) result io"
where
  "settings_load invalid unreadable limit nothing decode p w =
     (let backup = with_extension p ''json.backup'';
          read = (\<lambda>source. io_try (fs_read source) unreadable
            (\<lambda>body. io_return
               (if length body = 0 \<or> length body > limit then Err invalid else decode body))) in
      if fs_is_file p w then read p w
      else if \<not> fs_exists p w \<and> fs_is_file backup w then read backup w
      else if \<not> fs_exists p w \<and> \<not> fs_exists backup w then Ret (Ok nothing) w
      else Ret (Err invalid) w)"

definition settings_rotate :: "'e \<Rightarrow> 'e \<Rightarrow> path \<Rightarrow> (unit, 'e) result io" where
  "settings_rotate invalid unreadable p w =
     (let backup = with_extension p ''json.backup'';
          keep_old = (\<lambda>w. if fs_exists p w
            then io_try (fs_rename p backup) unreadable (\<lambda>_. io_return (Ok ())) w
            else Ret (Ok ()) w) in
      if fs_exists backup w
      then (if \<not> fs_is_file backup w then Ret (Err invalid) w
            else io_try (fs_remove_file backup) unreadable (\<lambda>_. keep_old) w)
      else keep_old w)"

definition settings_write_file :: "'e \<Rightarrow> 'e \<Rightarrow> path \<Rightarrow> string \<Rightarrow> (unit, 'e) result io" where
  "settings_write_file invalid unreadable p body w =
     (let temp = temp_path p (process_id w) (temp_sequence w);
          w1 = w\<lparr>temp_sequence := temp_sequence w + 1\<rparr> in
      with_temp_guard temp
        (io_try (fs_create_new temp) unreadable
           (\<lambda>_. io_try (fs_write_all_sync temp body) unreadable
             (\<lambda>_. io_bind (settings_rotate invalid unreadable p)
               (\<lambda>r. case r of
                  Inl e \<Rightarrow> io_return (Err e)
                | Inr _ \<Rightarrow> install_temp unreadable (with_extension p ''json.backup'') temp p)))) w1)"

definition settings_persist ::
  "'e \<Rightarrow> 'e \<Rightarrow> nat \<Rightarrow> path \<Rightarrow> string option \<Rightarrow> (unit, 'e) result io"
where
  "settings_persist invalid unreadable limit p encoded =
     (if fst p = [] then io_return (Err invalid)
      else io_try (fs_create_dir_all (fst p)) unreadable
        (\<lambda>_ w.
           if \<not> fs_is_dir (fst p) w \<or> (fs_exists p w \<and> \<not> fs_is_file p w)
           then Ret (Err invalid) w
           else
             (case encoded of
                None \<Rightarrow> Ret (Err invalid) w
              | Some body \<Rightarrow>
                  if length body > limit then Ret (Err invalid) w
                  else settings_write_file invalid unreadable p body w)))"

text \<open>The store in memory; it has no file in tests. The end of every mutation: write, then replace.\<close>

record 'm settings_store =
  settings_now :: 'm
  settings_path :: "path option"
  settings_poisoned :: bool

definition settings_commit ::
  "(path \<Rightarrow> 'm \<Rightarrow> (unit, 'e) result io) \<Rightarrow> 'm settings_store \<Rightarrow> 'm \<Rightarrow> 'a
     \<Rightarrow> ('m settings_store \<times> ('a, 'e) result) io"
where
  "settings_commit persist st following x =
     io_bind (case settings_path st of None \<Rightarrow> io_return (Ok ()) | Some p \<Rightarrow> persist p following)
       (\<lambda>r. io_return (case r of
          Inl e \<Rightarrow> (st, Err e)
        | Inr _ \<Rightarrow> (st\<lparr>settings_now := following\<rparr>, Ok x)))"

section \<open>What a write does to the disk\<close>

text \<open>There is a main file, or no backup that a write would remove.\<close>

abbreviation settings_backup :: "path \<Rightarrow> path" where
  "settings_backup p \<equiv> with_extension p ''json.backup''"

abbreviation settings_durable :: "path \<Rightarrow> world \<Rightarrow> string option" where
  "settings_durable p w \<equiv> durable p (settings_backup p) (files w)"

definition settings_intact :: "path \<Rightarrow> world \<Rightarrow> bool" where
  "settings_intact p w \<longleftrightarrow> fs_exists p w \<or> \<not> fs_exists (settings_backup p) w"

lemma settings_intact_files: "files w' = files w \<Longrightarrow> settings_intact p w' = settings_intact p w"
  by (simp add: settings_intact_def fs_exists_def)

lemma wp_settings_rotate:
  assumes t: "t \<noteq> p" "t \<noteq> settings_backup p" and "settings_intact p w"
  shows "wp (settings_rotate e e' p)
    (\<lambda>r w'. settings_durable p w' = settings_durable p w \<and> files w' t = files w t
       \<and> (is_ok r \<longrightarrow> files w' p = None))
    (\<lambda>w'. settings_durable p w' = settings_durable p w) w"
  unfolding settings_rotate_def [abs_def] Let_def
  apply (intro wp_rules)
  using assms backup_path_distinct [of p]
  by (auto intro!: wp_rules simp: durable_def fs_exists_def fs_is_file_def settings_intact_def
      split: option.splits node.splits)

lemma wp_settings_write_file:
  assumes "settings_intact p w"
  shows "wp (settings_write_file e e' p body)
    (\<lambda>r w'. settings_durable p w' = (if is_ok r then Some body else settings_durable p w)
       \<and> (is_ok r \<longrightarrow> settings_intact p w'))
    (\<lambda>w'. settings_durable p w' \<in> {settings_durable p w, Some body}) w"
proof -
  define t where "t = temp_path p (process_id w) (temp_sequence w)"
  have t: "t \<noteq> p" "t \<noteq> settings_backup p"
    by (simp_all add: t_def temp_path_distinct)
  have rotate: "wp (settings_rotate e e' p)
      (\<lambda>r w'. settings_durable p w' = settings_durable p w \<and> files w' t = Some (Regular body)
         \<and> (is_ok r \<longrightarrow> files w' p = None))
      (\<lambda>w'. settings_durable p w' = settings_durable p w) w2"
    if "files w2 = (files w)(t \<mapsto> Regular body)" for w2
    using wp_settings_rotate [OF t, of w2] t assms
    by (simp add: that settings_intact_def fs_exists_def)
  show ?thesis
    using wp_replace_file [OF t backup_path_distinct rotate,
        of "w\<lparr>temp_sequence := temp_sequence w + 1\<rparr>" e' e']
    by (auto simp: wp_def settings_write_file_def Let_def t_def settings_intact_def fs_exists_def
        split: outcome.splits)
qed

lemma wp_settings_persist:
  assumes "settings_intact p w"
  shows "wp (settings_persist e e' limit p encoded)
    (\<lambda>r w'. if is_ok r
       then (\<exists>body. encoded = Some body \<and> length body \<le> limit \<and> settings_durable p w' = Some body)
              \<and> settings_intact p w'
       else settings_durable p w' = settings_durable p w)
    (\<lambda>w'. settings_durable p w' = settings_durable p w
       \<or> (\<exists>body. encoded = Some body \<and> length body \<le> limit \<and> settings_durable p w' = Some body)) w"
    (is "wp _ ?Q ?C w")
proof (cases "fst p = []")
  case True
  then show ?thesis
    by (auto simp: settings_persist_def intro!: wp_return)
next
  case False
  have body: "wp (\<lambda>w. if \<not> fs_is_dir (fst p) w \<or> (fs_exists p w \<and> \<not> fs_is_file p w)
      then Ret (Err e) w
      else case encoded of
          None \<Rightarrow> Ret (Err e) w
        | Some body \<Rightarrow>
            if length body > limit then Ret (Err e) w
            else settings_write_file e e' p body w) ?Q ?C w1"
    if w1: "files w1 = files w" for w1
  proof (cases encoded)
    case None
    then show ?thesis
      using w1 by (auto intro!: wp_if wp_Ret_const)
  next
    case (Some body)
    have "settings_intact p w1"
      using assms settings_intact_files [OF w1] by simp
    then show ?thesis
      using w1 Some by (auto intro!: wp_if wp_Ret_const wp_mono [OF wp_settings_write_file])
  qed
  show ?thesis
    unfolding settings_persist_def if_not_P [OF False]
    by (intro wp_try wp_create_dir_all conjI allI impI body) auto
qed

text \<open>A program that makes no directory appear in the place of a file.\<close>

definition no_new_directory :: "world \<Rightarrow> world \<Rightarrow> bool" where
  "no_new_directory w w' \<longleftrightarrow> (\<forall>q. files w' q = Some Directory \<longrightarrow> files w q = Some Directory)"

definition makes_no_directory :: "'a io \<Rightarrow> bool" where
  "makes_no_directory m \<longleftrightarrow> (\<forall>w. wp m (\<lambda>_. no_new_directory w) (no_new_directory w) w)"

lemma no_new_directory_refl [simp]: "no_new_directory w w"
  by (simp add: no_new_directory_def)

lemma no_new_directory_trans: "no_new_directory w w1 \<Longrightarrow> no_new_directory w1 w2 \<Longrightarrow> no_new_directory w w2"
  by (simp add: no_new_directory_def)

lemma no_new_directoryD: "no_new_directory w w' \<Longrightarrow> files w q = None \<Longrightarrow> files w' q \<noteq> Some Directory"
  by (metis no_new_directory_def option.distinct(1))

named_theorems no_directory

lemma no_directory_return [no_directory]: "makes_no_directory (io_return x)"
  by (simp add: makes_no_directory_def wp_return)

lemma no_directory_const [no_directory]: "makes_no_directory (\<lambda>w. Ret x w)"
  by (simp add: makes_no_directory_def wp_def)

lemma no_directory_bind [no_directory]:
  assumes "makes_no_directory m" "\<And>x. makes_no_directory (f x)"
  shows "makes_no_directory (io_bind m f)"
  unfolding makes_no_directory_def
proof (intro allI wp_bind)
  fix w
  have rest: "wp (f x) (\<lambda>_. no_new_directory w) (no_new_directory w) w'" if "no_new_directory w w'" for x w'
    using assms(2) [of x] no_new_directory_trans [OF that]
    by (auto simp: makes_no_directory_def intro: wp_mono)
  show "wp m (\<lambda>x. wp (f x) (\<lambda>_. no_new_directory w) (no_new_directory w)) (no_new_directory w) w"
    using assms(1) rest by (auto simp: makes_no_directory_def intro: wp_mono)
qed

lemma no_directory_try [no_directory]:
  "makes_no_directory m \<Longrightarrow> (\<And>x. makes_no_directory (f x)) \<Longrightarrow> makes_no_directory (io_try m e f)"
  unfolding io_try_def by (intro no_directory_bind) (auto intro: no_directory_return split: sum.splits)

lemma no_directory_case [no_directory]:
  "(\<And>e. makes_no_directory (f e)) \<Longrightarrow> (\<And>x. makes_no_directory (g x)) \<Longrightarrow>
     makes_no_directory (case r of Inl e \<Rightarrow> f e | Inr x \<Rightarrow> g x)"
  by (cases r) simp_all

lemma no_directory_if [no_directory]:
  "makes_no_directory m \<Longrightarrow> makes_no_directory n \<Longrightarrow>
     makes_no_directory (\<lambda>w. if b w then m w else n w)"
  by (simp add: makes_no_directory_def wp_def)

lemma no_directory_point:
  "(\<And>w. makes_no_directory (m w)) \<Longrightarrow> makes_no_directory (\<lambda>w. m w w)"
  by (simp add: makes_no_directory_def wp_def)

lemma no_directory_ops [no_directory]:
  "makes_no_directory (fs_create_dir_all d)" "makes_no_directory (fs_create_new q)"
  "makes_no_directory (fs_write_all_sync q body)" "makes_no_directory (fs_remove_file q)"
  "makes_no_directory (fs_rename q q')" "makes_no_directory (fs_read q)"
  unfolding makes_no_directory_def no_new_directory_def by (auto intro!: wp_rules split: if_splits)

lemma no_directory_guard [no_directory]: "makes_no_directory m \<Longrightarrow> makes_no_directory (with_temp_guard q m)"
  unfolding with_temp_guard_def by (intro no_directory)

lemma no_directory_install [no_directory]: "makes_no_directory (install_temp e b q p)"
  unfolding install_temp_def by (intro no_directory)

lemma no_directory_rotate [no_directory]: "makes_no_directory (settings_rotate e e' p)"
  unfolding settings_rotate_def [abs_def] Let_def by (intro no_directory)

lemma no_directory_write [no_directory]: "makes_no_directory (settings_write_file e e' p body)"
proof -
  have body: "makes_no_directory (with_temp_guard q (io_try (fs_create_new q) e'
      (\<lambda>_. io_try (fs_write_all_sync q body) e' (\<lambda>_. io_bind (settings_rotate e e' p)
        (\<lambda>r. case r of Inl e \<Rightarrow> io_return (Err e)
         | Inr _ \<Rightarrow> install_temp e' (settings_backup p) q p)))))" (is "makes_no_directory (?m q)") for q
    by (intro no_directory)
  have "wp (settings_write_file e e' p body) (\<lambda>_. no_new_directory w) (no_new_directory w) w" for w
  proof -
    let ?w = "w\<lparr>temp_sequence := temp_sequence w + 1\<rparr>"
    let ?m' = "?m (temp_path p (process_id w) (temp_sequence w))"
    have "no_new_directory ?w = no_new_directory w"
      by (simp add: no_new_directory_def fun_eq_iff)
    then have "wp ?m' (\<lambda>_. no_new_directory w) (no_new_directory w) ?w"
      using body [unfolded makes_no_directory_def, rule_format] by metis
    then show ?thesis
      unfolding wp_def settings_write_file_def Let_def .
  qed
  then show ?thesis
    by (simp add: makes_no_directory_def)
qed

lemma no_directory_persist: "makes_no_directory (settings_persist e e' limit p encoded)"
  by (cases encoded; cases "fst p = []")
    (auto simp: settings_persist_def intro!: no_directory)

section \<open>The contract\<close>

text \<open>An encoder and a decoder that fit, for the valid contents of a store; \<open>fits\<close> says of the
  JSON codec \<open>c\<close> that it reads back what it wrote.\<close>

locale settings_contract =
  fixes fits :: "'c \<Rightarrow> bool"
    and encode :: "'c \<Rightarrow> 'm \<Rightarrow> string option"
    and decode :: "'c \<Rightarrow> string \<Rightarrow> ('m, 'e) result"
    and valid :: "'m \<Rightarrow> bool" and nothing :: 'm
    and invalid unreadable :: 'e and limit :: nat
  assumes reads_back: "fits c \<Longrightarrow> valid m \<Longrightarrow> encode c m = Some body \<Longrightarrow> body \<noteq> [] \<and> decode c body = Ok m"
    and nothing_valid: "valid nothing"
begin

text \<open>The content on disk: the file's, or \<open>nothing\<close> where there are no files.\<close>

definition on_file :: "'c \<Rightarrow> path \<Rightarrow> 'm \<Rightarrow> world \<Rightarrow> bool" where
  "on_file c p m w \<longleftrightarrow>
     (\<exists>body. settings_durable p w = Some body \<and> body \<noteq> [] \<and> length body \<le> limit \<and> decode c body = Ok m)
     \<or> files w p = None \<and> files w (settings_backup p) = None \<and> m = nothing"

definition in_step :: "'c \<Rightarrow> path \<Rightarrow> 'm settings_store \<Rightarrow> world \<Rightarrow> bool" where
  "in_step c p st w \<longleftrightarrow>
     settings_path st = Some p \<and> valid (settings_now st) \<and> \<not> settings_poisoned st
     \<and> on_file c p (settings_now st) w"

lemma on_file_faults: "on_file c p m (w\<lparr>faults := fs\<rparr>) = on_file c p m w"
  by (simp add: on_file_def)

lemma on_file_same:
  assumes "on_file c p m w" "files w' = files w"
  shows "on_file c p m w'"
  using assms by (simp add: on_file_def)

text \<open>Loading finds what is on disk, or cannot read it.\<close>

lemma wp_load:
  assumes "on_file c p m w"
  shows "wp (settings_load invalid unreadable limit nothing (decode c) p)
    (\<lambda>r w'. files w' = files w \<and> (is_ok r \<longrightarrow> r = Ok m)) (\<lambda>w'. files w' = files w) w"
proof -
  have read: "wp (io_try (fs_read q) unreadable
      (\<lambda>body. io_return (if length body = 0 \<or> length body > limit then Err invalid else decode c body)))
      (\<lambda>r w'. files w' = files w \<and> (is_ok r \<longrightarrow> r = Ok m)) (\<lambda>w'. files w' = files w) w"
    if "files w q = Some (Regular body)" "decode c body = Ok m" for q body
    using that by (auto intro!: wp_rules)
  from assms show ?thesis
    unfolding on_file_def
  proof (elim disjE exE conjE)
    fix body assume "settings_durable p w = Some body" "decode c body = Ok m"
    then show ?thesis
      by (elim durable_SomeE)
        (auto simp: settings_load_def Let_def fs_is_file_def fs_exists_def wp_def
          dest!: read [unfolded wp_def] split: outcome.splits)
  next
    assume "files w p = None" "files w (settings_backup p) = None" "m = nothing"
    then show ?thesis
      by (simp add: settings_load_def Let_def fs_is_file_def fs_exists_def wp_def)
  qed
qed

lemma load_no_fault:
  assumes "on_file c p m w" "faults w = []"
  shows "settings_load invalid unreadable limit nothing (decode c) p w = Ret (Ok m) w"
  using assms(1) unfolding on_file_def
proof (elim disjE exE conjE)
  fix body assume "settings_durable p w = Some body" "decode c body = Ok m" "body \<noteq> []" "length body \<le> limit"
  then show ?thesis
    using assms(2)
    by (elim durable_SomeE)
      (simp_all add: settings_load_def Let_def fs_is_file_def fs_exists_def io_try_def io_bind_def
        fs_read_def atomic_op_def next_fault_def io_return_def)
next
  assume "files w p = None" "files w (settings_backup p) = None" "m = nothing"
  then show ?thesis
    by (simp add: settings_load_def Let_def fs_is_file_def fs_exists_def)
qed

text \<open>A mutation: disk and memory move together, and a crash leaves the old content or the new.\<close>

lemma wp_commit:
  assumes "fits c" "in_step c p st w" "valid m" "settings_intact p w"
  shows "wp (settings_commit (\<lambda>p m. settings_persist invalid unreadable limit p (encode c m)) st m x)
    (\<lambda>(st', r) w'. in_step c p st' w'
       \<and> (if is_ok r then r = Ok x \<and> st' = st\<lparr>settings_now := m\<rparr> \<and> settings_intact p w' else st' = st))
    (\<lambda>w'. on_file c p (settings_now st) w' \<or> on_file c p m w') w"
proof -
  have written: "on_file c p m w'"
    if "encode c m = Some body" "length body \<le> limit" "settings_durable p w' = Some body" for body w'
    using reads_back [OF assms(1,3) that(1)] that by (auto simp: on_file_def)
  have same: "on_file c p (settings_now st) w'"
    if "settings_durable p w' = settings_durable p w"
      "no_new_directory w w'" for w'
  proof (cases "settings_durable p w = None")
    case True
    then have "files w p = None" "files w (settings_backup p) = None" "settings_now st = nothing"
      using assms(2) by (auto simp: in_step_def on_file_def)
    then show ?thesis
      using that True no_new_directoryD [OF that(2)]
      by (auto simp: on_file_def durable_def split: option.splits node.splits)
  next
    case False
    then show ?thesis
      using assms(2) that(1) by (auto simp: on_file_def in_step_def durable_def)
  qed
  have path: "settings_path st = Some p"
    using assms(2) by (simp add: in_step_def)
  note persisted = wp_conj [OF wp_settings_persist [OF assms(4)]
      no_directory_persist [unfolded makes_no_directory_def, rule_format]]
  show ?thesis
    unfolding settings_commit_def path option.case
    by (intro wp_bind wp_mono [OF persisted])
      (use assms(2,3) in \<open>auto intro!: wp_return dest: written same simp: in_step_def is_ok_def
        split: if_splits sum.splits\<close>)
qed

end

end
