(* ===== verification/Orchestration_Claims.thy ===== *)
theory Orchestration_Claims
  imports Orchestration_Ledger Settings_File
begin

text \<open>
  What the orchestration ledger promises: its file is replaced as a whole or not at all, memory and
  file agree after every call, interrupted work is never resumed after a restart, and records only
  move forward.
\<close>

section \<open>The file is replaced as a whole\<close>

abbreviation orch_durable :: "path \<Rightarrow> world \<Rightarrow> string option" where
  "orch_durable p w \<equiv> durable p (orch_backup_path p) (files w)"

abbreviation orch_encode ::
  "(persisted_file \<Rightarrow> string option) \<Rightarrow> orchestration_records \<Rightarrow> string option"
where
  "orch_encode to_vec rs \<equiv> to_vec \<lparr>file_version = ORCH_FILE_VERSION, file_records = map snd rs\<rparr>"

lemma wp_orch_read_file:
  assumes "\<And>r w'. files w' = files w \<Longrightarrow> Q r w'" "\<And>w'. files w' = files w \<Longrightarrow> C w'"
  shows "wp (orch_read_file from_slice p) Q C w"
  unfolding orch_read_file_def [abs_def]
  by (intro wp_rules) (auto intro!: wp_rules assms)

lemma wp_orch_rotate:
  assumes t: "t \<noteq> p" "t \<noteq> orch_backup_path p"
  shows "wp (orch_rotate from_slice p)
    (\<lambda>r w'. orch_durable p w' = orch_durable p w \<and> files w' t = files w t
       \<and> (is_ok r \<longrightarrow> files w' p = None))
    (\<lambda>w'. orch_durable p w' = orch_durable p w) w"
  unfolding orch_rotate_def [abs_def] Let_def
  apply (intro wp_rules wp_orch_read_file)
  using t backup_path_distinct [of p]
  by (auto intro!: wp_rules simp: durable_def fs_exists_def fs_is_file_def
      split: option.splits node.splits)

lemma wp_orch_write_file:
  "wp (orch_write_file from_slice p body)
    (\<lambda>r w'. orch_durable p w' = (if is_ok r then Some body else orch_durable p w))
    (\<lambda>w'. orch_durable p w' \<in> {orch_durable p w, Some body}) w"
proof -
  define t where "t = temp_path p (process_id w) (temp_sequence w)"
  have t: "t \<noteq> p" "t \<noteq> orch_backup_path p"
    by (simp_all add: t_def temp_path_distinct)
  have rotate: "wp (orch_rotate from_slice p)
      (\<lambda>r w'. orch_durable p w' = orch_durable p w \<and> files w' t = Some (Regular body)
         \<and> (is_ok r \<longrightarrow> files w' p = None))
      (\<lambda>w'. orch_durable p w' = orch_durable p w) w2"
    if "files w2 = (files w)(t \<mapsto> Regular body)" for w2
    using wp_orch_rotate [OF t, of from_slice w2] t by (simp add: that)
  show ?thesis
    using wp_replace_file [OF t backup_path_distinct rotate,
        of "w\<lparr>temp_sequence := temp_sequence w + 1\<rparr>" Orch_Io Orch_Io]
    by (auto simp: wp_def orch_write_file_def Let_def t_def split: outcome.splits)
qed

text \<open>The whole of \<open>persist\<close>.\<close>

lemma wp_orch_persist_file:
  "wp (orch_persist_file to_vec from_slice p rs)
    (\<lambda>r w'. if is_ok r
       then \<exists>body. orch_encode to_vec rs = Some body \<and> length body \<le> ORCH_MAXIMUM_FILE_BYTES
              \<and> length rs \<le> ORCH_MAXIMUM_RECORDS \<and> orch_durable p w' = Some body
       else orch_durable p w' = orch_durable p w)
    (\<lambda>w'. orch_durable p w' = orch_durable p w
       \<or> (\<exists>body. orch_encode to_vec rs = Some body \<and> length body \<le> ORCH_MAXIMUM_FILE_BYTES
             \<and> orch_durable p w' = Some body)) w"
proof (cases "length rs > ORCH_MAXIMUM_RECORDS \<or> fst p = []")
  case True
  then show ?thesis
    by (auto simp: orch_persist_file_def intro!: wp_return)
next
  case False
  have written: "wp (orch_write_file from_slice p body)
      (\<lambda>r w'. orch_durable p w' = (if is_ok r then Some body else orch_durable p w))
      (\<lambda>w'. orch_durable p w' \<in> {orch_durable p w, Some body}) w1"
    if "files w1 = files w" for body w1
    using wp_orch_write_file [of from_slice p body w1] unfolding that .
  show ?thesis
    unfolding orch_persist_file_def if_not_P [OF False]
  proof (intro wp_try wp_create_dir_all conjI allI impI)
    fix r :: "(unit, unit) result" and w1 :: world and u
    assume w1: "files w1 = files w"
    show "wp (\<lambda>w. if \<not> fs_is_dir (fst p) w \<or> (fs_exists p w \<and> \<not> fs_is_file p w)
        then Ret (Err Orch_Invalid) w
        else case orch_encode to_vec rs of
            None \<Rightarrow> Ret (Err Orch_Invalid) w
          | Some body \<Rightarrow>
              if length body > ORCH_MAXIMUM_FILE_BYTES then Ret (Err Orch_Invalid) w
              else orch_write_file from_slice p body w)
      (\<lambda>r w'. if is_ok r
         then \<exists>body. orch_encode to_vec rs = Some body \<and> length body \<le> ORCH_MAXIMUM_FILE_BYTES
                \<and> length rs \<le> ORCH_MAXIMUM_RECORDS \<and> orch_durable p w' = Some body
         else orch_durable p w' = orch_durable p w)
      (\<lambda>w'. orch_durable p w' = orch_durable p w
         \<or> (\<exists>body. orch_encode to_vec rs = Some body \<and> length body \<le> ORCH_MAXIMUM_FILE_BYTES
               \<and> orch_durable p w' = Some body)) w1"
    proof (cases "orch_encode to_vec rs")
      case None
      then show ?thesis
        using w1 by (auto intro!: wp_if wp_Ret_const)
    next
      case (Some body)
      then show ?thesis
        using w1 False
        by (auto intro!: wp_if wp_Ret_const wp_mono [OF written [OF w1, of body]])
    qed
  qed auto
qed

section \<open>The moves of a record\<close>

inductive stage_move :: "conductor_operation_stage \<Rightarrow> conductor_operation_stage \<Rightarrow> bool" where
  plan: "stage_move Prepared Planning"
| delegate: "stage_move Planning Delegating"
| synthesize: "s \<in> {Planning, Delegating} \<Longrightarrow> stage_move s Synthesizing"
| complete: "stage_move Synthesizing Completed"
| fail: "s \<in> {Prepared, Planning, Delegating, Synthesizing} \<Longrightarrow> stage_move s Failed"
| lose: "s \<in> {Planning, Synthesizing} \<Longrightarrow> stage_move s Unknown"

code_pred stage_move .

inductive_simps stage_move_to [simp]:
  "stage_move s Prepared" "stage_move s Planning" "stage_move s Delegating"
  "stage_move s Synthesizing" "stage_move s Completed" "stage_move s Failed" "stage_move s Unknown"

lemma stage_move_forward: "stage_move s s' \<Longrightarrow> stage_rank s < stage_rank s'"
  by (induction rule: stage_move.induct) auto

text \<open>What a successful call does to the records: one is begun, or one moves.\<close>

inductive orch_moves :: "orchestration_records \<Rightarrow> orchestration_records \<Rightarrow> bool" where
  begun: "orch_validate_record r = Ok () \<Longrightarrow> o_stage r = Prepared \<Longrightarrow>
     bt_get rs (o_operation_id r) = None \<Longrightarrow> length (prune_terminal_record rs) < ORCH_MAXIMUM_RECORDS \<Longrightarrow>
     orch_moves rs (bt_insert (o_operation_id r) r (prune_terminal_record rs))"
| moved: "bt_get rs i = Some r \<Longrightarrow> stage_move (o_stage r) s \<Longrightarrow> orch_valid_timestamp t \<Longrightarrow>
     orch_moves rs (bt_update i (\<lambda>r. r\<lparr>o_stage := s, o_updated_at := t\<rparr>) rs)"
| delegated: "bt_get rs i = Some r \<Longrightarrow> o_stage r = Planning \<Longrightarrow> orch_valid_session_id session \<Longrightarrow>
     length ds \<le> ORCH_MAXIMUM_WORKERS \<Longrightarrow> orch_validate_delegations r ds = Ok () \<Longrightarrow>
     orch_valid_timestamp t \<Longrightarrow>
     orch_moves rs (bt_update i (\<lambda>r. r\<lparr>o_conductor_session_id := Some session, o_delegations := ds,
       o_stage := Delegating, o_updated_at := t\<rparr>) rs)"

definition orch_records_ok :: "orchestration_records \<Rightarrow> bool" where
  "orch_records_ok rs \<longleftrightarrow>
     bt_ok rs \<and> length rs \<le> ORCH_MAXIMUM_RECORDS
     \<and> (\<forall>i r. bt_get rs i = Some r \<longrightarrow> o_operation_id r = i \<and> orch_validate_record r = Ok ())"

lemma prune_cases:
  assumes "\<forall>i r. bt_get rs i = Some r \<longrightarrow> o_operation_id r = i" "bt_ok rs"
  shows "prune_terminal_record rs = rs
    \<or> (\<exists>i r. bt_get rs i = Some r \<and> o_stage r \<in> {Completed, Failed}
         \<and> prune_terminal_record rs = bt_remove i rs)"
proof (cases "prune_terminal_record rs = rs")
  case False
  then obtain r where r: "r \<in> set (filter (\<lambda>r. o_stage r \<in> {Completed, Failed}) (map snd rs))"
    and eq: "prune_terminal_record rs = bt_remove (o_operation_id r) rs"
    by (auto simp: prune_terminal_record_def split: if_splits option.splits dest: min_by_SomeD)
  then obtain k where "(k, r) \<in> set rs" "o_stage r \<in> {Completed, Failed}"
    by auto
  then have "bt_get rs k = Some r"
    using assms(2) by (simp add: bt_get_in_set)
  then show ?thesis
    using assms(1) eq \<open>o_stage r \<in> {Completed, Failed}\<close> by blast
qed simp

lemma prune_ok:
  assumes "orch_records_ok rs"
  shows "orch_records_ok (prune_terminal_record rs)"
  using prune_cases [of rs] assms
  by (auto simp: orch_records_ok_def intro: le_trans [OF length_bt_remove] split: if_splits)

lemma orch_validate_record_iff:
  "orch_validate_record r = Ok () \<longleftrightarrow>
     orch_valid_identifier (o_operation_id r) \<and> orch_valid_identifier (o_room_id r)
     \<and> orch_valid_identifier (o_source_message_id r) \<and> orch_valid_identifier (o_conductor_id r)
     \<and> (\<forall>s. o_conductor_session_id r = Some s \<longrightarrow> orch_valid_session_id s)
     \<and> orch_valid_identifier (o_final_message_id r) \<and> orch_valid_timestamp (o_updated_at r)
     \<and> length (o_delegations r) \<le> ORCH_MAXIMUM_WORKERS
     \<and> conductor_operation_ids_derive (o_source_message_id r) (o_conductor_id r) =
         Ok \<lparr>operation_id = o_operation_id r, final_message_id = o_final_message_id r\<rparr>
     \<and> orch_validate_delegations r (o_delegations r) = Ok ()"
  by (cases "conductor_operation_ids_derive (o_source_message_id r) (o_conductor_id r)")
    (auto simp: orch_validate_record_def is_some_and_iff)

lemma orch_validate_delegations_update [simp]:
  "orch_validate_delegations (r\<lparr>o_stage := s\<rparr>) = orch_validate_delegations r"
  "orch_validate_delegations (r\<lparr>o_updated_at := t\<rparr>) = orch_validate_delegations r"
  "orch_validate_delegations (r\<lparr>o_conductor_session_id := session\<rparr>) = orch_validate_delegations r"
  "orch_validate_delegations (r\<lparr>o_delegations := ds\<rparr>) = orch_validate_delegations r"
  by (simp_all add: orch_validate_delegations_def fun_eq_iff)

lemma orch_records_ok_update:
  assumes "orch_records_ok rs" "bt_get rs i = Some r" "o_operation_id (f r) = i"
    "orch_validate_record (f r) = Ok ()"
  shows "orch_records_ok (bt_update i f rs)"
  using assms by (simp add: orch_records_ok_def)

lemma orch_moves_ok:
  assumes "orch_moves rs rs'" "orch_records_ok rs"
  shows "orch_records_ok rs'"
  using assms
proof (induction rule: orch_moves.induct)
  case (begun r rs)
  then show ?case
    using prune_ok [OF begun(5)] length_bt_insert [of "o_operation_id r" r "prune_terminal_record rs"]
    by (auto simp: orch_records_ok_def)
next
  case (moved rs i r s t)
  then have "o_operation_id r = i" "orch_validate_record r = Ok ()"
    by (simp_all add: orch_records_ok_def)
  with moved show ?case
    by (intro orch_records_ok_update [of rs i r]) (simp_all add: orch_validate_record_iff)
next
  case (delegated rs i r session ds t)
  then have "o_operation_id r = i" "orch_validate_record r = Ok ()"
    by (simp_all add: orch_records_ok_def)
  with delegated show ?case
    by (intro orch_records_ok_update [of rs i r]) (simp_all add: orch_validate_record_iff)
qed

section \<open>Every call is a move that is written through, or nothing\<close>

datatype orch_event =
  EvOrchBegin string string string string
| EvOrchPlanning string string
| EvOrchDelegating string string "orchestration_delegation_link list" string
| EvOrchSynthesizing string string
| EvOrchCompleted string string
| EvOrchFailed string string
| EvOrchUnknown string string

fun orch_call ::
  "(persisted_file \<Rightarrow> string option) \<Rightarrow> (string \<Rightarrow> persisted_file option) \<Rightarrow> orchestration_ledger
     \<Rightarrow> orch_event \<Rightarrow> (orchestration_ledger \<times> (unit, orchestration_ledger_error) result) io"
where
  "orch_call enc dec l (EvOrchBegin room source conductor t) =
     io_drop (orch_begin enc dec l room source conductor t)"
| "orch_call enc dec l (EvOrchPlanning i t) = orch_mark_planning enc dec l i t"
| "orch_call enc dec l (EvOrchDelegating i session ds t) = orch_mark_delegating enc dec l i session ds t"
| "orch_call enc dec l (EvOrchSynthesizing i t) = orch_mark_synthesizing enc dec l i t"
| "orch_call enc dec l (EvOrchCompleted i t) = orch_mark_completed enc dec l i t"
| "orch_call enc dec l (EvOrchFailed i t) = orch_mark_failed enc dec l i t"
| "orch_call enc dec l (EvOrchUnknown i t) = orch_mark_unknown enc dec l i t"

text \<open>The same ledger without a file: what a call does to its records is what the call does at all.\<close>

abbreviation in_memory :: "orchestration_ledger \<Rightarrow> orchestration_ledger" where
  "in_memory l \<equiv> l\<lparr>ledger_persistence := None\<rparr>"

text \<open>A call either leaves the ledger and the files alone, or commits a move; \<open>m'\<close> is the same call
  on the ledger without a file.\<close>

definition plain_or_commit where
  "plain_or_commit enc dec l m m' \<longleftrightarrow>
     (\<exists>r. m = io_return (l, r))
     \<or> (\<exists>next' x. m = orch_commit enc dec l next' x \<and> m' = orch_commit enc dec (in_memory l) next' x
          \<and> orch_moves (ledger_records l) next')"

lemma io_drop_commit: "io_drop (orch_commit enc dec l n x) = orch_commit enc dec l n ()"
  by (auto simp: io_drop_def orch_commit_def io_bind_def io_return_def fun_eq_iff
      split: outcome.splits sum.splits)

lemma plain_returnI: "plain_or_commit enc dec l (io_return (l, r)) m'"
  by (auto simp: plain_or_commit_def)

lemma plain_commitI:
  "orch_moves (ledger_records l) n \<Longrightarrow>
     plain_or_commit enc dec l (orch_commit enc dec l n x) (orch_commit enc dec (in_memory l) n x)"
  by (auto simp: plain_or_commit_def)

lemma plain_dropI: "plain_or_commit enc dec l m m' \<Longrightarrow> plain_or_commit enc dec l (io_drop m) (io_drop m')"
  by (auto simp: plain_or_commit_def io_drop_return io_drop_commit)

lemma plain_transition:
  assumes "\<And>s. s \<in> set expected \<Longrightarrow> stage_move s stage"
  shows "plain_or_commit enc dec l (orch_transition enc dec l i expected stage t)
    (orch_transition enc dec (in_memory l) i expected stage t)"
  using assms
  by (auto simp: orch_transition_def intro!: plain_returnI plain_commitI orch_moves.moved
      split: option.split)

lemma plain_begin:
  "plain_or_commit enc dec l (orch_begin enc dec l room source conductor t)
     (orch_begin enc dec (in_memory l) room source conductor t)"
proof -
  have "plain_or_commit enc dec l
      (orch_commit enc dec l (bt_insert (o_operation_id r) r (prune_terminal_record (ledger_records l))) x)
      (orch_commit enc dec (in_memory l)
         (bt_insert (o_operation_id r) r (prune_terminal_record (ledger_records l))) x)"
    if "orch_validate_record r = Ok ()" "o_stage r = Prepared"
      "bt_get (ledger_records l) (o_operation_id r) = None"
      "length (prune_terminal_record (ledger_records l)) < ORCH_MAXIMUM_RECORDS" for r x
    using that by (intro plain_commitI orch_moves.begun)
  then show ?thesis
    by (fastforce simp: orch_begin_def Let_def intro!: plain_returnI split: sum.split option.split)
qed

lemma plain_delegating:
  "plain_or_commit enc dec l (orch_mark_delegating enc dec l i session ds t)
     (orch_mark_delegating enc dec (in_memory l) i session ds t)"
  by (auto simp: orch_mark_delegating_def intro!: plain_returnI plain_commitI orch_moves.delegated
      split: option.split sum.split)

lemma orch_call_plain: "plain_or_commit enc dec l (orch_call enc dec l e) (orch_call enc dec (in_memory l) e)"
  by (cases e)
    (auto simp: orch_mark_planning_def orch_mark_synthesizing_def orch_mark_completed_def
      orch_mark_failed_def orch_mark_unknown_def
      intro!: plain_transition plain_dropI plain_begin plain_delegating)

section \<open>Memory and file agree\<close>

text \<open>What a load would read is what the ledger has in memory; a ledger that has never been
  written has no file yet.\<close>

definition in_sync ::
  "(string \<Rightarrow> persisted_file option) \<Rightarrow> path \<Rightarrow> orchestration_records \<Rightarrow> world \<Rightarrow> bool"
where
  "in_sync dec p rs w \<longleftrightarrow>
     (case orch_durable p w of
        Some body \<Rightarrow> dec body = Some \<lparr>file_version = ORCH_FILE_VERSION, file_records = map snd rs\<rparr>
      | None \<Rightarrow> rs = [])"

lemma wp_orch_commit:
  assumes codec: "\<And>f body. enc f = Some body \<Longrightarrow> dec body = Some f"
    and p: "ledger_persistence l = Some p" and sync: "in_sync dec p (ledger_records l) w"
  shows "wp (orch_commit enc dec l next' x)
    (\<lambda>(l', r) w'. in_sync dec p (ledger_records l') w'
       \<and> ledger_persistence l' = Some p \<and> ledger_poisoned l' = ledger_poisoned l
       \<and> (case r of Inl _ \<Rightarrow> l' = l | Inr _ \<Rightarrow> ledger_records l' = next'))
    (\<lambda>w'. in_sync dec p (ledger_records l) w' \<or> in_sync dec p next' w') w"
  unfolding orch_commit_def orch_persist_def p option.case
  by (rule wp_bind, rule wp_mono [OF wp_orch_persist_file])
    (use sync p codec in \<open>auto simp: in_sync_def intro!: wp_return split: sum.splits if_splits\<close>)

lemma wp_orch_call:
  assumes codec: "\<And>f body. enc f = Some body \<Longrightarrow> dec body = Some f"
    and l: "ledger_persistence l = Some p" "in_sync dec p (ledger_records l) w"
  shows "wp (orch_call enc dec l e)
    (\<lambda>(l', r) w'. in_sync dec p (ledger_records l') w' \<and> ledger_persistence l' = Some p
       \<and> (l' = l \<or> orch_moves (ledger_records l) (ledger_records l'))
       \<and> (\<forall>err. r = Err err \<longrightarrow> l' = l))
    (\<lambda>w'. \<exists>rs. in_sync dec p rs w' \<and> (rs = ledger_records l \<or> orch_moves (ledger_records l) rs)) w"
  using orch_call_plain [of enc dec l e]
proof (unfold plain_or_commit_def, elim disjE exE conjE)
  fix r assume "orch_call enc dec l e = io_return (l, r)"
  then show ?thesis
    using l by (auto intro: wp_return)
next
  fix next' x
  assume "orch_call enc dec l e = orch_commit enc dec l next' x" "orch_moves (ledger_records l) next'"
    "orch_call enc dec (in_memory l) e = orch_commit enc dec (in_memory l) next' x"
  then show ?thesis
    by (auto intro!: wp_mono [OF wp_orch_commit [OF codec l]] split: sum.splits)
qed

text \<open>The ledger in memory and its file never disagree: whatever file operation of a call
  fails, the file holds exactly the records in memory afterwards, valid and within capacity, an
  error has changed nothing, and a success is one move of one record. If the process dies in the
  middle, the file holds the old records or the new ones, never a part of them.\<close>

theorem orch_ledger_writes_through:
  assumes "\<And>f body. enc f = Some body \<Longrightarrow> dec body = Some f"
    and "ledger_persistence l = Some p" "in_sync dec p (ledger_records l) w"
    and "orch_records_ok (ledger_records l)"
  shows "(\<forall>l' r w'. orch_call enc dec l e w = Ret (l', r) w' \<longrightarrow>
      in_sync dec p (ledger_records l') w' \<and> orch_records_ok (ledger_records l')
      \<and> ledger_persistence l' = Some p
      \<and> (l' = l \<or> orch_moves (ledger_records l) (ledger_records l'))
      \<and> (\<not> is_ok r \<longrightarrow> l' = l))
    \<and> (\<forall>w'. orch_call enc dec l e w = Crashed w' \<longrightarrow>
      (\<exists>rs. in_sync dec p rs w' \<and> orch_records_ok rs
        \<and> (rs = ledger_records l \<or> orch_moves (ledger_records l) rs)))"
proof -
  note call = wp_orch_call [where e = e, OF assms(1-3)]
  note ok = orch_moves_ok [OF _ assms(4)]
  show ?thesis
    using wp_Ret [OF call] wp_Crashed [OF call] assms(4) ok
    by (fastforce simp: is_ok_def split: sum.splits)
qed

section \<open>Restart\<close>

definition interrupted :: "orchestration_record \<Rightarrow> orchestration_record" where
  "interrupted r = (if o_stage r \<in> {Planning, Synthesizing} then r\<lparr>o_stage := Unknown\<rparr> else r)"

definition restarted :: "orchestration_records \<Rightarrow> orchestration_records" where
  "restarted rs = map (\<lambda>(i, r). (i, interrupted r)) rs"

lemma interrupted_id [simp]: "o_operation_id (interrupted r) = o_operation_id r"
  by (simp add: interrupted_def)

lemma interrupted_stage:
  "o_stage (interrupted r) = (if o_stage r \<in> {Planning, Synthesizing} then Unknown else o_stage r)"
  by (simp add: interrupted_def)

lemma same_identity_interrupted [simp]: "same_identity r (interrupted r') = same_identity r r'"
  by (simp add: interrupted_def same_identity_def)

lemma validate_interrupted [simp]:
  "orch_validate_record (interrupted r) = Ok () \<longleftrightarrow> orch_validate_record r = Ok ()"
  by (simp add: interrupted_def orch_validate_record_iff)

lemma fst_restarted [simp]: "map fst (restarted rs) = map fst rs"
  by (induction rs) (auto simp: restarted_def)

lemma length_restarted [simp]: "length (restarted rs) = length rs"
  by (simp add: restarted_def)

lemma bt_ok_restarted [simp]: "bt_ok (restarted rs) = bt_ok rs"
  by (simp add: bt_ok_def)

lemma bt_get_restarted [simp]: "bt_get (restarted rs) i = map_option interrupted (bt_get rs i)"
  unfolding restarted_def by (induction rs) auto

lemma restarted_ok:
  assumes "orch_records_ok rs"
  shows "orch_records_ok (restarted rs)"
  using assms
  by (auto simp: orch_records_ok_def)

lemma load_records_restarted:
  assumes "bt_ok (done' @ rs)" "\<forall>(i, r) \<in> set rs. o_operation_id r = i \<and> orch_validate_record r = Ok ()"
  shows "load_records (map snd rs) (restarted done') n =
    Ok (restarted (done' @ rs), n \<or> list_ex (\<lambda>r. o_stage r \<in> {Planning, Synthesizing}) (map snd rs))"
  using assms
proof (induction rs arbitrary: done' n)
  case (Cons x rs)
  obtain i r where x: "x = (i, r)" by fastforce
  then have r: "o_operation_id r = i" "orch_validate_record r = Ok ()"
    using Cons.prems(2) by auto
  have ok: "bt_ok ((done' @ [(i, r)]) @ rs)" "bt_ok (restarted done' @ (i, r) # restarted rs)"
    using Cons.prems(1) x by (simp_all add: bt_ok_def restarted_def o_def case_prod_unfold)
  have step: "restarted (done' @ [(i, r)]) = bt_insert i (interrupted r) (restarted done')"
    using bt_ok_append_single(1) [OF ok(2)] by (simp add: restarted_def)
  show ?case
    using Cons.IH [OF ok(1), of "n \<or> o_stage r \<in> {Planning, Synthesizing}"] Cons.prems(2)
      bt_ok_append_single(2) [OF ok(2)] r
    unfolding step x by (auto simp: bt_contains_key_def Let_def interrupted_def split: if_splits)
qed simp

lemma records_of_file_restarted:
  assumes "orch_records_ok rs"
  shows "records_of_file \<lparr>file_version = ORCH_FILE_VERSION, file_records = map snd rs\<rparr> =
    Ok (restarted rs, list_ex (\<lambda>r. o_stage r \<in> {Planning, Synthesizing}) (map snd rs))"
proof -
  have "\<forall>(i, r) \<in> set rs. o_operation_id r = i \<and> orch_validate_record r = Ok ()"
    using assms by (auto simp: orch_records_ok_def bt_get_in_set)
  then show ?thesis
    using load_records_restarted [of "[]" rs False] assms
    by (simp add: records_of_file_def orch_records_ok_def restarted_def)
qed

lemma wp_orch_load:
  assumes "in_sync dec p rs w" "orch_records_ok rs"
  shows "wp (orch_load dec p)
    (\<lambda>r w'. orch_durable p w' = orch_durable p w
       \<and> (is_ok r \<longrightarrow> r = Ok (restarted rs, list_ex (\<lambda>r. o_stage r \<in> {Planning, Synthesizing}) (map snd rs))))
    (\<lambda>w'. orch_durable p w' = orch_durable p w) w"
proof -
  let ?finish = "\<lambda>r. io_return (case r of Inl e \<Rightarrow> Err e | Inr persisted \<Rightarrow> records_of_file persisted)"
  have read: "wp (io_bind (orch_read_file dec q) ?finish)
      (\<lambda>r w'. orch_durable p w' = orch_durable p w \<and> (is_ok r \<longrightarrow>
         r = Ok (restarted rs, list_ex (\<lambda>r. o_stage r \<in> {Planning, Synthesizing}) (map snd rs))))
      (\<lambda>w'. orch_durable p w' = orch_durable p w) w"
    if q: "files w q = Some (Regular body)" "orch_durable p w = Some body" for q body
    unfolding orch_read_file_def [abs_def]
    using q assms(1) records_of_file_restarted [OF assms(2)]
    by (intro wp_rules) (auto intro!: wp_rules simp: in_sync_def ok_or_def split: option.splits)
  show ?thesis
  proof (cases "orch_durable p w")
    case None
    then have "rs = []" using assms(1) by (simp add: in_sync_def)
    then show ?thesis
      using None
      by (auto simp: wp_def orch_load_def Let_def durable_def fs_exists_def fs_is_file_def restarted_def
          is_ok_def split: option.splits node.splits)
  next
    case (Some body)
    then show ?thesis
    proof (cases rule: durable_SomeE)
      case 1
      then show ?thesis
        by (intro wp_same [OF read [OF 1 Some]]) (simp add: orch_load_def Let_def fs_is_file_def)
    next
      case 2
      then show ?thesis
        by (intro wp_same [OF read [OF 2(2) Some]])
          (simp add: orch_load_def Let_def fs_is_file_def fs_exists_def)
    qed
  qed
qed

text \<open>The records are on disk and can be read; a ledger that was never written has no file.\<close>

definition orch_on_file ::
  "(string \<Rightarrow> persisted_file option) \<Rightarrow> path \<Rightarrow> orchestration_records \<Rightarrow> world \<Rightarrow> bool"
where
  "orch_on_file dec p rs w \<longleftrightarrow>
     (\<exists>body. orch_durable p w = Some body \<and> body \<noteq> [] \<and> length body \<le> ORCH_MAXIMUM_FILE_BYTES
        \<and> dec body = Some \<lparr>file_version = ORCH_FILE_VERSION, file_records = map snd rs\<rparr>)
     \<or> files w p = None \<and> files w (orch_backup_path p) = None \<and> rs = []"

lemma no_directory_orch_read [no_directory]: "makes_no_directory (orch_read_file dec p)"
  unfolding orch_read_file_def [abs_def] by (intro no_directory)

lemma no_directory_orch_rotate [no_directory]: "makes_no_directory (orch_rotate dec p)"
proof -
  have kept: "makes_no_directory (\<lambda>w1. if is_ok r
      then (if fs_exists (orch_backup_path p) w1
            then io_try (fs_remove_file (orch_backup_path p)) Orch_Io
                   (\<lambda>_. io_try (fs_rename p (orch_backup_path p)) Orch_Io (\<lambda>_. io_return (Ok ()))) w1
            else io_try (fs_rename p (orch_backup_path p)) Orch_Io (\<lambda>_. io_return (Ok ())) w1)
      else Ret (Err Orch_Invalid) w1)" for r :: "(persisted_file, orchestration_ledger_error) result"
    by (intro no_directory)
  show ?thesis
    unfolding orch_rotate_def [abs_def] Let_def by (intro no_directory kept)
qed

lemma no_directory_orch_write [no_directory]: "makes_no_directory (orch_write_file dec p body)"
proof -
  have body: "makes_no_directory (with_temp_guard q (io_try (fs_create_new q) Orch_Io
      (\<lambda>_. io_try (fs_write_all_sync q body) Orch_Io (\<lambda>_. io_bind (orch_rotate dec p)
        (\<lambda>r. case r of Inl e \<Rightarrow> io_return (Err e)
         | Inr _ \<Rightarrow> install_temp Orch_Io (orch_backup_path p) q p)))))" (is "makes_no_directory (?m q)") for q
    by (intro no_directory)
  have "wp (orch_write_file dec p body) (\<lambda>_. no_new_directory w) (no_new_directory w) w" for w
  proof -
    let ?w = "w\<lparr>temp_sequence := temp_sequence w + 1\<rparr>"
    have "no_new_directory ?w = no_new_directory w"
      by (simp add: no_new_directory_def fun_eq_iff)
    then have "wp (?m (temp_path p (process_id w) (temp_sequence w))) (\<lambda>_. no_new_directory w) (no_new_directory w) ?w"
      using body [unfolded makes_no_directory_def, rule_format] by metis
    then show ?thesis
      unfolding wp_def orch_write_file_def Let_def .
  qed
  then show ?thesis
    by (simp add: makes_no_directory_def)
qed

lemma no_directory_orch_persist: "makes_no_directory (orch_persist_file enc dec p rs)"
  by (cases "orch_encode enc rs"; cases "length rs > ORCH_MAXIMUM_RECORDS \<or> fst p = []")
    (auto simp: orch_persist_file_def intro!: no_directory)

lemma orch_on_file_kept:
  assumes "orch_on_file dec p rs w" "orch_durable p w' = orch_durable p w" "no_new_directory w w'"
  shows "orch_on_file dec p rs w'"
  using assms(1) [unfolded orch_on_file_def]
proof (elim disjE exE conjE)
  assume no: "files w p = None" "files w (orch_backup_path p) = None" "rs = []"
  then have "orch_durable p w' = None"
    using assms(2) by (simp add: durable_def)
  then show ?thesis
    using no_new_directoryD [OF assms(3) no(1)] no_new_directoryD [OF assms(3) no(2)] no(3)
    by (auto simp: orch_on_file_def durable_def split: option.splits node.splits)
qed (use assms(2) in \<open>auto simp: orch_on_file_def\<close>)

lemma orch_on_file_loads:
  assumes "orch_on_file dec p rs w" "orch_records_ok rs" "faults w = []"
  shows "orch_load dec p w
    = Ret (Ok (restarted rs, list_ex (\<lambda>r. o_stage r \<in> {Planning, Synthesizing}) (map snd rs))) w"
  using assms(1) [unfolded orch_on_file_def]
proof (elim disjE exE conjE)
  fix body
  assume body: "orch_durable p w = Some body" "body \<noteq> []" "length body \<le> ORCH_MAXIMUM_FILE_BYTES"
    "dec body = Some \<lparr>file_version = ORCH_FILE_VERSION, file_records = map snd rs\<rparr>"
  from body(1) show ?thesis
    by (elim durable_SomeE)
      (use body(2-4) assms(3) records_of_file_restarted [OF assms(2)] in
        \<open>simp_all add: orch_load_def orch_read_file_def fs_is_file_def fs_exists_def fs_read_def atomic_op_def
          next_fault_def io_bind_def io_try_def io_return_def ok_or_def\<close>)
qed (simp add: orch_load_def fs_is_file_def fs_exists_def restarted_def)

text \<open>A call that is cut off.\<close>

lemma orch_call_cut_off:
  assumes "\<And>f body. enc f = Some body \<Longrightarrow> body \<noteq> [] \<and> dec body = Some f"
    and "ledger_persistence l = Some p" "orch_on_file dec p (ledger_records l) w"
    and "orch_call enc dec l e w = Crashed w'"
  shows "\<exists>rs. orch_on_file dec p rs w' \<and> (rs = ledger_records l
      \<or> orch_moves (ledger_records l) rs
         \<and> orch_call enc dec (in_memory l) e w = Ret ((in_memory l)\<lparr>ledger_records := rs\<rparr>, Ok ()) w)"
proof -
  from orch_call_plain [of enc dec l e] assms(4) obtain next' x where
    call: "orch_call enc dec l e = orch_commit enc dec l next' x"
      "orch_call enc dec (in_memory l) e = orch_commit enc dec (in_memory l) next' x"
      "orch_moves (ledger_records l) next'"
    by (auto simp: plain_or_commit_def io_return_def)
  then have crash: "orch_persist_file enc dec p next' w = Crashed w'"
    using assms(2,4) by (auto simp: orch_commit_def orch_persist_def io_bind_def io_return_def split: outcome.splits)
  have "no_new_directory w w'"
    using no_directory_orch_persist [of enc dec p next'] crash by (auto simp: makes_no_directory_def wp_def split: outcome.splits)
  with wp_Crashed [OF wp_orch_persist_file crash]
  have "orch_on_file dec p (ledger_records l) w' \<or> orch_on_file dec p next' w'"
  proof (elim disjE exE conjE)
    assume "orch_durable p w' = orch_durable p w" "no_new_directory w w'"
    then show ?thesis
      using orch_on_file_kept [OF assms(3)] by blast
  next
    fix body
    assume "orch_encode enc next' = Some body" "length body \<le> ORCH_MAXIMUM_FILE_BYTES"
      "orch_durable p w' = Some body"
    then show ?thesis
      using assms(1) by (auto simp: orch_on_file_def)
  qed
  moreover have "orch_call enc dec (in_memory l) e w = Ret ((in_memory l)\<lparr>ledger_records := next'\<rparr>, Ok ()) w"
    using call(2) by (simp add: orch_commit_def orch_persist_def io_bind_def io_return_def)
  ultimately show ?thesis
    using call(3) by blast
qed

text \<open>C27: A crash loses nothing and resumes nothing: when the process dies anywhere inside a call
  and the application starts again, its load succeeds and finds exactly the records from before the
  call or those that this very call makes of them (what it leaves in a ledger without a file), except
  that every operation that was waiting for an answer of the conductor (planning or synthesizing) is
  now recorded as unknown. If there was no file yet, there are no records.\<close>

theorem orch_crash_then_restart:
  assumes "\<And>f body. enc f = Some body \<Longrightarrow> body \<noteq> [] \<and> dec body = Some f"
    and "ledger_persistence l = Some p" "orch_on_file dec p (ledger_records l) w"
    and "orch_records_ok (ledger_records l)"
    and "orch_call enc dec l e w = Crashed w'"
  shows "\<exists>rs. (rs = ledger_records l
        \<or> orch_call enc dec (in_memory l) e w = Ret ((in_memory l)\<lparr>ledger_records := rs\<rparr>, Ok ()) w)
    \<and> orch_load dec p (w'\<lparr>faults := []\<rparr>)
        = Ret (Ok (restarted rs, list_ex (\<lambda>r. o_stage r \<in> {Planning, Synthesizing}) (map snd rs))) (w'\<lparr>faults := []\<rparr>)
    \<and> (\<forall>i r. bt_get (restarted rs) i = Some r \<longrightarrow> o_stage r \<notin> {Planning, Synthesizing})"
proof -
  obtain rs where rs: "orch_on_file dec p rs w'" "rs = ledger_records l
      \<or> orch_moves (ledger_records l) rs
         \<and> orch_call enc dec (in_memory l) e w = Ret ((in_memory l)\<lparr>ledger_records := rs\<rparr>, Ok ()) w"
    using orch_call_cut_off [OF assms(1-3,5)] by blast
  then have "orch_records_ok rs"
    using orch_moves_ok assms(4) by auto
  moreover have "orch_on_file dec p rs (w'\<lparr>faults := []\<rparr>)"
    using rs(1) by (simp add: orch_on_file_def)
  ultimately have "orch_load dec p (w'\<lparr>faults := []\<rparr>)
      = Ret (Ok (restarted rs, list_ex (\<lambda>r. o_stage r \<in> {Planning, Synthesizing}) (map snd rs))) (w'\<lparr>faults := []\<rparr>)"
    by (intro orch_on_file_loads) simp_all
  moreover have "\<forall>i r. bt_get (restarted rs) i = Some r \<longrightarrow> o_stage r \<notin> {Planning, Synthesizing}"
    by (auto simp: interrupted_stage split: if_splits)
  ultimately show ?thesis
    using rs(2) by blast
qed

section \<open>What is unknown stays unknown\<close>

text \<open>What happens to the records over the life of an installation: calls and restarts.\<close>

inductive orch_life :: "orchestration_records \<Rightarrow> orchestration_records \<Rightarrow> bool" where
  here: "orch_life rs rs"
| call: "orch_life rs rs' \<Longrightarrow> orch_moves rs' rs'' \<Longrightarrow> orch_life rs rs''"
| restart: "orch_life rs rs' \<Longrightarrow> orch_life rs (restarted rs')"

lemma orch_life_ok: "orch_life rs rs' \<Longrightarrow> orch_records_ok rs \<Longrightarrow> orch_records_ok rs'"
  by (induction rule: orch_life.induct) (auto intro: orch_moves_ok restarted_ok)

lemma bt_get_prune:
  assumes "orch_records_ok rs" "bt_get rs i = Some r"
  shows "bt_get (prune_terminal_record rs) i = Some r
    \<or> bt_get (prune_terminal_record rs) i = None \<and> o_stage r \<in> {Completed, Failed}"
  using prune_cases [of rs] assms
  by (cases "prune_terminal_record rs = rs") (auto simp: orch_records_ok_def split: if_splits)

lemma orch_moves_record:
  assumes "orch_moves rs rs'" "orch_records_ok rs" "bt_get rs i = Some r"
  shows "bt_get rs' i = None \<and> o_stage r \<in> {Completed, Failed}
    \<or> (\<exists>r'. bt_get rs' i = Some r' \<and> same_identity r r'
          \<and> (o_stage r' = o_stage r \<or> stage_move (o_stage r) (o_stage r')))"
  using assms
proof (induction rule: orch_moves.induct)
  case (begun q rs)
  then have "i \<noteq> o_operation_id q" by auto
  then show ?case
    using bt_get_prune [OF begun.prems] by (auto simp: same_identity_def)
qed (auto simp: same_identity_def)

lemma unknown_life:
  assumes "orch_life rs rs'" "orch_records_ok rs" "bt_get rs i = Some r" "o_stage r = Unknown"
  shows "\<exists>r'. bt_get rs' i = Some r' \<and> o_stage r' = Unknown \<and> same_identity r r'"
  using assms
proof (induction rule: orch_life.induct)
  case (here rs)
  then show ?case by (simp add: same_identity_def)
next
  case (call rs rs' rs'')
  then obtain r' where r': "bt_get rs' i = Some r'" "o_stage r' = Unknown" "same_identity r r'"
    by blast
  have "\<not> stage_move Unknown s" for s
    by (cases s) simp_all
  then show ?case
    using orch_moves_record [OF call(2) orch_life_ok [OF call(1)] r'(1)] call.prems(1) r'(2,3)
    by (auto simp: same_identity_def)
next
  case (restart rs rs')
  then obtain r' where r': "bt_get rs' i = Some r'" "o_stage r' = Unknown" "same_identity r r'"
    by blast
  then show ?case
    by (intro exI [of _ "interrupted r'"]) (simp add: interrupted_stage)
qed

text \<open>An operation whose outcome is unknown is never run again: through any number of later
  calls and restarts its record stays, as unknown, and beginning the same operation again (same
  Room, message and conductor) only returns that record, however often it is tried.\<close>

theorem orch_unknown_is_never_retried:
  assumes "orch_life rs (ledger_records l)" "orch_records_ok rs"
    and "bt_get rs i = Some r" "o_stage r = Unknown"
    and "orch_valid_timestamp t" "\<not> ledger_poisoned l"
  shows "\<exists>r'. o_stage r' = Unknown \<and> same_identity r r'
    \<and> orch_begin enc dec l (o_room_id r) (o_source_message_id r) (o_conductor_id r) t
        = io_return (l, Ok (Existing r'))"
proof -
  obtain r' where r': "bt_get (ledger_records l) i = Some r'" "o_stage r' = Unknown" "same_identity r r'"
    using unknown_life [OF assms(1-4)] by auto
  have r: "o_operation_id r = i" "orch_validate_record r = Ok ()"
    using assms(2,3) by (auto simp: orch_records_ok_def)
  let ?new = "\<lparr>o_operation_id = i, o_room_id = o_room_id r,
    o_source_message_id = o_source_message_id r, o_conductor_id = o_conductor_id r,
    o_conductor_session_id = None, o_final_message_id = o_final_message_id r, o_stage = Prepared,
    o_delegations = [], o_updated_at = t\<rparr>"
  have "orch_validate_record ?new = Ok ()"
    using r assms(5) by (simp add: orch_validate_record_iff orch_validate_delegations_def)
  moreover have "same_identity r' ?new"
    using r'(3) r(1) by (simp add: same_identity_def)
  moreover have "conductor_operation_ids_derive (o_source_message_id r) (o_conductor_id r) =
      Ok \<lparr>operation_id = i, final_message_id = o_final_message_id r\<rparr>"
    using r by (simp add: orch_validate_record_iff)
  ultimately show ?thesis
    using r' assms(6) by (auto simp: orch_begin_def Let_def)
qed

text \<open>A record only goes forward: a call leaves its stage or moves it along the allowed moves,
  never back, its identity never changes, and it is taken out only when it is completed or
  failed.\<close>

theorem orch_records_go_forward:
  assumes "orch_moves rs rs'" "orch_records_ok rs" "bt_get rs i = Some r"
  shows "bt_get rs' i = None \<and> o_stage r \<in> {Completed, Failed}
    \<or> (\<exists>r'. bt_get rs' i = Some r' \<and> same_identity r r'
          \<and> (o_stage r' = o_stage r \<or> stage_rank (o_stage r) < stage_rank (o_stage r')))"
  using orch_moves_record [OF assms] by (auto dest: stage_move_forward)

section \<open>An example: the first operation of an empty ledger\<close>

definition example_record :: "conductor_operation_stage \<Rightarrow> orchestration_record" where
  "example_record s = \<lparr>o_operation_id = operation_id example_ids, o_room_id = ''room-1'',
     o_source_message_id = ''source-1'', o_conductor_id = ''codex'', o_conductor_session_id = None,
     o_final_message_id = final_message_id example_ids, o_stage = s, o_delegations = [],
     o_updated_at = ''1''\<rparr>"

definition example_records :: "conductor_operation_stage \<Rightarrow> orchestration_records" where
  "example_records s = [(operation_id example_ids, example_record s)]"

definition example_file :: "conductor_operation_stage \<Rightarrow> persisted_file" where
  "example_file s = \<lparr>file_version = ORCH_FILE_VERSION, file_records = [example_record s]\<rparr>"

definition example_enc :: "persisted_file \<Rightarrow> string option" where
  "example_enc f = (if f = example_file Prepared then Some ''x''
     else if f = example_file Planning then Some ''y'' else None)"

definition example_dec :: "string \<Rightarrow> persisted_file option" where
  "example_dec body = (if body = ''x'' then Some (example_file Prepared)
     else if body = ''y'' then Some (example_file Planning) else None)"

definition example_path :: path where
  "example_path = (''/data'', ORCH_FILE_NAME)"

definition example_ledger :: orchestration_ledger where
  "example_ledger = \<lparr>ledger_records = example_records Prepared, ledger_persistence = Some example_path,
     ledger_poisoned = False\<rparr>"

lemma orch_valid_identifier_eq: "orch_valid_identifier = valid_identifier"
  using conductor_valid_identifier_eq
  by (simp add: fun_eq_iff orch_valid_identifier_def conductor_valid_identifier_def
      CONDUCTOR_MAXIMUM_IDENTIFIER_BYTES_def)

lemma example_record_valid: "orch_validate_record (example_record s) = Ok ()"
proof -
  have "valid_identifier (operation_id example_ids)" "valid_identifier (final_message_id example_ids)"
    using conductor_operation_ids_valid [OF example_ids_derive] by simp_all
  then show ?thesis
    by (simp add: orch_validate_record_iff example_record_def orch_valid_identifier_eq identifier_eval
        orch_valid_timestamp_def example_ids_derive ORCH_MAXIMUM_WORKERS_def
        orch_validate_delegations_def)
qed

lemma example_records_ok: "orch_records_ok (example_records s)"
  by (simp add: orch_records_ok_def example_records_def bt_ok_def ORCH_MAXIMUM_RECORDS_def
      example_record_valid) (simp add: example_record_def)

definition example_world :: "fault list \<Rightarrow> world" where
  "example_world fs = \<lparr>files = [example_path \<mapsto> Regular ''x''], directories = {''/data''},
     faults = fs, temp_sequence = 1, process_id = 7\<rparr>"

lemma example_codec: "example_enc f = Some body \<Longrightarrow> example_dec body = Some f"
  by (auto simp: example_enc_def example_dec_def split: if_splits)

lemma example_ledger_simps [simp]:
  "ledger_records example_ledger = example_records Prepared"
  "ledger_persistence example_ledger = Some example_path" "\<not> ledger_poisoned example_ledger"
  by (simp_all add: example_ledger_def)

lemma example_in_sync:
  "in_sync example_dec example_path (ledger_records example_ledger) (example_world fs)"
  by (simp add: in_sync_def durable_def example_world_def example_dec_def example_file_def
      example_records_def)

abbreviation example_planning :: "fault list \<Rightarrow> (orchestration_ledger \<times> (unit, orchestration_ledger_error) result) outcome"
where
  "example_planning fs \<equiv> orch_call example_enc example_dec example_ledger
     (EvOrchPlanning (operation_id example_ids) ''1'') (example_world fs)"

lemmas example_run = orch_mark_planning_def orch_transition_def orch_commit_def orch_persist_def
  orch_persist_file_def orch_write_file_def orch_rotate_def install_temp_def orch_read_file_def
  with_temp_guard_def io_bind_def io_try_def io_return_def fs_create_dir_all_def fs_create_new_def
  fs_write_all_sync_def fs_rename_def fs_read_def atomic_op_def next_fault_def put_file_def
  fs_is_dir_def fs_exists_def fs_is_file_def Let_def

lemma example_guards [simp]:
  "orch_valid_identifier (operation_id example_ids)" "orch_valid_timestamp ''1''"
  "bt_get (example_records s) (operation_id example_ids) = Some (example_record s)"
  "o_stage (example_record s) = s" "length (example_records s) = 1" "ORCH_MAXIMUM_RECORDS = 512"
  "map snd (example_records s) = [example_record s]"
  "bt_update (operation_id example_ids) (\<lambda>r. r\<lparr>o_stage := s', o_updated_at := ''1''\<rparr>) (example_records s)
     = example_records s'"
  using conductor_operation_ids_valid [OF example_ids_derive]
  by (simp_all add: orch_valid_identifier_eq orch_valid_timestamp_def byte_class_defs
      example_records_def ORCH_MAXIMUM_RECORDS_def bt_update_def)
    (simp_all add: example_record_def)

lemma example_encoding [simp]:
  "example_enc \<lparr>file_version = ORCH_FILE_VERSION, file_records = [example_record Planning]\<rparr> = Some ''y''"
  "ORCH_MAXIMUM_FILE_BYTES = 1048576"
  "fst example_path = ''/data''" "example_dec ''x'' = Some (example_file Prepared)"
  by (simp_all add: example_enc_def example_file_def example_record_def ORCH_MAXIMUM_FILE_BYTES_def
      example_path_def example_dec_def)

lemma example_world_simps [simp]:
  "files (example_world fs) = [example_path \<mapsto> Regular ''x'']"
  "directories (example_world fs) = {''/data''}" "faults (example_world fs) = fs"
  by (simp_all add: example_world_def)

lemma example_planning_done: "\<exists>w'. example_planning [] =
    Ret (example_ledger\<lparr>ledger_records := example_records Planning\<rparr>, Ok ()) w'"
  by (simp add: example_run paths_distinct)

lemma example_planning_crashed: "\<exists>w'. example_planning [NoFault, NoFault, NoFault, NoFault, NoFault, CrashAfter] = Crashed w'
    \<and> files w' example_path = Some (Regular ''y'')"
  by (simp add: example_run paths_distinct)

lemma example_load:
  assumes "files w example_path = Some (Regular ''y'')" "faults w = []"
  shows "orch_load example_dec example_path w = Ret (Ok (example_records Unknown, True)) w"
proof -
  have "records_of_file (example_file Planning) = Ok (example_records Unknown, True)"
    using records_of_file_restarted [OF example_records_ok [of Planning]]
    by (simp add: example_file_def restarted_def example_records_def interrupted_def)
      (simp add: example_record_def)
  then show ?thesis
    using assms by (simp add: orch_load_def fs_is_file_def orch_read_file_def io_bind_def io_try_def
        fs_read_def atomic_op_def next_fault_def io_return_def example_dec_def)
qed

theorem orch_ledger_writes_through_witness:
  "\<exists>w'. example_planning [] = Ret (example_ledger\<lparr>ledger_records := example_records Planning\<rparr>, Ok ()) w'
    \<and> in_sync example_dec example_path (example_records Planning) w'"
  using orch_ledger_writes_through [where e = "EvOrchPlanning (operation_id example_ids) ''1''",
      OF example_codec _ example_in_sync [of "[]"]] example_planning_done
  by (fastforce simp: example_records_ok)

theorem orch_crash_then_restart_witness:
  "\<exists>w'. example_planning [NoFault, NoFault, NoFault, NoFault, NoFault, CrashAfter] = Crashed w'
     \<and> orch_load example_dec example_path (w'\<lparr>faults := []\<rparr>)
         = Ret (Ok (example_records Unknown, True)) (w'\<lparr>faults := []\<rparr>)
     \<and> (\<exists>rs. example_records Unknown = restarted rs)"
proof -
  obtain w' where w': "example_planning [NoFault, NoFault, NoFault, NoFault, NoFault, CrashAfter] = Crashed w'"
    "files w' example_path = Some (Regular ''y'')"
    using example_planning_crashed by blast
  have codec: "example_enc f = Some body \<Longrightarrow> body \<noteq> [] \<and> example_dec body = Some f" for f body
    by (auto simp: example_enc_def example_dec_def split: if_splits)
  have "orch_on_file example_dec example_path (ledger_records example_ledger) (example_world fs)" for fs
    by (simp add: orch_on_file_def durable_def example_file_def)
  note crash = orch_crash_then_restart [OF codec _ this _ w'(1)]
  have "orch_load example_dec example_path (w'\<lparr>faults := []\<rparr>) =
      Ret (Ok (example_records Unknown, True)) (w'\<lparr>faults := []\<rparr>)"
    using w'(2) by (intro example_load) simp_all
  then show ?thesis
    using crash w'(1) example_records_ok [of Prepared] by auto
qed

theorem orch_unknown_is_never_retried_witness:
  "\<exists>r'. o_stage r' = Unknown \<and> same_identity (example_record Unknown) r'
    \<and> orch_begin example_enc example_dec (example_ledger\<lparr>ledger_records := example_records Unknown\<rparr>)
        ''room-1'' ''source-1'' ''codex'' ''1''
        = io_return (example_ledger\<lparr>ledger_records := example_records Unknown\<rparr>, Ok (Existing r'))"
  using orch_unknown_is_never_retried [of "example_records Unknown"
      "example_ledger\<lparr>ledger_records := example_records Unknown\<rparr>" "operation_id example_ids"
      "example_record Unknown" "''1''" example_enc example_dec]
  by (simp add: orch_life.here example_records_ok) (simp add: example_record_def)

theorem orch_records_go_forward_witness:
  "\<exists>r'. bt_get (example_records Planning) (operation_id example_ids) = Some r'
    \<and> same_identity (example_record Prepared) r'"
  using orch_records_go_forward [OF orch_moves.moved [of "example_records Prepared"
        "operation_id example_ids" "example_record Prepared" Planning "''1''"] example_records_ok, of "operation_id example_ids" "example_record Prepared"]
  by (simp add: stage_move.plan)

end
