(* ===== verification/Dispatch_Ledger.thy ===== *)
theory Dispatch_Ledger
  imports Btree_Map File_System
begin

text \<open>
  \<open>DesktopAiDispatchLedger\<close> (\<open>apps/desktop/src-tauri/src/ai\_dispatch\_ledger.rs\<close>): which Room
  message was sent to which AI participant, so that no external call is made twice. The ids that
  are being worked on are only in memory. The JSON encoder and decoder are parameters.
\<close>

section \<open>Records\<close>

definition DISPATCH_LEDGER_FILE_VERSION :: u8 where "DISPATCH_LEDGER_FILE_VERSION = 1"
definition MAXIMUM_DISPATCH_LEDGER_BYTES :: nat where "MAXIMUM_DISPATCH_LEDGER_BYTES = 1024 * 1024"
definition MAXIMUM_DISPATCH_RECORDS :: nat where "MAXIMUM_DISPATCH_RECORDS = 512"

datatype ai_dispatch_state =
  DispatchPrepared | ExternalStarted | DispatchCompleted | DispatchFailed

record ai_dispatch_record =
  d_dispatch_id :: string
  d_room_id :: string
  d_source_message_id :: string
  d_recipient_id :: string
  d_reply_message_id :: string
  d_state :: ai_dispatch_state
  d_updated_at :: string

datatype ai_dispatch_begin =
  DispatchReserved | DispatchActive | DispatchExisting ai_dispatch_record

datatype ai_dispatch_ledger_error = Dispatch_Invalid | Dispatch_Io

record persisted_dispatch_ledger =
  dispatch_file_version :: u8
  dispatch_file_records :: "ai_dispatch_record list"

definition dispatch_id_byte :: "char \<Rightarrow> bool" where
  "dispatch_id_byte c \<longleftrightarrow> is_ascii_alphanumeric c \<or> c \<in> {CHR ''-'', CHR ''_'', CHR '':''}"

definition entity_id_byte :: "char \<Rightarrow> bool" where
  "entity_id_byte c \<longleftrightarrow> is_ascii_alphanumeric c \<or> c \<in> {CHR ''-'', CHR ''_''}"

definition valid_dispatch_id :: "string \<Rightarrow> bool" where
  "valid_dispatch_id value \<longleftrightarrow>
     value \<noteq> [] \<and> length value \<le> 384 \<and> list_all dispatch_id_byte value"

definition valid_entity_id :: "string \<Rightarrow> bool" where
  "valid_entity_id value \<longleftrightarrow>
     value \<noteq> [] \<and> length value \<le> 128 \<and> list_all entity_id_byte value"

definition dispatch_valid_timestamp :: "string \<Rightarrow> bool" where
  "dispatch_valid_timestamp value \<longleftrightarrow>
     value \<noteq> [] \<and> length value \<le> 64 \<and> list_all is_ascii_graphic value"

definition dispatch_validate_record ::
  "ai_dispatch_record \<Rightarrow> (unit, ai_dispatch_ledger_error) result"
where
  "dispatch_validate_record r =
     (if \<not> valid_dispatch_id (d_dispatch_id r)
         \<or> \<not> valid_entity_id (d_room_id r)
         \<or> \<not> valid_entity_id (d_source_message_id r)
         \<or> \<not> valid_entity_id (d_recipient_id r)
         \<or> \<not> valid_entity_id (d_reply_message_id r)
         \<or> \<not> dispatch_valid_timestamp (d_updated_at r)
         \<or> d_dispatch_id r \<noteq> ''room-message:'' @ d_source_message_id r @ '':'' @ d_recipient_id r
      then Err Dispatch_Invalid else Ok ())"

definition same_dispatch :: "ai_dispatch_record \<Rightarrow> ai_dispatch_record \<Rightarrow> bool" where
  "same_dispatch left right \<longleftrightarrow>
     d_dispatch_id left = d_dispatch_id right
     \<and> d_room_id left = d_room_id right
     \<and> d_source_message_id left = d_source_message_id right
     \<and> d_recipient_id left = d_recipient_id right
     \<and> d_reply_message_id left = d_reply_message_id right"

type_synonym dispatch_records = "(string, ai_dispatch_record) btree"

definition prune_terminal_records :: "dispatch_records \<Rightarrow> dispatch_records" where
  "prune_terminal_records records =
     (if length records < MAXIMUM_DISPATCH_RECORDS then records
      else
        (case min_by (\<lambda>l r. d_updated_at l < d_updated_at r
                 \<or> d_updated_at l = d_updated_at r \<and> d_dispatch_id l < d_dispatch_id r)
               (filter (\<lambda>r. d_state r \<in> {DispatchCompleted, DispatchFailed}) (map snd records)) of
           None \<Rightarrow> records
         | Some oldest \<Rightarrow> bt_remove (d_dispatch_id oldest) records))"

section \<open>The file\<close>

abbreviation dispatch_backup_path :: "path \<Rightarrow> path" where
  "dispatch_backup_path p \<equiv> with_extension p ''json.backup''"

fun dispatch_load_records ::
  "ai_dispatch_record list \<Rightarrow> dispatch_records \<Rightarrow> (dispatch_records, ai_dispatch_ledger_error) result"
where
  "dispatch_load_records [] records = Ok records"
| "dispatch_load_records (r # rs) records =
     (case dispatch_validate_record r of
        Inl e \<Rightarrow> Err e
      | Inr _ \<Rightarrow>
          if bt_contains_key records (d_dispatch_id r) then Err Dispatch_Invalid
          else dispatch_load_records rs (bt_insert (d_dispatch_id r) r records))"

definition dispatch_records_of_file ::
  "persisted_dispatch_ledger \<Rightarrow> (dispatch_records, ai_dispatch_ledger_error) result"
where
  "dispatch_records_of_file persisted =
     (if dispatch_file_version persisted \<noteq> DISPATCH_LEDGER_FILE_VERSION
         \<or> length (dispatch_file_records persisted) > MAXIMUM_DISPATCH_RECORDS
      then Err Dispatch_Invalid
      else dispatch_load_records (dispatch_file_records persisted) [])"

definition dispatch_load ::
  "(string \<Rightarrow> persisted_dispatch_ledger option) \<Rightarrow> path
     \<Rightarrow> (dispatch_records, ai_dispatch_ledger_error) result io"
where
  "dispatch_load from_slice p w =
     (let backup = dispatch_backup_path p;
          read = (\<lambda>source. io_try (fs_read source) Dispatch_Io
            (\<lambda>body. io_return
               (if length body = 0 \<or> length body > MAXIMUM_DISPATCH_LEDGER_BYTES
                then Err Dispatch_Invalid
                else (case from_slice body of
                    None \<Rightarrow> Err Dispatch_Invalid
                  | Some persisted \<Rightarrow> dispatch_records_of_file persisted)))) in
      if fs_is_file p w then read p w
      else if \<not> fs_exists p w \<and> fs_is_file backup w then read backup w
      else if \<not> fs_exists p w \<and> \<not> fs_exists backup w then Ret (Ok []) w
      else Ret (Err Dispatch_Invalid) w)"

text \<open>The old file becomes the backup; the backup before it is removed first.\<close>

definition dispatch_rotate :: "path \<Rightarrow> (unit, ai_dispatch_ledger_error) result io" where
  "dispatch_rotate p w =
     (let backup = dispatch_backup_path p;
          keep_old = (\<lambda>w. if fs_exists p w
            then io_try (fs_rename p backup) Dispatch_Io (\<lambda>_. io_return (Ok ())) w
            else Ret (Ok ()) w) in
      if fs_exists backup w
      then (if \<not> fs_is_file backup w then Ret (Err Dispatch_Invalid) w
            else io_try (fs_remove_file backup) Dispatch_Io (\<lambda>_. keep_old) w)
      else keep_old w)"

definition dispatch_write_file ::
  "path \<Rightarrow> string \<Rightarrow> (unit, ai_dispatch_ledger_error) result io"
where
  "dispatch_write_file p body w =
     (let temp = temp_path p (process_id w) (temp_sequence w);
          w1 = w\<lparr>temp_sequence := temp_sequence w + 1\<rparr> in
      with_temp_guard temp
        (io_try (fs_create_new temp) Dispatch_Io
           (\<lambda>_. io_try (fs_write_all_sync temp body) Dispatch_Io
             (\<lambda>_. io_bind (dispatch_rotate p)
               (\<lambda>r. case r of
                  Inl e \<Rightarrow> io_return (Err e)
                | Inr _ \<Rightarrow> install_temp Dispatch_Io (dispatch_backup_path p) temp p)))) w1)"

definition dispatch_persist_file ::
  "(persisted_dispatch_ledger \<Rightarrow> string option) \<Rightarrow> path \<Rightarrow> dispatch_records
     \<Rightarrow> (unit, ai_dispatch_ledger_error) result io"
where
  "dispatch_persist_file to_vec p records =
     (if fst p = [] then io_return (Err Dispatch_Invalid)
      else io_try (fs_create_dir_all (fst p)) Dispatch_Io
        (\<lambda>_ w.
           if \<not> fs_is_dir (fst p) w \<or> (fs_exists p w \<and> \<not> fs_is_file p w)
           then Ret (Err Dispatch_Invalid) w
           else
             (case to_vec \<lparr>dispatch_file_version = DISPATCH_LEDGER_FILE_VERSION,
                            dispatch_file_records = map snd records\<rparr> of
                None \<Rightarrow> Ret (Err Dispatch_Invalid) w
              | Some body \<Rightarrow>
                  if length body > MAXIMUM_DISPATCH_LEDGER_BYTES then Ret (Err Dispatch_Invalid) w
                  else dispatch_write_file p body w)))"

section \<open>The ledger\<close>

record dispatch_ledger =
  d_records :: dispatch_records
  d_active :: "string set"
  d_persistence :: "path option"
  d_poisoned :: bool

definition dispatch_open ::
  "(string \<Rightarrow> persisted_dispatch_ledger option) \<Rightarrow> path
     \<Rightarrow> (dispatch_ledger, ai_dispatch_ledger_error) result io"
where
  "dispatch_open from_slice p =
     io_bind (dispatch_load from_slice p)
       (\<lambda>r. io_return (case r of
          Inl e \<Rightarrow> Err e
        | Inr records \<Rightarrow>
            Ok \<lparr>d_records = records, d_active = {}, d_persistence = Some p, d_poisoned = False\<rparr>))"

definition dispatch_persist ::
  "(persisted_dispatch_ledger \<Rightarrow> string option) \<Rightarrow> dispatch_ledger \<Rightarrow> dispatch_records
     \<Rightarrow> (unit, ai_dispatch_ledger_error) result io"
where
  "dispatch_persist to_vec l records =
     (case d_persistence l of
        None \<Rightarrow> io_return (Ok ())
      | Some p \<Rightarrow> dispatch_persist_file to_vec p records)"

text \<open>The common end of the mutations: write \<open>next\<close> through, then replace the records and the
  active ids.\<close>

definition dispatch_commit ::
  "(persisted_dispatch_ledger \<Rightarrow> string option) \<Rightarrow> dispatch_ledger \<Rightarrow> dispatch_records
     \<Rightarrow> string set \<Rightarrow> 'a \<Rightarrow> (dispatch_ledger \<times> ('a, ai_dispatch_ledger_error) result) io"
where
  "dispatch_commit to_vec l next' active x =
     io_bind (dispatch_persist to_vec l next')
       (\<lambda>r. io_return (case r of
          Inl e \<Rightarrow> (l, Err e)
        | Inr _ \<Rightarrow> (l\<lparr>d_records := next', d_active := active\<rparr>, Ok x)))"

definition dispatch_begin ::
  "(persisted_dispatch_ledger \<Rightarrow> string option) \<Rightarrow> dispatch_ledger \<Rightarrow> ai_dispatch_record
     \<Rightarrow> (dispatch_ledger \<times> (ai_dispatch_begin, ai_dispatch_ledger_error) result) io"
where
  "dispatch_begin to_vec l record0 =
     (case dispatch_validate_record record0 of
        Inl e \<Rightarrow> io_return (l, Err e)
      | Inr _ \<Rightarrow>
          (let record' = record0\<lparr>d_state := DispatchPrepared\<rparr>; i = d_dispatch_id record' in
           if d_poisoned l then io_return (l, Err Dispatch_Io)
           else if i \<in> d_active l then io_return (l, Ok DispatchActive)
           else
             (case bt_get (d_records l) i of
                Some existing \<Rightarrow>
                  io_return (l, if \<not> same_dispatch existing record' then Err Dispatch_Invalid
                                else Ok (DispatchExisting existing))
              | None \<Rightarrow>
                  (let l1 = l\<lparr>d_records := prune_terminal_records (d_records l)\<rparr> in
                   if length (d_records l1) \<ge> MAXIMUM_DISPATCH_RECORDS
                   then io_return (l1, Err Dispatch_Invalid)
                   else dispatch_commit to_vec l1 (bt_insert i record' (d_records l1))
                          (insert i (d_active l1)) DispatchReserved))))"

definition dispatch_transition ::
  "(persisted_dispatch_ledger \<Rightarrow> string option) \<Rightarrow> dispatch_ledger \<Rightarrow> string
     \<Rightarrow> ai_dispatch_state \<Rightarrow> ai_dispatch_state \<Rightarrow> string \<Rightarrow> bool
     \<Rightarrow> (dispatch_ledger \<times> (unit, ai_dispatch_ledger_error) result) io"
where
  "dispatch_transition to_vec l i expected next_state updated_at finish =
     (if \<not> valid_dispatch_id i \<or> \<not> dispatch_valid_timestamp updated_at
      then io_return (l, Err Dispatch_Invalid)
      else if d_poisoned l then io_return (l, Err Dispatch_Io)
      else if i \<notin> d_active l then io_return (l, Err Dispatch_Invalid)
      else
        (case bt_get (d_records l) i of
           None \<Rightarrow> io_return (l, Err Dispatch_Invalid)
         | Some current \<Rightarrow>
             if d_state current \<noteq> expected then io_return (l, Err Dispatch_Invalid)
             else dispatch_commit to_vec l
                    (bt_update i (\<lambda>r. r\<lparr>d_state := next_state, d_updated_at := updated_at\<rparr>)
                       (d_records l))
                    (if finish then d_active l - {i} else d_active l) ()))"

definition mark_external_started where
  "mark_external_started to_vec l i t =
     dispatch_transition to_vec l i DispatchPrepared ExternalStarted t False"

definition dispatch_mark_failed where
  "dispatch_mark_failed to_vec l i t =
     dispatch_transition to_vec l i DispatchPrepared DispatchFailed t True"

definition mark_external_preflight_failed where
  "mark_external_preflight_failed to_vec l i t =
     dispatch_transition to_vec l i ExternalStarted DispatchFailed t True"

definition dispatch_mark_completed where
  "dispatch_mark_completed to_vec l i t =
     dispatch_transition to_vec l i ExternalStarted DispatchCompleted t True"

definition finish_unknown :: "dispatch_ledger \<Rightarrow> string \<Rightarrow> dispatch_ledger" where
  "finish_unknown l i = (if d_poisoned l then l else l\<lparr>d_active := d_active l - {i}\<rparr>)"

definition unresolved_for_room ::
  "dispatch_ledger \<Rightarrow> string \<Rightarrow> (ai_dispatch_record list, ai_dispatch_ledger_error) result"
where
  "unresolved_for_room l room =
     (if \<not> valid_entity_id room then Err Dispatch_Invalid
      else if d_poisoned l then Err Dispatch_Io
      else Ok (filter (\<lambda>r. d_room_id r = room \<and> d_state r \<in> {ExternalStarted, DispatchCompleted})
             (map snd (d_records l))))"

end
