(* ===== verification/Dispatch_Claims.thy ===== *)
theory Dispatch_Claims
  imports Dispatch_Ledger Settings_File
begin

text \<open>
  What the dispatch ledger promises: its file is replaced as a whole while its main copy exists,
  a message whose outcome is not known is never sent to its recipient again, and the dispatch id
  names the message and the recipient. The last section shows the one way in which the file can
  be lost.
\<close>

section \<open>Dispatch ids\<close>

lemma dispatch_validate_record_iff:
  "dispatch_validate_record r = Ok () \<longleftrightarrow>
     valid_dispatch_id (d_dispatch_id r) \<and> valid_entity_id (d_room_id r)
     \<and> valid_entity_id (d_source_message_id r) \<and> valid_entity_id (d_recipient_id r)
     \<and> valid_entity_id (d_reply_message_id r) \<and> dispatch_valid_timestamp (d_updated_at r)
     \<and> d_dispatch_id r = ''room-message:'' @ d_source_message_id r @ '':'' @ d_recipient_id r"
  by (auto simp: dispatch_validate_record_def)

lemma entity_id_no_colon: "valid_entity_id s \<Longrightarrow> CHR '':'' \<notin> set s"
  by (auto simp: valid_entity_id_def entity_id_byte_def byte_class_defs list_all_iff)

lemma append_sep_eq:
  "x \<notin> set a \<Longrightarrow> x \<notin> set b \<Longrightarrow> a @ x # c = b @ x # d \<longleftrightarrow> a = b \<and> c = d"
proof (induction a arbitrary: b)
  case Nil
  then show ?case by (cases b) auto
next
  case (Cons y a)
  then show ?case by (cases b) auto
qed

text \<open>A dispatch id names one message and one recipient: two valid records with the same
  dispatch id are about the same source message and the same AI participant.\<close>

theorem dispatch_id_names_the_pair:
  assumes "dispatch_validate_record r = Ok ()" "dispatch_validate_record s = Ok ()"
    and "d_dispatch_id r = d_dispatch_id s"
  shows "d_source_message_id r = d_source_message_id s \<and> d_recipient_id r = d_recipient_id s"
  using assms
  by (auto simp: dispatch_validate_record_iff append_sep_eq entity_id_no_colon)

section \<open>The file\<close>

abbreviation dispatch_durable :: "path \<Rightarrow> world \<Rightarrow> string option" where
  "dispatch_durable p w \<equiv> durable p (dispatch_backup_path p) (files w)"

text \<open>There is a main file, or no backup that a write would remove.\<close>

definition dispatch_intact :: "path \<Rightarrow> world \<Rightarrow> bool" where
  "dispatch_intact p w \<longleftrightarrow> fs_exists p w \<or> \<not> fs_exists (dispatch_backup_path p) w"

abbreviation dispatch_encode ::
  "(persisted_dispatch_ledger \<Rightarrow> string option) \<Rightarrow> dispatch_records \<Rightarrow> string option"
where
  "dispatch_encode to_vec rs \<equiv> to_vec \<lparr>dispatch_file_version = DISPATCH_LEDGER_FILE_VERSION,
     dispatch_file_records = map snd rs\<rparr>"

text \<open>The file is written like that of the small stores.\<close>

lemma dispatch_intact_settings: "dispatch_intact = settings_intact"
  by (simp add: fun_eq_iff dispatch_intact_def settings_intact_def)

lemma dispatch_persist_file_settings:
  "dispatch_persist_file to_vec p rs =
     settings_persist Dispatch_Invalid Dispatch_Io MAXIMUM_DISPATCH_LEDGER_BYTES p (dispatch_encode to_vec rs)"
proof -
  have rotate: "dispatch_rotate = settings_rotate Dispatch_Invalid Dispatch_Io"
    by (simp add: fun_eq_iff dispatch_rotate_def settings_rotate_def)
  have "dispatch_write_file = settings_write_file Dispatch_Invalid Dispatch_Io"
    by (simp add: fun_eq_iff dispatch_write_file_def settings_write_file_def rotate)
  then show ?thesis
    by (simp only: dispatch_persist_file_def settings_persist_def)
qed

lemma wp_dispatch_persist_file:
  assumes "dispatch_intact p w"
  shows "wp (dispatch_persist_file to_vec p rs)
    (\<lambda>r w'. if is_ok r
       then \<exists>body. dispatch_encode to_vec rs = Some body \<and> dispatch_durable p w' = Some body
              \<and> dispatch_intact p w'
       else dispatch_durable p w' = dispatch_durable p w)
    (\<lambda>w'. dispatch_durable p w' = dispatch_durable p w
       \<or> (\<exists>body. dispatch_encode to_vec rs = Some body \<and> dispatch_durable p w' = Some body)) w"
  using assms unfolding dispatch_intact_settings dispatch_persist_file_settings
  by (intro wp_mono [OF wp_settings_persist]) (auto split: if_splits)

section \<open>The moves of a record\<close>

datatype dispatch_event =
  EvDispatchBegin ai_dispatch_record
| EvExternalStarted string string
| EvDispatchFailed string string
| EvPreflightFailed string string
| EvDispatchCompleted string string
| EvFinishUnknown string

fun dispatch_call ::
  "(persisted_dispatch_ledger \<Rightarrow> string option) \<Rightarrow> dispatch_ledger \<Rightarrow> dispatch_event
     \<Rightarrow> (dispatch_ledger \<times> (unit, ai_dispatch_ledger_error) result) io"
where
  "dispatch_call enc l (EvDispatchBegin r) = io_drop (dispatch_begin enc l r)"
| "dispatch_call enc l (EvExternalStarted i t) = mark_external_started enc l i t"
| "dispatch_call enc l (EvDispatchFailed i t) = dispatch_mark_failed enc l i t"
| "dispatch_call enc l (EvPreflightFailed i t) = mark_external_preflight_failed enc l i t"
| "dispatch_call enc l (EvDispatchCompleted i t) = dispatch_mark_completed enc l i t"
| "dispatch_call enc l (EvFinishUnknown i) = io_return (finish_unknown l i, Ok ())"

inductive dispatch_move :: "ai_dispatch_state \<Rightarrow> ai_dispatch_state \<Rightarrow> bool \<Rightarrow> bool" where
  started: "dispatch_move DispatchPrepared ExternalStarted False"
| failed: "s \<in> {DispatchPrepared, ExternalStarted} \<Longrightarrow> dispatch_move s DispatchFailed True"
| completed: "dispatch_move ExternalStarted DispatchCompleted True"

code_pred dispatch_move .

text \<open>What a successful call does to the records and the active ids.\<close>

inductive dispatch_moves ::
  "dispatch_records \<Rightarrow> string set \<Rightarrow> dispatch_records \<Rightarrow> string set \<Rightarrow> bool"
where
  begun: "dispatch_validate_record r = Ok () \<Longrightarrow> d_state r = DispatchPrepared \<Longrightarrow> d_dispatch_id r = i \<Longrightarrow>
     i \<notin> act \<Longrightarrow> bt_get m i = None \<Longrightarrow> length m < MAXIMUM_DISPATCH_RECORDS \<Longrightarrow>
     dispatch_moves m act (bt_insert i r m) (insert i act)"
| moved: "i \<in> act \<Longrightarrow> bt_get m i = Some r \<Longrightarrow> dispatch_move (d_state r) s finish \<Longrightarrow>
     dispatch_valid_timestamp t \<Longrightarrow>
     dispatch_moves m act (bt_update i (\<lambda>r. r\<lparr>d_state := s, d_updated_at := t\<rparr>) m)
       (if finish then act - {i} else act)"

definition dispatch_unresolved :: "ai_dispatch_record \<Rightarrow> bool" where
  "dispatch_unresolved r \<longleftrightarrow> d_state r \<in> {DispatchPrepared, ExternalStarted}"

definition dispatch_records_ok :: "dispatch_records \<Rightarrow> bool" where
  "dispatch_records_ok rs \<longleftrightarrow>
     bt_ok rs \<and> length rs \<le> MAXIMUM_DISPATCH_RECORDS
     \<and> (\<forall>i r. bt_get rs i = Some r \<longrightarrow> d_dispatch_id r = i \<and> dispatch_validate_record r = Ok ())"

definition dispatch_active_ok :: "dispatch_records \<Rightarrow> string set \<Rightarrow> bool" where
  "dispatch_active_ok m act \<longleftrightarrow> (\<forall>i \<in> act. \<exists>r. bt_get m i = Some r \<and> dispatch_unresolved r)"

lemma dispatch_prune_cases:
  assumes "dispatch_records_ok rs"
  shows "prune_terminal_records rs = rs
    \<or> (\<exists>i r. bt_get rs i = Some r \<and> \<not> dispatch_unresolved r \<and> prune_terminal_records rs = bt_remove i rs)"
proof (cases "prune_terminal_records rs = rs")
  case False
  then obtain r where r: "r \<in> set (filter (\<lambda>r. d_state r \<in> {DispatchCompleted, DispatchFailed}) (map snd rs))"
    and eq: "prune_terminal_records rs = bt_remove (d_dispatch_id r) rs"
    by (auto simp: prune_terminal_records_def split: if_splits option.splits dest: min_by_SomeD)
  then obtain k where "(k, r) \<in> set rs" "\<not> dispatch_unresolved r"
    by (auto simp: dispatch_unresolved_def)
  then have "bt_get rs k = Some r" "d_dispatch_id r = k"
    using assms by (auto simp: bt_get_in_set dispatch_records_ok_def)
  then show ?thesis
    using eq \<open>\<not> dispatch_unresolved r\<close> by blast
qed simp

lemma dispatch_prune_ok:
  assumes "dispatch_records_ok rs"
  shows "dispatch_records_ok (prune_terminal_records rs)"
  using dispatch_prune_cases [OF assms] assms
  by (auto simp: dispatch_records_ok_def intro: le_trans [OF length_bt_remove] split: if_splits)

lemma dispatch_prune_keeps:
  assumes "dispatch_records_ok rs" "bt_get rs i = Some r" "dispatch_unresolved r"
  shows "bt_get (prune_terminal_records rs) i = Some r"
  using dispatch_prune_cases [OF assms(1)] assms by auto

lemma dispatch_prune_sub:
  assumes "dispatch_records_ok rs" "bt_get (prune_terminal_records rs) i = Some r"
  shows "bt_get rs i = Some r"
  using dispatch_prune_cases [OF assms(1)] assms by (auto split: if_splits)

lemma dispatch_prune_idem:
  assumes "dispatch_records_ok rs"
  shows "prune_terminal_records (prune_terminal_records rs) = prune_terminal_records rs"
proof (cases "prune_terminal_records rs = rs")
  case False
  then obtain i r where "bt_get rs i = Some r" "prune_terminal_records rs = bt_remove i rs"
    using dispatch_prune_cases [OF assms] by auto
  then have "length (prune_terminal_records rs) < MAXIMUM_DISPATCH_RECORDS"
    using length_bt_remove_present [of rs i] assms by (simp add: dispatch_records_ok_def)
  then show ?thesis
    by (simp add: prune_terminal_records_def)
qed simp

lemma dispatch_active_prune:
  "dispatch_records_ok m \<Longrightarrow> dispatch_active_ok m act \<Longrightarrow> dispatch_active_ok (prune_terminal_records m) act"
  unfolding dispatch_active_ok_def by (metis dispatch_prune_keeps)

lemma dispatch_validate_update [simp]:
  "dispatch_validate_record r = Ok () \<Longrightarrow> dispatch_valid_timestamp t \<Longrightarrow>
     dispatch_validate_record (r\<lparr>d_state := s, d_updated_at := t\<rparr>) = Ok ()"
  "dispatch_validate_record (r\<lparr>d_state := s\<rparr>) = dispatch_validate_record r"
  by (auto simp: dispatch_validate_record_iff) (simp add: dispatch_validate_record_def)

lemma dispatch_moves_ok:
  assumes "dispatch_moves m act m' act'" "dispatch_records_ok m" "dispatch_active_ok m act"
  shows "dispatch_records_ok m' \<and> dispatch_active_ok m' act'"
  using assms
proof (induction rule: dispatch_moves.induct)
  case (begun r i act m)
  then show ?case
    using length_bt_insert [of i r m]
    by (auto simp: dispatch_records_ok_def dispatch_active_ok_def dispatch_unresolved_def)
next
  case (moved i act m r s finish t)
  have "dispatch_unresolved (r\<lparr>d_state := s, d_updated_at := t\<rparr>) \<or> finish"
    using moved(3) by (cases rule: dispatch_move.cases) (auto simp: dispatch_unresolved_def)
  with moved show ?case
    by (auto simp: dispatch_records_ok_def dispatch_active_ok_def)
qed

section \<open>Every call is a move that is written through, or nothing\<close>

text \<open>Records and active ids before a call, after its pruning.\<close>

definition dispatch_before :: "dispatch_ledger \<Rightarrow> dispatch_ledger \<Rightarrow> bool" where
  "dispatch_before l l1 \<longleftrightarrow> d_persistence l1 = d_persistence l \<and> d_active l1 \<subseteq> d_active l
     \<and> d_records l1 \<in> {d_records l, prune_terminal_records (d_records l)}"

definition dispatch_plain_or_commit where
  "dispatch_plain_or_commit enc l m \<longleftrightarrow>
     (\<exists>l1 r. m = io_return (l1, r) \<and> dispatch_before l l1)
     \<or> (\<exists>l1 m' act' x. m = dispatch_commit enc l1 m' act' x \<and> dispatch_before l l1
           \<and> dispatch_moves (d_records l1) (d_active l1) m' act')"

lemma dispatch_before_refl [simp]: "dispatch_before l l"
  by (simp add: dispatch_before_def)

lemma dispatch_io_drop_commit: "io_drop (dispatch_commit enc l n a x) = dispatch_commit enc l n a ()"
  by (auto simp: io_drop_def dispatch_commit_def io_bind_def io_return_def fun_eq_iff
      split: outcome.splits sum.splits)

lemma dispatch_plain_returnI: "dispatch_before l l1 \<Longrightarrow> dispatch_plain_or_commit enc l (io_return (l1, r))"
  by (auto simp: dispatch_plain_or_commit_def)

lemma dispatch_plain_commitI:
  "dispatch_before l l1 \<Longrightarrow> dispatch_moves (d_records l1) (d_active l1) m' act'
     \<Longrightarrow> dispatch_plain_or_commit enc l (dispatch_commit enc l1 m' act' x)"
  unfolding dispatch_plain_or_commit_def by (intro disjI2 exI conjI) (rule refl)

lemma dispatch_plain_dropI:
  "dispatch_plain_or_commit enc l m \<Longrightarrow> dispatch_plain_or_commit enc l (io_drop m)"
  unfolding dispatch_plain_or_commit_def [of enc l m]
  by (elim disjE exE conjE) (simp_all add: io_drop_return dispatch_io_drop_commit
      dispatch_plain_returnI dispatch_plain_commitI)

lemma dispatch_plain_transition:
  assumes "dispatch_move expected s finish"
  shows "dispatch_plain_or_commit enc l (dispatch_transition enc l i expected s t finish)"
  using assms dispatch_moves.moved [of i "d_active l" "d_records l" _ s finish t]
  by (auto simp: dispatch_transition_def intro!: dispatch_plain_returnI dispatch_plain_commitI
      split: option.split)

lemma dispatch_plain_begin: "dispatch_plain_or_commit enc l (dispatch_begin enc l r)"
proof -
  let ?m = "prune_terminal_records (d_records l)"
  have "dispatch_plain_or_commit enc l (dispatch_commit enc (l\<lparr>d_records := ?m\<rparr>)
      (bt_insert (d_dispatch_id r) (r\<lparr>d_state := DispatchPrepared\<rparr>) ?m)
      (insert (d_dispatch_id r) (d_active l)) DispatchReserved)"
    if "dispatch_validate_record r = Ok ()" "d_dispatch_id r \<notin> d_active l"
      "bt_get (d_records l) (d_dispatch_id r) = None" "length ?m < MAXIMUM_DISPATCH_RECORDS"
  proof (rule dispatch_plain_commitI)
    have "bt_get ?m (d_dispatch_id r) = None"
      using that(3) by (auto simp: prune_terminal_records_def split: option.split)
    then show "dispatch_moves (d_records (l\<lparr>d_records := ?m\<rparr>)) (d_active (l\<lparr>d_records := ?m\<rparr>))
        (bt_insert (d_dispatch_id r) (r\<lparr>d_state := DispatchPrepared\<rparr>) ?m)
        (insert (d_dispatch_id r) (d_active l))"
      using that by (auto intro!: dispatch_moves.begun)
  qed (simp add: dispatch_before_def)
  then show ?thesis
    by (auto simp: dispatch_begin_def Let_def dispatch_before_def intro!: dispatch_plain_returnI
        split: sum.split option.split)
qed

lemma dispatch_call_plain: "dispatch_plain_or_commit enc l (dispatch_call enc l e)"
  by (cases e)
    (auto simp: mark_external_started_def dispatch_mark_failed_def mark_external_preflight_failed_def
      dispatch_mark_completed_def finish_unknown_def dispatch_before_def dispatch_move.simps
      intro!: dispatch_plain_transition dispatch_plain_dropI dispatch_plain_begin dispatch_plain_returnI)

section \<open>Memory and file\<close>

definition dispatch_on_file ::
  "(string \<Rightarrow> persisted_dispatch_ledger option) \<Rightarrow> path \<Rightarrow> dispatch_records \<Rightarrow> world \<Rightarrow> bool"
where
  "dispatch_on_file dec p f w \<longleftrightarrow>
     (case dispatch_durable p w of
        Some body \<Rightarrow> dec body = Some \<lparr>dispatch_file_version = DISPATCH_LEDGER_FILE_VERSION,
                                    dispatch_file_records = map snd f\<rparr>
      | None \<Rightarrow> f = [])"

text \<open>The file holds the records in memory, or one completed or failed record more: pruning is
  not undone in memory when the write after it fails.\<close>

definition dispatch_sync where
  "dispatch_sync dec p f l w \<longleftrightarrow> dispatch_on_file dec p f w \<and> dispatch_records_ok f
     \<and> d_records l \<in> {f, prune_terminal_records f}
     \<and> dispatch_active_ok (d_records l) (d_active l) \<and> d_persistence l = Some p"

lemma dispatch_sync_before:
  assumes "dispatch_sync dec p f l w" "dispatch_before l l1"
  shows "dispatch_sync dec p f l1 w" "dispatch_records_ok (d_records l1)"
proof -
  have f: "dispatch_records_ok f" and m: "d_records l \<in> {f, prune_terminal_records f}"
    and act: "dispatch_active_ok (d_records l) (d_active l)"
    using assms(1) by (auto simp: dispatch_sync_def)
  have m1: "d_records l1 \<in> {f, prune_terminal_records f}"
    using m assms(2) dispatch_prune_idem [OF f] by (auto simp: dispatch_before_def)
  then show "dispatch_records_ok (d_records l1)"
    using f dispatch_prune_ok [OF f] by auto
  have "dispatch_records_ok (d_records l)"
    using m f dispatch_prune_ok [OF f] by auto
  then have "dispatch_active_ok (d_records l1) (d_active l)"
    using act assms(2) dispatch_active_prune by (auto simp: dispatch_before_def)
  then have "dispatch_active_ok (d_records l1) (d_active l1)"
    using assms(2) by (auto simp: dispatch_before_def dispatch_active_ok_def)
  then show "dispatch_sync dec p f l1 w"
    using m1 assms by (simp add: dispatch_sync_def dispatch_before_def)
qed

lemma wp_dispatch_commit:
  assumes codec: "\<And>f body. enc f = Some body \<Longrightarrow> dec body = Some f"
    and w: "dispatch_intact p w" and f: "dispatch_sync dec p f l w"
  shows "wp (dispatch_commit enc l m' act' x)
    (\<lambda>(l', r) w'. (case r of
        Inl _ \<Rightarrow> l' = l \<and> dispatch_on_file dec p f w'
      | Inr _ \<Rightarrow> l' = l\<lparr>d_records := m', d_active := act'\<rparr> \<and> dispatch_on_file dec p m' w'
                  \<and> dispatch_intact p w'))
    (\<lambda>w'. dispatch_on_file dec p f w' \<or> dispatch_on_file dec p m' w') w"
proof -
  have p: "d_persistence l = Some p" and on: "dispatch_on_file dec p f w"
    using f by (simp_all add: dispatch_sync_def)
  show ?thesis
    unfolding dispatch_commit_def dispatch_persist_def p option.case
    by (rule wp_bind, rule wp_mono [OF wp_dispatch_persist_file [OF w]])
      (use on codec in \<open>auto simp: dispatch_on_file_def intro!: wp_return split: sum.splits if_splits\<close>)
qed

text \<open>One call, its records \<open>f\<close> on the file before it.\<close>

lemma wp_dispatch_call:
  assumes codec: "\<And>f body. enc f = Some body \<Longrightarrow> dec body = Some f"
    and w: "dispatch_intact p w" and f: "dispatch_sync dec p f l w"
  shows "wp (dispatch_call enc l e)
    (\<lambda>(l', r) w'. \<exists>l1. dispatch_before l l1 \<and>
       (l' = l1 \<and> dispatch_sync dec p f l' w'
        \<or> is_ok r \<and> dispatch_moves (d_records l1) (d_active l1) (d_records l') (d_active l')
           \<and> dispatch_sync dec p (d_records l') l' w'))
    (\<lambda>w'. dispatch_on_file dec p f w' \<or>
       (\<exists>l1 f' act'. dispatch_before l l1 \<and> dispatch_moves (d_records l1) (d_active l1) f' act'
          \<and> dispatch_records_ok f' \<and> dispatch_on_file dec p f' w')) w"
  using dispatch_call_plain [of enc l e]
proof (unfold dispatch_plain_or_commit_def, elim disjE exE conjE)
  fix l1 r assume "dispatch_call enc l e = io_return (l1, r)" "dispatch_before l l1"
  then show ?thesis
    using dispatch_sync_before [OF f] by (auto intro!: wp_return)
next
  fix l1 m' act' x
  assume call: "dispatch_call enc l e = dispatch_commit enc l1 m' act' x"
    and l1: "dispatch_before l l1"
    and moves: "dispatch_moves (d_records l1) (d_active l1) m' act'"
  note sync = dispatch_sync_before [OF f l1]
  have ok: "dispatch_records_ok m'" "dispatch_active_ok m' act'"
    using dispatch_moves_ok [OF moves sync(2)] sync(1) by (auto simp: dispatch_sync_def)
  show ?thesis
    unfolding call
  proof (rule wp_mono [OF wp_dispatch_commit [OF codec w sync(1)]], assumption, goal_cases)
    case (1 x w')
    obtain l' r where x: "x = (l', r)" by fastforce
    show ?case
    proof (cases r)
      case (Inl a)
      then have "l' = l1" "dispatch_on_file dec p f w'"
        using 1 x by simp_all
      then show ?thesis
        using x l1 sync(1) by (auto simp: dispatch_sync_def)
    next
      case (Inr u)
      then have "l' = l1\<lparr>d_records := m', d_active := act'\<rparr>" "dispatch_on_file dec p m' w'"
        using 1 x by simp_all
      then show ?thesis
        using x l1 sync(1) moves ok Inr
        by (auto simp: dispatch_sync_def intro!: exI [of _ l1])
    qed
  next
    case (2 w')
    then show ?case
      using l1 moves ok by blast
  qed
qed

text \<open>The dispatch ledger writes through: as long as the main file exists (or no backup
  does), whatever file operation of a call fails, the file afterwards holds the valid records in
  memory, up to one finished record that was pruned; an error changes nothing on the file, a success
  is one move of one record; and a crash inside a call leaves the old records or the new ones.\<close>

theorem dispatch_ledger_writes_through:
  assumes "\<And>f body. enc f = Some body \<Longrightarrow> dec body = Some f"
    and "dispatch_intact p w" "dispatch_sync dec p f l w"
  shows "(\<forall>l' r w'. dispatch_call enc l e w = Ret (l', r) w' \<longrightarrow>
      (\<exists>l1. dispatch_before l l1 \<and>
        (l' = l1 \<and> dispatch_sync dec p f l' w'
         \<or> is_ok r \<and> dispatch_moves (d_records l1) (d_active l1) (d_records l') (d_active l')
            \<and> dispatch_sync dec p (d_records l') l' w')))
    \<and> (\<forall>w'. dispatch_call enc l e w = Crashed w' \<longrightarrow>
      dispatch_on_file dec p f w' \<or>
      (\<exists>l1 f' act'. dispatch_before l l1 \<and> dispatch_moves (d_records l1) (d_active l1) f' act'
         \<and> dispatch_records_ok f' \<and> dispatch_on_file dec p f' w'))"
  using wp_Ret [OF wp_dispatch_call [where e = e, OF assms]]
    wp_Crashed [OF wp_dispatch_call [where e = e, OF assms]]
  by auto

section \<open>Restart\<close>

lemma dispatch_load_records_ok:
  assumes "bt_ok (done' @ rs)" "\<forall>(i, r) \<in> set rs. d_dispatch_id r = i \<and> dispatch_validate_record r = Ok ()"
  shows "dispatch_load_records (map snd rs) done' = Ok (done' @ rs)"
  using assms
proof (induction rs arbitrary: done')
  case (Cons x rs)
  obtain i r where x: "x = (i, r)" by fastforce
  have ok: "bt_ok ((done' @ [(i, r)]) @ rs)" "bt_ok (done' @ (i, r) # rs)"
    using Cons.prems(1) x by simp_all
  show ?case
    using Cons.IH [OF ok(1)] Cons.prems(2) bt_ok_append_single [OF ok(2)]
    unfolding x by (auto simp: bt_contains_key_def)
qed simp

lemma wp_dispatch_load:
  assumes "dispatch_on_file dec p f w" "dispatch_records_ok f"
  shows "wp (dispatch_load dec p)
    (\<lambda>r w'. files w' = files w \<and> (is_ok r \<longrightarrow> r = Ok f)) (\<lambda>w'. files w' = files w) w"
proof -
  have "dispatch_records_of_file \<lparr>dispatch_file_version = DISPATCH_LEDGER_FILE_VERSION,
      dispatch_file_records = map snd f\<rparr> = Ok f"
  proof -
    have "\<forall>(i, r) \<in> set f. d_dispatch_id r = i \<and> dispatch_validate_record r = Ok ()"
      using assms(2) by (auto simp: dispatch_records_ok_def bt_get_in_set)
    then show ?thesis
      using dispatch_load_records_ok [of "[]" f] assms(2)
      by (simp add: dispatch_records_of_file_def dispatch_records_ok_def)
  qed
  then show ?thesis
    unfolding dispatch_load_def [abs_def] Let_def
    apply (intro wp_rules)
    using assms(1)
    by (auto intro!: wp_rules simp: dispatch_on_file_def durable_def fs_exists_def fs_is_file_def
        split: option.splits node.splits)
qed

lemma dispatch_open_sync:
  assumes "dispatch_on_file dec p f w" "dispatch_records_ok f"
    "dispatch_open dec p (w\<lparr>faults := fs\<rparr>) = Ret (Ok l') w''"
  shows "dispatch_sync dec p f l' w'' \<and> d_records l' = f \<and> d_active l' = {}"
proof -
  have on: "dispatch_on_file dec p f (w\<lparr>faults := fs\<rparr>)"
    using assms(1) by (simp add: dispatch_on_file_def)
  obtain r where "dispatch_load dec p (w\<lparr>faults := fs\<rparr>) = Ret (Ok r) w''" and
    l': "l' = \<lparr>d_records = r, d_active = {}, d_persistence = Some p, d_poisoned = False\<rparr>"
    using assms(3) by (auto simp: dispatch_open_def io_bind_def io_return_def
        split: outcome.splits sum.splits)
  then have "r = f" "files w'' = files w"
    using wp_Ret [OF wp_dispatch_load [OF on assms(2)]] by fastforce+
  then show ?thesis
    using assms(1,2) l'
    by (simp add: dispatch_sync_def dispatch_on_file_def dispatch_active_ok_def)
qed

section \<open>The life of an installation\<close>

text \<open>Calls, crashes inside a call, and restarts, with any fault scripts. The life remembers the
  worlds in which its calls began.\<close>

inductive dispatch_life for enc dec p where
  here: "dispatch_life enc dec p l w [] l w"
| call: "dispatch_life enc dec p l w vs l' w' \<Longrightarrow>
     dispatch_call enc l' e (w'\<lparr>faults := fs\<rparr>) = Ret (l'', r) w'' \<Longrightarrow>
     dispatch_life enc dec p l w (w' # vs) l'' w''"
| crash: "dispatch_life enc dec p l w vs l' w' \<Longrightarrow>
     dispatch_call enc l' e (w'\<lparr>faults := fs\<rparr>) = Crashed w1 \<Longrightarrow>
     dispatch_open dec p (w1\<lparr>faults := fs'\<rparr>) = Ret (Ok l'') w'' \<Longrightarrow>
     dispatch_life enc dec p l w (w' # vs) l'' w''"
| restart: "dispatch_life enc dec p l w vs l' w' \<Longrightarrow>
     dispatch_open dec p (w'\<lparr>faults := fs\<rparr>) = Ret (Ok l'') w'' \<Longrightarrow>
     dispatch_life enc dec p l w vs l'' w''"

definition dispatch_held where
  "dispatch_held dec p i r l w \<longleftrightarrow>
     (\<exists>f. dispatch_sync dec p f l w \<and> bt_get f i = Some r \<and> i \<notin> d_active l)"

lemma dispatch_moves_held:
  assumes "dispatch_moves m act m' act'" "bt_get m i = Some r" "i \<notin> act"
  shows "bt_get m' i = Some r \<and> i \<notin> act'"
  using assms by (induction rule: dispatch_moves.induct) auto

lemma dispatch_sync_get:
  assumes "dispatch_sync dec p f l w" "bt_get f i = Some r" "dispatch_unresolved r"
  shows "bt_get (d_records l) i = Some r"
  using assms dispatch_prune_keeps by (auto simp: dispatch_sync_def)

lemma dispatch_life_held:
  assumes "dispatch_life enc dec p l w vs l' w'" "\<forall>v \<in> set vs. dispatch_intact p v"
    and codec: "\<And>f body. enc f = Some body \<Longrightarrow> dec body = Some f"
    and "dispatch_held dec p i r l w" and r: "dispatch_unresolved r"
  shows "dispatch_held dec p i r l' w'"
  using assms(1,2,4)
proof (induction rule: dispatch_life.induct)
  case (call l w vs l' w' e fs l'' q w'')
  then obtain f where f: "dispatch_sync dec p f l' (w'\<lparr>faults := fs\<rparr>)" "bt_get f i = Some r" "i \<notin> d_active l'"
    by (auto simp: dispatch_held_def dispatch_sync_def dispatch_on_file_def)
  have intact: "dispatch_intact p (w'\<lparr>faults := fs\<rparr>)"
    using call.prems(1) by (simp add: dispatch_intact_def fs_exists_def)
  obtain l1 where l1: "dispatch_before l' l1"
    and cases: "l'' = l1 \<and> dispatch_sync dec p f l'' w''
      \<or> dispatch_moves (d_records l1) (d_active l1) (d_records l'') (d_active l'')
         \<and> dispatch_sync dec p (d_records l'') l'' w''"
    using wp_Ret [OF wp_dispatch_call [where enc = enc and dec = dec, OF codec intact f(1)] call.hyps(2)]
    by auto
  have kept: "bt_get (d_records l1) i = Some r" "i \<notin> d_active l1"
    using dispatch_sync_get [OF dispatch_sync_before(1) [OF f(1) l1] f(2) r] l1 f(3)
    by (auto simp: dispatch_before_def)
  show ?case
    using cases kept f(2) dispatch_moves_held [OF _ kept] by (auto simp: dispatch_held_def)
next
  case (crash l w vs l' w' e fs w1 fs' l'' w'')
  then obtain f where f: "dispatch_sync dec p f l' (w'\<lparr>faults := fs\<rparr>)" "bt_get f i = Some r" "i \<notin> d_active l'"
    by (auto simp: dispatch_held_def dispatch_sync_def dispatch_on_file_def)
  have intact: "dispatch_intact p (w'\<lparr>faults := fs\<rparr>)"
    using crash.prems(1) by (simp add: dispatch_intact_def fs_exists_def)
  have "dispatch_on_file dec p f w1 \<or>
      (\<exists>l1 g act'. dispatch_before l' l1 \<and> dispatch_moves (d_records l1) (d_active l1) g act'
         \<and> dispatch_records_ok g \<and> dispatch_on_file dec p g w1)"
    using wp_Crashed [OF wp_dispatch_call [OF codec intact f(1)] crash.hyps(2)] by blast
  then have "\<exists>g. dispatch_on_file dec p g w1 \<and> dispatch_records_ok g \<and> bt_get g i = Some r"
  proof (elim disjE exE conjE)
    assume "dispatch_on_file dec p f w1"
    then show ?thesis using f by (auto simp: dispatch_sync_def)
  next
    fix l1 g act'
    assume l1: "dispatch_before l' l1" and g: "dispatch_records_ok g" "dispatch_on_file dec p g w1"
      and moves: "dispatch_moves (d_records l1) (d_active l1) g act'"
    have kept: "bt_get (d_records l1) i = Some r" "i \<notin> d_active l1"
      using dispatch_sync_get [OF dispatch_sync_before(1) [OF f(1) l1] f(2) r] l1 f(3)
      by (auto simp: dispatch_before_def)
    then show ?thesis
      using g dispatch_moves_held [OF moves kept] by auto
  qed
  then show ?case
    using dispatch_open_sync [OF _ _ crash.hyps(3)] by (fastforce simp: dispatch_held_def)
next
  case (restart l w vs l' w' fs l'' w'')
  then obtain f where "dispatch_sync dec p f l' w'" "bt_get f i = Some r"
    by (auto simp: dispatch_held_def)
  then show ?case
    using dispatch_open_sync [OF _ _ restart.hyps(2), of f]
    by (auto simp: dispatch_held_def dispatch_sync_def)
qed


section \<open>An example\<close>

definition example_dispatch :: "string \<Rightarrow> ai_dispatch_state \<Rightarrow> ai_dispatch_record" where
  "example_dispatch recipient s = \<lparr>d_dispatch_id = ''room-message:m1:'' @ recipient, d_room_id = ''room-1'',
     d_source_message_id = ''m1'', d_recipient_id = recipient, d_reply_message_id = ''m2'',
     d_state = s, d_updated_at = ''1''\<rparr>"

definition sent_records :: dispatch_records where
  "sent_records = [(''room-message:m1:codex'', example_dispatch ''codex'' ExternalStarted)]"

definition both_records :: dispatch_records where
  "both_records = bt_insert ''room-message:m1:gemini'' (example_dispatch ''gemini'' DispatchPrepared) sent_records"

definition resent_records :: dispatch_records where
  "resent_records = [(''room-message:m1:codex'', example_dispatch ''codex'' DispatchPrepared)]"

definition dispatch_file :: "dispatch_records \<Rightarrow> persisted_dispatch_ledger" where
  "dispatch_file rs = \<lparr>dispatch_file_version = DISPATCH_LEDGER_FILE_VERSION,
     dispatch_file_records = map snd rs\<rparr>"

definition example_dispatch_enc :: "persisted_dispatch_ledger \<Rightarrow> string option" where
  "example_dispatch_enc f = (if f = dispatch_file sent_records then Some ''x''
     else if f = dispatch_file both_records then Some ''y''
     else if f = dispatch_file resent_records then Some ''z'' else None)"

definition example_dispatch_dec :: "string \<Rightarrow> persisted_dispatch_ledger option" where
  "example_dispatch_dec body = (if body = ''x'' then Some (dispatch_file sent_records)
     else if body = ''y'' then Some (dispatch_file both_records)
     else if body = ''z'' then Some (dispatch_file resent_records) else None)"

definition dispatch_path :: path where
  "dispatch_path = (''/data'', ''ai-dispatch-ledger-v1.json'')"

definition example_dispatch_ledger :: "dispatch_records \<Rightarrow> dispatch_ledger" where
  "example_dispatch_ledger rs = \<lparr>d_records = rs, d_active = {}, d_persistence = Some dispatch_path,
     d_poisoned = False\<rparr>"

definition example_dispatch_world :: "(path \<Rightarrow> node option) \<Rightarrow> fault list \<Rightarrow> world" where
  "example_dispatch_world fls fs = \<lparr>files = fls, directories = {''/data''}, faults = fs,
     temp_sequence = 1, process_id = 7\<rparr>"

lemma example_dispatch_codec: "example_dispatch_enc f = Some body \<Longrightarrow> example_dispatch_dec body = Some f"
  by (auto simp: example_dispatch_enc_def example_dispatch_dec_def split: if_splits)

lemma example_dispatch_valid:
  "dispatch_validate_record (example_dispatch ''codex'' s) = Ok ()"
  "dispatch_validate_record (example_dispatch ''gemini'' s) = Ok ()"
  by (simp_all add: dispatch_validate_record_iff example_dispatch_def valid_dispatch_id_def
      valid_entity_id_def dispatch_valid_timestamp_def dispatch_id_byte_def entity_id_byte_def
      byte_class_defs)

lemma sent_records_ok: "dispatch_records_ok sent_records"
  by (auto simp: dispatch_records_ok_def sent_records_def bt_ok_def MAXIMUM_DISPATCH_RECORDS_def
      example_dispatch_valid split: if_splits) (simp add: example_dispatch_def)

lemma dispatch_constants [simp]:
  "MAXIMUM_DISPATCH_RECORDS = 512" "MAXIMUM_DISPATCH_LEDGER_BYTES = 1048576"
  by (simp_all add: MAXIMUM_DISPATCH_RECORDS_def MAXIMUM_DISPATCH_LEDGER_BYTES_def)

lemma example_dispatch_simps [simp]:
  "d_dispatch_id (example_dispatch r s) = ''room-message:m1:'' @ r"
  "d_state (example_dispatch r s) = s"
  "example_dispatch r s\<lparr>d_state := s'\<rparr> = example_dispatch r s'"
  "d_records (example_dispatch_ledger rs) = rs" "d_active (example_dispatch_ledger rs) = {}"
  "d_persistence (example_dispatch_ledger rs) = Some dispatch_path"
  "\<not> d_poisoned (example_dispatch_ledger rs)"
  "files (example_dispatch_world fls fs) = fls" "faults (example_dispatch_world fls fs) = fs"
  "directories (example_dispatch_world fls fs) = {''/data''}"
  "fst dispatch_path = ''/data''"
  by (simp_all add: example_dispatch_def example_dispatch_ledger_def example_dispatch_world_def
      dispatch_path_def)

lemma example_dispatch_encodes [simp]:
  "example_dispatch_enc \<lparr>dispatch_file_version = DISPATCH_LEDGER_FILE_VERSION,
     dispatch_file_records = map snd both_records\<rparr> = Some ''y''"
  "example_dispatch_enc \<lparr>dispatch_file_version = DISPATCH_LEDGER_FILE_VERSION,
     dispatch_file_records = map snd resent_records\<rparr> = Some ''z''"
  by (simp_all add: example_dispatch_enc_def dispatch_file_def both_records_def sent_records_def
      resent_records_def) (simp_all add: example_dispatch_def)

lemmas example_dispatch_run = dispatch_begin_def dispatch_commit_def dispatch_persist_def
  dispatch_persist_file_def dispatch_write_file_def dispatch_rotate_def install_temp_def
  with_temp_guard_def io_bind_def io_try_def io_return_def io_drop_def fs_create_dir_all_def
  fs_create_new_def fs_write_all_sync_def fs_rename_def fs_remove_file_def fs_read_def atomic_op_def
  next_fault_def put_file_def fs_is_dir_def fs_exists_def fs_is_file_def Let_def
  prune_terminal_records_def

text \<open>The call that begins the second dispatch.\<close>

abbreviation second_dispatch :: "world \<Rightarrow> (dispatch_ledger \<times> (unit, ai_dispatch_ledger_error) result) outcome"
where
  "second_dispatch \<equiv> dispatch_call example_dispatch_enc (example_dispatch_ledger sent_records)
     (EvDispatchBegin (example_dispatch ''gemini'' DispatchPrepared))"

lemma sent_records_simps [simp]:
  "length sent_records = 1" "bt_get sent_records ''room-message:m1:gemini'' = None"
  "bt_get sent_records ''room-message:m1:codex'' = Some (example_dispatch ''codex'' ExternalStarted)"
  "bt_insert ''room-message:m1:gemini'' (example_dispatch ''gemini'' DispatchPrepared) sent_records
     = both_records"
  by (simp_all add: sent_records_def both_records_def)

lemma second_dispatch_crashes:
  "\<exists>w'. second_dispatch (example_dispatch_world [dispatch_path \<mapsto> Regular ''x'']
        [NoFault, NoFault, NoFault, CrashAfter]) = Crashed w'
    \<and> files w' = [dispatch_backup_path dispatch_path \<mapsto> Regular ''x'',
        temp_path dispatch_path 7 1 \<mapsto> Regular ''y'']
    \<and> directories w' = {''/data''} \<and> process_id w' = 7 \<and> temp_sequence w' = 2"
  by (simp add: example_dispatch_run paths_distinct example_dispatch_valid)
    (auto simp: example_dispatch_world_def fun_eq_iff paths_distinct)

lemma second_dispatch_crashes_again:
  assumes "files w dispatch_path = None" "directories w = {''/data''}"
    "files w (dispatch_backup_path dispatch_path) = Some (Regular ''x'')"
    "files w (temp_path dispatch_path (process_id w) (temp_sequence w)) = None"
  shows "\<exists>w'. second_dispatch (w\<lparr>faults := [NoFault, NoFault, NoFault, CrashAfter]\<rparr>) = Crashed w'
    \<and> files w' = (files w)(temp_path dispatch_path (process_id w) (temp_sequence w) \<mapsto> Regular ''y'',
        dispatch_backup_path dispatch_path := None)
    \<and> directories w' = {''/data''} \<and> process_id w' = process_id w
    \<and> temp_sequence w' = temp_sequence w + 1"
  using assms by (simp add: example_dispatch_run paths_distinct example_dispatch_valid)

lemma temp_paths_fresh:
  "temp_path dispatch_path 7 2 \<noteq> temp_path dispatch_path 7 1"
  "temp_path dispatch_path 7 3 \<noteq> temp_path dispatch_path 7 1"
  "temp_path dispatch_path 7 3 \<noteq> temp_path dispatch_path 7 2"
  by (simp_all add: temp_path_def nat_to_string.simps)

lemma open_from_backup:
  assumes "files w dispatch_path = None" "files w (dispatch_backup_path dispatch_path) = Some (Regular ''x'')"
  shows "dispatch_open example_dispatch_dec dispatch_path (w\<lparr>faults := []\<rparr>) =
    Ret (Ok (example_dispatch_ledger sent_records)) (w\<lparr>faults := []\<rparr>)"
proof -
  have "dispatch_records_of_file (dispatch_file sent_records) = Ok sent_records"
    by (simp add: dispatch_records_of_file_def dispatch_file_def sent_records_def
        example_dispatch_valid bt_contains_key_def)
  then show ?thesis
    using assms by (simp add: dispatch_open_def dispatch_load_def example_dispatch_run
        example_dispatch_dec_def example_dispatch_ledger_def)
qed

lemma open_without_files:
  assumes "files w dispatch_path = None" "files w (dispatch_backup_path dispatch_path) = None"
  shows "dispatch_open example_dispatch_dec dispatch_path (w\<lparr>faults := []\<rparr>) =
    Ret (Ok (example_dispatch_ledger [])) (w\<lparr>faults := []\<rparr>)"
  using assms by (simp add: dispatch_open_def dispatch_load_def example_dispatch_run
      example_dispatch_ledger_def)

lemma resend_is_reserved:
  assumes "files w dispatch_path = None" "files w (dispatch_backup_path dispatch_path) = None"
    "directories w = {''/data''}" "faults w = []"
    "files w (temp_path dispatch_path (process_id w) (temp_sequence w)) = None"
  shows "\<exists>l w'. dispatch_begin example_dispatch_enc (example_dispatch_ledger [])
    (example_dispatch ''codex'' DispatchPrepared) w = Ret (l, Ok DispatchReserved) w'"
  using assms example_dispatch_encodes(2)
  by (simp add: example_dispatch_run paths_distinct example_dispatch_valid resent_records_def)

text \<open>C34: The dispatch file can be lost in one way: a crash between the two renames leaves only the backup;
  the next write begins by removing it. A second crash there leaves no file, the next start an
  empty ledger, and a dispatch that was already sent is reserved again. (The orchestration ledger
  removes its backup only when the main file exists.)\<close>

theorem dispatch_ledger_can_lose_its_only_copy:
  "\<exists>w1 w2 l w3.
     second_dispatch (example_dispatch_world [dispatch_path \<mapsto> Regular ''x'']
       [NoFault, NoFault, NoFault, CrashAfter]) = Crashed w1
     \<and> dispatch_open example_dispatch_dec dispatch_path (w1\<lparr>faults := []\<rparr>)
         = Ret (Ok (example_dispatch_ledger sent_records)) (w1\<lparr>faults := []\<rparr>)
     \<and> second_dispatch (w1\<lparr>faults := [NoFault, NoFault, NoFault, CrashAfter]\<rparr>) = Crashed w2
     \<and> dispatch_open example_dispatch_dec dispatch_path (w2\<lparr>faults := []\<rparr>)
         = Ret (Ok (example_dispatch_ledger [])) (w2\<lparr>faults := []\<rparr>)
     \<and> dispatch_begin example_dispatch_enc (example_dispatch_ledger [])
         (example_dispatch ''codex'' DispatchPrepared) (w2\<lparr>faults := []\<rparr>)
         = Ret (l, Ok DispatchReserved) w3"
proof -
  obtain w1 where w1: "second_dispatch (example_dispatch_world [dispatch_path \<mapsto> Regular ''x'']
       [NoFault, NoFault, NoFault, CrashAfter]) = Crashed w1"
    "files w1 = [dispatch_backup_path dispatch_path \<mapsto> Regular ''x'',
        temp_path dispatch_path 7 1 \<mapsto> Regular ''y'']"
    "directories w1 = {''/data''}" "process_id w1 = 7" "temp_sequence w1 = 2"
    using second_dispatch_crashes by blast
  have open1: "files w1 dispatch_path = None"
    "files w1 (dispatch_backup_path dispatch_path) = Some (Regular ''x'')"
    using w1(2) by (simp_all add: paths_distinct)
  have "files w1 (temp_path dispatch_path (process_id w1) (temp_sequence w1)) = None"
    using w1(2,4,5) temp_paths_fresh by (simp add: paths_distinct)
  then obtain w2 where w2: "second_dispatch (w1\<lparr>faults := [NoFault, NoFault, NoFault, CrashAfter]\<rparr>) = Crashed w2"
    "files w2 = (files w1)(temp_path dispatch_path 7 2 \<mapsto> Regular ''y'',
        dispatch_backup_path dispatch_path := None)"
    "directories w2 = {''/data''}" "process_id w2 = 7" "temp_sequence w2 = 3"
    using second_dispatch_crashes_again [OF open1(1) w1(3) open1(2)] w1(4,5) by auto
  have open2: "files w2 dispatch_path = None" "files w2 (dispatch_backup_path dispatch_path) = None"
    using w2(2) open1 by (simp_all add: paths_distinct)
  have "files w2 (temp_path dispatch_path 7 3) = None"
    using w2(2) w1(2) temp_paths_fresh by (simp add: paths_distinct)
  then obtain l w3 where "dispatch_begin example_dispatch_enc (example_dispatch_ledger [])
      (example_dispatch ''codex'' DispatchPrepared) (w2\<lparr>faults := []\<rparr>) = Ret (l, Ok DispatchReserved) w3"
    using resend_is_reserved [of "w2\<lparr>faults := []\<rparr>"] open2 w2(3-5) by auto
  then show ?thesis
    using w1(1) w2(1) open_from_backup [OF open1] open_without_files [OF open2] by blast
qed

theorem dispatch_id_names_the_pair_witness:
  "d_source_message_id (example_dispatch ''codex'' DispatchPrepared)
     = d_source_message_id (example_dispatch ''codex'' DispatchFailed)"
  using dispatch_id_names_the_pair [OF example_dispatch_valid(1) [of DispatchPrepared]
      example_dispatch_valid(1) [of DispatchFailed]] by simp

lemma example_dispatch_sync:
  "dispatch_sync example_dispatch_dec dispatch_path sent_records (example_dispatch_ledger sent_records)
     (example_dispatch_world [dispatch_path \<mapsto> Regular ''x''] fs)"
  using sent_records_ok
  by (simp add: dispatch_sync_def dispatch_on_file_def durable_def example_dispatch_dec_def
      dispatch_file_def dispatch_active_ok_def)

lemma example_dispatch_intact: "dispatch_intact dispatch_path (example_dispatch_world [dispatch_path \<mapsto> x] fs)"
  by (simp add: dispatch_intact_def fs_exists_def)

theorem dispatch_ledger_writes_through_witness:
  "\<exists>w' f. second_dispatch (example_dispatch_world [dispatch_path \<mapsto> Regular ''x'']
       [NoFault, NoFault, NoFault, CrashAfter]) = Crashed w'
     \<and> dispatch_on_file example_dispatch_dec dispatch_path f w'
     \<and> dispatch_records_ok f"
proof -
  obtain w1 where "second_dispatch (example_dispatch_world [dispatch_path \<mapsto> Regular ''x'']
       [NoFault, NoFault, NoFault, CrashAfter]) = Crashed w1"
    using second_dispatch_crashes by blast
  then show ?thesis
    using dispatch_ledger_writes_through [OF example_dispatch_codec example_dispatch_intact
        example_dispatch_sync, where e = "EvDispatchBegin (example_dispatch ''gemini'' DispatchPrepared)"] sent_records_ok
    by blast
qed


end
