(* ===== verification/Credential_Store.thy ===== *)
theory Credential_Store
  imports Prelude
begin

text \<open>
  The crate \<open>moe-credential-store\<close> (\<open>crates/moe-credential-store/src/lib.rs\<close>): account ids,
  secrets, the \<open>CredentialStore\<close> trait, and the platform store over the credential vault of the
  operating system. The vault (\<open>CredWriteW\<close>, \<open>CredReadW\<close>, \<open>CredDeleteW\<close>) is a parameter; that
  secrets are wiped from memory is not modelled.
\<close>

section \<open>Account ids and secrets\<close>

definition TARGET_PREFIX :: string where "TARGET_PREFIX = ''M.O.E./relay-device/v1/''"
definition MAXIMUM_SECRET_BYTES :: nat where "MAXIMUM_SECRET_BYTES = 2560"

datatype credential_store_error =
  InvalidAccountId | InvalidSecret | UnsupportedPlatform | PlatformError string int

text \<open>The byte pattern of account and device ids.\<close>

definition relay_id_byte :: "nat \<Rightarrow> char \<Rightarrow> bool" where
  "relay_id_byte index c \<longleftrightarrow>
     is_ascii_lowercase c \<or> is_ascii_digit c \<or> (c \<in> {CHR ''.'', CHR ''_'', CHR ''-''} \<and> 0 < index)"

definition relay_credential_id_new :: "string \<Rightarrow> (string, credential_store_error) result" where
  "relay_credential_id_new account_id =
     (if account_id = [] \<or> length account_id > 64 \<or> \<not> all_indexed relay_id_byte account_id
      then Err InvalidAccountId else Ok account_id)"

definition target_name :: "string \<Rightarrow> string" where
  "target_name account_id = TARGET_PREFIX @ account_id"

definition secret_bytes_new :: "string \<Rightarrow> (string, credential_store_error) result" where
  "secret_bytes_new value =
     (if value = [] \<or> length value > MAXIMUM_SECRET_BYTES then Err InvalidSecret else Ok value)"

lemma target_name_inj [simp]: "target_name a = target_name b \<longleftrightarrow> a = b"
  by (simp add: target_name_def)

lemma secret_bytes_new_iff:
  "secret_bytes_new v = Ok s \<longleftrightarrow> s = v \<and> v \<noteq> [] \<and> length v \<le> MAXIMUM_SECRET_BYTES"
  by (auto simp: secret_bytes_new_def)

section \<open>The trait\<close>

text \<open>\<open>contains\<close> as the trait defines it by default.\<close>

definition contains_by_load ::
  "('s \<Rightarrow> string \<Rightarrow> (string option, credential_store_error) result) \<Rightarrow> 's \<Rightarrow> string
     \<Rightarrow> (bool, credential_store_error) result"
where
  "contains_by_load load s i = (case load s i of Inl e \<Rightarrow> Err e | Inr c \<Rightarrow> Ok (c \<noteq> None))"

text \<open>What the clients rely on. Any operation may fail, and then reports it; a load that succeeds
  returns what was stored last under the id.\<close>

locale credential_store =
  fixes store :: "'s \<Rightarrow> string \<Rightarrow> string \<Rightarrow> 's \<times> (unit, credential_store_error) result"
    and load :: "'s \<Rightarrow> string \<Rightarrow> (string option, credential_store_error) result"
    and delete :: "'s \<Rightarrow> string \<Rightarrow> 's \<times> (bool, credential_store_error) result"
  assumes load_stored: "store s i c = (s', Ok ()) \<Longrightarrow> secret_bytes_new c = Ok c \<Longrightarrow>
      load s' i = Ok x \<Longrightarrow> x = Some c"
    and load_other: "fst (store s i c) = s' \<or> fst (delete s i) = s' \<Longrightarrow> j \<noteq> i \<Longrightarrow>
      load s j = Ok x \<Longrightarrow> load s' j = Ok y \<Longrightarrow> x = y"
    and load_deleted: "delete s i = (s', Ok b) \<Longrightarrow> load s' i = Ok x \<Longrightarrow> x = None"
    and store_failed: "store s i c = (s', Err e) \<Longrightarrow> s' = s"
    and delete_failed: "delete s i = (s', Err e) \<Longrightarrow> s' = s"
begin

lemma contains_stored:
  "store s i c = (s', Ok ()) \<Longrightarrow> secret_bytes_new c = Ok c \<Longrightarrow> contains_by_load load s' i = Ok b \<Longrightarrow> b"
  by (auto simp: contains_by_load_def dest: load_stored split: sum.splits)

lemma contains_deleted:
  "delete s i = (s', Ok b) \<Longrightarrow> contains_by_load load s' i = Ok b' \<Longrightarrow> \<not> b'"
  by (auto simp: contains_by_load_def dest: load_deleted split: sum.splits)

end

section \<open>The platform store\<close>

text \<open>On Windows: the vault's operations by target name, the error a missing entry gives, and the
  operating system's error code otherwise.\<close>

definition platform_store ::
  "('v \<Rightarrow> string \<Rightarrow> string \<Rightarrow> 'v \<times> int option) \<Rightarrow> 'v \<Rightarrow> string \<Rightarrow> string
     \<Rightarrow> 'v \<times> (unit, credential_store_error) result"
where
  "platform_store cred_write v i credential =
     (case cred_write v (target_name i) credential of
        (v', None) \<Rightarrow> (v', Ok ())
      | (v', Some code) \<Rightarrow> (v', Err (PlatformError ''write'' code)))"

definition platform_load ::
  "('v \<Rightarrow> string \<Rightarrow> (string, int) result) \<Rightarrow> int \<Rightarrow> 'v \<Rightarrow> string
     \<Rightarrow> (string option, credential_store_error) result"
where
  "platform_load cred_read not_found v i =
     (case cred_read v (target_name i) of
        Inl code \<Rightarrow> if code = not_found then Ok None else Err (PlatformError ''read'' code)
      | Inr blob \<Rightarrow>
          if length blob = 0 \<or> length blob > MAXIMUM_SECRET_BYTES then Err InvalidSecret
          else (case secret_bytes_new blob of Inl e \<Rightarrow> Err e | Inr s \<Rightarrow> Ok (Some s)))"

definition platform_contains ::
  "('v \<Rightarrow> string \<Rightarrow> (string, int) result) \<Rightarrow> int \<Rightarrow> 'v \<Rightarrow> string
     \<Rightarrow> (bool, credential_store_error) result"
where
  "platform_contains cred_read not_found v i =
     (case cred_read v (target_name i) of
        Inr blob \<Rightarrow> Ok True
      | Inl code \<Rightarrow> if code = not_found then Ok False else Err (PlatformError ''read'' code))"

definition platform_delete ::
  "('v \<Rightarrow> string \<Rightarrow> 'v \<times> int option) \<Rightarrow> int \<Rightarrow> 'v \<Rightarrow> string
     \<Rightarrow> 'v \<times> (bool, credential_store_error) result"
where
  "platform_delete cred_delete not_found v i =
     (case cred_delete v (target_name i) of
        (v', None) \<Rightarrow> (v', Ok True)
      | (v', Some code) \<Rightarrow>
          (v', if code = not_found then Ok False else Err (PlatformError ''delete'' code)))"

text \<open>On other platforms.\<close>

definition unsupported_store :: "'v \<Rightarrow> string \<Rightarrow> string \<Rightarrow> 'v \<times> (unit, credential_store_error) result"
where
  "unsupported_store v i credential = (v, Err UnsupportedPlatform)"

definition unsupported_load :: "'v \<Rightarrow> string \<Rightarrow> (string option, credential_store_error) result" where
  "unsupported_load v i = Err UnsupportedPlatform"

definition unsupported_delete :: "'v \<Rightarrow> string \<Rightarrow> 'v \<times> (bool, credential_store_error) result" where
  "unsupported_delete v i = (v, Err UnsupportedPlatform)"

interpretation unsupported: credential_store unsupported_store unsupported_load unsupported_delete
  by unfold_locales (auto simp: unsupported_store_def unsupported_load_def unsupported_delete_def)

section \<open>The vault\<close>

text \<open>The documented behaviour of the vault: entries by name, a write replaces, a delete of a
  missing entry and a read of one report \<open>not_found\<close>, any call may fail with another code and has
  then no effect.\<close>

locale credential_vault =
  fixes entries :: "'v \<Rightarrow> string \<Rightarrow> string option"
    and cred_write :: "'v \<Rightarrow> string \<Rightarrow> string \<Rightarrow> 'v \<times> int option"
    and cred_read :: "'v \<Rightarrow> string \<Rightarrow> (string, int) result"
    and cred_delete :: "'v \<Rightarrow> string \<Rightarrow> 'v \<times> int option"
    and not_found :: int
  assumes write_ok: "cred_write v t c = (v', None) \<Longrightarrow> entries v' = (entries v)(t \<mapsto> c)"
    and write_failed: "cred_write v t c = (v', Some code) \<Longrightarrow> v' = v"
    and read_ok: "cred_read v t = Ok c \<Longrightarrow> entries v t = Some c"
    and read_missing: "cred_read v t = Err not_found \<Longrightarrow> entries v t = None"
    and delete_ok: "cred_delete v t = (v', None) \<Longrightarrow> entries v' = (entries v)(t := None)"
    and delete_failed: "cred_delete v t = (v', Some code) \<Longrightarrow>
      v' = v \<and> (code = not_found \<longrightarrow> entries v t = None)"
begin

lemma platform_load_Ok:
  "platform_load cred_read not_found v i = Ok x \<Longrightarrow> x = entries v (target_name i)"
  by (auto simp: platform_load_def secret_bytes_new_def dest: read_ok read_missing
      split: sum.splits if_splits)

lemma platform_store_entries:
  "entries (fst (platform_store cred_write v i c)) =
     (case snd (platform_store cred_write v i c) of
        Inl _ \<Rightarrow> entries v | Inr _ \<Rightarrow> (entries v)(target_name i \<mapsto> c))"
  by (auto simp: platform_store_def dest: write_ok write_failed split: prod.splits option.splits)

lemma platform_delete_entries:
  "entries (fst (platform_delete cred_delete not_found v i)) =
     (case snd (platform_delete cred_delete not_found v i) of
        Inl _ \<Rightarrow> entries v | Inr _ \<Rightarrow> (entries v)(target_name i := None))"
  by (auto simp: platform_delete_def fun_eq_iff dest: delete_ok delete_failed
      split: prod.splits option.splits)

end

sublocale credential_vault \<subseteq> platform: credential_store
  "platform_store cred_write" "platform_load cred_read not_found" "platform_delete cred_delete not_found"
proof
  show "s' = s" if "platform_store cred_write s i c = (s', Err e)" for s i c s' e
    using that by (auto simp: platform_store_def dest: write_failed split: prod.splits option.splits)
  show "s' = s" if "platform_delete cred_delete not_found s i = (s', Err e)" for s i s' e
    using that by (auto simp: platform_delete_def dest: delete_failed
        split: prod.splits option.splits if_splits)
  show "x = Some c" if "platform_store cred_write s i c = (s', Ok ())"
    "platform_load cred_read not_found s' i = Ok x" for s i c s' x
    using that platform_store_entries [of s i c] by (auto dest: platform_load_Ok)
  show "x = None" if "platform_delete cred_delete not_found s i = (s', Ok b)"
    "platform_load cred_read not_found s' i = Ok x" for s i s' b x
    using that platform_delete_entries [of s i] by (auto dest: platform_load_Ok)
  show "x = y" if "fst (platform_store cred_write s i c) = s' \<or> fst (platform_delete cred_delete not_found s i) = s'"
    "j \<noteq> i" "platform_load cred_read not_found s j = Ok x" "platform_load cred_read not_found s' j = Ok y"
    for s i c s' j x y
    using that platform_store_entries [of s i c] platform_delete_entries [of s i]
    by (auto dest!: platform_load_Ok split: sum.splits)
qed

text \<open>A vault that keeps everything it is given.\<close>

definition map_write :: "(string \<Rightarrow> string option) \<Rightarrow> string \<Rightarrow> string \<Rightarrow> (string \<Rightarrow> string option) \<times> int option"
where
  "map_write v t c = (v(t \<mapsto> c), None)"

definition map_read :: "(string \<Rightarrow> string option) \<Rightarrow> string \<Rightarrow> (string, int) result" where
  "map_read v t = (case v t of None \<Rightarrow> Err 1168 | Some c \<Rightarrow> Ok c)"

definition map_delete :: "(string \<Rightarrow> string option) \<Rightarrow> string \<Rightarrow> (string \<Rightarrow> string option) \<times> int option" where
  "map_delete v t = (case v t of None \<Rightarrow> (v, Some 1168) | Some _ \<Rightarrow> (v(t := None), None))"

interpretation map_vault: credential_vault "\<lambda>v. v" map_write map_read map_delete 1168
  by unfold_locales
    (auto simp: map_write_def map_read_def map_delete_def split: option.splits)

end
