(* ===== verification/Relay_Client.thy ===== *)
theory Relay_Client
  imports Credential_Store "HOL-Library.Multiset"
begin

text \<open>
  The crate \<open>moe-relay-client\<close> (\<open>crates/moe-relay-client/src/lib.rs\<close>): ids and pairing codes, the
  connection manager over a credential store, and the service that keeps one connection state per
  account. The transports (\<open>RelayPairingTransport\<close>, \<open>RelayTransport\<close>) are parameters.
\<close>

section \<open>Ids and pairing\<close>

definition MAXIMUM_DEVICE_ID_BYTES :: nat where "MAXIMUM_DEVICE_ID_BYTES = 128"
definition PAIRING_CODE_BYTES :: nat where "PAIRING_CODE_BYTES = 9"
definition PAIRING_CODE_SEPARATOR_INDEX :: nat where "PAIRING_CODE_SEPARATOR_INDEX = 4"

datatype relay_model_error =
  InvalidRelayAccountId | InvalidDeviceId | InvalidPairingCode | InvalidDeviceCredential

definition relay_account_id_new :: "string \<Rightarrow> (string, relay_model_error) result" where
  "relay_account_id_new value = map_err (\<lambda>_. InvalidRelayAccountId) (relay_credential_id_new value)"

definition relay_device_id_new :: "string \<Rightarrow> (string, relay_model_error) result" where
  "relay_device_id_new value =
     (if value = [] \<or> length value > MAXIMUM_DEVICE_ID_BYTES \<or> \<not> all_indexed relay_id_byte value
      then Err InvalidDeviceId else Ok value)"

definition pairing_code_byte :: "nat \<Rightarrow> char \<Rightarrow> bool" where
  "pairing_code_byte index c \<longleftrightarrow>
     (if index = PAIRING_CODE_SEPARATOR_INDEX then c = CHR ''-''
      else in_bytes 65 72 c \<or> in_bytes 74 78 c \<or> in_bytes 80 90 c \<or> in_bytes 50 57 c)"

definition pairing_code_new :: "string \<Rightarrow> (string, relay_model_error) result" where
  "pairing_code_new value =
     (case secret_bytes_new value of
        Inl _ \<Rightarrow> Err InvalidPairingCode
      | Inr secret \<Rightarrow>
          if length secret = PAIRING_CODE_BYTES \<and> all_indexed pairing_code_byte secret
          then Ok secret else Err InvalidPairingCode)"

record pairing_response =
  response_device_id :: string
  response_device_credential :: string

definition pairing_response_new ::
  "string \<Rightarrow> string \<Rightarrow> (pairing_response, relay_model_error) result"
where
  "pairing_response_new device_id credential =
     (case secret_bytes_new credential of
        Inl _ \<Rightarrow> Err InvalidDeviceCredential
      | Inr secret \<Rightarrow> Ok \<lparr>response_device_id = device_id, response_device_credential = secret\<rparr>)"

datatype pairing_transport_error =
  PairInvalidCode | PairExpired | PairUsed | PairLocked | PairUnavailable | PairProtocol | PairCancelled

datatype relay_transport_error =
  TransportRejected | TransportUnavailable | TransportProtocol | TransportCancelled

record pairing_receipt =
  receipt_account_id :: string
  receipt_device_id :: string

datatype relay_client_error =
  ClientCredentialStore credential_store_error
| PairingDeviceMismatch
| CredentialNotStored
| ClientPairingTransport pairing_transport_error
| ClientTransport relay_transport_error

datatype relay_connection_error_code =
  CredentialMissing | SecureStorageUnavailable | SecureStorageFailed | PairingRejected
| PairingExpired | PairingUsed | PairingLocked | RelayRejected | RelayUnavailable | RelayProtocol
| RelayCancelled | RelayAlreadyActive | RuntimeUnavailable

fun transport_safe_error_code :: "relay_transport_error \<Rightarrow> relay_connection_error_code" where
  "transport_safe_error_code TransportRejected = RelayRejected"
| "transport_safe_error_code TransportUnavailable = RelayUnavailable"
| "transport_safe_error_code TransportProtocol = RelayProtocol"
| "transport_safe_error_code TransportCancelled = RelayCancelled"

fun safe_error_code :: "relay_client_error \<Rightarrow> relay_connection_error_code" where
  "safe_error_code (ClientCredentialStore e) =
     (if e = UnsupportedPlatform then SecureStorageUnavailable else SecureStorageFailed)"
| "safe_error_code PairingDeviceMismatch = RelayProtocol"
| "safe_error_code CredentialNotStored = CredentialMissing"
| "safe_error_code (ClientPairingTransport e) =
     (case e of
        PairInvalidCode \<Rightarrow> PairingRejected
      | PairExpired \<Rightarrow> PairingExpired
      | PairUsed \<Rightarrow> PairingUsed
      | PairLocked \<Rightarrow> PairingLocked
      | PairUnavailable \<Rightarrow> RelayUnavailable
      | PairProtocol \<Rightarrow> RelayProtocol
      | PairCancelled \<Rightarrow> RelayCancelled)"
| "safe_error_code (ClientTransport e) = transport_safe_error_code e"

section \<open>The manager\<close>

text \<open>The store is given by its operations on a state, as in the locale \<open>credential_store\<close>; a
  transport answers a request.\<close>

definition accept_pairing ::
  "('s \<Rightarrow> string \<Rightarrow> string \<Rightarrow> 's \<times> (unit, credential_store_error) result)
     \<Rightarrow> 's \<Rightarrow> string \<Rightarrow> string \<Rightarrow> pairing_response
     \<Rightarrow> 's \<times> (pairing_receipt, relay_client_error) result"
where
  "accept_pairing store s account expected_device response =
     (if response_device_id response \<noteq> expected_device then (s, Err PairingDeviceMismatch)
      else
        (case store s account (response_device_credential response) of
           (s', Inl e) \<Rightarrow> (s', Err (ClientCredentialStore e))
         | (s', Inr _) \<Rightarrow>
             (s', Ok \<lparr>receipt_account_id = account,
                      receipt_device_id = response_device_id response\<rparr>)))"

definition manager_pair ::
  "('s \<Rightarrow> string \<Rightarrow> string \<Rightarrow> 's \<times> (unit, credential_store_error) result)
     \<Rightarrow> (string \<Rightarrow> string \<Rightarrow> (pairing_response, pairing_transport_error) result)
     \<Rightarrow> 's \<Rightarrow> string \<Rightarrow> string \<Rightarrow> string
     \<Rightarrow> 's \<times> (pairing_receipt, relay_client_error) result"
where
  "manager_pair store exchange s account device code =
     (case exchange device code of
        Inl e \<Rightarrow> (s, Err (ClientPairingTransport e))
      | Inr response \<Rightarrow> accept_pairing store s account device response)"

definition manager_connect ::
  "('s \<Rightarrow> string \<Rightarrow> (string option, credential_store_error) result)
     \<Rightarrow> (string \<Rightarrow> string \<Rightarrow> string \<Rightarrow> ('c, relay_transport_error) result)
     \<Rightarrow> 's \<Rightarrow> string \<Rightarrow> string \<Rightarrow> ('c, relay_client_error) result"
where
  "manager_connect load transport s account device =
     (case load s account of
        Inl e \<Rightarrow> Err (ClientCredentialStore e)
      | Inr None \<Rightarrow> Err CredentialNotStored
      | Inr (Some credential) \<Rightarrow> map_err ClientTransport (transport account device credential))"

definition manager_delete_credential ::
  "('s \<Rightarrow> string \<Rightarrow> 's \<times> (bool, credential_store_error) result) \<Rightarrow> 's \<Rightarrow> string
     \<Rightarrow> 's \<times> (bool, relay_client_error) result"
where
  "manager_delete_credential delete s account =
     (case delete s account of (s', r) \<Rightarrow> (s', map_err ClientCredentialStore r))"

section \<open>The service\<close>

datatype relay_connection_phase = PhaseOffline | PhaseConnecting | PhaseConnected | PhaseError

record account_state =
  account_phase :: relay_connection_phase
  account_error :: "relay_connection_error_code option"

type_synonym connection_states = "string \<Rightarrow> account_state option"

definition default_account_state :: account_state where
  "default_account_state = \<lparr>account_phase = PhaseOffline, account_error = None\<rparr>"

text \<open>\<open>states.entry(account).or\_default()\<close>.\<close>

definition account_entry :: "connection_states \<Rightarrow> string \<Rightarrow> account_state" where
  "account_entry states account =
     (case states account of None \<Rightarrow> default_account_state | Some s \<Rightarrow> s)"

record relay_connection_status =
  status_account_id :: string
  status_phase :: relay_connection_phase
  status_credential_stored :: bool
  status_last_error :: "relay_connection_error_code option"

datatype relay_service_error = ServiceAlreadyActive | ServiceClient relay_client_error

definition service_safe_error_code :: "relay_service_error \<Rightarrow> relay_connection_error_code" where
  "service_safe_error_code e =
     (case e of ServiceAlreadyActive \<Rightarrow> RelayAlreadyActive | ServiceClient e \<Rightarrow> safe_error_code e)"

text \<open>\<open>status\<close>, given what the store said about the credential.\<close>

definition service_status ::
  "connection_states \<Rightarrow> string \<Rightarrow> (bool, credential_store_error) result
     \<Rightarrow> connection_states \<times> relay_connection_status"
where
  "service_status states account credential_result =
     (let state = account_entry states account;
          (state', stored) =
            (case credential_result of
               Inr stored \<Rightarrow> (state, stored)
             | Inl e \<Rightarrow>
                 (\<lparr>account_phase = PhaseError,
                   account_error = Some (safe_error_code (ClientCredentialStore e))\<rparr>, False)) in
      (states(account \<mapsto> state'),
       \<lparr>status_account_id = account, status_phase = account_phase state',
        status_credential_stored = stored, status_last_error = account_error state'\<rparr>))"

text \<open>\<open>connect\<close> holds the lock twice: before the transport is called, and after it.\<close>

definition connect_enter ::
  "connection_states \<Rightarrow> string \<Rightarrow> connection_states \<times> (unit, relay_service_error) result"
where
  "connect_enter states account =
     (let state = account_entry states account in
      if account_phase state \<in> {PhaseConnecting, PhaseConnected}
      then (states(account \<mapsto> state), Err ServiceAlreadyActive)
      else (states(account \<mapsto> \<lparr>account_phase = PhaseConnecting, account_error = None\<rparr>), Ok ()))"

definition connect_leave ::
  "connection_states \<Rightarrow> string \<Rightarrow> ('c, relay_client_error) result
     \<Rightarrow> connection_states \<times> ('c, relay_service_error) result"
where
  "connect_leave states account r =
     (case r of
        Inr connection \<Rightarrow>
          (states(account \<mapsto> \<lparr>account_phase = PhaseConnected, account_error = None\<rparr>), Ok connection)
      | Inl e \<Rightarrow>
          (states(account \<mapsto> \<lparr>account_phase = PhaseError, account_error = Some (safe_error_code e)\<rparr>),
           Err (ServiceClient e)))"

definition service_connect ::
  "('s \<Rightarrow> string \<Rightarrow> (string option, credential_store_error) result)
     \<Rightarrow> (string \<Rightarrow> string \<Rightarrow> string \<Rightarrow> ('c, relay_transport_error) result)
     \<Rightarrow> 's \<Rightarrow> connection_states \<Rightarrow> string \<Rightarrow> string
     \<Rightarrow> connection_states \<times> ('c, relay_service_error) result"
where
  "service_connect load transport s states account device =
     (case connect_enter states account of
        (states', Inl e) \<Rightarrow> (states', Err e)
      | (states', Inr _) \<Rightarrow>
          connect_leave states' account (manager_connect load transport s account device))"

text \<open>\<open>ManagedRelayConnection::drop\<close>.\<close>

definition connection_drop :: "connection_states \<Rightarrow> string \<Rightarrow> connection_states" where
  "connection_drop states account = states(account \<mapsto> default_account_state)"

section \<open>A paired device connects with its credential\<close>

context credential_store
begin

lemma paired_credential_is_sent:
  assumes "manager_pair store exchange s account device code = (s', Ok receipt)"
    and "exchange device code = Ok response" "secret_bytes_new (response_device_credential response) = Ok c"
    and "load s' account = Ok x"
  shows "manager_connect load transport s' account device =
      map_err ClientTransport (transport account device c)
    \<and> receipt = \<lparr>receipt_account_id = account, receipt_device_id = device\<rparr>"
proof -
  have c: "response_device_credential response = c"
    using assms(3) by (simp add: secret_bytes_new_iff)
  then have "store s account c = (s', Ok ())" and
    receipt: "receipt = \<lparr>receipt_account_id = account, receipt_device_id = device\<rparr>"
    using assms(1,2) by (auto simp: manager_pair_def accept_pairing_def split: if_splits prod.splits sum.splits)
  then have "x = Some c"
    using load_stored assms(3,4) c by simp
  then show ?thesis
    using assms(4) receipt by (simp add: manager_connect_def)
qed

lemma failed_pairing_keeps:
  assumes "manager_pair store exchange s account device code = (s', Err e)"
  shows "s' = s"
  using assms
  by (auto simp: manager_pair_def accept_pairing_def dest: store_failed
      split: if_splits prod.splits sum.splits)

lemma deleted_credential_is_not_sent:
  assumes "manager_delete_credential delete s account = (s', Ok b)" "load s' account = Ok x"
  shows "manager_connect load transport s' account device = Err CredentialNotStored"
  using assms
  by (auto simp: manager_delete_credential_def manager_connect_def dest: load_deleted
      split: prod.splits)

end

end
