(* ===== verification/Relay_Claims.thy ===== *)
theory Relay_Claims
  imports Relay_Client
begin

text \<open>
  What the relay client promises: a paired device connects with the credential of its pairing, and
  the service has at most one connection per account, however its callers interleave, as long as no
  status query meets a failing credential store.
\<close>

section \<open>Pairing over the platform store\<close>

context credential_vault
begin

text \<open>What was stored is loaded again, or the vault reports why it cannot be read.\<close>

lemma platform_stored_loads:
  assumes "platform_store cred_write v i c = (v', Ok ())" "secret_bytes_new c = Ok c"
  shows "platform_load cred_read not_found v' i =
    (case cred_read v' (target_name i) of
       Inl code \<Rightarrow> Err (PlatformError ''read'' code) | Inr blob \<Rightarrow> Ok (Some c))"
proof -
  have stored: "entries v' (target_name i) = Some c"
    using platform_store_entries [of v i c] assms(1) by simp
  show ?thesis
  proof (cases "cred_read v' (target_name i)")
    case (Inl code)
    moreover have "code \<noteq> not_found"
      using Inl stored read_missing [of v' "target_name i"] by auto
    ultimately show ?thesis
      by (simp add: platform_load_def)
  next
    case (Inr blob)
    then have "blob = c"
      using stored read_ok [OF Inr] by simp
    then show ?thesis
      using Inr assms(2) by (auto simp: platform_load_def secret_bytes_new_def split: if_splits)
  qed
qed

lemma platform_paired:
  assumes "manager_pair (platform_store cred_write) exchange v account device code = (v', Ok receipt)"
    and "exchange device code = Ok response" "secret_bytes_new (response_device_credential response) = Ok c"
  shows "manager_connect (platform_load cred_read not_found) transport v' account device =
      (case cred_read v' (target_name account) of
         Inl code \<Rightarrow> Err (ClientCredentialStore (PlatformError ''read'' code))
       | Inr blob \<Rightarrow> map_err ClientTransport (transport account device c))
    \<and> receipt = \<lparr>receipt_account_id = account, receipt_device_id = device\<rparr>"
proof -
  have c: "response_device_credential response = c" "secret_bytes_new c = Ok c"
    using assms(3) by (auto simp: secret_bytes_new_iff)
  have "platform_store cred_write v account c = (v', Ok ())"
    and receipt: "receipt = \<lparr>receipt_account_id = account, receipt_device_id = device\<rparr>"
    using assms(1,2) c by (auto simp: manager_pair_def accept_pairing_def split: if_splits prod.splits sum.splits)
  from platform_stored_loads [OF this(1) c(2)] show ?thesis
    using receipt by (simp add: manager_connect_def split: sum.split)
qed

lemma platform_deleted:
  assumes "manager_delete_credential (platform_delete cred_delete not_found) v account = (v', Ok b)"
    and "platform_load cred_read not_found v' account = Ok x"
  shows "manager_connect (platform_load cred_read not_found) transport v' account device =
    Err CredentialNotStored"
  by (rule platform.deleted_credential_is_not_sent [OF assms])

end

text \<open>C31: A device that was paired connects with its own credential: over any credential vault
  with the documented behaviour, after a pairing that succeeded, connecting hands the transport
  exactly the credential of the pairing response; where the operating system refuses to read the
  vault, that error is reported, and never that the device has no credential or a wrong one.\<close>

theorem paired_device_connects_with_its_credential:
  assumes "credential_vault entries cred_write cred_read cred_delete not_found"
    and "manager_pair (platform_store cred_write) exchange v account device code = (v', Ok receipt)"
    and "exchange device code = Ok response"
    and "pairing_response_new device credential = Ok response"
  shows "manager_connect (platform_load cred_read not_found) transport v' account device =
      (case cred_read v' (target_name account) of
         Inl code \<Rightarrow> Err (ClientCredentialStore (PlatformError ''read'' code))
       | Inr blob \<Rightarrow> map_err ClientTransport (transport account device credential))
    \<and> receipt = \<lparr>receipt_account_id = account, receipt_device_id = device\<rparr>"
proof -
  have "secret_bytes_new (response_device_credential response) = Ok credential"
    using assms(4) by (auto simp: pairing_response_new_def secret_bytes_new_def split: if_splits)
  then show ?thesis
    using credential_vault.platform_paired [OF assms(1-3)] by blast
qed

definition example_response :: pairing_response where
  "example_response = \<lparr>response_device_id = ''device-1'', response_device_credential = ''secret''\<rparr>"

theorem paired_device_connects_with_its_credential_witness:
  "manager_connect (platform_load map_read 1168) (\<lambda>account device c. Ok (account, device, c))
     [target_name ''me'' \<mapsto> ''secret''] ''me'' ''device-1'' =
   Ok (''me'', ''device-1'', ''secret'')"
proof -
  have "manager_pair (platform_store map_write) (\<lambda>_ _. Ok example_response) Map.empty ''me'' ''device-1''
      ''AAAA-2222'' = ([target_name ''me'' \<mapsto> ''secret''],
        Ok \<lparr>receipt_account_id = ''me'', receipt_device_id = ''device-1''\<rparr>)"
    by (simp add: manager_pair_def accept_pairing_def platform_store_def map_write_def
        example_response_def)
  moreover have "pairing_response_new ''device-1'' ''secret'' = Ok example_response"
    by (simp add: pairing_response_new_def secret_bytes_new_def MAXIMUM_SECRET_BYTES_def
        example_response_def)
  moreover have "map_read [target_name ''me'' \<mapsto> ''secret''] (target_name ''me'') = Ok ''secret''"
    by (simp add: map_read_def)
  ultimately show ?thesis
    using paired_device_connects_with_its_credential [OF map_vault.credential_vault_axioms,
        where transport = "\<lambda>account device c. Ok (account, device, c)"] by fastforce
qed

section \<open>One connection per account\<close>

text \<open>The connection states, the calls of \<open>connect\<close> between their two critical sections, and the
  connections that have not been dropped, all with their accounts. \<open>fails\<close>: a status query may
  meet an error of the credential store.\<close>

record service_system =
  sys_states :: connection_states
  sys_connecting :: "string multiset"
  sys_live :: "string multiset"

inductive service_reach :: "bool \<Rightarrow> service_system \<Rightarrow> bool" for fails where
  start: "service_reach fails \<lparr>sys_states = Map.empty, sys_connecting = {#}, sys_live = {#}\<rparr>"
| enter: "service_reach fails s \<Longrightarrow> connect_enter (sys_states s) a = (st, r) \<Longrightarrow>
     service_reach fails (s\<lparr>sys_states := st,
       sys_connecting := (if is_ok r then add_mset a (sys_connecting s) else sys_connecting s)\<rparr>)"
| leave: "service_reach fails s \<Longrightarrow> a \<in># sys_connecting s \<Longrightarrow>
     connect_leave (sys_states s) a (c :: (unit, relay_client_error) result) = (st, r) \<Longrightarrow>
     service_reach fails (s\<lparr>sys_states := st, sys_connecting := sys_connecting s - {#a#},
       sys_live := (if is_ok r then add_mset a (sys_live s) else sys_live s)\<rparr>)"
| drop: "service_reach fails s \<Longrightarrow> a \<in># sys_live s \<Longrightarrow>
     service_reach fails (s\<lparr>sys_states := connection_drop (sys_states s) a,
       sys_live := sys_live s - {#a#}\<rparr>)"
| status: "service_reach fails s \<Longrightarrow> is_ok stored \<or> fails \<Longrightarrow>
     service_reach fails (s\<lparr>sys_states := fst (service_status (sys_states s) a stored)\<rparr>)"

definition service_phase :: "service_system \<Rightarrow> string \<Rightarrow> relay_connection_phase" where
  "service_phase s a = account_phase (account_entry (sys_states s) a)"

lemma account_entry_upd [simp]:
  "account_entry (st(a \<mapsto> x)) b = (if b = a then x else account_entry st b)"
  by (simp add: account_entry_def)

definition service_inv :: "service_system \<Rightarrow> bool" where
  "service_inv s \<longleftrightarrow> (\<forall>a.
     count (sys_connecting s) a = (if service_phase s a = PhaseConnecting then 1 else 0)
     \<and> count (sys_live s) a = (if service_phase s a = PhaseConnected then 1 else 0))"

lemma service_reach_inv: "service_reach False s \<Longrightarrow> service_inv s"
proof (induction rule: service_reach.induct)
  case start
  then show ?case
    by (simp add: service_inv_def service_phase_def account_entry_def default_account_state_def)
next
  case (enter s a st r)
  then show ?case
    by (auto simp: service_inv_def service_phase_def connect_enter_def Let_def split: if_splits)
next
  case (leave s a c st r)
  have "service_phase s a = PhaseConnecting"
    using leave.IH leave.hyps(2) by (metis service_inv_def count_eq_zero_iff)
  then have a: "account_phase (account_entry (sys_states s) a) = PhaseConnecting"
    by (simp add: service_phase_def)
  let ?s = "s\<lparr>sys_states := st, sys_connecting := sys_connecting s - {#a#},
    sys_live := (if is_ok r then add_mset a (sys_live s) else sys_live s)\<rparr>"
  show ?case
    unfolding service_inv_def
  proof
    fix b
    have "count (sys_connecting s) b = (if service_phase s b = PhaseConnecting then 1 else 0)"
      "count (sys_live s) b = (if service_phase s b = PhaseConnected then 1 else 0)"
      using leave.IH by (simp_all add: service_inv_def)
    then show "count (sys_connecting ?s) b = (if service_phase ?s b = PhaseConnecting then 1 else 0)
      \<and> count (sys_live ?s) b = (if service_phase ?s b = PhaseConnected then 1 else 0)"
      using leave.hyps(3) a
      by (cases c; cases "b = a") (auto simp: service_phase_def connect_leave_def)
  qed
next
  case (drop s a)
  have "service_phase s a = PhaseConnected"
    using drop.IH drop.hyps(2) by (metis service_inv_def count_eq_zero_iff)
  with drop show ?case
    by (auto simp: service_inv_def service_phase_def connection_drop_def default_account_state_def)
next
  case (status s stored a)
  then show ?case
    by (cases stored) (auto simp: service_inv_def service_phase_def service_status_def Let_def)
qed

text \<open>C30: The relay service holds at most one connection, or one attempt to connect, per account,
  however calls of connect, status and dropped connections interleave at their critical sections,
  and the phase it reports says which; provided that no status query meets a failing store.\<close>

theorem service_one_connection_per_account:
  assumes "service_reach False s"
  shows "count (sys_connecting s) a + count (sys_live s) a \<le> 1
    \<and> (a \<in># sys_connecting s \<longleftrightarrow> service_phase s a = PhaseConnecting)
    \<and> (a \<in># sys_live s \<longleftrightarrow> service_phase s a = PhaseConnected)"
proof -
  have "count (sys_connecting s) a = (if service_phase s a = PhaseConnecting then 1 else 0)"
    "count (sys_live s) a = (if service_phase s a = PhaseConnected then 1 else 0)"
    using service_reach_inv [OF assms] by (simp_all add: service_inv_def)
  moreover from this have "a \<in># sys_connecting s \<longleftrightarrow> service_phase s a = PhaseConnecting"
    "a \<in># sys_live s \<longleftrightarrow> service_phase s a = PhaseConnected"
    by (metis count_eq_zero_iff zero_neq_one)+
  ultimately show ?thesis by simp
qed

definition connected_once :: service_system where
  "connected_once = \<lparr>sys_states = [''me'' \<mapsto> \<lparr>account_phase = PhaseConnected, account_error = None\<rparr>],
     sys_connecting = {#}, sys_live = {#''me''#}\<rparr>"

lemma connected_once_reached: "service_reach fails connected_once"
proof -
  have "service_reach fails \<lparr>sys_states = [''me'' \<mapsto> \<lparr>account_phase = PhaseConnecting, account_error = None\<rparr>],
      sys_connecting = {#''me''#}, sys_live = {#}\<rparr>"
    using service_reach.enter [OF service_reach.start, where a = "''me''"]
    by (simp add: connect_enter_def account_entry_def default_account_state_def)
  from service_reach.leave [OF this, where a = "''me''" and c = "Ok ()"] show ?thesis
    by (simp add: connect_leave_def connected_once_def)
qed

theorem service_one_connection_per_account_witness:
  "count (sys_connecting connected_once) ''me'' + count (sys_live connected_once) ''me'' \<le> 1"
  using service_one_connection_per_account [OF connected_once_reached, of "''me''"] by simp

text \<open>Without that proviso the service may hold two connections: a status query whose credential check fails marks a
  connected account as failed, and the next connect is let through.\<close>

theorem service_status_failure_admits_a_second_connection:
  "\<exists>s. service_reach True s \<and> count (sys_live s) ''me'' = 2"
proof -
  let ?error = "\<lparr>account_phase = PhaseError, account_error = Some SecureStorageFailed\<rparr>"
  have "service_reach True (connected_once\<lparr>sys_states := [''me'' \<mapsto> ?error]\<rparr>)"
    using service_reach.status [OF connected_once_reached,
        where stored = "Err (PlatformError ''read'' 5)" and a = "''me''"]
    by (simp add: service_status_def connected_once_def)
  from service_reach.enter [OF this, where a = "''me''"]
  have "service_reach True (connected_once\<lparr>sys_states := [''me'' \<mapsto> \<lparr>account_phase = PhaseConnecting,
      account_error = None\<rparr>], sys_connecting := {#''me''#}\<rparr>)"
    by (simp add: connect_enter_def account_entry_def connected_once_def)
  from service_reach.leave [OF this, where a = "''me''" and c = "Ok ()"]
  have "service_reach True (connected_once\<lparr>sys_live := {#''me'', ''me''#}\<rparr>)"
    by (simp add: connect_leave_def connected_once_def)
  then show ?thesis
    by (intro exI [of _ "connected_once\<lparr>sys_live := {#''me'', ''me''#}\<rparr>"]) (simp add: numeral_eq_Suc)
qed

end
