(* ===== verification/Relay_Lifecycle.thy ===== *)
theory Relay_Lifecycle
  imports Relay_Client
begin

text \<open>
  The state machine of one relay account (\<open>crates/moe-relay-client/src/lifecycle.rs\<close>): its phases,
  the action each transition asks of its owner, and the bounded retries.
\<close>

definition RELAY_RETRY_DELAYS_MS :: "u64 list" where
  "RELAY_RETRY_DELAYS_MS = [1000, 2000, 5000, 10000, 30000]"

datatype relay_runtime_phase =
  Offline | Connecting | Connected | RetryWaiting | Stopping | RuntimeError

datatype relay_lifecycle_action =
  NoAction | StartConnection | CloseConnection | CancelRetry | ScheduleRetry u64

datatype relay_lifecycle_error = AlreadyActive | InvalidTransition

record relay_runtime_status =
  phase :: relay_runtime_phase
  retry_attempt :: u8
  next_retry_delay_ms :: "u64 option"
  last_error_code :: "relay_connection_error_code option"

type_synonym relay_lifecycle = relay_runtime_status

definition lifecycle_new :: relay_lifecycle where
  "lifecycle_new = \<lparr>phase = Offline, retry_attempt = 0, next_retry_delay_ms = None,
     last_error_code = None\<rparr>"

definition is_retryable_connection_error :: "relay_connection_error_code \<Rightarrow> bool" where
  "is_retryable_connection_error e \<longleftrightarrow> e \<in> {RelayUnavailable, RelayProtocol}"

definition lifecycle_start ::
  "relay_lifecycle \<Rightarrow> relay_lifecycle \<times> (relay_lifecycle_action, relay_lifecycle_error) result"
where
  "lifecycle_start l =
     (case phase l of
        Offline \<Rightarrow> (lifecycle_new\<lparr>phase := Connecting\<rparr>, Ok StartConnection)
      | RuntimeError \<Rightarrow> (lifecycle_new\<lparr>phase := Connecting\<rparr>, Ok StartConnection)
      | _ \<Rightarrow> (l, Err AlreadyActive))"

definition lifecycle_connected ::
  "relay_lifecycle \<Rightarrow> relay_lifecycle \<times> (unit, relay_lifecycle_error) result"
where
  "lifecycle_connected l =
     (if phase l \<noteq> Connecting then (l, Err InvalidTransition)
      else (lifecycle_new\<lparr>phase := Connected\<rparr>, Ok ()))"

text \<open>\<open>RELAY\_RETRY\_DELAYS\_MS.get(self.status.retry\_attempt as usize)\<close>; the addition is on \<open>u8\<close>.\<close>

definition after_connection_loss ::
  "relay_lifecycle \<Rightarrow> relay_connection_error_code \<Rightarrow> relay_lifecycle \<times> relay_lifecycle_action"
where
  "after_connection_loss l0 error_code =
     (let l = l0\<lparr>last_error_code := Some error_code, next_retry_delay_ms := None\<rparr>;
          i = unat (retry_attempt l) in
      if is_retryable_connection_error error_code \<and> i < length RELAY_RETRY_DELAYS_MS
      then (l\<lparr>phase := RetryWaiting, retry_attempt := retry_attempt l + 1,
              next_retry_delay_ms := Some (RELAY_RETRY_DELAYS_MS ! i)\<rparr>,
            ScheduleRetry (RELAY_RETRY_DELAYS_MS ! i))
      else (l\<lparr>phase := RuntimeError\<rparr>, NoAction))"

definition connection_failed ::
  "relay_lifecycle \<Rightarrow> relay_connection_error_code
     \<Rightarrow> relay_lifecycle \<times> (relay_lifecycle_action, relay_lifecycle_error) result"
where
  "connection_failed l error_code =
     (if phase l \<noteq> Connecting then (l, Err InvalidTransition)
      else (case after_connection_loss l error_code of (l', action) \<Rightarrow> (l', Ok action)))"

definition unexpected_disconnect ::
  "relay_lifecycle \<Rightarrow> relay_connection_error_code
     \<Rightarrow> relay_lifecycle \<times> (relay_lifecycle_action, relay_lifecycle_error) result"
where
  "unexpected_disconnect l error_code =
     (if phase l \<noteq> Connected then (l, Err InvalidTransition)
      else (case after_connection_loss l error_code of (l', action) \<Rightarrow> (l', Ok action)))"

definition retry_elapsed ::
  "relay_lifecycle \<Rightarrow> relay_lifecycle \<times> (relay_lifecycle_action, relay_lifecycle_error) result"
where
  "retry_elapsed l =
     (if phase l \<noteq> RetryWaiting then (l, Err InvalidTransition)
      else (l\<lparr>phase := Connecting, next_retry_delay_ms := None\<rparr>, Ok StartConnection))"

definition lifecycle_stop :: "relay_lifecycle \<Rightarrow> relay_lifecycle \<times> relay_lifecycle_action" where
  "lifecycle_stop l =
     (case phase l of
        Offline \<Rightarrow> (lifecycle_new, NoAction)
      | Connecting \<Rightarrow> (l\<lparr>phase := Stopping, next_retry_delay_ms := None\<rparr>, CloseConnection)
      | Connected \<Rightarrow> (l\<lparr>phase := Stopping, next_retry_delay_ms := None\<rparr>, CloseConnection)
      | RetryWaiting \<Rightarrow> (lifecycle_new, CancelRetry)
      | Stopping \<Rightarrow> (l, NoAction)
      | RuntimeError \<Rightarrow> (lifecycle_new, NoAction))"

definition lifecycle_stopped ::
  "relay_lifecycle \<Rightarrow> relay_lifecycle \<times> (unit, relay_lifecycle_error) result"
where
  "lifecycle_stopped l =
     (if phase l \<noteq> Stopping then (l, Err InvalidTransition) else (lifecycle_new, Ok ()))"

definition runtime_failed :: "relay_lifecycle \<Rightarrow> relay_lifecycle" where
  "runtime_failed l = l\<lparr>phase := RuntimeError, next_retry_delay_ms := None,
     last_error_code := Some RuntimeUnavailable\<rparr>"

section \<open>Invariant\<close>

text \<open>The attempt counter stays within the delays, a delay is pending exactly while waiting, and it
  is the delay of the attempt.\<close>

definition lifecycle_ok :: "relay_lifecycle \<Rightarrow> bool" where
  "lifecycle_ok l \<longleftrightarrow> retry_attempt l \<le> 5
     \<and> next_retry_delay_ms l =
         (if phase l = RetryWaiting then Some (RELAY_RETRY_DELAYS_MS ! (unat (retry_attempt l) - 1)) else None)
     \<and> (phase l = RetryWaiting \<longrightarrow> 1 \<le> retry_attempt l)
     \<and> (phase l \<in> {Offline, Connected} \<longrightarrow> l = lifecycle_new\<lparr>phase := phase l\<rparr>)"

datatype lifecycle_event =
  EvStart | EvConnected | EvFailed relay_connection_error_code
| EvDisconnected relay_connection_error_code | EvRetryElapsed | EvStop | EvStopped | EvRuntimeFailed

definition result_action :: "(relay_lifecycle_action, 'e) result \<Rightarrow> relay_lifecycle_action" where
  "result_action r = (case r of Inl _ \<Rightarrow> NoAction | Inr a \<Rightarrow> a)"

fun lifecycle_step :: "relay_lifecycle \<Rightarrow> lifecycle_event \<Rightarrow> relay_lifecycle \<times> relay_lifecycle_action" where
  "lifecycle_step l EvStart = map_prod id result_action (lifecycle_start l)"
| "lifecycle_step l EvConnected = (fst (lifecycle_connected l), NoAction)"
| "lifecycle_step l (EvFailed e) = map_prod id result_action (connection_failed l e)"
| "lifecycle_step l (EvDisconnected e) = map_prod id result_action (unexpected_disconnect l e)"
| "lifecycle_step l EvRetryElapsed = map_prod id result_action (retry_elapsed l)"
| "lifecycle_step l EvStop = lifecycle_stop l"
| "lifecycle_step l EvStopped = (fst (lifecycle_stopped l), NoAction)"
| "lifecycle_step l EvRuntimeFailed = (runtime_failed l, NoAction)"

lemmas lifecycle_defs = lifecycle_start_def lifecycle_connected_def connection_failed_def
  unexpected_disconnect_def retry_elapsed_def lifecycle_stop_def lifecycle_stopped_def
  runtime_failed_def after_connection_loss_def lifecycle_new_def result_action_def Let_def

lemma delays_length [simp]: "length RELAY_RETRY_DELAYS_MS = 5"
  by (simp add: RELAY_RETRY_DELAYS_MS_def)

lemma attempt_Suc:
  assumes "unat (a :: u8) < 5"
  shows "a + 1 \<le> 5" "unat (a + 1) = Suc (unat a)" "1 \<le> a + 1"
proof -
  show "unat (a + 1) = Suc (unat a)"
    using assms by (simp add: unat_word_ariths)
  then show "a + 1 \<le> 5" "1 \<le> a + 1"
    using assms by (simp_all add: word_le_nat_alt)
qed

lemma lifecycle_new_ok [simp]: "lifecycle_ok lifecycle_new"
  by (simp add: lifecycle_ok_def lifecycle_new_def)

lemma lifecycle_step_ok: "lifecycle_ok l \<Longrightarrow> lifecycle_ok (fst (lifecycle_step l e))"
  by (cases e)
    (auto simp: lifecycle_ok_def lifecycle_defs attempt_Suc split: relay_runtime_phase.split if_splits)


text \<open>The delays scheduled in the course of a run.\<close>

fun scheduled :: "relay_lifecycle \<Rightarrow> lifecycle_event list \<Rightarrow> u64 list" where
  "scheduled l [] = []"
| "scheduled l (e # es) =
     (case lifecycle_step l e of
        (l', ScheduleRetry d) \<Rightarrow> d # scheduled l' es
      | (l', _) \<Rightarrow> scheduled l' es)"

lemma step_scheduled:
  assumes "lifecycle_ok l" "e \<notin> {EvStart, EvConnected, EvStop, EvStopped}" "lifecycle_step l e = (l', a)"
  shows "(\<exists>d. a = ScheduleRetry d \<and> unat (retry_attempt l) < 5
      \<and> d = RELAY_RETRY_DELAYS_MS ! unat (retry_attempt l)
      \<and> unat (retry_attempt l') = Suc (unat (retry_attempt l)))
    \<or> (\<forall>d. a \<noteq> ScheduleRetry d) \<and> retry_attempt l' = retry_attempt l"
  using assms by (cases e) (auto simp: lifecycle_defs attempt_Suc split: if_splits)

text \<open>Retries are bounded: as long as the connection is neither established nor stopped or
  started again, whatever fails and however often, the delays that are scheduled are, in order, the
  configured delays that are left, so that after the fifth there is no retry any more.\<close>

theorem relay_retries_follow_the_delays:
  assumes "lifecycle_ok l" "\<forall>e \<in> set es. e \<notin> {EvStart, EvConnected, EvStop, EvStopped}"
  shows "\<exists>k. scheduled l es = take k (drop (unat (retry_attempt l)) RELAY_RETRY_DELAYS_MS)"
  using assms
proof (induction es arbitrary: l)
  case Nil
  show ?case by (intro exI [of _ 0]) simp
next
  case (Cons e es)
  obtain l' a where step: "lifecycle_step l e = (l', a)" by fastforce
  have e: "e \<notin> {EvStart, EvConnected, EvStop, EvStopped}" using Cons.prems(2) by simp
  have "lifecycle_ok l'"
    using lifecycle_step_ok [OF Cons.prems(1), of e] step by simp
  then obtain k where k: "scheduled l' es = take k (drop (unat (retry_attempt l')) RELAY_RETRY_DELAYS_MS)"
    using Cons.IH [of l'] Cons.prems(2) by auto
  from step_scheduled [OF Cons.prems(1) e step] show ?case
  proof (elim disjE exE conjE)
    fix d assume a: "a = ScheduleRetry d" "unat (retry_attempt l) < 5"
      "d = RELAY_RETRY_DELAYS_MS ! unat (retry_attempt l)"
      "unat (retry_attempt l') = Suc (unat (retry_attempt l))"
    then have "scheduled l (e # es) = take (Suc k) (drop (unat (retry_attempt l)) RELAY_RETRY_DELAYS_MS)"
      using step k Cons_nth_drop_Suc [of "unat (retry_attempt l)" RELAY_RETRY_DELAYS_MS]
      by (simp flip: take_Suc_Cons)
    then show ?case by blast
  next
    assume "\<forall>d. a \<noteq> ScheduleRetry d" "retry_attempt l' = retry_attempt l"
    then have "scheduled l (e # es) = take k (drop (unat (retry_attempt l)) RELAY_RETRY_DELAYS_MS)"
      using step k by (cases a) simp_all
    then show ?case by blast
  qed
qed

theorem relay_retries_follow_the_delays_witness:
  "\<exists>k. scheduled (lifecycle_new\<lparr>phase := Connecting\<rparr>)
      [EvFailed RelayUnavailable, EvRetryElapsed, EvFailed RelayProtocol, EvRetryElapsed, EvFailed RelayRejected]
    = take k RELAY_RETRY_DELAYS_MS"
  using relay_retries_follow_the_delays [of "lifecycle_new\<lparr>phase := Connecting\<rparr>"
      "[EvFailed RelayUnavailable, EvRetryElapsed, EvFailed RelayProtocol, EvRetryElapsed, EvFailed RelayRejected]"]
  by (simp add: lifecycle_ok_def lifecycle_new_def)

end
