(* ===== verification/Relay_Runtime.thy ===== *)
theory Relay_Runtime
  imports Relay_Lifecycle
begin

text \<open>
  The desktop's relay runtime (\<open>apps/desktop/src-tauri/src/relay\_runtime.rs\<close>): an executor that
  owns at most one worker thread per account, a channel of the events the workers send, and the
  orchestrator that drives one lifecycle per account. Every function here is one critical section.
  A worker is what its thread can still send; dropping a task cancels its worker and waits for it,
  so only the workers of owned tasks send. The connection task and its factory are opaque.
\<close>

section \<open>Cancellation\<close>

text \<open>\<open>DesktopRelayCancellation\<close>: the hooks that a call runs are its result.\<close>

record 'h relay_cancellation =
  is_cancelled :: bool
  cancel_hooks :: "'h list"

definition cancellation_new :: "'h relay_cancellation" where
  "cancellation_new = \<lparr>is_cancelled = False, cancel_hooks = []\<rparr>"

definition on_cancel :: "'h \<Rightarrow> 'h relay_cancellation \<Rightarrow> 'h relay_cancellation \<times> 'h list" where
  "on_cancel hook c =
     (if is_cancelled c then (c, [hook]) else (c\<lparr>cancel_hooks := cancel_hooks c @ [hook]\<rparr>, []))"

definition cancel :: "'h relay_cancellation \<Rightarrow> 'h relay_cancellation \<times> 'h list" where
  "cancel c =
     (if is_cancelled c then (c, [])
      else (c\<lparr>is_cancelled := True, cancel_hooks := []\<rparr>, cancel_hooks c))"

section \<open>Tasks\<close>

datatype relay_runtime_error =
  TaskAlreadyActive | WorkerUnavailable | ConnectionTaskRequired | UnexpectedConnectionTask

datatype runtime_event_kind =
  KindConnected
| KindConnectionFailed relay_connection_error_code
| KindUnexpectedDisconnect relay_connection_error_code
| KindRetryElapsed

record runtime_event =
  event_account :: string
  event_generation :: u64
  event_kind :: runtime_event_kind

definition is_terminal :: "runtime_event \<Rightarrow> bool" where
  "is_terminal e \<longleftrightarrow> event_kind e \<noteq> KindConnected"

text \<open>A connection worker knows whether it has reported \<open>connected\<close>; a retry worker waits for its
  delay. A worker that has \<open>ended\<close> has sent its last event.\<close>

datatype task_worker = ConnectionWorker bool | RetryWorker u64

record owned_task =
  task_generation :: u64
  task_worker :: task_worker
  task_ended :: bool

type_synonym owned_tasks = "string \<Rightarrow> owned_task option"

definition insert_with ::
  "owned_tasks \<Rightarrow> string \<Rightarrow> u64 \<Rightarrow> (task_worker, relay_runtime_error) result
     \<Rightarrow> owned_tasks \<times> (unit, relay_runtime_error) result"
where
  "insert_with tasks account generation create =
     (if tasks account \<noteq> None then (tasks, Err TaskAlreadyActive)
      else
        (case create of
           Inl e \<Rightarrow> (tasks, Err e)
         | Inr worker \<Rightarrow>
             (tasks(account \<mapsto> \<lparr>task_generation = generation, task_worker = worker,
                               task_ended = False\<rparr>), Ok ())))"

definition stop_by_name :: "owned_tasks \<Rightarrow> string \<Rightarrow> owned_tasks \<times> bool" where
  "stop_by_name tasks account = (tasks(account := None), tasks account \<noteq> None)"

definition is_current :: "owned_tasks \<Rightarrow> string \<Rightarrow> u64 \<Rightarrow> bool" where
  "is_current tasks account generation \<longleftrightarrow>
     is_some_and (tasks account) (\<lambda>entry. task_generation entry = generation)"

definition stop_if_generation :: "owned_tasks \<Rightarrow> string \<Rightarrow> u64 \<Rightarrow> owned_tasks \<times> bool" where
  "stop_if_generation tasks account generation =
     (if map_option task_generation (tasks account) \<noteq> Some generation then (tasks, False)
      else (tasks(account := None), True))"

section \<open>The executor\<close>

record runtime_executor =
  ex_tasks :: owned_tasks
  ex_next_generation :: u64
  ex_queue :: "runtime_event list"

definition executor_new :: runtime_executor where
  "executor_new = \<lparr>ex_tasks = Map.empty, ex_next_generation = 1, ex_queue = []\<rparr>"

text \<open>\<open>spawn\<close>: whether the operating system gives a thread.\<close>

definition start_worker ::
  "runtime_executor \<Rightarrow> string \<Rightarrow> task_worker \<Rightarrow> bool
     \<Rightarrow> runtime_executor \<times> (u64, relay_runtime_error) result"
where
  "start_worker ex account worker spawn =
     (let generation = ex_next_generation ex;
          (tasks, r) = insert_with (ex_tasks ex) account generation
            (if spawn then Ok worker else Err WorkerUnavailable) in
      (ex\<lparr>ex_tasks := tasks, ex_next_generation := generation + 1\<rparr>,
       case r of Inl e \<Rightarrow> Err e | Inr _ \<Rightarrow> Ok generation))"

definition start_connection where
  "start_connection ex account spawn = start_worker ex account (ConnectionWorker False) spawn"

definition schedule_retry where
  "schedule_retry ex account delay spawn = start_worker ex account (RetryWorker delay) spawn"

definition execute ::
  "runtime_executor \<Rightarrow> string \<Rightarrow> relay_lifecycle_action \<Rightarrow> bool \<Rightarrow> bool
     \<Rightarrow> runtime_executor \<times> (u64 option, relay_runtime_error) result"
where
  "execute ex account action has_task spawn =
     (case (action, has_task) of
        (StartConnection, True) \<Rightarrow>
          map_prod id (\<lambda>r. case r of Inl e \<Rightarrow> Err e | Inr g \<Rightarrow> Ok (Some g)) (start_connection ex account spawn)
      | (StartConnection, False) \<Rightarrow> (ex, Err ConnectionTaskRequired)
      | (ScheduleRetry delay, False) \<Rightarrow>
          map_prod id (\<lambda>r. case r of Inl e \<Rightarrow> Err e | Inr g \<Rightarrow> Ok (Some g)) (schedule_retry ex account delay spawn)
      | (CloseConnection, False) \<Rightarrow> (ex\<lparr>ex_tasks := fst (stop_by_name (ex_tasks ex) account)\<rparr>, Ok None)
      | (CancelRetry, False) \<Rightarrow> (ex\<lparr>ex_tasks := fst (stop_by_name (ex_tasks ex) account)\<rparr>, Ok None)
      | (NoAction, False) \<Rightarrow> (ex, Ok None)
      | (_, True) \<Rightarrow> (ex, Err UnexpectedConnectionTask))"

definition accept_current_event ::
  "owned_tasks \<Rightarrow> runtime_event \<Rightarrow> owned_tasks \<times> runtime_event option"
where
  "accept_current_event tasks event =
     (if is_terminal event
      then (case stop_if_generation tasks (event_account event) (event_generation event) of
              (tasks', stopped) \<Rightarrow> (tasks', if stopped then Some event else None))
      else if \<not> is_current tasks (event_account event) (event_generation event) then (tasks, None)
      else (tasks, Some event))"

text \<open>The loop of \<open>try\_next\_event\<close> and \<open>next\_event\_timeout\<close>: stale events are skipped.\<close>

fun next_accepted ::
  "owned_tasks \<Rightarrow> runtime_event list \<Rightarrow> owned_tasks \<times> runtime_event list \<times> runtime_event option"
where
  "next_accepted tasks [] = (tasks, [], None)"
| "next_accepted tasks (e # es) =
     (case accept_current_event tasks e of
        (tasks', Some e') \<Rightarrow> (tasks', es, Some e')
      | (tasks', None) \<Rightarrow> next_accepted tasks' es)"

definition try_next_event :: "runtime_executor \<Rightarrow> runtime_executor \<times> runtime_event option" where
  "try_next_event ex =
     (case next_accepted (ex_tasks ex) (ex_queue ex) of
        (tasks, queue, e) \<Rightarrow> (ex\<lparr>ex_tasks := tasks, ex_queue := queue\<rparr>, e))"

section \<open>The workers\<close>

definition send_event :: "runtime_executor \<Rightarrow> string \<Rightarrow> owned_task \<Rightarrow> runtime_event_kind \<Rightarrow> runtime_executor"
where
  "send_event ex account t kind =
     ex\<lparr>ex_tasks := (ex_tasks ex)(account \<mapsto> t),
        ex_queue := ex_queue ex @ [\<lparr>event_account = account, event_generation = task_generation t,
          event_kind = kind\<rparr>]\<rparr>"

definition report_connected :: "runtime_executor \<Rightarrow> string \<Rightarrow> runtime_executor" where
  "report_connected ex account =
     (case ex_tasks ex account of
        None \<Rightarrow> ex
      | Some t \<Rightarrow>
          if task_worker t = ConnectionWorker False \<and> \<not> task_ended t
          then send_event ex account (t\<lparr>task_worker := ConnectionWorker True\<rparr>) KindConnected
          else ex)"

text \<open>The connection task returns with an error code.\<close>

definition connection_task_returns ::
  "runtime_executor \<Rightarrow> string \<Rightarrow> relay_connection_error_code \<Rightarrow> runtime_executor"
where
  "connection_task_returns ex account code =
     (case ex_tasks ex account of
        None \<Rightarrow> ex
      | Some t \<Rightarrow>
          (case task_worker t of
             ConnectionWorker connected \<Rightarrow>
               if task_ended t then ex
               else send_event ex account (t\<lparr>task_ended := True\<rparr>)
                 (if connected then KindUnexpectedDisconnect code else KindConnectionFailed code)
           | RetryWorker _ \<Rightarrow> ex))"

definition retry_delay_passes :: "runtime_executor \<Rightarrow> string \<Rightarrow> runtime_executor" where
  "retry_delay_passes ex account =
     (case ex_tasks ex account of
        None \<Rightarrow> ex
      | Some t \<Rightarrow>
          (case task_worker t of
             ConnectionWorker _ \<Rightarrow> ex
           | RetryWorker _ \<Rightarrow>
               if task_ended t then ex
               else send_event ex account (t\<lparr>task_ended := True\<rparr>) KindRetryElapsed))"

section \<open>The orchestrator\<close>

datatype orchestrator_error =
  OrchestratorLifecycle relay_lifecycle_error | OrchestratorRuntime relay_runtime_error

record orchestrator =
  orc_accounts :: "string \<Rightarrow> relay_lifecycle option"
  orc_executor :: runtime_executor

record orchestrator_update =
  update_event :: runtime_event
  update_status :: relay_runtime_status

definition orchestrator_new :: orchestrator where
  "orchestrator_new = \<lparr>orc_accounts = Map.empty, orc_executor = executor_new\<rparr>"

definition execute_action ::
  "orchestrator \<Rightarrow> string \<Rightarrow> relay_lifecycle_action \<Rightarrow> bool
     \<Rightarrow> runtime_executor \<times> (unit, relay_runtime_error) result"
where
  "execute_action orc account action spawn =
     map_prod id (\<lambda>r. case r of Inl e \<Rightarrow> Err e | Inr _ \<Rightarrow> Ok ())
       (execute (orc_executor orc) account action (action = StartConnection) spawn)"

text \<open>The end of \<open>start\<close> and \<open>apply\_event\<close>: the action is executed; if that fails, the lifecycle
  is told so.\<close>

definition perform ::
  "orchestrator \<Rightarrow> string \<Rightarrow> relay_lifecycle \<Rightarrow> relay_lifecycle_action \<Rightarrow> bool
     \<Rightarrow> orchestrator \<times> (relay_runtime_status, orchestrator_error) result"
where
  "perform orc account l action spawn =
     (case execute_action orc account action spawn of
        (ex, Inl e) \<Rightarrow>
          (\<lparr>orc_accounts = (orc_accounts orc)(account \<mapsto> runtime_failed l), orc_executor = ex\<rparr>,
           Err (OrchestratorRuntime e))
      | (ex, Inr _) \<Rightarrow>
          (\<lparr>orc_accounts = (orc_accounts orc)(account \<mapsto> l), orc_executor = ex\<rparr>, Ok l))"

definition relay_start ::
  "orchestrator \<Rightarrow> string \<Rightarrow> bool
     \<Rightarrow> orchestrator \<times> (relay_runtime_status, orchestrator_error) result"
where
  "relay_start orc account spawn =
     (let l = (case orc_accounts orc account of None \<Rightarrow> lifecycle_new | Some l \<Rightarrow> l) in
      case lifecycle_start l of
        (l', Inl e) \<Rightarrow>
          (orc\<lparr>orc_accounts := (orc_accounts orc)(account \<mapsto> l')\<rparr>, Err (OrchestratorLifecycle e))
      | (l', Inr action) \<Rightarrow> perform orc account l' action spawn)"

definition lifecycle_of_event ::
  "relay_lifecycle \<Rightarrow> runtime_event_kind
     \<Rightarrow> relay_lifecycle \<times> (relay_lifecycle_action, relay_lifecycle_error) result"
where
  "lifecycle_of_event l kind =
     (case kind of
        KindConnected \<Rightarrow>
          map_prod id (\<lambda>r. case r of Inl e \<Rightarrow> Err e | Inr _ \<Rightarrow> Ok NoAction) (lifecycle_connected l)
      | KindConnectionFailed code \<Rightarrow> connection_failed l code
      | KindUnexpectedDisconnect code \<Rightarrow> unexpected_disconnect l code
      | KindRetryElapsed \<Rightarrow> retry_elapsed l)"

definition relay_apply_event ::
  "orchestrator \<Rightarrow> runtime_event \<Rightarrow> bool
     \<Rightarrow> orchestrator \<times> (orchestrator_update option, orchestrator_error) result"
where
  "relay_apply_event orc event spawn =
     (let account = event_account event in
      case orc_accounts orc account of
        None \<Rightarrow> (orc, Ok None)
      | Some l \<Rightarrow>
          (case lifecycle_of_event l (event_kind event) of
             (l', Inl e) \<Rightarrow>
               (orc\<lparr>orc_accounts := (orc_accounts orc)(account \<mapsto> l')\<rparr>, Err (OrchestratorLifecycle e))
           | (l', Inr action) \<Rightarrow>
               map_prod id
                 (\<lambda>r. case r of
                    Inl e \<Rightarrow> Err e
                  | Inr status \<Rightarrow> Ok (Some \<lparr>update_event = event, update_status = status\<rparr>))
                 (perform orc account l' action spawn)))"

definition relay_status :: "orchestrator \<Rightarrow> string \<Rightarrow> relay_runtime_status" where
  "relay_status orc account =
     (case orc_accounts orc account of None \<Rightarrow> lifecycle_new | Some l \<Rightarrow> l)"

definition relay_stop ::
  "orchestrator \<Rightarrow> string \<Rightarrow> orchestrator \<times> (bool, orchestrator_error) result"
where
  "relay_stop orc account =
     (case orc_accounts orc account of
        None \<Rightarrow> (orc, Ok False)
      | Some l \<Rightarrow>
          (case lifecycle_stop l of
             (l', action) \<Rightarrow>
               (case execute_action orc account action True of
                  (ex, Inl e) \<Rightarrow>
                    (\<lparr>orc_accounts = (orc_accounts orc)(account \<mapsto> l'), orc_executor = ex\<rparr>,
                     Err (OrchestratorRuntime e))
                | (ex, Inr _) \<Rightarrow>
                    (case (if phase l' = Stopping then lifecycle_stopped l' else (l', Ok ())) of
                       (l'', Inl e) \<Rightarrow>
                         (\<lparr>orc_accounts = (orc_accounts orc)(account \<mapsto> l''), orc_executor = ex\<rparr>,
                          Err (OrchestratorLifecycle e))
                     | (l'', Inr _) \<Rightarrow>
                         (\<lparr>orc_accounts = (orc_accounts orc)(account := None), orc_executor = ex\<rparr>,
                          Ok True)))))"

definition relay_shutdown :: "orchestrator \<Rightarrow> orchestrator" where
  "relay_shutdown orc =
     \<lparr>orc_accounts = Map.empty, orc_executor = (orc_executor orc)\<lparr>ex_tasks := Map.empty\<rparr>\<rparr>"

text \<open>The public orchestrator: the event pump puts the results of its events into a channel.\<close>

record desktop_orchestrator =
  desk_inner :: orchestrator
  desk_updates :: "(orchestrator_update, orchestrator_error) result list"
  desk_pump_available :: bool

definition desktop_start where
  "desktop_start d account spawn =
     (if \<not> desk_pump_available d then (d, Err (OrchestratorRuntime WorkerUnavailable))
      else map_prod (\<lambda>orc. d\<lparr>desk_inner := orc\<rparr>) id (relay_start (desk_inner d) account spawn))"

definition pump_event where
  "pump_event d event spawn =
     (case relay_apply_event (desk_inner d) event spawn of
        (orc, r) \<Rightarrow> d\<lparr>desk_inner := orc,
          desk_updates := desk_updates d @
            (case r of Inl e \<Rightarrow> [Err e] | Inr None \<Rightarrow> [] | Inr (Some u) \<Rightarrow> [Ok u])\<rparr>)"

definition poll_next where
  "poll_next d =
     (case desk_updates d of
        [] \<Rightarrow> (d, if desk_pump_available d then Ok None else Err (OrchestratorRuntime WorkerUnavailable))
      | r # rest \<Rightarrow> (d\<lparr>desk_updates := rest\<rparr>, case r of Inl e \<Rightarrow> Err e | Inr u \<Rightarrow> Ok (Some u)))"

definition desktop_shutdown :: "desktop_orchestrator \<Rightarrow> desktop_orchestrator" where
  "desktop_shutdown d = d\<lparr>desk_inner := relay_shutdown (desk_inner d), desk_pump_available := False\<rparr>"

end
