(* ===== verification/Relay_Runtime_Claims.thy ===== *)
theory Relay_Runtime_Claims
  imports Relay_Runtime
begin

text \<open>
  What the relay runtime promises. The event pump takes an event from the channel in one critical
  section and applies it in another. As long as no start or stop falls between the two, the task
  that is owned for an account is always the one its lifecycle asks for, and every event fits; the
  last section shows what can happen otherwise.
\<close>

section \<open>The interleavings\<close>

text \<open>The orchestrator, and the event the pump has taken from the channel and not yet applied.\<close>

record relay_system =
  rs_orc :: orchestrator
  rs_hand :: "runtime_event option"

abbreviation "rs_accounts s \<equiv> orc_accounts (rs_orc s)"
abbreviation "rs_executor s \<equiv> orc_executor (rs_orc s)"
abbreviation "rs_tasks s \<equiv> ex_tasks (rs_executor s)"
abbreviation "rs_next s \<equiv> ex_next_generation (rs_executor s)"
abbreviation "rs_queue s \<equiv> ex_queue (rs_executor s)"

definition with_executor :: "runtime_executor \<Rightarrow> relay_system \<Rightarrow> relay_system" where
  "with_executor ex s = s\<lparr>rs_orc := (rs_orc s)\<lparr>orc_executor := ex\<rparr>\<rparr>"

definition system_new :: relay_system where
  "system_new = \<lparr>rs_orc = orchestrator_new, rs_hand = None\<rparr>"

text \<open>\<open>orderly\<close>: starts and stops do not fall between the two sections of the pump. The counter of
  generations (\<open>u64\<close>) does not overflow.\<close>

inductive relay_reach :: "bool \<Rightarrow> relay_system \<Rightarrow> bool" for orderly where
  init: "relay_reach orderly system_new"
| start: "relay_reach orderly s \<Longrightarrow> orderly \<longrightarrow> rs_hand s = None \<Longrightarrow> rs_next s + 1 \<noteq> 0 \<Longrightarrow>
     relay_start (rs_orc s) a spawn = (orc, r) \<Longrightarrow> relay_reach orderly (s\<lparr>rs_orc := orc\<rparr>)"
| stop: "relay_reach orderly s \<Longrightarrow> orderly \<longrightarrow> rs_hand s = None \<Longrightarrow>
     relay_stop (rs_orc s) a = (orc, r') \<Longrightarrow> relay_reach orderly (s\<lparr>rs_orc := orc\<rparr>)"
| reported: "relay_reach orderly s \<Longrightarrow>
     relay_reach orderly (with_executor (report_connected (rs_executor s) a) s)"
| returned: "relay_reach orderly s \<Longrightarrow>
     relay_reach orderly (with_executor (connection_task_returns (rs_executor s) a code) s)"
| elapsed: "relay_reach orderly s \<Longrightarrow>
     relay_reach orderly (with_executor (retry_delay_passes (rs_executor s) a) s)"
| accepted: "relay_reach orderly s \<Longrightarrow> rs_hand s = None \<Longrightarrow>
     try_next_event (rs_executor s) = (ex, e) \<Longrightarrow>
     relay_reach orderly ((with_executor ex s)\<lparr>rs_hand := e\<rparr>)"
| applied: "relay_reach orderly s \<Longrightarrow> rs_hand s = Some ev \<Longrightarrow> rs_next s + 1 \<noteq> 0 \<Longrightarrow>
     relay_apply_event (rs_orc s) ev spawn = (orc, u) \<Longrightarrow>
     relay_reach orderly (s\<lparr>rs_orc := orc, rs_hand := None\<rparr>)"

section \<open>The invariant\<close>

definition all_events :: "relay_system \<Rightarrow> runtime_event list" where
  "all_events s = (case rs_hand s of None \<Rightarrow> [] | Some e \<Rightarrow> [e]) @ rs_queue s"

definition events_of :: "string \<Rightarrow> u64 \<Rightarrow> runtime_event list \<Rightarrow> runtime_event_kind list" where
  "events_of a g es = map event_kind (filter (\<lambda>e. event_account e = a \<and> event_generation e = g) es)"

lemma events_of_simps [simp]:
  "events_of a g [] = []"
  "events_of a g (e # es) =
     (if event_account e = a \<and> event_generation e = g then event_kind e # events_of a g es
      else events_of a g es)"
  "events_of a g (es @ es') = events_of a g es @ events_of a g es'"
  by (simp_all add: events_of_def)

text \<open>The events a worker has sent and the orchestrator has not applied fit the lifecycle.\<close>

definition last_event :: "owned_task \<Rightarrow> bool \<Rightarrow> runtime_event_kind list \<Rightarrow> bool" where
  "last_event t connected ks \<longleftrightarrow>
     (if task_ended t
      then \<exists>code. ks = [if connected then KindUnexpectedDisconnect code else KindConnectionFailed code]
      else ks = [])"

definition task_fits :: "relay_lifecycle \<Rightarrow> owned_task \<Rightarrow> runtime_event_kind list \<Rightarrow> bool" where
  "task_fits l t ks \<longleftrightarrow>
     (case task_worker t of
        ConnectionWorker c \<Rightarrow>
          phase l = Connecting \<and> (\<exists>rest. last_event t c rest \<and> ks = (if c then [KindConnected] else []) @ rest)
          \<or> phase l = Connected \<and> c \<and> last_event t c ks
      | RetryWorker d \<Rightarrow>
          phase l = RetryWaiting \<and> next_retry_delay_ms l = Some d
          \<and> ks = (if task_ended t then [KindRetryElapsed] else []))"

definition hand_fits :: "relay_lifecycle \<Rightarrow> runtime_event \<Rightarrow> bool" where
  "hand_fits l e \<longleftrightarrow>
     (case event_kind e of
        KindConnected \<Rightarrow> False
      | KindConnectionFailed _ \<Rightarrow> phase l = Connecting
      | KindUnexpectedDisconnect _ \<Rightarrow> phase l = Connected
      | KindRetryElapsed \<Rightarrow> phase l = RetryWaiting)"

definition hand_for :: "relay_system \<Rightarrow> string \<Rightarrow> runtime_event option" where
  "hand_for s a =
     (case rs_hand s of None \<Rightarrow> None | Some e \<Rightarrow> if event_account e = a then Some e else None)"

definition account_inv :: "relay_system \<Rightarrow> string \<Rightarrow> bool" where
  "account_inv s a \<longleftrightarrow>
     (case (rs_accounts s a, rs_tasks s a) of
        (None, None) \<Rightarrow> hand_for s a = None
      | (None, Some t) \<Rightarrow> False
      | (Some l, Some t) \<Rightarrow>
          task_fits l t (events_of a (task_generation t) (all_events s))
          \<and> (\<forall>e. hand_for s a = Some e \<longrightarrow> event_generation e = task_generation t \<and> \<not> is_terminal e)
      | (Some l, None) \<Rightarrow>
          (case hand_for s a of None \<Rightarrow> phase l = RuntimeError | Some e \<Rightarrow> hand_fits l e))"

definition generations_fresh :: "relay_system \<Rightarrow> bool" where
  "generations_fresh s \<longleftrightarrow>
     (\<forall>e \<in> set (all_events s). event_generation e < rs_next s)
     \<and> (\<forall>a t. rs_tasks s a = Some t \<longrightarrow> task_generation t < rs_next s)"

definition relay_inv :: "relay_system \<Rightarrow> bool" where
  "relay_inv s \<longleftrightarrow> generations_fresh s \<and> (\<forall>a. account_inv s a)"

lemma account_inv_other:
  assumes "rs_accounts s' b = rs_accounts s b" "rs_tasks s' b = rs_tasks s b"
    "hand_for s' b = hand_for s b" "\<And>g. events_of b g (all_events s') = events_of b g (all_events s)"
  shows "account_inv s' b = account_inv s b"
  unfolding account_inv_def assms by simp

lemma events_of_fresh:
  assumes "\<forall>e \<in> set es. event_generation e < n"
  shows "events_of a n es = []"
  using assms by (induction es) auto

lemma next_fresh:
  assumes "n + 1 \<noteq> (0 :: u64)"
  shows "n < n + 1" "m < n \<Longrightarrow> m < n + 1"
  using unatSuc [of n] assms by (simp_all add: word_less_nat_alt add.commute)

lemma relay_inv_step:
  assumes "relay_inv s" "generations_fresh s'" "account_inv s' a"
    and "\<And>b. b \<noteq> a \<Longrightarrow> rs_accounts s' b = rs_accounts s b \<and> rs_tasks s' b = rs_tasks s b
      \<and> hand_for s' b = hand_for s b
      \<and> (\<forall>g. events_of b g (all_events s') = events_of b g (all_events s))"
  shows "relay_inv s'"
  unfolding relay_inv_def
proof (intro conjI allI)
  fix b
  show "account_inv s' b"
  proof (cases "b = a")
    case False
    then show ?thesis
      using account_inv_other [of s' b s] assms(1) assms(4) [of b] by (simp add: relay_inv_def)
  qed (use assms(3) in simp)
qed (rule assms(2))

section \<open>Every step keeps it\<close>

text \<open>What \<open>perform\<close> does when no task is owned for the account.\<close>

lemma perform_cases:
  assumes "ex_tasks (orc_executor orc) a = None" "perform orc a l action spawn = (orc', r)"
    and "action = StartConnection \<and> worker = ConnectionWorker False
      \<or> (\<exists>d. action = ScheduleRetry d \<and> worker = RetryWorker d) \<or> action = NoAction"
  obtains (idle) "orc' = orc\<lparr>orc_accounts := (orc_accounts orc)(a \<mapsto> l)\<rparr>" "action = NoAction" "is_ok r"
  | (failed) "orc_accounts orc' = (orc_accounts orc)(a \<mapsto> runtime_failed l)"
      "orc_executor orc' = (orc_executor orc)\<lparr>ex_next_generation := ex_next_generation (orc_executor orc) + 1\<rparr>"
      "r = Err (OrchestratorRuntime WorkerUnavailable)" "action \<noteq> NoAction"
  | (owned) "orc_accounts orc' = (orc_accounts orc)(a \<mapsto> l)" "action \<noteq> NoAction" "is_ok r"
      "orc_executor orc' = (orc_executor orc)
        \<lparr>ex_next_generation := ex_next_generation (orc_executor orc) + 1,
         ex_tasks := (ex_tasks (orc_executor orc))(a \<mapsto> \<lparr>task_generation = ex_next_generation (orc_executor orc),
           task_worker = worker, task_ended = False\<rparr>)\<rparr>"
  using assms
  by (cases orc; cases "orc_executor orc")
    (auto simp: perform_def execute_action_def execute_def start_connection_def schedule_retry_def
      start_worker_def insert_with_def Let_def is_ok_def split: if_splits)

lemma account_inv_None: "account_inv s a \<Longrightarrow> rs_accounts s a = None \<Longrightarrow> rs_tasks s a = None \<and> hand_for s a = None"
  by (auto simp: account_inv_def split: option.splits)

lemma account_inv_Error:
  assumes "account_inv s a" "rs_accounts s a = Some l" "phase l \<notin> {Connecting, Connected, RetryWaiting}"
  shows "rs_tasks s a = None \<and> hand_for s a = None \<and> phase l = RuntimeError"
  using assms
  by (auto simp: account_inv_def task_fits_def hand_fits_def
      split: option.splits task_worker.splits runtime_event_kind.splits)

lemma generations_fresh_more:
  assumes "generations_fresh s" "rs_next s + 1 \<noteq> 0"
    and "set (all_events s') \<subseteq> set (all_events s)" "rs_next s' \<in> {rs_next s, rs_next s + 1}"
    and "\<And>b t. rs_tasks s' b = Some t \<Longrightarrow>
      rs_tasks s b = Some t \<or> task_generation t = rs_next s \<and> rs_next s' = rs_next s + 1"
  shows "generations_fresh s'"
  unfolding generations_fresh_def
proof (intro conjI ballI allI impI)
  have more: "m < rs_next s'" if "m < rs_next s" for m
    using assms(4) that next_fresh(2) [OF assms(2)] by auto
  show "event_generation e < rs_next s'" if "e \<in> set (all_events s')" for e
    using that assms(1,3) by (intro more) (auto simp: generations_fresh_def)
  show "task_generation t < rs_next s'" if "rs_tasks s' b = Some t" for b t
    using assms(5) [OF that] assms(1) more next_fresh(1) [OF assms(2)]
    by (auto simp: generations_fresh_def)
qed

text \<open>An action performed for an account without a task.\<close>

lemma perform_inv:
  assumes inv: "relay_inv s" and n: "rs_next s + 1 \<noteq> 0"
    and none: "rs_tasks s a = None" and hand: "rs_hand s' = None"
      "\<And>b. b \<noteq> a \<Longrightarrow> hand_for s b = None" "set (all_events s') \<subseteq> set (all_events s)"
      "\<And>b g. b \<noteq> a \<Longrightarrow> events_of b g (all_events s') = events_of b g (all_events s)"
    and orc: "perform (rs_orc s) a l action spawn = (rs_orc s', r)"
    and action: "action = StartConnection \<and> phase l = Connecting
      \<or> (\<exists>d. action = ScheduleRetry d \<and> phase l = RetryWaiting \<and> next_retry_delay_ms l = Some d)
      \<or> action = NoAction \<and> phase l = RuntimeError"
  shows "relay_inv s'"
proof -
  obtain worker where worker: "action = StartConnection \<and> worker = ConnectionWorker False \<and> phase l = Connecting
      \<or> (\<exists>d. action = ScheduleRetry d \<and> worker = RetryWorker d \<and> phase l = RetryWaiting \<and> next_retry_delay_ms l = Some d)
      \<or> action = NoAction \<and> phase l = RuntimeError"
    using action by blast
  then have worker': "action = StartConnection \<and> worker = ConnectionWorker False
      \<or> (\<exists>d. action = ScheduleRetry d \<and> worker = RetryWorker d) \<or> action = NoAction"
    by blast
  have fresh: "generations_fresh s"
    using inv by (simp add: relay_inv_def)
  have [simp]: "hand_for s' b = None" for b
    using hand(1) by (simp add: hand_for_def)
  from none orc worker' show ?thesis
  proof (cases rule: perform_cases)
    case idle
    then show ?thesis
      using worker inv none hand(2-4)
      by (intro relay_inv_step [OF inv, of s' a] generations_fresh_more [OF fresh n])
        (auto simp: account_inv_def)
  next
    case failed
    then show ?thesis
      using inv none hand(2-4)
      by (intro relay_inv_step [OF inv, of s' a] generations_fresh_more [OF fresh n])
        (auto simp: account_inv_def runtime_failed_def)
  next
    case owned
    have "events_of a (rs_next s) (all_events s') = []"
      using fresh hand(3) by (intro events_of_fresh) (auto simp: generations_fresh_def)
    then have "account_inv s' a"
      using owned worker by (auto simp: account_inv_def task_fits_def last_event_def)
    then show ?thesis
      using owned inv hand(2-4)
      by (intro relay_inv_step [OF inv, of s' a] generations_fresh_more [OF fresh n])
        (auto split: if_splits)
  qed
qed

lemma execute_queue: "execute ex a action b spawn = (ex', r) \<Longrightarrow> ex_queue ex' = ex_queue ex"
  by (auto simp: execute_def start_connection_def schedule_retry_def start_worker_def Let_def
      split: relay_lifecycle_action.splits bool.splits prod.splits)

lemma perform_queue: "perform orc a l action spawn = (orc', r) \<Longrightarrow>
    ex_queue (orc_executor orc') = ex_queue (orc_executor orc)"
  by (cases "execute (orc_executor orc) a action (action = StartConnection) spawn")
    (auto simp: perform_def execute_action_def dest: execute_queue split: sum.splits)

lemma hand_for_None [simp]: "rs_hand s = None \<Longrightarrow> hand_for s a = None"
  by (simp add: hand_for_def)

lemma start_inv:
  assumes "relay_inv s" "rs_hand s = None" "rs_next s + 1 \<noteq> 0" "relay_start (rs_orc s) a spawn = (orc, r)"
  shows "relay_inv (s\<lparr>rs_orc := orc\<rparr>)"
proof -
  have a: "account_inv s a"
    using assms(1) by (simp add: relay_inv_def)
  define l where "l = (case rs_accounts s a of None \<Rightarrow> lifecycle_new | Some l \<Rightarrow> l)"
  show ?thesis
  proof (cases "phase l \<in> {Offline, RuntimeError}")
    case True
    then have none: "rs_tasks s a = None"
      using account_inv_None [OF a] account_inv_Error [OF a]
      by (cases "rs_accounts s a") (auto simp: l_def)
    have orc: "perform (rs_orc s) a (lifecycle_new\<lparr>phase := Connecting\<rparr>) StartConnection spawn = (orc, r)"
      using True assms(4) by (auto simp: relay_start_def l_def [symmetric] lifecycle_start_def)
    then have "all_events (s\<lparr>rs_orc := orc\<rparr>) = all_events s"
      by (simp add: all_events_def perform_queue)
    then show ?thesis
      using orc assms(2)
      by (intro perform_inv [OF assms(1,3) none, where action = StartConnection
            and l = "lifecycle_new\<lparr>phase := Connecting\<rparr>"]) simp_all
  next
    case False
    then have "rs_accounts s a = Some l"
      by (auto simp: l_def lifecycle_new_def split: option.splits)
    then have "(rs_accounts s)(a \<mapsto> l) = rs_accounts s"
      by (simp add: fun_upd_idem)
    moreover have "orc = (rs_orc s)\<lparr>orc_accounts := (rs_accounts s)(a \<mapsto> l)\<rparr>"
      using False assms(4)
      by (auto simp: relay_start_def l_def [symmetric] lifecycle_start_def
          split: relay_runtime_phase.splits)
    ultimately show ?thesis
      using assms(1) by simp
  qed
qed

lemma stop_inv:
  assumes "relay_inv s" "rs_hand s = None" "relay_stop (rs_orc s) a = (orc, r)"
  shows "relay_inv (s\<lparr>rs_orc := orc\<rparr>)"
proof (cases "rs_accounts s a")
  case None
  then show ?thesis
    using assms(1,3) by (cases s) (simp add: relay_stop_def)
next
  case (Some l)
  have a: "account_inv s a" and fresh: "generations_fresh s"
    using assms(1) by (simp_all add: relay_inv_def)
  have "rs_tasks s a = None \<and> phase l = RuntimeError \<or> phase l \<in> {Connecting, Connected, RetryWaiting}"
    using account_inv_Error [OF a Some] by blast
  then have orc: "orc = \<lparr>orc_accounts = (rs_accounts s)(a := None),
      orc_executor = (rs_executor s)\<lparr>ex_tasks := (rs_tasks s)(a := None)\<rparr>\<rparr>"
    using assms(3) Some
    by (cases "rs_executor s")
      (auto simp: relay_stop_def lifecycle_stop_def lifecycle_stopped_def execute_action_def
        execute_def stop_by_name_def lifecycle_new_def fun_upd_idem split: relay_runtime_phase.splits)
  have "all_events (s\<lparr>rs_orc := orc\<rparr>) = all_events s" "rs_next (s\<lparr>rs_orc := orc\<rparr>) = rs_next s"
    by (simp_all add: all_events_def orc)
  then show ?thesis
    using fresh assms(2)
    by (intro relay_inv_step [OF assms(1), of _ a])
      (auto simp: generations_fresh_def account_inv_def orc split: if_splits)
qed

text \<open>The workers.\<close>

lemma all_events_with_executor [simp]:
  "all_events (with_executor ex s) = (case rs_hand s of None \<Rightarrow> [] | Some e \<Rightarrow> [e]) @ ex_queue ex"
  by (simp add: all_events_def with_executor_def)

lemma send_inv:
  assumes inv: "relay_inv s" and t: "rs_tasks s a = Some t" "task_generation t' = task_generation t"
    and fits: "\<And>l ks. task_fits l t ks \<Longrightarrow> task_fits l t' (ks @ [k])"
  shows "relay_inv (with_executor (send_event (rs_executor s) a t' k) s)" (is "relay_inv ?s")
proof -
  have fresh: "generations_fresh s" and a: "account_inv s a"
    using inv by (simp_all add: relay_inv_def)
  have events: "all_events ?s = all_events s @ [\<lparr>event_account = a, event_generation = task_generation t,
      event_kind = k\<rparr>]"
    by (simp add: send_event_def t(2)) (simp add: all_events_def)
  have same: "rs_accounts ?s = rs_accounts s" "rs_tasks ?s = (rs_tasks s)(a \<mapsto> t')"
    "rs_next ?s = rs_next s" "hand_for ?s b = hand_for s b" for b
    by (simp_all add: with_executor_def send_event_def hand_for_def)
  have "generations_fresh ?s"
    unfolding generations_fresh_def events same using fresh t
    by (auto simp: generations_fresh_def)
  moreover have "account_inv ?s a"
    unfolding account_inv_def events same using a t fits
    by (auto simp: account_inv_def split: option.splits)
  ultimately show ?thesis
    by (intro relay_inv_step [OF inv, of ?s a])
      (auto simp: events same simp del: all_events_with_executor)
qed

lemma report_connected_inv:
  assumes "relay_inv s"
  shows "relay_inv (with_executor (report_connected (rs_executor s) a) s)"
proof (cases "\<exists>t. rs_tasks s a = Some t \<and> task_worker t = ConnectionWorker False \<and> \<not> task_ended t")
  case True
  then obtain t where t: "rs_tasks s a = Some t" "task_worker t = ConnectionWorker False" "\<not> task_ended t"
    by blast
  then show ?thesis
    using send_inv [OF assms t(1), of "t\<lparr>task_worker := ConnectionWorker True\<rparr>" KindConnected]
    by (auto simp: report_connected_def task_fits_def last_event_def)
next
  case False
  then have "report_connected (rs_executor s) a = rs_executor s"
    by (auto simp: report_connected_def split: option.split)
  then show ?thesis
    using assms by (cases s) (simp add: with_executor_def)
qed

lemma task_returns_inv:
  assumes "relay_inv s"
  shows "relay_inv (with_executor (connection_task_returns (rs_executor s) a code) s)"
proof (cases "\<exists>t c. rs_tasks s a = Some t \<and> task_worker t = ConnectionWorker c \<and> \<not> task_ended t")
  case True
  then obtain t c where t: "rs_tasks s a = Some t" "task_worker t = ConnectionWorker c" "\<not> task_ended t"
    by blast
  have fits: "task_fits l (t\<lparr>task_ended := True\<rparr>)
      (ks @ [if c then KindUnexpectedDisconnect code else KindConnectionFailed code])"
    if "task_fits l t ks" for l ks
    using that t by (cases c) (auto simp: task_fits_def last_event_def)
  show ?thesis
    using send_inv [OF assms t(1) _ fits] t by (simp add: connection_task_returns_def)
next
  case False
  then have "connection_task_returns (rs_executor s) a code = rs_executor s"
    by (auto simp: connection_task_returns_def split: option.split task_worker.split)
  then show ?thesis
    using assms by (cases s) (simp add: with_executor_def)
qed

lemma delay_passes_inv:
  assumes "relay_inv s"
  shows "relay_inv (with_executor (retry_delay_passes (rs_executor s) a) s)"
proof (cases "\<exists>t d. rs_tasks s a = Some t \<and> task_worker t = RetryWorker d \<and> \<not> task_ended t")
  case True
  then obtain t d where t: "rs_tasks s a = Some t" "task_worker t = RetryWorker d" "\<not> task_ended t"
    by blast
  then show ?thesis
    using send_inv [OF assms t(1), of "t\<lparr>task_ended := True\<rparr>" KindRetryElapsed]
    by (auto simp: retry_delay_passes_def task_fits_def)
next
  case False
  then have "retry_delay_passes (rs_executor s) a = rs_executor s"
    by (auto simp: retry_delay_passes_def split: option.split task_worker.split)
  then show ?thesis
    using assms by (cases s) (simp add: with_executor_def)
qed

text \<open>The pump takes events until one is current.\<close>

definition popped :: "relay_system \<Rightarrow> owned_tasks \<Rightarrow> runtime_event list \<Rightarrow> runtime_event option \<Rightarrow> relay_system"
where
  "popped s tasks queue r =
     (with_executor ((rs_executor s)\<lparr>ex_tasks := tasks, ex_queue := queue\<rparr>) s)\<lparr>rs_hand := r\<rparr>"

lemma popped_simps [simp]:
  "rs_accounts (popped s tasks queue r) = rs_accounts s" "rs_tasks (popped s tasks queue r) = tasks"
  "rs_queue (popped s tasks queue r) = queue" "rs_next (popped s tasks queue r) = rs_next s"
  "rs_hand (popped s tasks queue r) = r" "popped (popped s t q u) tasks queue r = popped s tasks queue r"
  "all_events (popped s tasks queue r) = (case r of None \<Rightarrow> [] | Some e \<Rightarrow> [e]) @ queue"
  by (simp_all add: popped_def with_executor_def all_events_def)

lemma popped_same: "popped s (rs_tasks s) (rs_queue s) (rs_hand s) = s"
  by (simp add: popped_def with_executor_def)

lemma terminal_fits:
  "task_fits l t (event_kind e # ks) \<Longrightarrow> is_terminal e \<Longrightarrow> hand_fits l e"
  by (auto simp: task_fits_def is_terminal_def hand_fits_def last_event_def
      split: task_worker.splits if_splits)

lemma accept_one_inv:
  assumes inv: "relay_inv s" and hand: "rs_hand s = None" and queue: "rs_queue s = e # es"
    and step: "accept_current_event (rs_tasks s) e = (tasks, r)"
  shows "relay_inv (popped s tasks es r)" (is "relay_inv ?s")
proof -
  let ?a = "event_account e"
  have fresh: "generations_fresh s" and a: "account_inv s ?a"
    using inv by (simp_all add: relay_inv_def)
  have events: "all_events s = e # es" "all_events ?s = (case r of None \<Rightarrow> [] | Some e \<Rightarrow> [e]) @ es"
    using hand queue by (simp_all add: all_events_def)
  define current where "current \<longleftrightarrow> is_current (rs_tasks s) ?a (event_generation e)"
  have step': "r = (if current then Some e else None)"
    "tasks = (if current \<and> is_terminal e then (rs_tasks s)(?a := None) else rs_tasks s)"
    using step by (cases "rs_tasks s ?a"; auto simp: current_def accept_current_event_def is_current_def
        stop_if_generation_def split: if_splits)+
  have "generations_fresh ?s"
    using fresh step' by (auto simp: generations_fresh_def events split: if_splits)
  moreover have "account_inv ?s ?a"
  proof (cases "rs_tasks s ?a")
    case None
    then show ?thesis
      using a hand step'
      by (auto simp: account_inv_def hand_for_def current_def is_current_def split: option.splits)
  next
    case (Some t)
    then obtain l where l: "rs_accounts s ?a = Some l"
      and fits: "task_fits l t (events_of ?a (task_generation t) (all_events s))"
      using a by (auto simp: account_inv_def split: option.splits)
    show ?thesis
    proof (cases "task_generation t = event_generation e")
      case True
      then have "current" using Some by (simp add: current_def is_current_def)
      then show ?thesis
        using Some l fits step' True
        by (auto simp: account_inv_def hand_for_def events dest: terminal_fits)
    next
      case False
      then have "\<not> current" using Some by (simp add: current_def is_current_def)
      then show ?thesis
        using Some l fits step' False by (simp add: account_inv_def hand_for_def events)
    qed
  qed
  ultimately show ?thesis
    using step' hand
    by (intro relay_inv_step [OF inv, of ?s ?a]) (auto simp: events hand_for_def)
qed

lemma accept_inv:
  assumes "relay_inv s" "rs_hand s = None"
    "next_accepted (rs_tasks s) (rs_queue s) = (tasks, queue, r)"
  shows "relay_inv (popped s tasks queue r)"
  using assms
proof (induction "rs_queue s" arbitrary: s)
  case Nil
  then show ?case
    using popped_same [of s] by (metis next_accepted.simps(1) prod.inject)
next
  case (Cons e es)
  obtain tasks' r' where step: "accept_current_event (rs_tasks s) e = (tasks', r')" by fastforce
  have inv: "relay_inv (popped s tasks' es r')"
    using accept_one_inv [OF Cons.prems(1,2) _ step] Cons.hyps(2) by simp
  show ?case
  proof (cases r')
    case None
    then show ?thesis
      using Cons.hyps(1) [of "popped s tasks' es None"] inv step Cons.prems(3) Cons.hyps(2) [symmetric]
      by simp
  next
    case (Some e')
    then show ?thesis
      using inv step Cons.prems(3) Cons.hyps(2) [symmetric] by simp
  qed
qed

text \<open>The pump applies the event.\<close>

lemma lifecycle_of_terminal:
  assumes "hand_fits l e" "lifecycle_of_event l (event_kind e) = (l', r)"
  shows "\<exists>action. r = Ok action \<and> (action = StartConnection \<and> phase l' = Connecting
      \<or> (\<exists>d. action = ScheduleRetry d \<and> phase l' = RetryWaiting \<and> next_retry_delay_ms l' = Some d)
      \<or> action = NoAction \<and> phase l' = RuntimeError)"
  using assms
  by (auto simp: hand_fits_def lifecycle_of_event_def lifecycle_defs
      split: runtime_event_kind.splits if_splits)

lemma apply_inv:
  assumes inv: "relay_inv s" and hand: "rs_hand s = Some e" and n: "rs_next s + 1 \<noteq> 0"
    and step: "relay_apply_event (rs_orc s) e spawn = (orc, r)"
  shows "relay_inv (s\<lparr>rs_orc := orc, rs_hand := None\<rparr>)
    \<and> (\<forall>err. r = Err err \<longrightarrow> err = OrchestratorRuntime WorkerUnavailable)"
proof -
  let ?a = "event_account e" and ?s = "s\<lparr>rs_orc := orc, rs_hand := None\<rparr>"
  have a: "account_inv s ?a" and fresh: "generations_fresh s"
    using inv by (simp_all add: relay_inv_def)
  have hand_a: "hand_for s ?a = Some e" "b \<noteq> ?a \<Longrightarrow> hand_for s b = None" for b
    using hand by (simp_all add: hand_for_def)
  obtain l where l: "rs_accounts s ?a = Some l"
    using a hand_a(1) by (auto simp: account_inv_def split: option.splits)
  obtain l' q where q: "lifecycle_of_event l (event_kind e) = (l', q)" by fastforce
  show ?thesis
  proof (cases "rs_tasks s ?a")
    case None
    then have "hand_fits l e"
      using a l hand_a(1) by (simp add: account_inv_def)
    then obtain action where action: "q = Ok action" "action = StartConnection \<and> phase l' = Connecting
      \<or> (\<exists>d. action = ScheduleRetry d \<and> phase l' = RetryWaiting \<and> next_retry_delay_ms l' = Some d)
      \<or> action = NoAction \<and> phase l' = RuntimeError"
      using lifecycle_of_terminal [OF _ q] by blast
    obtain p where p: "perform (rs_orc s) ?a l' action spawn = (orc, p)"
      "r = (case p of Inl err \<Rightarrow> Err err
          | Inr status \<Rightarrow> Ok (Some \<lparr>update_event = e, update_status = status\<rparr>))"
      using step l q action(1) by (cases "perform (rs_orc s) ?a l' action spawn") (auto simp: relay_apply_event_def)
    have "all_events s = e # all_events ?s"
      using hand perform_queue [OF p(1)] by (simp add: all_events_def)
    then have "relay_inv ?s"
      using p(1) hand_a action(2)
      by (intro perform_inv [OF inv n None, where action = action and l = l']) auto
    moreover have "err = OrchestratorRuntime WorkerUnavailable" if "r = Err err" for err
    proof -
      obtain worker where "action = StartConnection \<and> worker = ConnectionWorker False
          \<or> (\<exists>d. action = ScheduleRetry d \<and> worker = RetryWorker d) \<or> action = NoAction"
        using action(2) by blast
      from None p(1) this show ?thesis
        by (cases rule: perform_cases) (use that p(2) in \<open>auto split: sum.splits simp: is_ok_def\<close>)
    qed
    ultimately show ?thesis by blast
  next
    case (Some t)
    have e: "event_generation e = task_generation t" "event_kind e = KindConnected"
      and fits: "task_fits l t (events_of ?a (task_generation t) (all_events s))"
      using a l Some hand_a(1) by (auto simp: account_inv_def is_terminal_def)
    define rest where "rest = events_of ?a (task_generation t) (rs_queue s)"
    have "task_fits l t (KindConnected # rest)"
      using fits e hand by (simp add: all_events_def rest_def)
    then have l_phase: "phase l = Connecting" "task_fits (lifecycle_new\<lparr>phase := Connected\<rparr>) t rest"
      by (auto simp: task_fits_def last_event_def split: task_worker.splits if_splits)
    then have orc: "orc = (rs_orc s)\<lparr>orc_accounts := (rs_accounts s)(?a \<mapsto> lifecycle_new\<lparr>phase := Connected\<rparr>)\<rparr>"
      and r: "is_ok r"
      using step l e(2)
      by (cases "rs_orc s"; auto simp: relay_apply_event_def lifecycle_of_event_def
        lifecycle_connected_def perform_def execute_action_def execute_def is_ok_def)+
    have events: "all_events s = e # all_events ?s" "all_events ?s = rs_queue s"
      using hand orc by (simp_all add: all_events_def)
    have "account_inv ?s ?a"
      using Some l_phase(2) by (simp add: account_inv_def orc rest_def all_events_def)
    moreover have "generations_fresh ?s"
      using fresh by (simp add: generations_fresh_def events(1)) (simp add: orc)
    ultimately have "relay_inv ?s"
      using hand_a(2) events(1)
      by (intro relay_inv_step [OF inv, of ?s ?a]) (auto simp: orc)
    then show ?thesis
      using r by (auto simp: is_ok_def)
  qed
qed

section \<open>What the invariant says\<close>

lemma relay_reach_inv: "relay_reach True s \<Longrightarrow> relay_inv s"
proof (induction rule: relay_reach.induct)
  case init
  show ?case
    by (auto simp: relay_inv_def generations_fresh_def account_inv_def system_new_def
        orchestrator_new_def executor_new_def all_events_def hand_for_def)
next
  case (accepted s ex e)
  obtain tasks queue r where next': "next_accepted (rs_tasks s) (rs_queue s) = (tasks, queue, r)"
    by (cases "next_accepted (rs_tasks s) (rs_queue s)") auto
  then have "(with_executor ex s)\<lparr>rs_hand := e\<rparr> = popped s tasks queue r"
    using accepted.hyps(3) by (auto simp: try_next_event_def popped_def)
  then show ?case
    using accept_inv [OF accepted.IH accepted.hyps(2) next'] by simp
qed (blast intro: start_inv stop_inv report_connected_inv task_returns_inv delay_passes_inv
      dest: apply_inv)+

text \<open>C29: An account never has more than the one worker its lifecycle asks for: as long as no start
  or stop falls between the two critical sections of the event pump, however starts, stops, workers
  and the pump interleave, between two events of the pump a connecting or connected account owns
  exactly a connection task, a waiting one exactly the timer with the delay it reports, and any
  other one owns nothing.\<close>

theorem relay_task_matches_phase:
  assumes "relay_reach True s" "rs_hand s = None"
  shows "(case rs_tasks s a of
      None \<Rightarrow> phase (relay_status (rs_orc s) a) \<in> {Offline, RuntimeError}
    | Some t \<Rightarrow>
        (case task_worker t of
           ConnectionWorker _ \<Rightarrow> phase (relay_status (rs_orc s) a) \<in> {Connecting, Connected}
         | RetryWorker d \<Rightarrow> phase (relay_status (rs_orc s) a) = RetryWaiting
             \<and> next_retry_delay_ms (relay_status (rs_orc s) a) = Some d))"
proof -
  have "account_inv s a"
    using relay_reach_inv [OF assms(1)] by (simp add: relay_inv_def)
  then show ?thesis
    using assms(2)
    by (auto simp: account_inv_def relay_status_def task_fits_def lifecycle_new_def
        split: option.splits task_worker.splits)
qed

text \<open>Every event the pump applies fits: an event that was accepted as current never meets a
  lifecycle that refuses it and never finds another task in its way, so that applying it can only
  fail when the operating system gives no thread (under the same condition on starts and stops).\<close>

theorem relay_accepted_events_fit:
  assumes "relay_reach True s" "rs_hand s = Some e" "rs_next s + 1 \<noteq> 0"
    and "relay_apply_event (rs_orc s) e spawn = (orc, Err err)"
  shows "err = OrchestratorRuntime WorkerUnavailable"
  using apply_inv [OF relay_reach_inv [OF assms(1)] assms(2-4)] by simp

section \<open>An example, and the race\<close>

definition relay_failed_event :: "u64 \<Rightarrow> runtime_event" where
  "relay_failed_event g = \<lparr>event_account = ''me'', event_generation = g,
     event_kind = KindConnectionFailed RelayUnavailable\<rparr>"

definition relay_example ::
  "relay_lifecycle option \<Rightarrow> u64 option \<Rightarrow> u64 \<Rightarrow> runtime_event option \<Rightarrow> relay_system"
where
  "relay_example l task next' hand =
     \<lparr>rs_orc = \<lparr>orc_accounts = (\<lambda>a. if a = ''me'' then l else None),
        orc_executor = \<lparr>ex_tasks = (\<lambda>a. if a = ''me'' then map_option (\<lambda>g. \<lparr>task_generation = g,
            task_worker = ConnectionWorker False, task_ended = False\<rparr>) task else None),
          ex_next_generation = next', ex_queue = []\<rparr>\<rparr>, rs_hand = hand\<rparr>"

abbreviation "connecting_lifecycle \<equiv> lifecycle_new\<lparr>phase := Connecting\<rparr>"

lemma relay_example_started:
  "relay_reach orderly (relay_example (Some connecting_lifecycle) (Some 1) 2 None)"
proof -
  have "relay_start (rs_orc system_new) ''me'' True =
      (rs_orc (relay_example (Some connecting_lifecycle) (Some 1) 2 None), Ok connecting_lifecycle)"
    by (auto simp: relay_start_def lifecycle_start_def perform_def execute_action_def execute_def
        start_connection_def start_worker_def insert_with_def system_new_def orchestrator_new_def
        executor_new_def relay_example_def lifecycle_new_def fun_eq_iff)
  from relay_reach.start [OF relay_reach.init _ _ this] show ?thesis
    by (simp add: system_new_def orchestrator_new_def executor_new_def relay_example_def)
qed

lemma relay_example_failed:
  "relay_reach orderly (relay_example (Some connecting_lifecycle) None 2 (Some (relay_failed_event 1)))"
proof -
  note returned = relay_reach.returned [OF relay_example_started, where a = "''me''" and code = RelayUnavailable]
  show ?thesis
    using relay_reach.accepted [OF returned]
    by (simp add: connection_task_returns_def send_event_def with_executor_def try_next_event_def
        accept_current_event_def is_terminal_def stop_if_generation_def relay_example_def
        relay_failed_event_def fun_upd_def cong: if_cong)
qed

theorem relay_task_matches_phase_witness:
  "phase (relay_status (rs_orc (relay_example (Some connecting_lifecycle) (Some 1) 2 None)) ''me'')
     \<in> {Connecting, Connected}"
  using relay_task_matches_phase [OF relay_example_started, of "''me''"]
  by (simp add: relay_example_def)

theorem relay_accepted_events_fit_witness:
  "snd (relay_apply_event (rs_orc (relay_example (Some connecting_lifecycle) None 2
     (Some (relay_failed_event 1)))) (relay_failed_event 1) False)
   = Err (OrchestratorRuntime WorkerUnavailable)"
proof -
  let ?r = "relay_apply_event (rs_orc (relay_example (Some connecting_lifecycle) None 2
     (Some (relay_failed_event 1)))) (relay_failed_event 1) False"
  obtain orc err where "?r = (orc, Err err)"
    by (simp add: relay_apply_event_def relay_example_def relay_failed_event_def
        lifecycle_of_event_def lifecycle_defs is_retryable_connection_error_def perform_def
        execute_action_def execute_def schedule_retry_def start_worker_def insert_with_def)
  then show ?thesis
    using relay_accepted_events_fit [OF relay_example_failed, of "relay_failed_event 1" False]
    by (simp add: relay_example_def)
qed

lemma relay_example_raced:
  "\<exists>l. phase l = RuntimeError \<and> relay_reach False (relay_example (Some l) (Some 2) 4 None)"
proof -
  let ?hand = "Some (relay_failed_event 1)"
  have "relay_stop (rs_orc (relay_example (Some connecting_lifecycle) None 2 ?hand)) ''me'' =
      (rs_orc (relay_example None None 2 ?hand), Ok True)"
    by (simp add: relay_stop_def relay_example_def lifecycle_defs execute_action_def execute_def
        stop_by_name_def fun_upd_def cong: if_cong)
  from relay_reach.stop [OF relay_example_failed [of False] _ this]
  have stopped: "relay_reach False (relay_example None None 2 ?hand)"
    by (simp add: relay_example_def)
  have "relay_start (rs_orc (relay_example None None 2 ?hand)) ''me'' True =
      (rs_orc (relay_example (Some connecting_lifecycle) (Some 2) 3 ?hand), Ok connecting_lifecycle)"
    by (auto simp: relay_start_def lifecycle_start_def perform_def execute_action_def execute_def
        start_connection_def start_worker_def insert_with_def relay_example_def lifecycle_new_def
        fun_eq_iff)
  from relay_reach.start [OF stopped _ _ this]
  have started: "relay_reach False (relay_example (Some connecting_lifecycle) (Some 2) 3 ?hand)"
    by (simp add: relay_example_def)
  define l where "l = runtime_failed (fst (after_connection_loss connecting_lifecycle RelayUnavailable))"
  have "relay_apply_event (rs_orc (relay_example (Some connecting_lifecycle) (Some 2) 3 ?hand))
      (relay_failed_event 1) True =
      (rs_orc (relay_example (Some l) (Some 2) 4 None), Err (OrchestratorRuntime TaskAlreadyActive))"
    by (auto simp: relay_apply_event_def relay_example_def relay_failed_event_def l_def
        lifecycle_of_event_def lifecycle_defs is_retryable_connection_error_def perform_def
        execute_action_def execute_def schedule_retry_def start_worker_def insert_with_def fun_eq_iff)
  from relay_reach.applied [OF started _ _ this]
  have "relay_reach False (relay_example (Some l) (Some 2) 4 None)"
    by (simp add: relay_example_def)
  moreover have "phase l = RuntimeError"
    by (simp add: l_def runtime_failed_def)
  ultimately show ?thesis by blast
qed

text \<open>C35: When a stop and a start fall between the two sections of the pump, the event of the old
  task is applied to the new lifecycle: the account reports an error while its new connection task
  runs, and the next stop, though it answers that it stopped the account, leaves that task
  running.\<close>

theorem relay_stop_can_leave_a_task_running:
  "\<exists>s orc. relay_reach False s \<and> rs_hand s = None
     \<and> relay_stop (rs_orc s) ''me'' = (orc, Ok True)
     \<and> orc_accounts orc ''me'' = None \<and> ex_tasks (orc_executor orc) ''me'' \<noteq> None"
proof -
  obtain l where l: "phase l = RuntimeError" "relay_reach False (relay_example (Some l) (Some 2) 4 None)"
    using relay_example_raced by blast
  have "\<exists>orc. relay_stop (rs_orc (relay_example (Some l) (Some 2) 4 None)) ''me'' = (orc, Ok True)
      \<and> orc_accounts orc ''me'' = None \<and> ex_tasks (orc_executor orc) ''me'' \<noteq> None"
    using l(1) by (simp add: relay_stop_def relay_example_def lifecycle_stop_def lifecycle_new_def
        execute_action_def execute_def)
  then show ?thesis
    using l(2) by (intro exI [of _ "relay_example (Some l) (Some 2) 4 None"]) (simp add: relay_example_def)
qed

section \<open>Cancellation\<close>

text \<open>Any number of threads register hooks and cancel, in any order.\<close>

datatype 'h cancel_event = EvOnCancel 'h | EvCancel

fun cancel_run :: "'h relay_cancellation \<Rightarrow> 'h cancel_event list \<Rightarrow> 'h relay_cancellation \<times> 'h list" where
  "cancel_run c [] = (c, [])"
| "cancel_run c (e # es) =
     (case (case e of EvOnCancel h \<Rightarrow> on_cancel h c | EvCancel \<Rightarrow> cancel c) of
        (c', runs) \<Rightarrow> (case cancel_run c' es of (c'', runs') \<Rightarrow> (c'', runs @ runs')))"

definition registered :: "'h cancel_event list \<Rightarrow> 'h list" where
  "registered es = List.map_filter (\<lambda>e. case e of EvOnCancel h \<Rightarrow> Some h | EvCancel \<Rightarrow> None) es"

lemma cancel_run_invariant:
  "cancel_run c es = (c', runs) \<Longrightarrow> (is_cancelled c \<longrightarrow> cancel_hooks c = []) \<Longrightarrow>
     cancel_hooks c @ registered es = runs @ cancel_hooks c'
     \<and> (is_cancelled c' \<longleftrightarrow> is_cancelled c \<or> EvCancel \<in> set es)
     \<and> (is_cancelled c' \<longrightarrow> cancel_hooks c' = [])
     \<and> (\<not> is_cancelled c' \<longrightarrow> runs = [])"
proof (induction es arbitrary: c runs)
  case Nil
  then show ?case by (auto simp: registered_def map_filter_simps)
next
  case (Cons e es)
  then show ?case
    by (cases e) (fastforce simp: registered_def map_filter_simps on_cancel_def cancel_def
        split: prod.splits if_splits)+
qed

text \<open>Cancellation runs every hook exactly once, whether it was registered before or after the
  cancellation and however often it is cancelled; without a cancellation no hook runs.\<close>

theorem cancellation_runs_each_hook_once:
  "mset (snd (cancel_run cancellation_new es)) = (if EvCancel \<in> set es then mset (registered es) else {#})"
proof -
  obtain c runs where run: "cancel_run cancellation_new es = (c, runs)" by fastforce
  have "registered es = runs @ cancel_hooks c" "is_cancelled c \<longleftrightarrow> EvCancel \<in> set es"
    "is_cancelled c \<longrightarrow> cancel_hooks c = []" "\<not> is_cancelled c \<longrightarrow> runs = []"
    using cancel_run_invariant [OF run] by (simp_all add: cancellation_new_def)
  then show ?thesis
    using run by auto
qed

end
