(* ===== verification/Command_Confirmations.thy ===== *)
theory Command_Confirmations
  imports Confirmation_Claims
begin

text \<open>
  The desktop's side of the confirmations
  (\<open>apps/desktop/src-tauri/src/command_confirmations.rs\<close>): one mutex around the registry, the
  active command session of each Room, and the waiters with their answers. Each function is
  given as its critical sections; a thread that waits is a record of its local variables, and
  every return of \<open>wait\_timeout\<close> is one more poll. A poisoned lock is not modelled. Instants are
  numbers; a workspace is its identity key.
\<close>

section \<open>Data\<close>

datatype desktop_confirmation_decision =
  Desktop_AllowOnce | Desktop_AllowRoomSession | Desktop_Deny | Desktop_Dismissed

record desktop_command_confirmation_view =
  view_request_id :: string
  view_room_id :: string
  view_action :: string
  view_reason :: string
  view_target_label :: string
  view_room_session_allowed :: bool

record desktop_command_confirmation_pending =
  pending_ok :: bool
  pending_room_id :: string
  pending_views :: "desktop_command_confirmation_view list"

datatype desktop_confirmation_resolution_status = Status_AuthorizationReady | Status_Denied

record desktop_command_confirmation_resolution =
  resolution_ok :: bool
  resolution_request_id :: string
  resolution_status :: desktop_confirmation_resolution_status
  resolution_denial :: "string option"

record desktop_command_room_session_status =
  session_status_ok :: bool
  session_status_room_id :: string
  session_status_active :: bool

record desktop_command_confirmation_error =
  confirmation_error_code :: string
  confirmation_error_message :: string

datatype desktop_command_authorization_outcome =
  Outcome_Authorized command_authorization
| Outcome_Denied confirmation_denial
| Outcome_RoomSessionEnded

datatype desktop_command_wait_resolution =
  Resolved confirmation_resolve_outcome | RoomSessionEnded

text \<open>The session and the context have the same three fields.\<close>

record desktop_room_command_session =
  session_room_id :: string
  session_session_id :: string
  session_workspace_key :: string

type_synonym desktop_room_command_context = desktop_room_command_session

record desktop_command_confirmation_state =
  registry :: command_confirmation_registry
  room_sessions :: "(string, desktop_room_command_session) btree"
  waiting_sessions :: "(string, string) btree"
  resolutions :: "(string, desktop_command_wait_resolution) btree"

record desktop_command_confirmations =
  confirmation_state :: desktop_command_confirmation_state
  next_session_sequence :: u64
  next_request_sequence :: u64

definition confirmation_state_default :: desktop_command_confirmation_state where
  "confirmation_state_default =
     \<lparr>registry = registry_default, room_sessions = [], waiting_sessions = [], resolutions = []\<rparr>"

definition confirmations_default :: desktop_command_confirmations where
  "confirmations_default =
     \<lparr>confirmation_state = confirmation_state_default, next_session_sequence = 1,
      next_request_sequence = 1\<rparr>"

section \<open>Labels and errors\<close>

fun action_label :: "action_time_command \<Rightarrow> string" where
  "action_label GitPush = ''gitPush''"
| "action_label PackageInstall = ''packageInstall''"
| "action_label CargoFetch = ''cargoFetch''"
| "action_label UnregisteredTool = ''unregisteredTool''"
| "action_label CredentialUse = ''credentialUse''"
| "action_label AdministratorOperation = ''administratorOperation''"
| "action_label DestructiveOperation = ''destructiveOperation''"

definition reason_label :: "action_time_command \<Rightarrow> string" where
  "reason_label command =
     (case action_reason command of
        ExternalMutation \<Rightarrow> ''externalMutation''
      | NetworkDownload \<Rightarrow> ''networkDownload''
      | Reason_UnregisteredTool \<Rightarrow> ''unregisteredTool''
      | Reason_CredentialUse \<Rightarrow> ''credentialUse''
      | PrivilegeExpansion \<Rightarrow> ''privilegeExpansion''
      | DestructiveChange \<Rightarrow> ''destructiveChange'')"

fun denial_label :: "confirmation_denial \<Rightarrow> string" where
  "denial_label Denial_OwnerDenied = ''ownerDenied''"
| "denial_label Denial_Dismissed = ''dismissed''"
| "denial_label Denial_TimedOut = ''timedOut''"
| "denial_label SessionLifetimeNotAllowed = ''sessionLifetimeNotAllowed''"

definition confirmation_invalid :: desktop_command_confirmation_error where
  "confirmation_invalid =
     \<lparr>confirmation_error_code = ''invalidCommandConfirmation'',
      confirmation_error_message = ''The command confirmation request is invalid.''\<rparr>"

definition confirmation_not_pending :: desktop_command_confirmation_error where
  "confirmation_not_pending =
     \<lparr>confirmation_error_code = ''commandConfirmationNotPending'',
      confirmation_error_message = ''The command confirmation is no longer pending.''\<rparr>"

definition confirmation_unavailable :: desktop_command_confirmation_error where
  "confirmation_unavailable =
     \<lparr>confirmation_error_code = ''commandConfirmationUnavailable'',
      confirmation_error_message = ''Command confirmation is temporarily unavailable.''\<rparr>"

fun map_contract_error :: "confirmation_contract_error \<Rightarrow> desktop_command_confirmation_error" where
  "map_contract_error InvalidRequestId_Contract = confirmation_invalid"
| "map_contract_error InvalidScope = confirmation_invalid"
| "map_contract_error UnknownRequest = confirmation_not_pending"
| "map_contract_error RequestAlreadyResolved = confirmation_not_pending"
| "map_contract_error RequestIdConflict = confirmation_unavailable"
| "map_contract_error ScopeMismatch = confirmation_unavailable"
| "map_contract_error TooManyPending = confirmation_unavailable"
| "map_contract_error TerminalRegistryFull = confirmation_unavailable"

fun map_decision :: "desktop_confirmation_decision \<Rightarrow> confirmation_decision" where
  "map_decision Desktop_AllowOnce = AllowOnce"
| "map_decision Desktop_AllowRoomSession = AllowRoomSession"
| "map_decision Desktop_Deny = Deny"
| "map_decision Desktop_Dismissed = Dismissed"

definition confirmation_valid_identifier :: "string \<Rightarrow> bool" where
  "confirmation_valid_identifier value \<longleftrightarrow>
     value \<noteq> [] \<and> length value \<le> 256 \<and> list_all is_ascii_graphic value"

definition confirmation_view :: "command_confirmation_request \<Rightarrow> desktop_command_confirmation_view" where
  "confirmation_view request =
     (let scope = confirmation_scope request in
      \<lparr>view_request_id = confirmation_request_id request,
       view_room_id = scope_room_id scope,
       view_action = action_label (scope_command scope),
       view_reason = reason_label (scope_command scope),
       view_target_label = scope_target_label scope,
       view_room_session_allowed = scope_allows_room_session scope\<rparr>)"

fun confirmation_resolution ::
  "string \<Rightarrow> confirmation_resolve_outcome \<Rightarrow> desktop_command_confirmation_resolution"
where
  "confirmation_resolution request_id AuthorizationReady =
     \<lparr>resolution_ok = True, resolution_request_id = request_id,
      resolution_status = Status_AuthorizationReady, resolution_denial = None\<rparr>"
| "confirmation_resolution request_id (Resolve_Denied denial) =
     \<lparr>resolution_ok = True, resolution_request_id = request_id,
      resolution_status = Status_Denied, resolution_denial = Some (denial_label denial)\<rparr>"

section \<open>Room sessions\<close>

definition active_room_context ::
  "desktop_command_confirmation_state \<Rightarrow> string \<Rightarrow> string \<Rightarrow> desktop_room_command_context option"
where
  "active_room_context state room_id identity_key =
     (case bt_get (room_sessions state) room_id of
        None \<Rightarrow> None
      | Some session \<Rightarrow>
          if session_workspace_key session = identity_key
          then Some \<lparr>session_room_id = session_room_id session,
                     session_session_id = session_session_id session,
                     session_workspace_key = session_workspace_key session\<rparr>
          else None)"

definition matches_active_context ::
  "desktop_command_confirmation_state \<Rightarrow> desktop_room_command_context \<Rightarrow> bool"
where
  "matches_active_context state ctx =
     is_some_and (bt_get (room_sessions state) (session_room_id ctx))
       (\<lambda>session. session_room_id session = session_room_id ctx
          \<and> session_session_id session = session_session_id ctx
          \<and> session_workspace_key session = session_workspace_key ctx)"

definition end_session_in_state ::
  "desktop_command_confirmation_state \<Rightarrow> string
     \<Rightarrow> desktop_command_confirmation_state \<times> nat \<times> bool"
where
  "end_session_in_state state session_id =
     (let waiting_request_ids =
            map fst (filter (\<lambda>(_, waiting_session_id). waiting_session_id = session_id)
                       (waiting_sessions state));
          (reg, removed) = end_room_session (registry state) session_id in
      (state\<lparr>registry := reg,
             resolutions := fold (\<lambda>request_id. bt_insert request_id RoomSessionEnded)
               waiting_request_ids (resolutions state)\<rparr>,
       removed, waiting_request_ids \<noteq> []))"

text \<open>The critical section of \<open>begin\_room\_session\<close>: the new session replaces the Room's old one,
  which is ended.\<close>

definition install_room_session ::
  "desktop_command_confirmation_state \<Rightarrow> desktop_room_command_session
     \<Rightarrow> desktop_command_confirmation_state"
where
  "install_room_session state session =
     (let room_id = session_room_id session;
          state1 = state\<lparr>room_sessions := bt_remove room_id (room_sessions state)\<rparr>;
          state2 = (case bt_get (room_sessions state) room_id of
                      None \<Rightarrow> state1
                    | Some previous \<Rightarrow>
                        fst (end_session_in_state state1 (session_session_id previous))) in
      state2\<lparr>room_sessions := bt_insert room_id session (room_sessions state2)\<rparr>)"

text \<open>\<open>fetch\_update\<close> with \<open>checked\_add(1)\<close>: the value before, and the value after.\<close>

definition take_sequence :: "u64 \<Rightarrow> (u64 \<times> u64) option" where
  "take_sequence current = (if current = - 1 then None else Some (current, current + 1))"

definition begin_room_session ::
  "nat \<Rightarrow> desktop_command_confirmations \<Rightarrow> string \<Rightarrow> string
     \<Rightarrow> desktop_command_confirmations
        \<times> (desktop_room_command_session, desktop_command_confirmation_error) result"
where
  "begin_room_session process_id confirmations room_id identity_key =
     (if \<not> confirmation_valid_identifier room_id then (confirmations, Err confirmation_invalid)
      else
        (case take_sequence (next_session_sequence confirmations) of
           None \<Rightarrow> (confirmations, Err confirmation_unavailable)
         | Some (sequence, following) \<Rightarrow>
             (let session = \<lparr>session_room_id = room_id,
                    session_session_id = ''mio-command-session-'' @ nat_to_string process_id
                      @ ''-'' @ nat_to_string (unat sequence),
                    session_workspace_key = identity_key\<rparr> in
              (confirmations
                 \<lparr>next_session_sequence := following,
                  confirmation_state := install_room_session (confirmation_state confirmations) session\<rparr>,
               Ok session))))"

definition ensure_room_session ::
  "nat \<Rightarrow> desktop_command_confirmations \<Rightarrow> string \<Rightarrow> string
     \<Rightarrow> desktop_command_confirmations
        \<times> (desktop_room_command_session, desktop_command_confirmation_error) result"
where
  "ensure_room_session process_id confirmations room_id identity_key =
     (if \<not> confirmation_valid_identifier room_id then (confirmations, Err confirmation_invalid)
      else
        (case bt_get (room_sessions (confirmation_state confirmations)) room_id of
           Some current \<Rightarrow>
             if session_workspace_key current = identity_key then (confirmations, Ok current)
             else begin_room_session process_id confirmations room_id identity_key
         | None \<Rightarrow> begin_room_session process_id confirmations room_id identity_key))"

definition desktop_end_room_session ::
  "desktop_command_confirmation_state \<Rightarrow> string
     \<Rightarrow> desktop_command_confirmation_state \<times> (nat, desktop_command_confirmation_error) result"
where
  "desktop_end_room_session state room_id =
     (if \<not> confirmation_valid_identifier room_id then (state, Err confirmation_invalid)
      else
        (case bt_get (room_sessions state) room_id of
           None \<Rightarrow> (state, Ok 0)
         | Some session \<Rightarrow>
             (let (state', removed, woke_waiters) =
                    end_session_in_state
                      (state\<lparr>room_sessions := bt_remove room_id (room_sessions state)\<rparr>)
                      (session_session_id session) in
              (state', Ok removed))))"

definition session_scope ::
  "desktop_room_command_session \<Rightarrow> action_time_command \<Rightarrow> string
     \<Rightarrow> (command_confirmation_scope, desktop_command_confirmation_error) result"
where
  "session_scope session command target_label =
     map_err map_contract_error
       (command_confirmation_scope_new (session_room_id session) (session_session_id session)
          (session_workspace_key session) command target_label)"

section \<open>Waiting\<close>

text \<open>What one critical section of a waiting thread comes to: the thread returns, or it waits on.\<close>

datatype wait_step =
  Answer "(desktop_command_authorization_outcome, desktop_command_confirmation_error) result"
| StillWaiting

text \<open>The local variables of a thread in \<open>wait\_for\_authorization\_inner\<close>.\<close>

record authorization_waiter =
  waiter_request_id :: string
  waiter_scope :: command_confirmation_scope
  waiter_deadline :: nat
  waiter_session :: "desktop_room_command_session option"

text \<open>The check of the session at the start of the wait.\<close>

definition session_is_over ::
  "desktop_command_confirmation_state \<Rightarrow> command_confirmation_scope
     \<Rightarrow> desktop_room_command_session option \<Rightarrow> bool"
where
  "session_is_over state scope active_session =
     is_some_and active_session
       (\<lambda>expected. bt_get (room_sessions state) (session_room_id expected) \<noteq> Some expected
          \<or> scope_room_id scope \<noteq> session_room_id expected
          \<or> scope_session_id scope \<noteq> session_session_id expected
          \<or> scope_workspace_key scope \<noteq> session_workspace_key expected)"

definition wait_enter ::
  "desktop_command_confirmation_state \<Rightarrow> command_confirmation_request \<Rightarrow> nat option
     \<Rightarrow> desktop_room_command_session option \<Rightarrow> desktop_command_confirmation_state \<times> wait_step"
where
  "wait_enter state request deadline active_session =
     (let request_id = confirmation_request_id request;
          scope = confirmation_scope request in
      case deadline of
        None \<Rightarrow> (state, Answer (Err confirmation_invalid))
      | Some _ \<Rightarrow>
          if session_is_over state scope active_session
          then (state, Answer (Ok Outcome_RoomSessionEnded))
          else if bt_contains_key (waiting_sessions state) request_id
          then (state, Answer (Err confirmation_unavailable))
          else
            (case register_confirmation (registry state) request of
               (reg, Inl e) \<Rightarrow> (state\<lparr>registry := reg\<rparr>, Answer (Err (map_contract_error e)))
             | (reg, Inr AuthorizedByRoomSession) \<Rightarrow>
                 (let (reg', authorization) = consume_authorization reg request_id scope in
                  (state\<lparr>registry := reg'\<rparr>,
                   Answer (case authorization of
                       Inl e \<Rightarrow> Err (map_contract_error e)
                     | Inr a \<Rightarrow> Ok (Outcome_Authorized a))))
             | (reg, Inr Register_Pending) \<Rightarrow>
                 (state\<lparr>registry := reg,
                        waiting_sessions :=
                          bt_insert request_id (scope_session_id scope) (waiting_sessions state)\<rparr>,
                  StillWaiting)
             | (reg, Inr AlreadyPending) \<Rightarrow>
                 (state\<lparr>registry := reg\<rparr>, Answer (Err confirmation_unavailable))))"

text \<open>One round of the loop.\<close>

definition wait_poll ::
  "desktop_command_confirmation_state \<Rightarrow> authorization_waiter \<Rightarrow> nat
     \<Rightarrow> desktop_command_confirmation_state \<times> wait_step"
where
  "wait_poll state waiter now =
     (let request_id = waiter_request_id waiter in
      case bt_get (resolutions state) request_id of
        Some resolution \<Rightarrow>
          (let state1 = state\<lparr>resolutions := bt_remove request_id (resolutions state),
                              waiting_sessions := bt_remove request_id (waiting_sessions state)\<rparr> in
           case resolution of
             Resolved AuthorizationReady \<Rightarrow>
               (let (reg, authorization) =
                      consume_authorization (registry state1) request_id (waiter_scope waiter) in
                (state1\<lparr>registry := reg\<rparr>,
                 Answer (case authorization of
                     Inl e \<Rightarrow> Err (map_contract_error e)
                   | Inr a \<Rightarrow> Ok (Outcome_Authorized a))))
           | Resolved (Resolve_Denied denial) \<Rightarrow> (state1, Answer (Ok (Outcome_Denied denial)))
           | RoomSessionEnded \<Rightarrow> (state1, Answer (Ok Outcome_RoomSessionEnded)))
      | None \<Rightarrow>
          if waiter_deadline waiter \<le> now
          then
            (let (reg, outcome) = resolve_confirmation (registry state) request_id TimedOut in
             (state\<lparr>waiting_sessions := bt_remove request_id (waiting_sessions state), registry := reg\<rparr>,
              Answer (case outcome of
                  Inl e \<Rightarrow> Err (map_contract_error e)
                | Inr (Resolve_Denied denial) \<Rightarrow> Ok (Outcome_Denied denial)
                | Inr AuthorizationReady \<Rightarrow> Err confirmation_unavailable)))
          else (state, StillWaiting))"

text \<open>\<open>wait\_for\_room\_authorization\<close> up to its wait, without other calls between its sections; the
  workspace is what \<open>available\_workspace\<close> says, an error counted as none.\<close>

definition wait_for_room_authorization ::
  "nat \<Rightarrow> desktop_command_confirmations \<Rightarrow> string option \<Rightarrow> nat option \<Rightarrow> string
     \<Rightarrow> action_time_command \<Rightarrow> string \<Rightarrow> desktop_command_confirmations \<times> wait_step"
where
  "wait_for_room_authorization process_id confirmations workspace deadline room_id command target_label =
     (let ended = (let (state, result) =
                         desktop_end_room_session (confirmation_state confirmations) room_id in
                   (confirmations\<lparr>confirmation_state := state\<rparr>,
                    case result of Inl e \<Rightarrow> Answer (Err e)
                    | Inr _ \<Rightarrow> Answer (Ok Outcome_RoomSessionEnded))) in
      if \<not> confirmation_valid_identifier room_id then (confirmations, Answer (Err confirmation_invalid))
      else
        (case bt_get (room_sessions (confirmation_state confirmations)) room_id of
           None \<Rightarrow> (confirmations, Answer (Ok Outcome_RoomSessionEnded))
         | Some session \<Rightarrow>
             (case workspace of
                None \<Rightarrow> ended
              | Some identity_key \<Rightarrow>
                  if identity_key \<noteq> session_workspace_key session then ended
                  else
                    (case take_sequence (next_request_sequence confirmations) of
                       None \<Rightarrow> (confirmations, Answer (Err confirmation_unavailable))
                     | Some (sequence, following) \<Rightarrow>
                         (let confirmations1 = confirmations\<lparr>next_request_sequence := following\<rparr>;
                              request_id = ''mio-command-request-'' @ nat_to_string process_id
                                @ ''-'' @ nat_to_string (unat sequence) in
                          case session_scope session command target_label of
                            Inl e \<Rightarrow> (confirmations1, Answer (Err e))
                          | Inr scope \<Rightarrow>
                              (case command_confirmation_request_new request_id scope of
                                 Inl e \<Rightarrow> (confirmations1, Answer (Err (map_contract_error e)))
                               | Inr request \<Rightarrow>
                                   (let (state, outcome) =
                                          wait_enter (confirmation_state confirmations1) request
                                            deadline (Some session) in
                                    (confirmations1\<lparr>confirmation_state := state\<rparr>, outcome))))))))"

section \<open>The owner's side\<close>

definition pending_for_room ::
  "desktop_command_confirmation_state \<Rightarrow> string
     \<Rightarrow> (desktop_command_confirmation_pending, desktop_command_confirmation_error) result"
where
  "pending_for_room state room_id =
     (if \<not> confirmation_valid_identifier room_id then Err confirmation_invalid
      else Ok \<lparr>pending_ok = True, pending_room_id = room_id,
               pending_views =
                 map confirmation_view
                   (filter (\<lambda>request. scope_room_id (confirmation_scope request) = room_id)
                      (pending_requests (registry state)))\<rparr>)"

text \<open>The answer is left for the thread that waits for it, when there is one.\<close>

definition leave_resolution ::
  "desktop_command_confirmation_state \<Rightarrow> string \<Rightarrow> confirmation_resolve_outcome
     \<Rightarrow> desktop_command_confirmation_state"
where
  "leave_resolution state request_id outcome =
     (if bt_contains_key (waiting_sessions state) request_id
      then state\<lparr>resolutions := bt_insert request_id (Resolved outcome) (resolutions state)\<rparr>
      else state)"

definition resolve_for_room ::
  "desktop_command_confirmation_state \<Rightarrow> string \<Rightarrow> string \<Rightarrow> desktop_confirmation_decision
     \<Rightarrow> desktop_command_confirmation_state
        \<times> (desktop_command_confirmation_resolution, desktop_command_confirmation_error) result"
where
  "resolve_for_room state room_id request_id decision =
     (if \<not> confirmation_valid_identifier room_id \<or> \<not> confirmation_valid_identifier request_id
      then (state, Err confirmation_invalid)
      else if \<not> list_ex (\<lambda>request. confirmation_request_id request = request_id
                 \<and> scope_room_id (confirmation_scope request) = room_id)
                (pending_requests (registry state))
      then (state, Err confirmation_not_pending)
      else
        (case resolve_confirmation (registry state) request_id (map_decision decision) of
           (reg, Inl e) \<Rightarrow> (state\<lparr>registry := reg\<rparr>, Err (map_contract_error e))
         | (reg, Inr outcome) \<Rightarrow>
             (leave_resolution (state\<lparr>registry := reg\<rparr>) request_id outcome,
              Ok (confirmation_resolution request_id outcome))))"

definition confirmation_timeout ::
  "desktop_command_confirmation_state \<Rightarrow> string
     \<Rightarrow> desktop_command_confirmation_state
        \<times> (confirmation_resolve_outcome, desktop_command_confirmation_error) result"
where
  "confirmation_timeout state request_id =
     (case resolve_confirmation (registry state) request_id TimedOut of
        (reg, Inl e) \<Rightarrow> (state\<lparr>registry := reg\<rparr>, Err (map_contract_error e))
      | (reg, Inr outcome) \<Rightarrow>
          (leave_resolution (state\<lparr>registry := reg\<rparr>) request_id outcome, Ok outcome))"

definition desktop_consume_authorization ::
  "desktop_command_confirmation_state \<Rightarrow> string \<Rightarrow> command_confirmation_scope
     \<Rightarrow> desktop_command_confirmation_state
        \<times> (command_authorization, desktop_command_confirmation_error) result"
where
  "desktop_consume_authorization state request_id expected_scope =
     (let (reg, authorization) = consume_authorization (registry state) request_id expected_scope in
      (state\<lparr>registry := reg\<rparr>, map_err map_contract_error authorization))"

section \<open>The commands of the interface\<close>

text \<open>The Rooms' identifiers and the Room's workspace are what the Room source and the workspaces
  answer, an error as \<open>None\<close>.\<close>

definition room_session_activate ::
  "nat \<Rightarrow> desktop_command_confirmations \<Rightarrow> string list option \<Rightarrow> string option option \<Rightarrow> string
     \<Rightarrow> desktop_command_confirmations
        \<times> (desktop_command_room_session_status, desktop_command_confirmation_error) result"
where
  "room_session_activate process_id confirmations rooms workspace room_id =
     (let status = (\<lambda>active. \<lparr>session_status_ok = True, session_status_room_id = room_id,
                              session_status_active = active\<rparr>) in
      if \<not> confirmation_valid_identifier room_id then (confirmations, Err confirmation_invalid)
      else
        (case rooms of
           None \<Rightarrow> (confirmations, Err confirmation_unavailable)
         | Some ids \<Rightarrow>
             if room_id \<notin> set ids then (confirmations, Err confirmation_invalid)
             else
               (case workspace of
                  None \<Rightarrow> (confirmations, Err confirmation_unavailable)
                | Some (Some identity_key) \<Rightarrow>
                    (case ensure_room_session process_id confirmations room_id identity_key of
                       (confirmations', Inl e) \<Rightarrow> (confirmations', Err e)
                     | (confirmations', Inr _) \<Rightarrow> (confirmations', Ok (status True)))
                | Some None \<Rightarrow>
                    (case desktop_end_room_session (confirmation_state confirmations) room_id of
                       (state, Inl e) \<Rightarrow> (confirmations\<lparr>confirmation_state := state\<rparr>, Err e)
                     | (state, Inr _) \<Rightarrow>
                         (confirmations\<lparr>confirmation_state := state\<rparr>, Ok (status False))))))"

definition room_session_deactivate ::
  "desktop_command_confirmations \<Rightarrow> string
     \<Rightarrow> desktop_command_confirmations
        \<times> (desktop_command_room_session_status, desktop_command_confirmation_error) result"
where
  "room_session_deactivate confirmations room_id =
     (if \<not> confirmation_valid_identifier room_id then (confirmations, Err confirmation_invalid)
      else
        (case desktop_end_room_session (confirmation_state confirmations) room_id of
           (state, Inl e) \<Rightarrow> (confirmations\<lparr>confirmation_state := state\<rparr>, Err e)
         | (state, Inr _) \<Rightarrow>
             (confirmations\<lparr>confirmation_state := state\<rparr>,
              Ok \<lparr>session_status_ok = True, session_status_room_id = room_id,
                  session_status_active = False\<rparr>)))"

end
