(* ===== verification/Command_Confirmation_Claims.thy ===== *)
theory Command_Confirmation_Claims
  imports Command_Confirmations
begin

text \<open>
  What the desktop's confirmations promise to a thread that waits for one, whatever other
  threads do between its critical sections: it is let through only with what the owner allowed
  and only while its Room session is the active one, and it does come back.
\<close>

section \<open>The critical sections as a machine\<close>

record desk =
  desk_state :: desktop_command_confirmation_state
  waiters :: "authorization_waiter list"

definition desk_default :: desk where
  "desk_default = \<lparr>desk_state = confirmation_state_default, waiters = []\<rparr>"

text \<open>The session to install is any: which sequence number it got, and when, does not matter.\<close>

datatype desk_event =
  Desk_Install desktop_room_command_session
| Desk_Enter string command_confirmation_scope "nat option" "desktop_room_command_session option"
| Desk_Poll string nat
| Desk_Resolve string string desktop_confirmation_decision
| Desk_Timeout string
| Desk_Consume string command_confirmation_scope
| Desk_End string

definition waiter_of :: "desk \<Rightarrow> string \<Rightarrow> authorization_waiter option" where
  "waiter_of d i = find (\<lambda>w. waiter_request_id w = i) (waiters d)"

fun desk_step :: "desk \<Rightarrow> desk_event \<Rightarrow> desk" where
  "desk_step d (Desk_Install session) =
     d\<lparr>desk_state := install_room_session (desk_state d) session\<rparr>"
| "desk_step d (Desk_Enter i scope deadline session) =
     (case command_confirmation_request_new i scope of
        Inl _ \<Rightarrow> d
      | Inr request \<Rightarrow>
          (case wait_enter (desk_state d) request deadline session of
             (state, Answer _) \<Rightarrow> d\<lparr>desk_state := state\<rparr>
           | (state, StillWaiting) \<Rightarrow>
               \<lparr>desk_state = state,
                waiters = \<lparr>waiter_request_id = i, waiter_scope = scope,
                  waiter_deadline = the deadline, waiter_session = session\<rparr> # waiters d\<rparr>))"
| "desk_step d (Desk_Poll i now) =
     (case waiter_of d i of
        None \<Rightarrow> d
      | Some w \<Rightarrow>
          (case wait_poll (desk_state d) w now of
             (state, Answer _) \<Rightarrow>
               \<lparr>desk_state = state, waiters = filter (\<lambda>v. waiter_request_id v \<noteq> i) (waiters d)\<rparr>
           | (state, StillWaiting) \<Rightarrow> d\<lparr>desk_state := state\<rparr>))"
| "desk_step d (Desk_Resolve room i decision) =
     d\<lparr>desk_state := fst (resolve_for_room (desk_state d) room i decision)\<rparr>"
| "desk_step d (Desk_Timeout i) = d\<lparr>desk_state := fst (confirmation_timeout (desk_state d) i)\<rparr>"
| "desk_step d (Desk_Consume i scope) =
     d\<lparr>desk_state := fst (desktop_consume_authorization (desk_state d) i scope)\<rparr>"
| "desk_step d (Desk_End room) =
     d\<lparr>desk_state := fst (desktop_end_room_session (desk_state d) room)\<rparr>"

text \<open>The thread that returns in a step, with what it returns.\<close>

fun desk_returns ::
  "desk \<Rightarrow> desk_event \<Rightarrow> (authorization_waiter
     \<times> (desktop_command_authorization_outcome, desktop_command_confirmation_error) result) option"
where
  "desk_returns d (Desk_Enter i scope deadline session) =
     (case command_confirmation_request_new i scope of
        Inl _ \<Rightarrow> None
      | Inr request \<Rightarrow>
          (case snd (wait_enter (desk_state d) request deadline session) of
             Answer answer \<Rightarrow>
               Some (\<lparr>waiter_request_id = i, waiter_scope = scope,
                      waiter_deadline = the deadline, waiter_session = session\<rparr>, answer)
           | StillWaiting \<Rightarrow> None))"
| "desk_returns d (Desk_Poll i now) =
     (case waiter_of d i of
        None \<Rightarrow> None
      | Some w \<Rightarrow>
          (case snd (wait_poll (desk_state d) w now) of
             Answer answer \<Rightarrow> Some (w, answer) | StillWaiting \<Rightarrow> None))"
| "desk_returns d _ = None"

abbreviation desk_registry :: "desk \<Rightarrow> command_confirmation_registry" where
  "desk_registry d \<equiv> registry (desk_state d)"

section \<open>What the registry sees\<close>

text \<open>The calls of the registry that a step makes, so that a run of the desktop is a run of the
  registry and what holds for every run of it holds here.\<close>

definition end_calls :: "desk \<Rightarrow> string \<Rightarrow> registry_event list" where
  "end_calls d room =
     (case bt_get (room_sessions (desk_state d)) room of
        None \<Rightarrow> [] | Some session \<Rightarrow> [EvEndSession (session_session_id session)])"

fun desk_calls :: "desk \<Rightarrow> desk_event \<Rightarrow> registry_event list" where
  "desk_calls d (Desk_Install session) = end_calls d (session_room_id session)"
| "desk_calls d (Desk_Enter i scope deadline session) =
     (case command_confirmation_request_new i scope of
        Inl _ \<Rightarrow> []
      | Inr request \<Rightarrow>
          if deadline = None \<or> session_is_over (desk_state d) scope session
             \<or> bt_contains_key (waiting_sessions (desk_state d)) i
          then []
          else EvRegister i scope #
            (if snd (register_confirmation (desk_registry d) request) = Ok AuthorizedByRoomSession
             then [EvConsume i scope] else []))"
| "desk_calls d (Desk_Poll i now) =
     (case waiter_of d i of
        None \<Rightarrow> []
      | Some w \<Rightarrow>
          (case bt_get (resolutions (desk_state d)) (waiter_request_id w) of
             Some (Resolved AuthorizationReady) \<Rightarrow>
               [EvConsume (waiter_request_id w) (waiter_scope w)]
           | Some _ \<Rightarrow> []
           | None \<Rightarrow>
               if waiter_deadline w \<le> now then [EvResolve (waiter_request_id w) TimedOut] else []))"
| "desk_calls d (Desk_Resolve room i decision) =
     (if confirmation_valid_identifier room \<and> confirmation_valid_identifier i
         \<and> list_ex (\<lambda>request. confirmation_request_id request = i
               \<and> scope_room_id (confirmation_scope request) = room)
             (pending_requests (desk_registry d))
      then [EvResolve i (map_decision decision)] else [])"
| "desk_calls d (Desk_Timeout i) = [EvResolve i TimedOut]"
| "desk_calls d (Desk_Consume i scope) = [EvConsume i scope]"
| "desk_calls d (Desk_End room) = (if confirmation_valid_identifier room then end_calls d room else [])"

fun desk_log :: "desk \<Rightarrow> desk_event list \<Rightarrow> registry_event list" where
  "desk_log d [] = []"
| "desk_log d (e # es) = desk_calls d e @ desk_log (desk_step d e) es"

lemma request_new_Ok: "command_confirmation_request_new i scope = Ok request \<Longrightarrow>
    request = \<lparr>confirmation_request_id = i, confirmation_scope = scope\<rparr>"
  by (simp add: command_confirmation_request_new_def split: if_splits)

lemma end_session_in_state_simps [simp]:
  "registry (fst (end_session_in_state s sid)) = fst (end_room_session (registry s) sid)"
  "room_sessions (fst (end_session_in_state s sid)) = room_sessions s"
  "waiting_sessions (fst (end_session_in_state s sid)) = waiting_sessions s"
  by (simp_all add: end_session_in_state_def Let_def split: prod.split)

lemma leave_resolution_simps [simp]:
  "registry (leave_resolution s i r) = registry s"
  "room_sessions (leave_resolution s i r) = room_sessions s"
  "waiting_sessions (leave_resolution s i r) = waiting_sessions s"
  by (simp_all add: leave_resolution_def)

lemma fst_desktop_end: "fst (desktop_end_room_session s room) =
    (if confirmation_valid_identifier room then
       (case bt_get (room_sessions s) room of
          None \<Rightarrow> s
        | Some session \<Rightarrow> fst (end_session_in_state
            (s\<lparr>room_sessions := bt_remove room (room_sessions s)\<rparr>) (session_session_id session)))
     else s)"
  by (simp add: desktop_end_room_session_def split: option.split prod.split)

lemma desk_step_calls:
  "desk_registry (desk_step d e) = foldl registry_step (desk_registry d) (desk_calls d e)"
proof (cases e)
  case (Desk_Install s)
  then show ?thesis
    by (simp add: install_room_session_def end_calls_def Let_def split: option.split)
next
  case (Desk_Enter i scope deadline session)
  then show ?thesis
    by (cases "command_confirmation_request_new i scope")
      (auto simp: wait_enter_def Let_def dest: request_new_Ok
        split: option.splits prod.splits sum.splits confirmation_register_outcome.splits)
next
  case (Desk_Poll i now)
  then show ?thesis
    by (auto simp: wait_poll_def Let_def split: option.splits prod.splits
        desktop_command_wait_resolution.splits confirmation_resolve_outcome.splits)
next
  case (Desk_Resolve room i decision)
  then show ?thesis
    by (auto simp: resolve_for_room_def split: prod.split sum.split)
next
  case (Desk_Timeout i)
  then show ?thesis
    by (auto simp: confirmation_timeout_def split: prod.split sum.split)
next
  case (Desk_Consume i scope)
  then show ?thesis
    by (auto simp: desktop_consume_authorization_def split: prod.split)
next
  case (Desk_End room)
  then show ?thesis
    by (simp add: fst_desktop_end end_calls_def split: option.split)
qed

lemma desk_run_calls:
  "desk_registry (foldl desk_step d es) = foldl registry_step (desk_registry d) (desk_log d es)"
  by (induction es arbitrary: d) (simp_all add: desk_step_calls)

lemma desk_run_registry:
  "desk_registry (foldl desk_step desk_default es) = registry_run (desk_log desk_default es)"
  by (simp add: desk_run_calls registry_run_def)
    (simp add: desk_default_def confirmation_state_default_def)

section \<open>The waiters\<close>

text \<open>A waiter whose session is named is of that session; either that session is still the
  active one of its Room, or the answer that waits for it is its end and no decision can come.\<close>

definition session_holds :: "desktop_command_confirmation_state \<Rightarrow> authorization_waiter \<Rightarrow> bool" where
  "session_holds s w \<longleftrightarrow>
     (case waiter_session w of
        None \<Rightarrow> True
      | Some session \<Rightarrow>
          scope_room_id (waiter_scope w) = session_room_id session
          \<and> scope_session_id (waiter_scope w) = session_session_id session
          \<and> scope_workspace_key (waiter_scope w) = session_workspace_key session
          \<and> (bt_get (room_sessions s) (session_room_id session) = Some session
             \<or> bt_get (resolutions s) (waiter_request_id w) = Some RoomSessionEnded
               \<and> bt_get (pending (registry s)) (waiter_request_id w) = None))"

definition waiter_ok :: "desktop_command_confirmation_state \<Rightarrow> authorization_waiter \<Rightarrow> bool" where
  "waiter_ok s w \<longleftrightarrow>
     bt_get (waiting_sessions s) (waiter_request_id w) = Some (scope_session_id (waiter_scope w))
     \<and> (\<forall>scope. bt_get (pending (registry s)) (waiter_request_id w) = Some scope \<longrightarrow>
          scope = waiter_scope w)
     \<and> session_holds s w"

definition desk_ok :: "desk \<Rightarrow> bool" where
  "desk_ok d \<longleftrightarrow>
     registry_ok (desk_registry d)
     \<and> bt_ok (waiting_sessions (desk_state d))
     \<and> (\<forall>i. bt_get (resolutions (desk_state d)) i \<noteq> None \<longrightarrow>
            bt_get (waiting_sessions (desk_state d)) i \<noteq> None)
     \<and> (\<forall>w \<in> set (waiters d). waiter_ok (desk_state d) w)"

lemma get_fold_insert: "bt_get (fold (\<lambda>k. bt_insert k v) ks m) k =
    (if k \<in> set ks then Some v else bt_get m k)"
  by (induction ks arbitrary: m) auto

lemma end_session_resolutions:
  assumes "bt_ok (waiting_sessions s)"
  shows "bt_get (resolutions (fst (end_session_in_state s sid))) i =
    (if bt_get (waiting_sessions s) i = Some sid then Some RoomSessionEnded
     else bt_get (resolutions s) i)"
proof -
  have "i \<in> fst ` {(j, sid'). (j, sid') \<in> set (waiting_sessions s) \<and> sid' = sid}
      \<longleftrightarrow> (i, sid) \<in> set (waiting_sessions s)"
    by force
  then show ?thesis
    using bt_get_in_set [OF assms]
    by (simp add: end_session_in_state_def Let_def get_fold_insert split_beta image_iff)
qed

lemma end_session_pending:
  assumes "registry_ok reg"
  shows "bt_get (pending (fst (end_room_session reg sid))) i =
    (case bt_get (pending reg) i of
       None \<Rightarrow> None | Some scope \<Rightarrow> if scope_session_id scope = sid then None else Some scope)"
  using assms
  by (auto simp: end_room_session_def Let_def registry_ok_def bt_get_retain split: option.split)

text \<open>The end of a session, with the entry of its Room removed or replaced.\<close>

lemma waiter_ok_end:
  assumes "waiter_ok s w" "registry_ok (registry s)" "bt_ok (waiting_sessions s)"
    and "bt_get (room_sessions s) room = Some previous"
    and "\<And>r. r \<noteq> room \<Longrightarrow> bt_get rooms r = bt_get (room_sessions s) r"
  shows "waiter_ok (fst (end_session_in_state (s\<lparr>room_sessions := rooms'\<rparr>)
           (session_session_id previous))\<lparr>room_sessions := rooms\<rparr>) w"
proof -
  have "bt_get rooms r = Some x"
    if "bt_get (room_sessions s) r = Some x" "session_session_id x \<noteq> session_session_id previous" for r x
    using that assms(4,5) by (cases "r = room") auto
  then show ?thesis
    using assms(1-3)
    by (auto simp: waiter_ok_def session_holds_def end_session_resolutions end_session_pending
        split: option.splits)
qed

lemma waiter_ok_new_room:
  assumes "waiter_ok s w" "bt_get (room_sessions s) room = None"
    and "\<And>r. r \<noteq> room \<Longrightarrow> bt_get rooms r = bt_get (room_sessions s) r"
  shows "waiter_ok (s\<lparr>room_sessions := rooms\<rparr>) w"
proof -
  have "bt_get rooms r = Some x" if "bt_get (room_sessions s) r = Some x" for r x
    using that assms(2,3) by (cases "r = room") auto
  then show ?thesis
    using assms(1) by (auto simp: waiter_ok_def session_holds_def split: option.splits)
qed

text \<open>A call that leaves the sessions and the waiting table alone, and for this waiter's request
  neither takes an end away nor brings a request up.\<close>

lemma waiter_ok_frame:
  assumes "waiter_ok s w" "room_sessions s' = room_sessions s"
    and "bt_get (waiting_sessions s') (waiter_request_id w) = bt_get (waiting_sessions s) (waiter_request_id w)"
    and "bt_get (pending (registry s')) (waiter_request_id w)
           \<in> {None, bt_get (pending (registry s)) (waiter_request_id w)}"
    and "bt_get (resolutions s) (waiter_request_id w) = Some RoomSessionEnded
         \<Longrightarrow> bt_get (pending (registry s)) (waiter_request_id w) = None
         \<Longrightarrow> bt_get (resolutions s') (waiter_request_id w) = Some RoomSessionEnded"
  shows "waiter_ok s' w"
  using assms by (auto simp: waiter_ok_def session_holds_def split: option.splits)

lemma register_pending:
  "bt_get (pending (fst (register_confirmation reg request))) i
     \<in> {bt_get (pending reg) i}
       \<union> (if i = confirmation_request_id request then {Some (confirmation_scope request)} else {})"
  by (auto simp: register_confirmation_def Let_def split: option.splits)

lemma resolve_pending:
  "bt_get (pending (fst (resolve_confirmation reg j d))) i \<in> {None, bt_get (pending reg) i}"
  by (cases d) (auto simp: resolve_confirmation_def finish_denied_def finish_terminal_def Let_def
      split: option.splits)

lemma resolve_Ok_pending:
  "resolve_confirmation reg i d = (reg', Ok outcome) \<Longrightarrow> bt_get (pending reg) i \<noteq> None"
  by (auto simp: resolve_confirmation_def split: if_splits option.splits)

lemma consume_pending: "pending (fst (consume_authorization reg i scope)) = pending reg"
  by (auto simp: consume_authorization_def finish_terminal_def Let_def split: option.splits)

text \<open>The part of the invariant about the tables and the waiters.\<close>

definition tables_ok :: "desktop_command_confirmation_state \<Rightarrow> authorization_waiter list \<Rightarrow> bool" where
  "tables_ok s ws \<longleftrightarrow>
     bt_ok (waiting_sessions s)
     \<and> (\<forall>i. bt_get (resolutions s) i \<noteq> None \<longrightarrow> bt_get (waiting_sessions s) i \<noteq> None)
     \<and> (\<forall>w \<in> set ws. waiter_ok s w)"

lemma desk_ok_tables: "desk_ok d \<longleftrightarrow> registry_ok (desk_registry d) \<and> tables_ok (desk_state d) (waiters d)"
  by (auto simp: desk_ok_def tables_ok_def)

lemma same_room_sessions: "rooms = room_sessions s \<Longrightarrow> s\<lparr>room_sessions := rooms\<rparr> = s"
  by simp

lemma tables_ok_install:
  assumes "tables_ok s ws" "registry_ok (registry s)"
  shows "tables_ok (install_room_session s session) ws"
proof (cases "bt_get (room_sessions s) (session_room_id session)")
  case None
  then show ?thesis
    using assms(1) by (auto simp: tables_ok_def install_room_session_def Let_def intro: waiter_ok_new_room)
next
  case (Some previous)
  let ?room = "session_room_id session"
  let ?s1 = "s\<lparr>room_sessions := bt_remove ?room (room_sessions s)\<rparr>"
  have state: "install_room_session s session =
      fst (end_session_in_state ?s1 (session_session_id previous))
        \<lparr>room_sessions := bt_insert ?room session (bt_remove ?room (room_sessions s))\<rparr>"
    using Some by (simp add: install_room_session_def Let_def)
  show ?thesis
    unfolding state tables_ok_def
    using assms Some
    by (auto simp: tables_ok_def end_session_resolutions intro!: waiter_ok_end split: if_splits)
qed

lemma tables_ok_end:
  assumes "tables_ok s ws" "registry_ok (registry s)"
  shows "tables_ok (fst (desktop_end_room_session s room)) ws"
proof (cases "bt_get (room_sessions s) room")
  case (Some previous)
  let ?s1 = "s\<lparr>room_sessions := bt_remove room (room_sessions s)\<rparr>"
  let ?s2 = "fst (end_session_in_state ?s1 (session_session_id previous))"
  have "?s2\<lparr>room_sessions := bt_remove room (room_sessions s)\<rparr> = ?s2"
    by (rule same_room_sessions) simp
  moreover have "waiter_ok (?s2\<lparr>room_sessions := bt_remove room (room_sessions s)\<rparr>) w"
    if "w \<in> set ws" for w
    using assms that Some by (intro waiter_ok_end) (auto simp: tables_ok_def)
  ultimately have "\<forall>w \<in> set ws. waiter_ok ?s2 w"
    by metis
  then show ?thesis
    using assms Some
    by (auto simp: fst_desktop_end tables_ok_def end_session_resolutions split: if_splits)
qed (use assms in \<open>simp add: fst_desktop_end\<close>)

lemma tables_ok_frame:
  assumes "tables_ok s ws" "room_sessions s' = room_sessions s"
    and "waiting_sessions s' = waiting_sessions s"
    and "\<And>i. bt_get (pending (registry s')) i \<in> {None, bt_get (pending (registry s)) i}"
    and "\<And>i. bt_get (pending (registry s)) i = None \<Longrightarrow>
           bt_get (resolutions s') i = bt_get (resolutions s) i"
    and "\<And>i. bt_get (resolutions s') i \<noteq> None \<Longrightarrow>
           bt_get (resolutions s) i \<noteq> None \<or> bt_get (waiting_sessions s) i \<noteq> None"
  shows "tables_ok s' ws"
  unfolding tables_ok_def
proof (intro conjI allI ballI impI)
  show "bt_ok (waiting_sessions s')"
    using assms(1,3) by (simp add: tables_ok_def)
  show "bt_get (waiting_sessions s') i \<noteq> None" if "bt_get (resolutions s') i \<noteq> None" for i
    using assms(1,3) assms(6) [OF that] by (auto simp: tables_ok_def)
  show "waiter_ok s' w" if "w \<in> set ws" for w
  proof (rule waiter_ok_frame)
    show "waiter_ok s w" using assms(1) that by (simp add: tables_ok_def)
  qed (use assms(2-5) in simp_all)
qed

lemma tables_ok_leave:
  assumes "tables_ok s ws" "resolve_confirmation (registry s) i d = (reg, r)"
  shows "tables_ok (s\<lparr>registry := reg\<rparr>) ws"
    and "r = Ok outcome \<Longrightarrow> tables_ok (leave_resolution (s\<lparr>registry := reg\<rparr>) i outcome) ws"
proof -
  have pending: "bt_get (pending reg) j \<in> {None, bt_get (pending (registry s)) j}" for j
    using resolve_pending [of "registry s" i d j] assms(2) by simp
  show "tables_ok (s\<lparr>registry := reg\<rparr>) ws"
    by (rule tables_ok_frame [OF assms(1)]) (use pending in simp_all)
  assume "r = Ok outcome"
  then have other: "bt_get (pending (registry s)) i \<noteq> None"
    using resolve_Ok_pending [of "registry s" i d] assms(2) by simp
  show "tables_ok (leave_resolution (s\<lparr>registry := reg\<rparr>) i outcome) ws"
  proof (rule tables_ok_frame [OF assms(1)])
    show "bt_get (resolutions (leave_resolution (s\<lparr>registry := reg\<rparr>) i outcome)) j = bt_get (resolutions s) j"
      if "bt_get (pending (registry s)) j = None" for j
      using that other by (auto simp: leave_resolution_def)
    show "bt_get (resolutions s) j \<noteq> None \<or> bt_get (waiting_sessions s) j \<noteq> None"
      if "bt_get (resolutions (leave_resolution (s\<lparr>registry := reg\<rparr>) i outcome)) j \<noteq> None" for j
      using that by (auto simp: leave_resolution_def bt_contains_key_def split: if_splits)
  qed (use pending in simp_all)
qed

lemma tables_ok_poll:
  assumes ok: "tables_ok s ws" and w: "waiter_of \<lparr>desk_state = s, waiters = ws\<rparr> i = Some w"
    and poll: "wait_poll s w now = (s', step)"
  shows "tables_ok s' (if step = StillWaiting then ws
           else filter (\<lambda>v. waiter_request_id v \<noteq> i) ws)"
proof (cases "step = StillWaiting")
  case True
  with poll have "s' = s"
    by (auto simp: wait_poll_def Let_def split: option.splits if_splits prod.splits
        desktop_command_wait_resolution.splits confirmation_resolve_outcome.splits)
  with True ok show ?thesis by simp
next
  case False
  have i: "waiter_request_id w = i"
    using w by (auto simp: waiter_of_def dest: find_SomeD)
  have frame: "room_sessions s' = room_sessions s" "waiting_sessions s' = bt_remove i (waiting_sessions s)"
      "j \<noteq> i \<Longrightarrow> bt_get (resolutions s') j = bt_get (resolutions s) j"
      "bt_get (resolutions s') i = None"
      "bt_get (pending (registry s')) j \<in> {None, bt_get (pending (registry s)) j}" for j
    using poll False resolve_pending [of "registry s" i TimedOut j]
      consume_pending [of "registry s" i "waiter_scope w"]
    by (auto simp: wait_poll_def Let_def i split: option.splits if_splits prod.splits
        desktop_command_wait_resolution.splits confirmation_resolve_outcome.splits)
  have "waiter_ok s' v" if "v \<in> set ws" "waiter_request_id v \<noteq> i" for v
    by (rule waiter_ok_frame [of s]) (use ok that frame in \<open>simp_all add: tables_ok_def\<close>)
  moreover have "bt_get (waiting_sessions s') j \<noteq> None" if "bt_get (resolutions s') j \<noteq> None" for j
    using ok frame that by (cases "j = i") (auto simp: tables_ok_def)
  ultimately show ?thesis
    using ok False frame(2) by (auto simp: tables_ok_def)
qed

lemma tables_ok_enter:
  assumes ok: "tables_ok s ws"
    and enter: "wait_enter s \<lparr>confirmation_request_id = i, confirmation_scope = scope\<rparr> deadline session
      = (s', step)"
    and w: "w = \<lparr>waiter_request_id = i, waiter_scope = scope, waiter_deadline = n,
      waiter_session = session\<rparr>"
  shows "tables_ok s' (if step = StillWaiting then w # ws else ws)"
proof (cases "s' = s")
  case True
  have "step \<noteq> StillWaiting"
  proof
    assume "step = StillWaiting"
    then have "bt_get (waiting_sessions s') i \<noteq> None" "bt_get (waiting_sessions s) i = None"
      using enter by (auto simp: wait_enter_def Let_def bt_contains_key_def split: option.splits
          if_splits prod.splits sum.splits confirmation_register_outcome.splits)
    with True show False by simp
  qed
  with True ok show ?thesis by simp
next
  case False
  let ?request = "\<lparr>confirmation_request_id = i, confirmation_scope = scope\<rparr>"
  have absent: "bt_get (waiting_sessions s) i = None"
    and live: "\<not> session_is_over s scope session"
    and rooms: "room_sessions s' = room_sessions s" "resolutions s' = resolutions s"
    and waiting: "waiting_sessions s' =
      (if step = StillWaiting then bt_insert i (scope_session_id scope) (waiting_sessions s)
       else waiting_sessions s)"
    and pending: "pending (registry s') = pending (fst (register_confirmation (registry s) ?request))"
    using enter False consume_pending [of "fst (register_confirmation (registry s) ?request)" i scope]
    by (auto simp: wait_enter_def Let_def bt_contains_key_def split: option.splits
        if_splits prod.splits sum.splits confirmation_register_outcome.splits)
  have pending': "bt_get (pending (registry s')) j \<in> {bt_get (pending (registry s)) j}
      \<union> (if j = i then {Some scope} else {})" for j
    using register_pending [of "registry s" ?request j] pending by (simp split: if_splits)
  have absent_res: "bt_get (resolutions s) i = None"
    using ok absent by (auto simp: tables_ok_def)
  have old: "waiter_ok s' v" if "v \<in> set ws" for v
  proof -
    have v: "waiter_ok s v" "waiter_request_id v \<noteq> i"
      using ok that absent by (auto simp: tables_ok_def waiter_ok_def)
    show ?thesis
      by (rule waiter_ok_frame [OF v(1)])
        (use v(2) rooms waiting pending' [of "waiter_request_id v"] in simp_all)
  qed
  have new: "waiter_ok s' w" if still: "step = StillWaiting"
  proof -
    have "bt_get (pending (registry s')) i = Some scope"
      using still enter by (auto simp: wait_enter_def register_confirmation_def Let_def split: option.splits
          if_splits prod.splits sum.splits confirmation_register_outcome.splits)
    then show ?thesis
      using live rooms waiting still
      by (auto simp: w waiter_ok_def session_holds_def session_is_over_def split: option.splits)
  qed
  show ?thesis
    unfolding tables_ok_def using ok old new rooms waiting
    by (auto simp: tables_ok_def)
qed

lemma desk_tables_step:
  assumes "registry_ok (desk_registry d)" "tables_ok (desk_state d) (waiters d)"
  shows "tables_ok (desk_state (desk_step d e)) (waiters (desk_step d e))"
proof (cases e)
  case (Desk_Install session)
  with assms show ?thesis by (simp add: tables_ok_install)
next
  case (Desk_Enter i scope deadline session)
  show ?thesis
  proof (cases "command_confirmation_request_new i scope")
    case (Inr request)
    obtain s' step where enter: "wait_enter (desk_state d) request deadline session = (s', step)"
      by fastforce
    show ?thesis
      using tables_ok_enter [OF assms(2) enter [unfolded request_new_Ok [OF Inr]] refl, of "the deadline"]
        enter Desk_Enter Inr
      by (cases step) simp_all
  qed (use assms Desk_Enter in simp)
next
  case (Desk_Poll i now)
  show ?thesis
  proof (cases "waiter_of d i")
    case (Some w)
    obtain s' step where poll: "wait_poll (desk_state d) w now = (s', step)"
      by fastforce
    have "waiter_of \<lparr>desk_state = desk_state d, waiters = waiters d\<rparr> i = Some w"
      using Some by (simp add: waiter_of_def)
    from tables_ok_poll [OF assms(2) this poll] show ?thesis
      using poll Some Desk_Poll by (cases step) simp_all
  qed (use assms Desk_Poll in simp)
next
  case (Desk_Resolve room i decision)
  obtain reg r where r: "resolve_confirmation (desk_registry d) i (map_decision decision) = (reg, r)"
    by fastforce
  from tables_ok_leave [OF assms(2) r] show ?thesis
    using assms(2) r Desk_Resolve by (cases r) (auto simp: resolve_for_room_def)
next
  case (Desk_Timeout i)
  obtain reg r where r: "resolve_confirmation (desk_registry d) i TimedOut = (reg, r)"
    by fastforce
  from tables_ok_leave [OF assms(2) r] show ?thesis
    using r Desk_Timeout by (cases r) (auto simp: confirmation_timeout_def)
next
  case (Desk_Consume i scope)
  have "tables_ok (fst (desktop_consume_authorization (desk_state d) i scope)) (waiters d)"
    by (rule tables_ok_frame [OF assms(2)])
      (use consume_pending [of "desk_registry d" i scope]
        in \<open>simp_all add: desktop_consume_authorization_def split_beta\<close>)
  then show ?thesis
    using Desk_Consume by simp
next
  case (Desk_End room)
  with assms show ?thesis by (simp add: tables_ok_end)
qed

interpretation desk_machine: invariant_machine desk_step desk_ok
proof unfold_locales
  fix d e assume "desk_ok d"
  then show "desk_ok (desk_step d e)"
    using desk_tables_step registry_machine.inv_run [of "desk_registry d" "desk_calls d e"]
    by (simp add: desk_ok_tables desk_step_calls)
qed

lemma desk_default_ok: "desk_ok desk_default"
  by (simp add: desk_ok_def desk_default_def confirmation_state_default_def registry_default_ok)

lemmas desk_run_ok = desk_machine.inv_run [OF desk_default_ok]

section \<open>What becomes of a request\<close>

text \<open>An allowed request that is still to be fetched has its answer waiting for its waiter, and a
  request that is still open has none: with the answer taken, or the deadline passed, the request
  is settled.\<close>

definition settles :: "desktop_command_confirmation_state \<Rightarrow> authorization_waiter \<Rightarrow> bool" where
  "settles s w \<longleftrightarrow>
     (\<forall>a. bt_get (ready (registry s)) (waiter_request_id w) = Some a \<longrightarrow>
        ready_scope a = waiter_scope w
        \<and> bt_get (resolutions s) (waiter_request_id w) = Some (Resolved AuthorizationReady))
     \<and> (bt_get (pending (registry s)) (waiter_request_id w) \<noteq> None \<longrightarrow>
        bt_get (resolutions s) (waiter_request_id w) = None)"

lemma settles_frame:
  assumes "settles s w"
    and "bt_get (ready (registry s')) (waiter_request_id w)
           \<in> {None, bt_get (ready (registry s)) (waiter_request_id w)}"
    and "bt_get (pending (registry s')) (waiter_request_id w)
           \<in> {None, bt_get (pending (registry s)) (waiter_request_id w)}"
    and "bt_get (resolutions s') (waiter_request_id w) = bt_get (resolutions s) (waiter_request_id w)
         \<or> bt_get (ready (registry s')) (waiter_request_id w) = None
           \<and> bt_get (pending (registry s')) (waiter_request_id w) = None"
  shows "settles s' w"
  using assms by (auto simp: settles_def)

lemma end_session_ready:
  assumes "registry_ok reg"
  shows "bt_get (ready (fst (end_room_session reg sid))) i =
    (case bt_get (ready reg) i of
       None \<Rightarrow> None
     | Some a \<Rightarrow> if scope_session_id (ready_scope a) = sid then None else Some a)"
  using assms
  by (auto simp: end_room_session_def Let_def registry_ok_def bt_get_retain split: option.split)

lemma settles_end:
  assumes "settles s w" "waiter_ok s w" "registry_ok (registry s)" "bt_ok (waiting_sessions s)"
  shows "settles (fst (end_session_in_state (s\<lparr>room_sessions := rooms'\<rparr>) sid)\<lparr>room_sessions := rooms\<rparr>) w"
  by (rule settles_frame [OF assms(1)])
    (use assms in \<open>auto simp: settles_def waiter_ok_def end_session_resolutions end_session_pending
        end_session_ready split: option.splits\<close>)

lemma resolve_ready:
  "bt_get (ready (fst (resolve_confirmation reg j d))) i =
     (if i = j \<and> snd (resolve_confirmation reg j d) = Ok AuthorizationReady
      then Some \<lparr>ready_scope = the (bt_get (pending reg) j),
        ready_lifetime = (if d = AllowOnce then Once else RoomSession)\<rparr>
      else bt_get (ready reg) i)"
  by (cases d) (auto simp: resolve_confirmation_def finish_denied_def finish_terminal_def Let_def
      split: option.splits)

lemma resolve_Ok_settled:
  assumes "resolve_confirmation reg i d = (reg', Ok outcome)" "bt_ok (pending reg)"
  shows "bt_get (pending reg') i = None" "bt_get (ready reg) i = None"
  using assms
  by (cases d; auto simp: resolve_confirmation_def finish_denied_def finish_terminal_def Let_def
      bt_contains_key_def split: option.splits if_splits)+

lemma consume_ready_of:
  "bt_get (ready (fst (consume_authorization reg j scope))) i \<in> {None, bt_get (ready reg) i}"
  by (auto simp: consume_authorization_def finish_terminal_def Let_def split: option.splits)

lemma consume_ready_other:
  "i \<noteq> j \<Longrightarrow> bt_get (ready (fst (consume_authorization reg j scope))) i = bt_get (ready reg) i"
  by (auto simp: consume_authorization_def finish_terminal_def Let_def split: option.splits)

lemma settles_leave:
  assumes "settles s w" "waiter_ok s w" "registry_ok (registry s)"
    and r: "resolve_confirmation (registry s) i d = (reg, r)"
  shows "settles (case r of Inl _ \<Rightarrow> s\<lparr>registry := reg\<rparr>
           | Inr outcome \<Rightarrow> leave_resolution (s\<lparr>registry := reg\<rparr>) i outcome) w"
proof -
  have pending: "bt_get (pending reg) j \<in> {None, bt_get (pending (registry s)) j}" for j
    using resolve_pending [of "registry s" i d j] r by simp
  have ready: "bt_get (ready reg) j =
     (if j = i \<and> r = Ok AuthorizationReady
      then Some \<lparr>ready_scope = the (bt_get (pending (registry s)) i),
        ready_lifetime = (if d = AllowOnce then Once else RoomSession)\<rparr>
      else bt_get (ready (registry s)) j)" for j
    using resolve_ready [of "registry s" i d j] r by simp
  show ?thesis
  proof (cases r)
    case (Inl e)
    then show ?thesis
      using settles_frame [OF assms(1), of "s\<lparr>registry := reg\<rparr>"] pending ready by simp
  next
    case (Inr outcome)
    note settled = resolve_Ok_settled [OF r [unfolded Inr]]
    have bt: "bt_ok (pending (registry s))"
      using assms(3) by (simp add: registry_ok_def)
    show ?thesis
    proof (cases "waiter_request_id w = i")
      case True
      have "bt_get (pending (registry s)) i = Some (waiter_scope w)"
        using resolve_Ok_pending [OF r [unfolded Inr]] assms(2) True by (auto simp: waiter_ok_def)
      moreover have "bt_contains_key (waiting_sessions s) i"
        using assms(2) True by (simp add: waiter_ok_def bt_contains_key_def)
      ultimately show ?thesis
        using Inr True settled [OF bt] ready [of i]
        by (auto simp: settles_def leave_resolution_def)
    next
      case False
      then show ?thesis
        using Inr ready [of "waiter_request_id w"] pending [of "waiter_request_id w"]
        by (intro settles_frame [OF assms(1)]) (auto simp: leave_resolution_def)
    qed
  qed
qed

lemma settles_enter:
  assumes enter: "wait_enter s \<lparr>confirmation_request_id = i, confirmation_scope = scope\<rparr> deadline session
      = (s', step)"
  shows "settles s v \<Longrightarrow> waiter_request_id v \<noteq> i \<Longrightarrow> settles s' v"
    and "step = StillWaiting \<Longrightarrow> bt_get (resolutions s) i = None \<Longrightarrow> waiter_request_id w = i \<Longrightarrow> settles s' w"
proof -
  let ?request = "\<lparr>confirmation_request_id = i, confirmation_scope = scope\<rparr>"
  have other: "bt_get (ready (fst (register_confirmation (registry s) ?request))) j
      = bt_get (ready (registry s)) j" if "j \<noteq> i" for j
    using that by (auto simp: register_confirmation_def Let_def split: option.splits)
  show "settles s' v" if "settles s v" "waiter_request_id v \<noteq> i"
  proof (rule settles_frame [OF that(1)])
    show "bt_get (ready (registry s')) (waiter_request_id v)
        \<in> {None, bt_get (ready (registry s)) (waiter_request_id v)}"
      using enter other [OF that(2)]
        consume_ready_other [OF that(2), of "fst (register_confirmation (registry s) ?request)" scope]
      by (auto simp: wait_enter_def Let_def split: option.splits if_splits prod.splits sum.splits
          confirmation_register_outcome.splits)
    show "bt_get (pending (registry s')) (waiter_request_id v)
        \<in> {None, bt_get (pending (registry s)) (waiter_request_id v)}"
      using enter that(2) register_pending [of "registry s" ?request "waiter_request_id v"]
        consume_pending [of "fst (register_confirmation (registry s) ?request)" i scope]
      by (auto simp: wait_enter_def Let_def split: option.splits if_splits prod.splits sum.splits
          confirmation_register_outcome.splits)
  qed (use enter in \<open>auto simp: wait_enter_def Let_def split: option.splits if_splits prod.splits
      sum.splits confirmation_register_outcome.splits\<close>)
  assume "step = StillWaiting" "bt_get (resolutions s) i = None" "waiter_request_id w = i"
  then show "settles s' w"
    using enter
    by (auto simp: settles_def wait_enter_def register_confirmation_def Let_def bt_contains_key_def
        split: option.splits if_splits prod.splits sum.splits confirmation_register_outcome.splits)
qed

lemma settles_poll:
  assumes "settles s v" "waiter_request_id w = i" "waiter_request_id v \<noteq> i"
    and poll: "wait_poll s w now = (s', step)"
  shows "settles s' v"
proof (rule settles_frame [OF assms(1)])
  show "bt_get (ready (registry s')) (waiter_request_id v)
      \<in> {None, bt_get (ready (registry s)) (waiter_request_id v)}"
    using poll assms(2) resolve_ready [of "registry s" i TimedOut "waiter_request_id v"]
      consume_ready_of [of "registry s" i "waiter_scope w" "waiter_request_id v"] assms(3)
    by (auto simp: wait_poll_def Let_def split: option.splits if_splits prod.splits
        desktop_command_wait_resolution.splits confirmation_resolve_outcome.splits)
  show "bt_get (pending (registry s')) (waiter_request_id v)
      \<in> {None, bt_get (pending (registry s)) (waiter_request_id v)}"
    using poll assms(2) resolve_pending [of "registry s" i TimedOut "waiter_request_id v"]
      consume_pending [of "registry s" i "waiter_scope w"]
    by (auto simp: wait_poll_def Let_def split: option.splits if_splits prod.splits
        desktop_command_wait_resolution.splits confirmation_resolve_outcome.splits)
qed (use poll assms(2,3) in \<open>auto simp: wait_poll_def Let_def split: option.splits if_splits prod.splits
    desktop_command_wait_resolution.splits confirmation_resolve_outcome.splits\<close>)

text \<open>What a poll that returns leaves of its request.\<close>

lemma poll_settles:
  assumes "settles s w" "registry_ok (registry s)" "length (terminal_of (registry s)) < 1024"
    and poll: "wait_poll s w now = (s', Answer answer)"
  shows "bt_get (pending (registry s')) (waiter_request_id w) = None
    \<and> bt_get (ready (registry s')) (waiter_request_id w) = None"
proof (cases "bt_get (resolutions s) (waiter_request_id w)")
  case None
  have free: "bt_get (ready (registry s)) (waiter_request_id w) = None"
      "bt_get (pending (registry s)) (waiter_request_id w) \<noteq> None
        \<Longrightarrow> bt_get (terminal_of (registry s)) (waiter_request_id w) = None"
    using assms(1,2) None by (auto simp: settles_def registry_ok_def dest: disjoint_keysD)
  show ?thesis
    using poll None free assms(3)
    by (cases "bt_get (pending (registry s)) (waiter_request_id w)")
      (auto simp: wait_poll_def Let_def resolve_confirmation_def finish_denied_def finish_terminal_def
        MAXIMUM_TERMINAL_CONFIRMATIONS_def bt_contains_key_def split: if_splits option.splits prod.splits)
next
  case (Some resolution)
  then have "bt_get (pending (registry s)) (waiter_request_id w) = None"
      "resolution \<noteq> Resolved AuthorizationReady \<Longrightarrow>
        bt_get (ready (registry s)) (waiter_request_id w) = None"
    using assms(1) by (auto simp: settles_def)
  then show ?thesis
    using poll Some assms(3)
    by (auto simp: wait_poll_def Let_def consume_authorization_def finish_terminal_def
        MAXIMUM_TERMINAL_CONFIRMATIONS_def split: if_splits option.splits prod.splits
        desktop_command_wait_resolution.splits confirmation_resolve_outcome.splits)
qed

definition desk_settles :: "desk \<Rightarrow> bool" where
  "desk_settles d \<longleftrightarrow> desk_ok d \<and> (\<forall>w \<in> set (waiters d). settles (desk_state d) w)"

lemma desk_settles_step:
  assumes "desk_settles d"
  shows "\<forall>w \<in> set (waiters (desk_step d e)). settles (desk_state (desk_step d e)) w"
proof -
  note ok = assms [unfolded desk_settles_def desk_ok_def]
  have all: "settles (desk_state d) w" "waiter_ok (desk_state d) w" if "w \<in> set (waiters d)" for w
    using ok that by blast+
  have reg: "registry_ok (desk_registry d)" and bt: "bt_ok (waiting_sessions (desk_state d))"
    using ok by blast+
  show ?thesis
  proof (cases e)
    case (Desk_Install session)
    show ?thesis
    proof (cases "bt_get (room_sessions (desk_state d)) (session_room_id session)")
      case None
      then show ?thesis
        using Desk_Install all(1) by (auto simp: install_room_session_def Let_def settles_def)
    next
      case (Some previous)
      then show ?thesis
        using Desk_Install settles_end [OF all reg bt]
        by (auto simp: install_room_session_def Let_def)
    qed
  next
    case (Desk_Enter i scope deadline session)
    show ?thesis
    proof (cases "command_confirmation_request_new i scope")
      case (Inr request)
      obtain s' step where enter: "wait_enter (desk_state d) request deadline session = (s', step)"
        by fastforce
      note enter' = enter [unfolded request_new_Ok [OF Inr]]
      have "waiter_request_id v \<noteq> i" if "v \<in> set (waiters d)" "s' \<noteq> desk_state d" for v
        using all(2) [OF that(1)] enter that(2)
        by (auto simp: request_new_Ok [OF Inr] wait_enter_def waiter_ok_def Let_def bt_contains_key_def
            split: option.splits if_splits)
      then have old: "settles s' v" if "v \<in> set (waiters d)" for v
        using settles_enter(1) [OF enter' all(1) [OF that]] all(1) [OF that] that
        by (cases "s' = desk_state d") auto
      have "bt_get (waiting_sessions (desk_state d)) i = None" if "step = StillWaiting"
        using enter' that by (auto simp: wait_enter_def Let_def bt_contains_key_def split: option.splits
            if_splits prod.splits sum.splits confirmation_register_outcome.splits)
      then have "bt_get (resolutions (desk_state d)) i = None" if "step = StillWaiting"
        using ok that by blast
      then show ?thesis
        using enter old settles_enter(2) [OF enter'] Desk_Enter Inr by (cases step) auto
    qed (use all(1) Desk_Enter in simp)
  next
    case (Desk_Poll i now)
    show ?thesis
    proof (cases "waiter_of d i")
      case (Some w)
      obtain s' step where poll: "wait_poll (desk_state d) w now = (s', step)"
        by fastforce
      have i: "waiter_request_id w = i"
        using Some by (auto simp: waiter_of_def dest: find_SomeD)
      have "step = StillWaiting \<Longrightarrow> s' = desk_state d"
        using poll by (auto simp: wait_poll_def Let_def split: option.splits if_splits prod.splits
            desktop_command_wait_resolution.splits confirmation_resolve_outcome.splits)
      then show ?thesis
        using settles_poll [OF all(1) i _ poll] all(1) poll Some Desk_Poll by (cases step) auto
    qed (use all(1) Desk_Poll in simp)
  next
    case (Desk_Resolve room i decision)
    obtain reg' r where r: "resolve_confirmation (desk_registry d) i (map_decision decision) = (reg', r)"
      by fastforce
    show ?thesis
      using settles_leave [OF all reg r] all(1) r Desk_Resolve
      by (cases r) (auto simp: resolve_for_room_def)
  next
    case (Desk_Timeout i)
    obtain reg' r where r: "resolve_confirmation (desk_registry d) i TimedOut = (reg', r)"
      by fastforce
    show ?thesis
      using settles_leave [OF all reg r] r Desk_Timeout
      by (cases r) (auto simp: confirmation_timeout_def)
  next
    case (Desk_Consume i scope)
    have "settles (fst (desktop_consume_authorization (desk_state d) i scope)) w"
      if "w \<in> set (waiters d)" for w
      by (rule settles_frame [OF all(1) [OF that]])
        (use consume_pending [of "desk_registry d" i scope]
          consume_ready_of [of "desk_registry d" i scope "waiter_request_id w"]
          in \<open>simp_all add: desktop_consume_authorization_def split_beta\<close>)
    then show ?thesis
      using Desk_Consume by simp
  next
    case (Desk_End room)
    have "settles (fst (end_session_in_state ((desk_state d)\<lparr>room_sessions := rooms\<rparr>) sid)) w"
      if "w \<in> set (waiters d)" for w rooms sid
      using settles_end [OF all [OF that] reg bt, where rooms' = rooms and sid = sid and rooms = rooms] that
      by (simp add: same_room_sessions)
    then show ?thesis
      using Desk_End all(1) by (auto simp: fst_desktop_end split: option.split)
  qed
qed

interpretation desk_settling: invariant_machine desk_step desk_settles
proof unfold_locales
  fix d e assume d: "desk_settles d"
  then have "desk_ok (desk_step d e)"
    by (simp add: desk_settles_def desk_machine.inv_step)
  with desk_settles_step [OF d] show "desk_settles (desk_step d e)"
    by (simp add: desk_settles_def)
qed

lemma desk_run_settles: "desk_settles (foldl desk_step desk_default es)"
  by (rule desk_settling.inv_run) (simp add: desk_settles_def desk_default_ok, simp add: desk_default_def)

section \<open>What a waiting thread gets\<close>

lemma waiter_of_run:
  assumes "waiter_of (foldl desk_step desk_default es) i = Some w"
  shows "waiter_request_id w = i" "waiter_ok (desk_state (foldl desk_step desk_default es)) w"
proof -
  have "w \<in> set (waiters (foldl desk_step desk_default es))" and i: "waiter_request_id w = i"
    using assms by (auto simp: waiter_of_def dest: find_SomeD)
  then show "waiter_request_id w = i" "waiter_ok (desk_state (foldl desk_step desk_default es)) w"
    using desk_run_ok [of es] by (auto simp: desk_ok_def)
qed

lemma consume_ready:
  assumes "consume_authorization reg i scope = (reg', Ok auth)"
  shows "\<exists>a. bt_get (ready reg) i = Some a \<and> ready_scope a = scope \<and> authorization_scope auth = scope"
  using assms
  by (auto simp: consume_authorization_def finish_terminal_def Let_def split: option.splits if_splits)

text \<open>In the session of the waiter, if it names one.\<close>

definition in_active_session :: "desk \<Rightarrow> authorization_waiter \<Rightarrow> bool" where
  "in_active_session d w \<longleftrightarrow>
     (case waiter_session w of
        None \<Rightarrow> True
      | Some session \<Rightarrow>
          bt_get (room_sessions (desk_state d)) (session_room_id session) = Some session
          \<and> scope_room_id (waiter_scope w) = session_room_id session
          \<and> scope_session_id (waiter_scope w) = session_session_id session
          \<and> scope_workspace_key (waiter_scope w) = session_workspace_key session)"

lemma poll_authorized:
  assumes w: "waiter_of (foldl desk_step desk_default es) i = Some w"
    and poll: "snd (wait_poll (desk_state (foldl desk_step desk_default es)) w now)
      = Answer (Ok (Outcome_Authorized auth))"
  shows "authorization_scope auth = waiter_scope w \<and> owner_allowed (desk_log desk_default es) (waiter_scope w)
    \<and> in_active_session (foldl desk_step desk_default es) w"
proof -
  let ?d = "foldl desk_step desk_default es"
  from poll have ready: "bt_get (resolutions (desk_state ?d)) (waiter_request_id w)
      = Some (Resolved AuthorizationReady)"
    and consume: "snd (consume_authorization (desk_registry ?d) (waiter_request_id w) (waiter_scope w))
      = Ok auth"
    by (auto simp: wait_poll_def Let_def split: option.splits if_splits prod.splits sum.splits
        desktop_command_wait_resolution.splits confirmation_resolve_outcome.splits)
  then obtain a where a: "bt_get (ready (desk_registry ?d)) (waiter_request_id w) = Some a"
      "ready_scope a = waiter_scope w" "authorization_scope auth = waiter_scope w"
    using consume_ready [of "desk_registry ?d"] by (metis prod.collapse)
  have "owner_allowed (desk_log desk_default es) (waiter_scope w)"
    using ready_allowed [OF a(1) [unfolded desk_run_registry]] a(2) by simp
  then show ?thesis
    using a(3) waiter_of_run(2) [OF w] ready
    by (auto simp: in_active_session_def waiter_ok_def session_holds_def split: option.splits)
qed

lemma enter_authorized:
  assumes enter: "snd (wait_enter (desk_state (foldl desk_step desk_default es))
      \<lparr>confirmation_request_id = i, confirmation_scope = scope\<rparr> deadline session)
      = Answer (Ok (Outcome_Authorized auth))"
    and w: "w = \<lparr>waiter_request_id = i, waiter_scope = scope, waiter_deadline = n,
      waiter_session = session\<rparr>"
  shows "authorization_scope auth = scope \<and> owner_allowed (desk_log desk_default es) scope
    \<and> in_active_session (foldl desk_step desk_default es) w"
proof -
  let ?d = "foldl desk_step desk_default es"
  let ?request = "\<lparr>confirmation_request_id = i, confirmation_scope = scope\<rparr>"
  from enter have live: "\<not> session_is_over (desk_state ?d) scope session"
    and reg: "snd (register_confirmation (desk_registry ?d) ?request) = Ok AuthorizedByRoomSession"
    and consume: "snd (consume_authorization (fst (register_confirmation (desk_registry ?d) ?request)) i scope)
      = Ok auth"
    by (auto simp: wait_enter_def Let_def split: option.splits if_splits prod.splits sum.splits
        confirmation_register_outcome.splits)
  have "authorization_scope auth = scope"
    using consume consume_ready by (metis prod.collapse)
  moreover have "scope \<in> room_session_grants (desk_registry ?d)"
    using reg by (auto simp: register_confirmation_def Let_def split: option.splits if_splits)
  then have "owner_allowed (desk_log desk_default es) scope"
    unfolding desk_run_registry by (rule owner_allowed_session [OF grants_allowed])
  ultimately show ?thesis
    using live by (auto simp: w in_active_session_def session_is_over_def split: option.splits)
qed

text \<open>C21: A thread that waits for the owner is let through only with what the owner allowed: in
  every interleaving of waiting threads, decisions, timeouts and starts and ends of Room sessions,
  if a thread returns with an authorization then it is for the scope the thread asked for, the
  owner answered a pending request of exactly that scope with ``allow'' and its session has not
  been ended since, and, when the thread was started for a Room session, that session is the
  active one of its Room at the moment of the return.\<close>

theorem waiting_is_let_through_by_the_owner:
  assumes "desk_returns (foldl desk_step desk_default es) e = Some (w, Ok (Outcome_Authorized auth))"
  shows "authorization_scope auth = waiter_scope w
    \<and> owner_allowed (desk_log desk_default es) (waiter_scope w)
    \<and> in_active_session (foldl desk_step desk_default es) w"
  using assms
proof (cases e)
  case (Desk_Enter i scope deadline session)
  then obtain request where request: "command_confirmation_request_new i scope = Ok request"
    using assms by (auto split: sum.splits)
  show ?thesis
    using assms Desk_Enter request enter_authorized [of es i scope deadline session auth w]
    by (auto simp: request_new_Ok [OF request] split: wait_step.splits)
next
  case (Desk_Poll i now)
  then show ?thesis
    using assms poll_authorized [of es i w now auth] by (auto split: option.splits wait_step.splits)
qed simp_all

lemma poll_answers:
  assumes "waiter_deadline w \<le> now \<or> bt_get (resolutions s) (waiter_request_id w) \<noteq> None"
  shows "\<exists>answer. snd (wait_poll s w now) = Answer answer"
  using assms
  by (auto simp: wait_poll_def Let_def split: option.split prod.split
      desktop_command_wait_resolution.split confirmation_resolve_outcome.split)

text \<open>C22: Nobody waits for ever: in every interleaving, a thread that looks again after its
  deadline, after its answer was left or after its Room session ended returns. It is then waiting no
  more, no entry of the waiting table is left for it, and, unless the table of settled requests is
  full, its request is neither pending nor allowed and unfetched: a decision that comes too late
  finds nothing to decide. When its session is no longer the active one it returns with exactly
  that, even where a decision had been made for it before.\<close>

theorem waiting_ends:
  assumes "waiter_of (foldl desk_step desk_default es) i = Some w"
    and "waiter_deadline w \<le> now
      \<or> bt_get (resolutions (desk_state (foldl desk_step desk_default es))) i \<noteq> None
      \<or> \<not> in_active_session (foldl desk_step desk_default es) w"
  shows "\<exists>answer. desk_returns (foldl desk_step desk_default es) (Desk_Poll i now) = Some (w, answer)
    \<and> waiter_of (foldl desk_step desk_default (es @ [Desk_Poll i now])) i = None
    \<and> bt_get (waiting_sessions (desk_state (foldl desk_step desk_default (es @ [Desk_Poll i now])))) i = None
    \<and> bt_get (resolutions (desk_state (foldl desk_step desk_default (es @ [Desk_Poll i now])))) i = None
    \<and> (length (terminal_of (desk_registry (foldl desk_step desk_default es)))
          < MAXIMUM_TERMINAL_CONFIRMATIONS \<longrightarrow>
       bt_get (pending (desk_registry (foldl desk_step desk_default (es @ [Desk_Poll i now])))) i = None
       \<and> bt_get (ready (desk_registry (foldl desk_step desk_default (es @ [Desk_Poll i now])))) i = None)
    \<and> (in_active_session (foldl desk_step desk_default es) w \<or> answer = Ok Outcome_RoomSessionEnded)"
proof -
  let ?d = "foldl desk_step desk_default es"
  note w = waiter_of_run [OF assms(1)]
  have settles: "settles (desk_state ?d) w" and reg: "registry_ok (desk_registry ?d)"
    using desk_run_settles [of es] assms(1)
    by (auto simp: desk_settles_def desk_ok_def waiter_of_def find_Some_iff)
  have over: "bt_get (resolutions (desk_state ?d)) i = Some RoomSessionEnded"
    if "\<not> in_active_session ?d w"
    using w that
    by (auto simp: in_active_session_def waiter_ok_def session_holds_def split: option.splits)
  obtain state answer where poll: "wait_poll (desk_state ?d) w now = (state, Answer answer)"
    using poll_answers [of w now "desk_state ?d"] assms(2) over w(1) by (metis option.discI prod.collapse)
  have "answer = Ok Outcome_RoomSessionEnded" if "\<not> in_active_session ?d w"
    using poll over [OF that] w(1) by (simp add: wait_poll_def Let_def)
  moreover have "bt_get (waiting_sessions state) i = None \<and> bt_get (resolutions state) i = None"
    using poll w(1) by (auto simp: wait_poll_def Let_def split: option.splits if_splits prod.splits
        desktop_command_wait_resolution.splits confirmation_resolve_outcome.splits)
  moreover have "find (\<lambda>v. waiter_request_id v = i) (filter (\<lambda>v. waiter_request_id v \<noteq> i) (waiters ?d)) = None"
    by (simp add: find_None_iff)
  ultimately show ?thesis
    using assms(1) poll poll_settles [OF settles reg _ poll] w(1)
    by (auto simp: waiter_of_def MAXIMUM_TERMINAL_CONFIRMATIONS_def)
qed

section \<open>A concrete wait\<close>

definition example_session :: desktop_room_command_session where
  "example_session = \<lparr>session_room_id = ''room-1'', session_session_id = ''s1'',
     session_workspace_key = ''w''\<rparr>"

definition example_desk_events :: "desk_event list" where
  "example_desk_events =
     [Desk_Install example_session, Desk_Enter ''r1'' example_scope (Some 120) (Some example_session),
      Desk_Resolve ''room-1'' ''r1'' Desktop_AllowOnce]"

definition example_waiter :: authorization_waiter where
  "example_waiter = \<lparr>waiter_request_id = ''r1'', waiter_scope = example_scope, waiter_deadline = 120,
     waiter_session = Some example_session\<rparr>"

lemmas desk_eval = desk_default_def confirmation_state_default_def registry_default_def
  install_room_session_def wait_enter_def session_is_over_def resolve_for_room_def
  leave_resolution_def wait_poll_def waiter_of_def pending_requests_def
  confirmation_valid_identifier_def register_confirmation_def resolve_confirmation_def
  consume_authorization_def finish_terminal_def command_confirmation_request_new_def
  scope_valid_identifier_def bt_contains_key_def bt_remove_def Let_def
  scope_allows_room_session_def action_allows_room_session_def
  MAXIMUM_PENDING_CONFIRMATIONS_def MAXIMUM_TERMINAL_CONFIRMATIONS_def
  MAXIMUM_CONFIRMATION_ID_BYTES_def byte_class_defs

lemma example_desk_returns:
  "desk_returns (foldl desk_step desk_default example_desk_events) (Desk_Poll ''r1'' 5) =
     Some (example_waiter, Ok (Outcome_Authorized
       \<lparr>authorization_request_id = ''r1'', authorization_scope = example_scope,
        authorization_lifetime = Once\<rparr>))"
  by (simp add: example_desk_events_def example_waiter_def example_scope_def example_session_def desk_eval)

theorem waiting_is_let_through_by_the_owner_witness:
  "owner_allowed (desk_log desk_default example_desk_events) example_scope"
  using waiting_is_let_through_by_the_owner [OF example_desk_returns]
  by (simp add: example_waiter_def)

lemma example_waiter_waits:
  "waiter_of (foldl desk_step desk_default (example_desk_events @ [Desk_End ''room-1''])) ''r1''
     = Some example_waiter
   \<and> \<not> in_active_session (foldl desk_step desk_default (example_desk_events @ [Desk_End ''room-1'']))
         example_waiter"
  by (simp add: example_desk_events_def example_waiter_def example_scope_def example_session_def desk_eval
      desktop_end_room_session_def end_session_in_state_def end_room_session_def
      in_active_session_def split_beta)

theorem waiting_ends_witness:
  "desk_returns (foldl desk_step desk_default (example_desk_events @ [Desk_End ''room-1'']))
     (Desk_Poll ''r1'' 5) = Some (example_waiter, Ok Outcome_RoomSessionEnded)"
  using waiting_ends [of "example_desk_events @ [Desk_End ''room-1'']" "''r1''" example_waiter 5]
    example_waiter_waits by blast

end
