(* ===== verification/Command_Helper_Protocol.thy ===== *)
theory Command_Helper_Protocol
  imports Command_Broker
begin

text \<open>
  The request the host sends to the isolated command helper
  (\<open>crates/moe-command-helper-protocol/src/lib.rs\<close>): what goes over the wire names a command and
  a directory and nothing else, and both ends put it through the policy. The JSON codec of the
  two wire structures is a parameter, as is \<open>semver::Version\<close> (see \<open>Command\_Broker\<close>); a
  reader is the sequence of results its \<open>read\<close> gives.
\<close>

section \<open>Data\<close>

definition COMMAND_HELPER_PROTOCOL_VERSION :: u16 where "COMMAND_HELPER_PROTOCOL_VERSION = 1"
definition MAXIMUM_COMMAND_HELPER_REQUEST_BYTES :: nat where
  "MAXIMUM_COMMAND_HELPER_REQUEST_BYTES = 16 * 1024"

datatype command_helper_protocol_error =
  InvalidPlan | NonUnicodeWorkingDirectory | RequestTooLarge | InvalidEncoding | UnsupportedVersion
  | RejectedByCommandBroker | InputReadFailed

datatype wire_baseline_command =
  Wire_GitStatus | Wire_GitDiff | Wire_GitDiffStaged | Wire_GitLog | Wire_NodeRun | Wire_NpmBuild
  | Wire_NpmTest | Wire_NpmTypecheck | Wire_CargoCheck | Wire_CargoBuild | Wire_CargoTest
  | Wire_CargoClippy | Wire_CargoFmtCheck

fun wire_of_baseline :: "baseline_command \<Rightarrow> wire_baseline_command" where
  "wire_of_baseline GitStatus = Wire_GitStatus"
| "wire_of_baseline GitDiff = Wire_GitDiff"
| "wire_of_baseline GitDiffStaged = Wire_GitDiffStaged"
| "wire_of_baseline GitLog = Wire_GitLog"
| "wire_of_baseline NodeRun = Wire_NodeRun"
| "wire_of_baseline NpmBuild = Wire_NpmBuild"
| "wire_of_baseline NpmTest = Wire_NpmTest"
| "wire_of_baseline NpmTypecheck = Wire_NpmTypecheck"
| "wire_of_baseline CargoCheck = Wire_CargoCheck"
| "wire_of_baseline CargoBuild = Wire_CargoBuild"
| "wire_of_baseline CargoTest = Wire_CargoTest"
| "wire_of_baseline CargoClippy = Wire_CargoClippy"
| "wire_of_baseline CargoFmtCheck = Wire_CargoFmtCheck"

fun baseline_of_wire :: "wire_baseline_command \<Rightarrow> baseline_command" where
  "baseline_of_wire Wire_GitStatus = GitStatus"
| "baseline_of_wire Wire_GitDiff = GitDiff"
| "baseline_of_wire Wire_GitDiffStaged = GitDiffStaged"
| "baseline_of_wire Wire_GitLog = GitLog"
| "baseline_of_wire Wire_NodeRun = NodeRun"
| "baseline_of_wire Wire_NpmBuild = NpmBuild"
| "baseline_of_wire Wire_NpmTest = NpmTest"
| "baseline_of_wire Wire_NpmTypecheck = NpmTypecheck"
| "baseline_of_wire Wire_CargoCheck = CargoCheck"
| "baseline_of_wire Wire_CargoBuild = CargoBuild"
| "baseline_of_wire Wire_CargoTest = CargoTest"
| "baseline_of_wire Wire_CargoClippy = CargoClippy"
| "baseline_of_wire Wire_CargoFmtCheck = CargoFmtCheck"

datatype wire_workspace_access = Wire_ReadOnly | Wire_ReadWrite

fun wire_of_access :: "workspace_command_access \<Rightarrow> wire_workspace_access" where
  "wire_of_access ReadOnly = Wire_ReadOnly"
| "wire_of_access ReadWrite = Wire_ReadWrite"

fun access_of_wire :: "wire_workspace_access \<Rightarrow> workspace_command_access" where
  "access_of_wire Wire_ReadOnly = ReadOnly"
| "access_of_wire Wire_ReadWrite = ReadWrite"

record wire_request =
  wire_version :: u16
  wire_command :: wire_baseline_command
  wire_working_directory :: string
  wire_access :: wire_workspace_access

datatype wire_operation = Wire_NpmPackageInstall

record wire_npm_package_install_request =
  wire_npm_version :: u16
  wire_npm_operation :: wire_operation
  wire_npm_working_directory :: string
  wire_npm_package_name :: string
  wire_npm_exact_version :: string
  wire_npm_access :: wire_workspace_access

datatype decoded_command_request =
  Decoded_Baseline workspace_command_plan | Decoded_NpmPackageInstall npm_package_install_plan

text \<open>What the two ends use of \<open>serde\_json\<close>, and of \<open>semver\<close>.\<close>

record helper_codec =
  request_to_vec :: "wire_request \<Rightarrow> string option"
  request_from_slice :: "string \<Rightarrow> wire_request option"
  npm_to_vec :: "wire_npm_package_install_request \<Rightarrow> string option"
  npm_from_slice :: "string \<Rightarrow> wire_npm_package_install_request option"
  semver_parse :: "string \<Rightarrow> (string \<times> bool) option"

section \<open>Operations\<close>

definition helper_classify ::
  "string \<Rightarrow> baseline_command \<Rightarrow> workspace_command_access
     \<Rightarrow> (workspace_command_plan, command_helper_protocol_error) result"
where
  "helper_classify working_directory command access =
     (case classify_command
             \<lparr>request_working_directory = working_directory, request_intent = Intent_Baseline command\<rparr>
             access of
        Baseline plan \<Rightarrow> Ok plan
      | _ \<Rightarrow> Err RejectedByCommandBroker)"

definition classify_npm_package_install_plan ::
  "helper_codec \<Rightarrow> string \<Rightarrow> string \<Rightarrow> string \<Rightarrow> workspace_command_access
     \<Rightarrow> (npm_package_install_plan, command_helper_protocol_error) result"
where
  "classify_npm_package_install_plan codec working_directory package_name exact_version access =
     (case classify_npm_package_install (semver_parse codec)
             \<lparr>install_working_directory = working_directory, install_package_name = package_name,
              install_exact_version = exact_version\<rparr> access of
        Npm_ActionTimeConfirmationRequired plan \<Rightarrow> Ok plan
      | Npm_Denied _ \<Rightarrow> Err RejectedByCommandBroker)"

definition encode_request ::
  "helper_codec \<Rightarrow> workspace_command_plan \<Rightarrow> workspace_command_access
     \<Rightarrow> (string, command_helper_protocol_error) result"
where
  "encode_request codec plan access =
     (case helper_classify (plan_working_directory plan) (plan_command plan) access of
        Inl e \<Rightarrow> Err e
      | Inr reclassified \<Rightarrow>
          if reclassified \<noteq> plan then Err InvalidPlan
          else if \<not> from_utf8_ok (plan_working_directory plan) then Err NonUnicodeWorkingDirectory
          else
            (let request = \<lparr>wire_version = COMMAND_HELPER_PROTOCOL_VERSION,
                   wire_command = wire_of_baseline (plan_command plan),
                   wire_working_directory = plan_working_directory plan,
                   wire_access = wire_of_access access\<rparr> in
             case request_to_vec codec request of
               None \<Rightarrow> Err InvalidEncoding
             | Some encoded \<Rightarrow>
                 if length encoded > MAXIMUM_COMMAND_HELPER_REQUEST_BYTES then Err RequestTooLarge
                 else Ok encoded))"

definition decode_request ::
  "helper_codec \<Rightarrow> string \<Rightarrow> (workspace_command_plan, command_helper_protocol_error) result"
where
  "decode_request codec encoded =
     (if length encoded > MAXIMUM_COMMAND_HELPER_REQUEST_BYTES then Err RequestTooLarge
      else
        (case request_from_slice codec encoded of
           None \<Rightarrow> Err InvalidEncoding
         | Some request \<Rightarrow>
             if wire_version request \<noteq> COMMAND_HELPER_PROTOCOL_VERSION then Err UnsupportedVersion
             else helper_classify (wire_working_directory request)
                    (baseline_of_wire (wire_command request)) (access_of_wire (wire_access request))))"

definition encode_npm_package_install_request ::
  "helper_codec \<Rightarrow> npm_package_install_plan \<Rightarrow> workspace_command_access
     \<Rightarrow> (string, command_helper_protocol_error) result"
where
  "encode_npm_package_install_request codec plan access =
     (case classify_npm_package_install_plan codec (npm_working_directory plan)
             (npm_package_name plan) (npm_exact_version plan) access of
        Inl e \<Rightarrow> Err e
      | Inr reclassified \<Rightarrow>
          if reclassified \<noteq> plan then Err InvalidPlan
          else if \<not> from_utf8_ok (npm_working_directory plan) then Err NonUnicodeWorkingDirectory
          else
            (let request = \<lparr>wire_npm_version = COMMAND_HELPER_PROTOCOL_VERSION,
                   wire_npm_operation = Wire_NpmPackageInstall,
                   wire_npm_working_directory = npm_working_directory plan,
                   wire_npm_package_name = npm_package_name plan,
                   wire_npm_exact_version = npm_exact_version plan,
                   wire_npm_access = wire_of_access access\<rparr> in
             case npm_to_vec codec request of
               None \<Rightarrow> Err InvalidEncoding
             | Some encoded \<Rightarrow>
                 if length encoded > MAXIMUM_COMMAND_HELPER_REQUEST_BYTES then Err RequestTooLarge
                 else Ok encoded))"

definition decode_npm_package_install_request ::
  "helper_codec \<Rightarrow> string \<Rightarrow> (npm_package_install_plan, command_helper_protocol_error) result"
where
  "decode_npm_package_install_request codec encoded =
     (if length encoded > MAXIMUM_COMMAND_HELPER_REQUEST_BYTES then Err RequestTooLarge
      else
        (case npm_from_slice codec encoded of
           None \<Rightarrow> Err InvalidEncoding
         | Some request \<Rightarrow>
             if wire_npm_version request \<noteq> COMMAND_HELPER_PROTOCOL_VERSION then Err UnsupportedVersion
             else classify_npm_package_install_plan codec (wire_npm_working_directory request)
                    (wire_npm_package_name request) (wire_npm_exact_version request)
                    (access_of_wire (wire_npm_access request))))"

definition decode_command_request ::
  "helper_codec \<Rightarrow> string \<Rightarrow> (decoded_command_request, command_helper_protocol_error) result"
where
  "decode_command_request codec encoded =
     (case decode_request codec encoded of
        Inr plan \<Rightarrow> Ok (Decoded_Baseline plan)
      | Inl RequestTooLarge \<Rightarrow> Err RequestTooLarge
      | Inl _ \<Rightarrow>
          (case decode_npm_package_install_request codec encoded of
             Inl e \<Rightarrow> Err e
           | Inr plan \<Rightarrow> Ok (Decoded_NpmPackageInstall plan)))"

text \<open>\<open>reader.take(n).read\_to\_end\<close>: what was read, or an error, and what is left in the reader. An
  empty read is the end, where the reader stays; of a piece that is longer than the limit only so
  much is read, and at the limit nothing more is.\<close>

datatype read_result = Read_Bytes string | Read_Failed

fun take_read_to_end :: "nat \<Rightarrow> read_result list \<Rightarrow> string option \<times> read_result list" where
  "take_read_to_end limit [] = (Some [], [])"
| "take_read_to_end limit (Read_Failed # rs) =
     (if limit = 0 then (Some [], Read_Failed # rs) else (None, rs))"
| "take_read_to_end limit (Read_Bytes bytes # rs) =
     (if limit = 0 \<or> bytes = [] then (Some [], Read_Bytes bytes # rs)
      else if limit < length bytes then (Some (take limit bytes), Read_Bytes (drop limit bytes) # rs)
      else
        (let (more, rest) = take_read_to_end (limit - length bytes) rs in
         (map_option (\<lambda>more. bytes @ more) more, rest)))"

text \<open>Each reads from the reader it is given; the second part is what it leaves of it.\<close>

definition decode_command_request_from_reader ::
  "helper_codec \<Rightarrow> read_result list
     \<Rightarrow> (decoded_command_request, command_helper_protocol_error) result \<times> read_result list"
where
  "decode_command_request_from_reader codec reader =
     (case take_read_to_end (MAXIMUM_COMMAND_HELPER_REQUEST_BYTES + 1) reader of
        (None, rest) \<Rightarrow> (Err InputReadFailed, rest)
      | (Some encoded, rest) \<Rightarrow> (decode_command_request codec encoded, rest))"

definition decode_request_from_reader ::
  "helper_codec \<Rightarrow> read_result list
     \<Rightarrow> (workspace_command_plan, command_helper_protocol_error) result \<times> read_result list"
where
  "decode_request_from_reader codec reader =
     (case take_read_to_end (MAXIMUM_COMMAND_HELPER_REQUEST_BYTES + 1) reader of
        (None, rest) \<Rightarrow> (Err InputReadFailed, rest)
      | (Some encoded, rest) \<Rightarrow> (decode_request codec encoded, rest))"

section \<open>What arrives is what was sent\<close>

text \<open>The plans the policy issues, under an access, and their encoding.\<close>

fun issued_by_broker :: "helper_codec \<Rightarrow> workspace_command_access \<Rightarrow> decoded_command_request \<Rightarrow> bool" where
  "issued_by_broker codec access (Decoded_Baseline plan) \<longleftrightarrow>
     (\<exists>request. classify_command request access = Baseline plan)"
| "issued_by_broker codec access (Decoded_NpmPackageInstall plan) \<longleftrightarrow>
     (\<exists>request. classify_npm_package_install (semver_parse codec) request access
        = Npm_ActionTimeConfirmationRequired plan)"

fun encode_command_request ::
  "helper_codec \<Rightarrow> decoded_command_request \<Rightarrow> workspace_command_access
     \<Rightarrow> (string, command_helper_protocol_error) result"
where
  "encode_command_request codec (Decoded_Baseline plan) access = encode_request codec plan access"
| "encode_command_request codec (Decoded_NpmPackageInstall plan) access =
     encode_npm_package_install_request codec plan access"

text \<open>The JSON codec reads back what it wrote, and \<open>deny\_unknown\_fields\<close> keeps the two structures
  apart. Strings are Unicode, as Rust's are.\<close>

definition faithful_codec :: "helper_codec \<Rightarrow> bool" where
  "faithful_codec codec \<longleftrightarrow>
     (\<forall>request bytes. from_utf8_ok (wire_working_directory request)
        \<longrightarrow> request_to_vec codec request = Some bytes \<longrightarrow> request_from_slice codec bytes = Some request)
     \<and> (\<forall>request bytes. from_utf8_ok (wire_npm_working_directory request)
        \<longrightarrow> from_utf8_ok (wire_npm_package_name request)
        \<longrightarrow> from_utf8_ok (wire_npm_exact_version request)
        \<longrightarrow> npm_to_vec codec request = Some bytes
        \<longrightarrow> npm_from_slice codec bytes = Some request \<and> request_from_slice codec bytes = None)"

lemma wire_inverse [simp]:
  "baseline_of_wire (wire_of_baseline c) = c" "access_of_wire (wire_of_access a) = a"
  by (cases c; simp) (cases a; simp)

lemma utf8_valid_ascii: "list_all (\<lambda>n. n < 128) ns \<Longrightarrow> utf8_valid ns"
  by (induction ns) auto

lemma ascii_utf8: "is_ascii_str s \<Longrightarrow> from_utf8_ok s"
  by (auto simp: is_ascii_str_def from_utf8_ok_def byte_of_def list_all_iff intro!: utf8_valid_ascii)

lemma classify_command_again:
  assumes "classify_command request access = Baseline plan"
  shows "helper_classify (plan_working_directory plan) (plan_command plan) access = Ok plan"
  using assms workspace_directory_idem [of "request_working_directory request"]
  by (auto simp: classify_command_def helper_classify_def
      split: sum.splits workspace_command_intent.splits if_splits)

lemma classify_npm_again:
  assumes "classify_npm_package_install (semver_parse codec) request access
    = Npm_ActionTimeConfirmationRequired plan"
  shows "classify_npm_package_install_plan codec (npm_working_directory plan) (npm_package_name plan)
      (npm_exact_version plan) access = Ok plan"
    and "from_utf8_ok (npm_package_name plan)" "from_utf8_ok (npm_exact_version plan)"
  using assms workspace_directory_idem [of "install_working_directory request"]
  by (auto simp: classify_npm_package_install_def classify_npm_package_install_plan_def
      valid_npm_package_name_def valid_exact_npm_version_def
      intro: ascii_utf8 split: sum.splits if_splits)

lemma codec_reads_back:
  assumes "faithful_codec codec"
  shows "request_to_vec codec request = Some bytes \<Longrightarrow> from_utf8_ok (wire_working_directory request)
      \<Longrightarrow> request_from_slice codec bytes = Some request"
    and "npm_to_vec codec npm = Some bytes \<Longrightarrow> from_utf8_ok (wire_npm_working_directory npm)
      \<Longrightarrow> from_utf8_ok (wire_npm_package_name npm) \<Longrightarrow> from_utf8_ok (wire_npm_exact_version npm)
      \<Longrightarrow> npm_from_slice codec bytes = Some npm \<and> request_from_slice codec bytes = None"
  using assms unfolding faithful_codec_def by blast+

lemma baseline_roundtrip:
  assumes "faithful_codec codec" "encode_request codec plan access = Ok bytes"
  shows "decode_command_request codec bytes = Ok (Decoded_Baseline plan)"
  using assms(2) codec_reads_back(1) [OF assms(1)]
  by (auto simp: encode_request_def decode_command_request_def decode_request_def Let_def
      split: sum.splits if_splits option.splits)

lemma npm_roundtrip:
  assumes "faithful_codec codec" "encode_npm_package_install_request codec plan access = Ok bytes"
    and "from_utf8_ok (npm_package_name plan)" "from_utf8_ok (npm_exact_version plan)"
  shows "decode_command_request codec bytes = Ok (Decoded_NpmPackageInstall plan)"
  using assms(2-4) codec_reads_back(2) [OF assms(1)]
  by (auto simp: encode_npm_package_install_request_def decode_command_request_def
      decode_request_def decode_npm_package_install_request_def Let_def
      split: sum.splits if_splits option.splits)

text \<open>C36: Every plan the policy issues can be sent to the helper and arrives as it was: the host's
  check does not refuse it, an encoding fails only for a directory that is not Unicode, in the
  JSON codec, or for more than 16 KiB, and what it yields the helper decodes, through its own
  check, to the same plan.\<close>

theorem helper_request_roundtrip:
  assumes "faithful_codec codec" "issued_by_broker codec access plan"
  shows "case encode_command_request codec plan access of
      Inr bytes \<Rightarrow> decode_command_request codec bytes = Ok plan
    | Inl e \<Rightarrow> e \<in> {NonUnicodeWorkingDirectory, InvalidEncoding, RequestTooLarge}"
proof (cases plan)
  case (Decoded_Baseline p)
  then obtain request where "classify_command request access = Baseline p"
    using assms(2) by auto
  from classify_command_again [OF this] show ?thesis
    using Decoded_Baseline baseline_roundtrip [OF assms(1), of p access]
    by (cases "encode_request codec p access")
      (auto simp: encode_request_def Let_def split: if_splits option.splits)
next
  case (Decoded_NpmPackageInstall p)
  then obtain request where issued: "classify_npm_package_install (semver_parse codec) request access
      = Npm_ActionTimeConfirmationRequired p"
    using assms(2) by auto
  note again = classify_npm_again [OF issued]
  show ?thesis
    using Decoded_NpmPackageInstall npm_roundtrip [OF assms(1) _ again(2,3), of access] again(1)
    by (cases "encode_npm_package_install_request codec p access")
      (auto simp: encode_npm_package_install_request_def Let_def split: if_splits option.splits)
qed

section \<open>What the helper accepts\<close>

lemma decode_issued:
  assumes "decode_command_request codec bytes = Ok plan"
  shows "\<exists>access. issued_by_broker codec access plan"
  using assms
  by (auto simp: decode_command_request_def decode_request_def helper_classify_def
      decode_npm_package_install_request_def classify_npm_package_install_plan_def
      split: sum.splits if_splits option.splits command_classification.splits
        npm_package_install_classification.splits command_helper_protocol_error.splits) blast+

text \<open>The bytes of a reader up to its end.\<close>

fun reader_bytes :: "read_result list \<Rightarrow> string" where
  "reader_bytes (Read_Bytes bytes # rs) = (if bytes = [] then [] else bytes @ reader_bytes rs)"
| "reader_bytes _ = []"

lemma take_read_to_end_take:
  assumes "Read_Failed \<notin> set reader"
  shows "fst (take_read_to_end limit reader) = Some (take limit (reader_bytes reader))
    \<and> reader_bytes (snd (take_read_to_end limit reader)) = drop limit (reader_bytes reader)"
  using assms
  by (induction limit reader rule: take_read_to_end.induct) (auto simp: split_beta)

lemma decode_long:
  assumes "length bytes > MAXIMUM_COMMAND_HELPER_REQUEST_BYTES"
  shows "decode_command_request codec bytes = Err RequestTooLarge"
  using assms by (simp add: decode_command_request_def decode_request_def)

text \<open>C37: The helper reads at most one byte more than it accepts and still decides as if it had read
  everything: whatever bytes arrive, and in whatever pieces, what it has taken from the reader is the
  first 16 KiB and one byte, or all there is, the rest is still there, and the answer is the one for
  all of the bytes. A request that it accepts is one that the policy issues under one of the
  accesses.\<close>

theorem helper_reads_bounded:
  assumes "Read_Failed \<notin> set reader"
    and "decode_command_request_from_reader codec reader = (answer, rest)"
  shows "answer = decode_command_request codec (reader_bytes reader)
    \<and> (\<exists>consumed. reader_bytes reader = consumed @ reader_bytes rest
         \<and> length consumed = min (16 * 1024 + 1) (length (reader_bytes reader)))
    \<and> (\<forall>plan. answer = Ok plan \<longrightarrow> (\<exists>access. issued_by_broker codec access plan))"
proof -
  let ?n = "MAXIMUM_COMMAND_HELPER_REQUEST_BYTES"
  obtain read left where read: "take_read_to_end (?n + 1) reader = (read, left)"
    by fastforce
  then have parts: "read = Some (take (?n + 1) (reader_bytes reader))"
      "reader_bytes left = drop (?n + 1) (reader_bytes reader)"
    using take_read_to_end_take [OF assms(1), of "?n + 1"] by simp_all
  have "decode_command_request codec (take (?n + 1) (reader_bytes reader))
      = decode_command_request codec (reader_bytes reader)"
    using decode_long [of "reader_bytes reader" codec]
      decode_long [of "take (?n + 1) (reader_bytes reader)" codec]
    by (cases "length (reader_bytes reader) \<le> ?n") simp_all
  then have answer: "answer = decode_command_request codec (reader_bytes reader)" and rest: "rest = left"
    using assms(2) read parts(1) by (simp_all add: decode_command_request_from_reader_def)
  have "reader_bytes reader = take (?n + 1) (reader_bytes reader) @ reader_bytes rest"
    using parts(2) rest by (metis append_take_drop_id)
  moreover have "length (take (?n + 1) (reader_bytes reader)) = min (16 * 1024 + 1) (length (reader_bytes reader))"
    by (simp add: MAXIMUM_COMMAND_HELPER_REQUEST_BYTES_def)
  ultimately have "\<exists>consumed. reader_bytes reader = consumed @ reader_bytes rest
      \<and> length consumed = min (16 * 1024 + 1) (length (reader_bytes reader))"
    by blast
  then show ?thesis
    using answer decode_issued [of codec "reader_bytes reader"] by simp
qed

section \<open>A concrete request\<close>

definition example_wire_request :: wire_request where
  "example_wire_request = \<lparr>wire_version = 1, wire_command = Wire_CargoTest,
     wire_working_directory = ''crates/moe-core'', wire_access = Wire_ReadWrite\<rparr>"

definition example_helper_json :: string where
  "example_helper_json = ''{\"version\":1,\"command\":\"cargo_test\",\"working_directory\":\"crates/moe-core\",\"access\":\"read_write\"}''"

definition example_helper_codec :: helper_codec where
  "example_helper_codec =
     \<lparr>request_to_vec = (\<lambda>r. if r = example_wire_request then Some example_helper_json else None),
      request_from_slice = (\<lambda>b. if b = example_helper_json then Some example_wire_request else None),
      npm_to_vec = (\<lambda>_. None), npm_from_slice = (\<lambda>_. None), semver_parse = (\<lambda>_. None)\<rparr>"

definition example_helper_plan :: workspace_command_plan where
  "example_helper_plan = \<lparr>plan_working_directory = ''crates/moe-core'', plan_command = CargoTest,
     plan_tool = Cargo, network_enabled = False, accepts_shell_command_string = False,
     maximum_output_bytes = 262144, maximum_seconds = 300\<rparr>"

lemma example_helper_issued: "issued_by_broker example_helper_codec ReadWrite (Decoded_Baseline example_helper_plan)"
  by (auto intro!: exI [of _ "\<lparr>request_working_directory = ''crates//./moe-core/'',
        request_intent = Intent_Baseline CargoTest\<rparr>"]
      simp: classify_command_def workspace_directory_example example_helper_plan_def
        MAXIMUM_COMMAND_OUTPUT_BYTES_def MAXIMUM_COMMAND_SECONDS_def)

lemma example_helper_codec_faithful: "faithful_codec example_helper_codec"
  by (simp add: faithful_codec_def example_helper_codec_def)

lemma example_helper_encode:
  "encode_request example_helper_codec example_helper_plan ReadWrite = Ok example_helper_json"
proof -
  have "helper_classify ''crates/moe-core'' CargoTest ReadWrite = Ok example_helper_plan"
    using classify_command_again [of _ ReadWrite example_helper_plan] example_helper_issued
    by (auto simp: example_helper_plan_def)
  moreover have "from_utf8_ok ''crates/moe-core''"
    by (rule ascii_utf8) (simp add: is_ascii_str_def byte_of_def)
  ultimately show ?thesis
    by (simp add: encode_request_def example_helper_plan_def example_helper_codec_def
        example_wire_request_def COMMAND_HELPER_PROTOCOL_VERSION_def example_helper_json_def
        MAXIMUM_COMMAND_HELPER_REQUEST_BYTES_def)
qed

theorem helper_request_roundtrip_witness:
  "decode_command_request example_helper_codec example_helper_json = Ok (Decoded_Baseline example_helper_plan)"
  using helper_request_roundtrip [OF example_helper_codec_faithful example_helper_issued]
  by (simp add: example_helper_encode)

theorem helper_reads_bounded_witness:
  "fst (decode_command_request_from_reader example_helper_codec
     [Read_Bytes (take 10 example_helper_json), Read_Bytes (drop 10 example_helper_json), Read_Bytes []])
   = decode_command_request example_helper_codec example_helper_json"
  using helper_reads_bounded [of "[Read_Bytes (take 10 example_helper_json),
      Read_Bytes (drop 10 example_helper_json), Read_Bytes []]" example_helper_codec, OF _ surjective_pairing]
  by (simp add: example_helper_json_def)

end
