(* ===== verification/Room_Catalog.thy ===== *)
theory Room_Catalog
  imports Room_Store_Props
begin

text \<open>
  The catalogue every installation starts with, and the two upgrades that a snapshot read from a
  file goes through (\<open>apps/desktop/src-tauri/src/room\_source.rs\<close>): the one human participant
  becomes the participant \<open>owner\<close>, and bundled participants and Rooms that are missing are added.
\<close>

section \<open>The bundled catalogue\<close>

definition OWNER_PARTICIPANT_ID :: string where "OWNER_PARTICIPANT_ID = ''owner''"

definition bundled_participant :: "string \<Rightarrow> string \<Rightarrow> room_participant_kind \<Rightarrow> room_participant" where
  "bundled_participant id' display_name kind =
     \<lparr>p_id = id', p_display_name = display_name, p_kind = kind\<rparr>"

definition bundled_message ::
  "string \<Rightarrow> string \<Rightarrow> string \<Rightarrow> string list \<Rightarrow> string \<Rightarrow> string \<Rightarrow> room_message"
where
  "bundled_message room_id id' author_id recipients body created_at =
     \<lparr>m_id = id', m_room_id = room_id, m_author_id = author_id, m_recipients = recipients,
      m_body = body, m_created_at = created_at, m_artifact_ids = [], m_provenance = None\<rparr>"

definition bundled_dev_room :: room where
  "bundled_dev_room =
     \<lparr>r_id = ''moe-dev-room'', r_name = bytes_str [
        77, 46, 73, 46, 79, 46, 233, 150, 139, 231, 153, 186, 229, 174, 164],
      r_participant_ids = [OWNER_PARTICIPANT_ID, ''claude-web'', ''codex'', ''gemini''],
      r_messages = [bundled_message ''moe-dev-room'' ''welcome-1'' OWNER_PARTICIPANT_ID
        [''claude-web'', ''codex'', ''gemini'']
        (bytes_str [
        227, 129, 191, 227, 130, 147, 227, 129, 170, 227, 128, 129, 77, 46, 73, 46,
        79, 46, 227, 129, 174, 227, 131, 136, 227, 131, 188, 227, 130, 175, 227, 131,
        171, 227, 131, 188, 227, 131, 160, 85, 73, 227, 130, 146, 228, 189, 156, 227,
        129, 163, 227, 129, 166, 227, 129, 132, 227, 129, 141, 227, 129, 190, 227,
        129, 151, 227, 130, 135, 227, 129, 134, 227, 131, 188, 227, 128, 130])
        ''2026-08-11T19:42:00+09:00'',
        bundled_message ''moe-dev-room'' ''welcome-2'' ''codex''
        [OWNER_PARTICIPANT_ID]
        (bytes_str [
        228, 186, 134, 232, 167, 163, 227, 129, 167, 227, 129, 153, 227, 128, 130,
        227, 131, 171, 227, 131, 188, 227, 131, 160, 229, 143, 130, 229, 138, 160,
        232, 128, 133, 227, 129, 168, 227, 128, 129, 227, 131, 161, 227, 131, 131,
        227, 130, 187, 227, 131, 188, 227, 130, 184, 227, 129, 148, 227, 129, 168,
        227, 129, 174, 229, 174, 155, 229, 133, 136, 227, 130, 146, 229, 136, 134,
        227, 129, 145, 227, 129, 166, 227, 129, 138, 227, 129, 141, 227, 129, 190,
        227, 129, 153, 227, 129, 173, 227, 128, 130])
        ''2026-08-11T19:42:30+09:00'',
        bundled_message ''moe-dev-room'' ''welcome-3'' ''claude-web''
        [OWNER_PARTICIPANT_ID]
        (bytes_str [
        232, 131, 140, 230, 153, 175, 227, 130, 132, 227, 130, 162, 227, 130, 164,
        227, 130, 179, 227, 131, 179, 227, 130, 146, 232, 135, 170, 229, 136, 134,
        229, 165, 189, 227, 129, 191, 227, 129, 171, 227, 129, 167, 227, 129, 141,
        227, 130, 139, 228, 189, 153, 231, 153, 189, 227, 130, 130, 227, 128, 129,
        230, 156, 128, 229, 136, 157, 227, 129, 139, 227, 130, 137, 231, 162, 186,
        228, 191, 157, 227, 129, 151, 227, 129, 166, 227, 129, 138, 227, 129, 141,
        227, 129, 190, 227, 129, 153, 227, 128, 130])
        ''2026-08-11T19:43:00+09:00'']\<rparr>"

definition bundled_comparison_room :: room where
  "bundled_comparison_room =
     \<lparr>r_id = ''comparison-room'', r_name = bytes_str [
        229, 155, 158, 231, 173, 148, 227, 129, 143, 227, 130, 137, 227, 129, 185,
        233, 131, 168, 229, 177, 139],
      r_participant_ids = [OWNER_PARTICIPANT_ID, ''chatgpt'', ''grok'', ''gemini''],
      r_messages = [bundled_message ''comparison-room'' ''comparison-1'' OWNER_PARTICIPANT_ID
        [''chatgpt'', ''grok'', ''gemini'']
        (bytes_str [
        229, 144, 140, 227, 129, 152, 232, 179, 170, 229, 149, 143, 227, 130, 146,
        228, 184, 137, 228, 186, 186, 227, 129, 171, 230, 138, 149, 227, 129, 146,
        227, 129, 166, 227, 128, 129, 231, 173, 148, 227, 129, 136, 227, 130, 146,
        232, 166, 139, 227, 129, 166, 227, 129, 191, 227, 129, 159, 227, 129, 132,
        227, 128, 130])
        ''2026-08-11T19:30:00+09:00'']\<rparr>"

definition bundled_mcp_lab :: room where
  "bundled_mcp_lab =
     \<lparr>r_id = ''mcp-lab'', r_name = bytes_str [
        77, 67, 80, 229, 174, 159, 233, 168, 147, 229, 174, 164],
      r_participant_ids = [OWNER_PARTICIPANT_ID, ''generic-mcp'', ''openai-api''],
      r_messages = []\<rparr>"

definition bundled_snapshot :: room_snapshot where
  "bundled_snapshot =
     \<lparr>schema_version = PROTOCOL_VERSION,
      generated_at = ''2026-08-12T00:00:00+09:00'',
      participants =
        [bundled_participant OWNER_PARTICIPANT_ID ''Owner'' Human,
         bundled_participant ''claude-web'' ''Claude Web'' Ai,
         bundled_participant ''claude-code'' ''Claude Code'' Ai,
         bundled_participant ''codex'' ''Codex'' Ai,
         bundled_participant ''chatgpt'' ''ChatGPT'' Ai,
         bundled_participant ''grok'' ''Grok'' Ai,
         bundled_participant ''gemini'' ''Gemini'' Ai,
         bundled_participant ''openai-api'' ''OpenAI API'' Ai,
         bundled_participant ''generic-mcp'' ''Generic MCP'' Ai,
         bundled_participant ''other'' (bytes_str [
            227, 129, 157, 227, 129, 174, 228, 187, 150]) Ai],
      rooms =
        [bundled_dev_room,
         bundled_comparison_room,
         bundled_mcp_lab]\<rparr>"

section \<open>Upgrades\<close>

record participant_id_migration =
  previous_id :: string
  current_id :: string

datatype desktop_room_persistence_error = Persistence_Io | Persistence_InvalidFile

definition migrate_message :: "string \<Rightarrow> room_message \<Rightarrow> room_message" where
  "migrate_message previous message =
     message\<lparr>m_author_id :=
               (if m_author_id message = previous then OWNER_PARTICIPANT_ID else m_author_id message),
             m_recipients :=
               map (\<lambda>recipient. if recipient = previous then OWNER_PARTICIPANT_ID else recipient)
                 (m_recipients message)\<rparr>"

definition migrate_room :: "string \<Rightarrow> room \<Rightarrow> room" where
  "migrate_room previous room =
     room\<lparr>r_participant_ids :=
            map (\<lambda>participant_id. if participant_id = previous then OWNER_PARTICIPANT_ID
                                    else participant_id) (r_participant_ids room),
          r_messages := map (migrate_message previous) (r_messages room)\<rparr>"

definition normalize_owner_participant ::
  "room_snapshot
     \<Rightarrow> (room_snapshot \<times> participant_id_migration option \<times> bool, desktop_room_persistence_error) result"
where
  "normalize_owner_participant snapshot =
     (let human_indexes = filter (\<lambda>index. p_kind (participants snapshot ! index) = Human)
                            [0..<length (participants snapshot)] in
      if length human_indexes \<noteq> 1 then Err Persistence_InvalidFile
      else
        (let human_index = hd human_indexes;
             human = participants snapshot ! human_index;
             renamed = p_display_name human \<noteq> ''Owner'';
             snapshot1 = (if renamed
               then snapshot\<lparr>participants := (participants snapshot)
                               [human_index := human\<lparr>p_display_name := ''Owner''\<rparr>]\<rparr>
               else snapshot);
             previous = p_id human in
         if previous = OWNER_PARTICIPANT_ID then Ok (snapshot1, None, renamed)
         else if list_ex (\<lambda>participant. p_id participant = OWNER_PARTICIPANT_ID) (participants snapshot1)
         then Err Persistence_InvalidFile
         else
           Ok (snapshot1
                 \<lparr>participants := (participants snapshot1)
                    [human_index := (participants snapshot1 ! human_index)\<lparr>p_id := OWNER_PARTICIPANT_ID\<rparr>],
                  rooms := map (migrate_room previous) (rooms snapshot1)\<rparr>,
               Some \<lparr>previous_id = previous, current_id = OWNER_PARTICIPANT_ID\<rparr>, True)))"

fun merge_participants ::
  "room_participant list \<Rightarrow> room_snapshot \<times> bool \<Rightarrow> room_snapshot \<times> bool"
where
  "merge_participants [] acc = acc"
| "merge_participants (p # ps) (snapshot, upgraded) =
     merge_participants ps
       (if \<not> list_ex (\<lambda>existing. p_id existing = p_id p) (participants snapshot)
        then (snapshot\<lparr>participants := participants snapshot @ [p]\<rparr>, True)
        else (snapshot, upgraded))"

fun merge_rooms :: "room list \<Rightarrow> room_snapshot \<times> bool \<Rightarrow> room_snapshot \<times> bool" where
  "merge_rooms [] acc = acc"
| "merge_rooms (r # rs) (snapshot, upgraded) =
     merge_rooms rs
       (if \<not> list_ex (\<lambda>existing. r_id existing = r_id r) (rooms snapshot)
        then (snapshot\<lparr>rooms := rooms snapshot @ [r]\<rparr>, True)
        else (snapshot, upgraded))"

definition merge_bundled_catalog :: "room_snapshot \<Rightarrow> room_snapshot \<times> bool" where
  "merge_bundled_catalog snapshot =
     merge_rooms (rooms bundled_snapshot)
       (merge_participants (participants bundled_snapshot) (snapshot, False))"

section \<open>Settled snapshots\<close>

text \<open>What the upgrades leave alone: the only human is the participant \<open>owner\<close> under the name
  ``Owner'', and everything bundled is there.\<close>

definition has_bundled :: "room_snapshot \<Rightarrow> bool" where
  "has_bundled snapshot \<longleftrightarrow>
     p_id ` set (participants bundled_snapshot) \<subseteq> p_id ` set (participants snapshot)
     \<and> r_id ` set (rooms bundled_snapshot) \<subseteq> r_id ` set (rooms snapshot)"

definition owner_settled :: "room_snapshot \<Rightarrow> bool" where
  "owner_settled snapshot \<longleftrightarrow>
     filter (\<lambda>p. p_kind p = Human) (participants snapshot)
       = [bundled_participant OWNER_PARTICIPANT_ID ''Owner'' Human]"

definition settled :: "room_snapshot \<Rightarrow> bool" where
  "settled snapshot \<longleftrightarrow> has_bundled snapshot \<and> owner_settled snapshot"

lemma merge_participants_present:
  "p_id ` set ps \<subseteq> p_id ` set (participants s) \<Longrightarrow> merge_participants ps (s, u) = (s, u)"
  by (induction ps) (auto simp: list_ex_iff image_iff)

lemma merge_rooms_present:
  "r_id ` set rs \<subseteq> r_id ` set (rooms s) \<Longrightarrow> merge_rooms rs (s, u) = (s, u)"
  by (induction rs) (auto simp: list_ex_iff image_iff)

lemma merge_settled: "has_bundled s \<Longrightarrow> merge_bundled_catalog s = (s, False)"
  by (simp add: merge_bundled_catalog_def has_bundled_def merge_participants_present merge_rooms_present)

text \<open>What the merge adds.\<close>

lemma merge_participants_ids:
  "p_id ` set (participants (fst (merge_participants ps (s, u)))) = p_id ` set (participants s) \<union> p_id ` set ps"
  "rooms (fst (merge_participants ps (s, u))) = rooms s"
proof (induction ps arbitrary: s u)
  case (Cons p ps)
  { case 1 then show ?case using Cons.IH(1) by (auto simp: list_ex_iff image_iff) metis }
  { case 2 then show ?case using Cons.IH(2) by simp }
qed simp_all

lemma merge_rooms_ids:
  "r_id ` set (rooms (fst (merge_rooms rs (s, u)))) = r_id ` set (rooms s) \<union> r_id ` set rs"
  "participants (fst (merge_rooms rs (s, u))) = participants s"
proof (induction rs arbitrary: s u)
  case (Cons r rs)
  { case 1 then show ?case using Cons.IH(1) by (auto simp: list_ex_iff image_iff) metis }
  { case 2 then show ?case using Cons.IH(2) by simp }
qed simp_all

lemma merge_has_bundled: "has_bundled (fst (merge_bundled_catalog s))"
proof -
  obtain s' u' where s': "merge_participants (participants bundled_snapshot) (s, False) = (s', u')"
    by fastforce
  then show ?thesis
    using merge_participants_ids(1) [of "participants bundled_snapshot" s False]
      merge_rooms_ids [of "rooms bundled_snapshot" s' u']
    by (auto simp: has_bundled_def merge_bundled_catalog_def)
qed

text \<open>The owner.\<close>

lemma filter_upt_nth: "map ((!) xs) (filter (\<lambda>i. P (xs ! i)) [0..<length xs]) = filter P xs"
  by (simp add: filter_map [symmetric, unfolded o_def] map_nth)

lemma human_index:
  assumes "length (filter (\<lambda>i. p_kind (ps ! i) = Human) [0..<length ps]) = 1"
  obtains i where "filter (\<lambda>i. p_kind (ps ! i) = Human) [0..<length ps] = [i]" "i < length ps"
    "filter (\<lambda>p. p_kind p = Human) ps = [ps ! i]" "p_kind (ps ! i) = Human"
    "\<And>j. j < length ps \<Longrightarrow> p_kind (ps ! j) = Human \<Longrightarrow> j = i"
proof -
  from assms obtain i where i: "filter (\<lambda>i. p_kind (ps ! i) = Human) [0..<length ps] = [i]"
    by (auto simp: length_Suc_conv)
  have only: "j < length ps \<and> p_kind (ps ! j) = Human \<longleftrightarrow> j = i" for j
  proof -
    have "j \<in> set (filter (\<lambda>i. p_kind (ps ! i) = Human) [0..<length ps]) \<longleftrightarrow> j \<in> set [i]"
      unfolding i ..
    then show ?thesis by simp
  qed
  have "filter (\<lambda>p. p_kind p = Human) ps = [ps ! i]"
    using filter_upt_nth [of ps "\<lambda>p. p_kind p = Human"] i by simp
  then show ?thesis
    using that [OF i] only by blast
qed

lemma normalize_settled:
  assumes "owner_settled s"
  shows "normalize_owner_participant s = Ok (s, None, False)"
proof -
  have "length (filter (\<lambda>i. p_kind (participants s ! i) = Human) [0..<length (participants s)]) = 1"
    using filter_upt_nth [of "participants s" "\<lambda>p. p_kind p = Human"] assms
    by (metis length_map owner_settled_def length_Cons list.size(3) One_nat_def)
  then obtain i where "filter (\<lambda>i. p_kind (participants s ! i) = Human) [0..<length (participants s)] = [i]"
    "filter (\<lambda>p. p_kind p = Human) (participants s) = [participants s ! i]"
    by (rule human_index)
  then show ?thesis
    using assms by (simp add: normalize_owner_participant_def owner_settled_def bundled_participant_def)
qed

lemma owner_update:
  assumes "i < length ps" "\<And>j. j < length ps \<Longrightarrow> p_kind (ps ! j) = Human \<Longrightarrow> j = i" "p_kind p = Human"
  shows "filter (\<lambda>p. p_kind p = Human) (ps[i := p]) = [p]"
proof -
  have ps: "ps = take i ps @ ps ! i # drop (Suc i) ps"
    using assms(1) by (rule id_take_nth_drop)
  have "p_kind x \<noteq> Human" if "x \<in> set (take i ps)" for x
  proof -
    from that obtain j where "j < i" "x = ps ! j"
      using assms(1) by (auto simp: in_set_conv_nth)
    then show ?thesis using assms(1) assms(2) [of j] by auto
  qed
  moreover have "p_kind x \<noteq> Human" if "x \<in> set (drop (Suc i) ps)" for x
  proof -
    from that obtain j where "Suc i + j < length ps" "x = ps ! (Suc i + j)"
      by (force simp: in_set_conv_nth less_diff_conv ac_simps)
    then show ?thesis using assms(2) [of "Suc i + j"] by auto
  qed
  ultimately have "filter (\<lambda>p. p_kind p = Human) (take i ps) = []"
    "filter (\<lambda>p. p_kind p = Human) (drop (Suc i) ps) = []"
    by (auto simp: filter_empty_conv)
  then show ?thesis
    using assms(1,3) by (simp add: upd_conv_take_nth_drop)
qed

lemma normalize_owner_settled:
  assumes "normalize_owner_participant s = Ok (s', m, u)"
  shows "owner_settled s'"
proof -
  let ?ps = "participants s"
  from assms have "length (filter (\<lambda>i. p_kind (?ps ! i) = Human) [0..<length ?ps]) = 1"
    by (auto simp: normalize_owner_participant_def Let_def split: if_splits)
  then obtain i where i: "filter (\<lambda>i. p_kind (?ps ! i) = Human) [0..<length ?ps] = [i]" "i < length ?ps"
    "filter (\<lambda>p. p_kind p = Human) ?ps = [?ps ! i]" "p_kind (?ps ! i) = Human"
    "\<And>j. j < length ?ps \<Longrightarrow> p_kind (?ps ! j) = Human \<Longrightarrow> j = i"
    by (rule human_index) blast
  note update = owner_update [OF i(2,5)]
  show ?thesis
    using assms i(1-4)
    by (cases "p_display_name (?ps ! i) = ''Owner''"; cases "p_id (?ps ! i) = OWNER_PARTICIPANT_ID")
      (auto simp: normalize_owner_participant_def owner_settled_def bundled_participant_def update
        Let_def split: if_splits)
qed

lemma merge_owner_settled:
  assumes "owner_settled s"
  shows "owner_settled (fst (merge_bundled_catalog s))"
proof -
  have keep: "owner_settled (fst (merge_participants ps (t, u)))"
    if "owner_settled t" "\<forall>p \<in> set ps. p_kind p = Human \<longrightarrow> p_id p = OWNER_PARTICIPANT_ID" for ps t u
    using that
  proof (induction ps arbitrary: t u)
    case (Cons p ps)
    have "bundled_participant OWNER_PARTICIPANT_ID ''Owner'' Human \<in> set (participants t)"
      using Cons.prems(1) unfolding owner_settled_def by (metis filter_eq_ConsD in_set_conv_decomp)
    then have "\<exists>existing \<in> set (participants t). p_id existing = OWNER_PARTICIPANT_ID"
      by (auto simp: bundled_participant_def intro: bexI [rotated])
    then have "owner_settled (t\<lparr>participants := participants t @ [p]\<rparr>)"
      if "\<not> list_ex (\<lambda>existing. p_id existing = p_id p) (participants t)"
      using that Cons.prems by (auto simp: owner_settled_def list_ex_iff)
    then show ?case
      using Cons by auto
  qed simp
  obtain s' u' where s': "merge_participants (participants bundled_snapshot) (s, False) = (s', u')"
    by fastforce
  have "owner_settled s'"
    using keep [OF assms, of "participants bundled_snapshot" False] s'
    by (simp add: bundled_snapshot_def bundled_participant_def)
  then show ?thesis
    using merge_rooms_ids(2) [of "rooms bundled_snapshot" s' u']
    by (simp add: merge_bundled_catalog_def s' owner_settled_def)
qed

lemma upgrades_settle:
  "normalize_owner_participant s = Ok (s', m, u) \<Longrightarrow> settled (fst (merge_bundled_catalog s'))"
  by (simp add: settled_def merge_has_bundled merge_owner_settled normalize_owner_settled)

lemma bundled_settled: "settled bundled_snapshot"
  by (simp add: settled_def has_bundled_def owner_settled_def bundled_snapshot_def bundled_participant_def)

text \<open>The bundled snapshot is valid.\<close>

lemma bytes_str_simps [simp]: "length (bytes_str ns) = length ns" "bytes_str ns = [] \<longleftrightarrow> ns = []"
  by (simp_all add: bytes_str_def)

lemma bundled_identifiers [simp]:
  "valid_identifier OWNER_PARTICIPANT_ID" "valid_identifier ''claude-web''" "valid_identifier ''claude-code''"
  "valid_identifier ''codex''" "valid_identifier ''chatgpt''" "valid_identifier ''grok''"
  "valid_identifier ''gemini''" "valid_identifier ''openai-api''" "valid_identifier ''generic-mcp''"
  "valid_identifier ''other''" "valid_identifier ''moe-dev-room''" "valid_identifier ''comparison-room''"
  "valid_identifier ''mcp-lab''" "valid_identifier ''welcome-1''" "valid_identifier ''welcome-2''"
  "valid_identifier ''welcome-3''" "valid_identifier ''comparison-1''"
  by (simp_all add: OWNER_PARTICIPANT_ID_def identifier_eval)

lemma owner_neq [simp]:
  "OWNER_PARTICIPANT_ID \<noteq> CHR ''c'' # s" "OWNER_PARTICIPANT_ID \<noteq> CHR ''g'' # s"
  "OWNER_PARTICIPANT_ID \<noteq> ''openai-api''" "OWNER_PARTICIPANT_ID \<noteq> ''other''"
  "CHR ''c'' # s \<noteq> OWNER_PARTICIPANT_ID" "CHR ''g'' # s \<noteq> OWNER_PARTICIPANT_ID"
  "''openai-api'' \<noteq> OWNER_PARTICIPANT_ID" "''other'' \<noteq> OWNER_PARTICIPANT_ID"
  by (simp_all add: OWNER_PARTICIPANT_ID_def)

lemmas bundled_eval = room_ok_def message_ok_def valid_message_shape_def unique_valid_identifiers_iff
  valid_text_def bundled_message_def room_limits

abbreviation bundled_ids :: "string set" where
  "bundled_ids \<equiv> p_id ` set (participants bundled_snapshot)"

lemma bundled_ids_eq: "bundled_ids = {OWNER_PARTICIPANT_ID, ''claude-web'', ''claude-code'', ''codex'',
    ''chatgpt'', ''grok'', ''gemini'', ''openai-api'', ''generic-mcp'', ''other''}"
  by (simp add: bundled_snapshot_def bundled_participant_def)

lemma bundled_rooms_ok:
  "room_ok bundled_ids bundled_dev_room" "room_ok bundled_ids bundled_comparison_room"
  "room_ok bundled_ids bundled_mcp_lab"
  unfolding bundled_ids_eq
  by (simp_all add: bundled_dev_room_def bundled_comparison_room_def bundled_mcp_lab_def bundled_eval)

lemma bundled_ok: "snapshot_ok bundled_snapshot"
  unfolding snapshot_ok_def
proof (intro conjI)
  show "\<forall>p \<in> set (participants bundled_snapshot). valid_identifier (p_id p)
      \<and> valid_text (p_display_name p) MAXIMUM_DISPLAY_NAME_BYTES"
    by (simp add: bundled_snapshot_def bundled_participant_def valid_text_def MAXIMUM_DISPLAY_NAME_BYTES_def)
  show "distinct (map p_id (participants bundled_snapshot))"
    by (simp add: bundled_snapshot_def bundled_participant_def)
  show "distinct (map r_id (rooms bundled_snapshot))"
    by (simp add: bundled_snapshot_def bundled_dev_room_def bundled_comparison_room_def bundled_mcp_lab_def)
  show "distinct (map m_id (all_messages (rooms bundled_snapshot)))"
    by (simp add: bundled_snapshot_def bundled_dev_room_def bundled_comparison_room_def bundled_mcp_lab_def
        all_messages_def bundled_message_def)
  show "\<forall>room \<in> set (rooms bundled_snapshot). room_ok bundled_ids room"
    using bundled_rooms_ok by (simp add: bundled_snapshot_def)
qed (simp_all add: bundled_snapshot_def valid_text_def room_limits)

end
