(* ===== verification/Room_Source.thy ===== *)
theory Room_Source
  imports Room_Catalog Btree_Map File_System
begin

text \<open>
  \<open>DesktopRoomSource\<close> (\<open>apps/desktop/src-tauri/src/room\_source.rs\<close>): the Room store of the
  desktop, in memory and written through to a file with a backup. The JSON encoder and decoder
  (\<open>serde\_json\<close>) are parameters; \<open>transaction\_guard\<close> makes every call one transaction, and its
  poisoning is not modelled.
\<close>

section \<open>The file\<close>

definition ROOM_FILE_VERSION :: u8 where "ROOM_FILE_VERSION = 1"
definition MAXIMUM_ROOM_FILE_BYTES :: nat where "MAXIMUM_ROOM_FILE_BYTES = 64 * 1024 * 1024"
definition ROOM_FILE_NAME :: string where "ROOM_FILE_NAME = ''room-snapshot-v1.json''"

record persisted_room_file =
  room_file_version :: u8
  room_file_snapshot :: room_snapshot

type_synonym room_encoder = "persisted_room_file \<Rightarrow> string option"
type_synonym room_decoder = "string \<Rightarrow> persisted_room_file option"

definition sibling_path :: "path \<Rightarrow> string \<Rightarrow> path" where
  "sibling_path p suffix = (fst p, snd p @ ''.'' @ suffix)"

definition room_backup_path :: "path \<Rightarrow> path" where
  "room_backup_path p = sibling_path p ''backup''"

text \<open>What the bytes of a file mean, and the reading of a file.\<close>

definition room_file_of_bytes ::
  "room_decoder \<Rightarrow> string \<Rightarrow> (room_snapshot, desktop_room_persistence_error) result"
where
  "room_file_of_bytes from_slice body =
     (if length body > MAXIMUM_ROOM_FILE_BYTES then Err Persistence_InvalidFile
      else
        (case from_slice body of
           None \<Rightarrow> Err Persistence_InvalidFile
         | Some persisted \<Rightarrow>
             if room_file_version persisted \<noteq> ROOM_FILE_VERSION then Err Persistence_InvalidFile
             else
               (case in_memory_new (room_file_snapshot persisted) of
                  Inl _ \<Rightarrow> Err Persistence_InvalidFile
                | Inr _ \<Rightarrow> Ok (room_file_snapshot persisted))))"

definition load_room_file ::
  "room_decoder \<Rightarrow> path \<Rightarrow> (room_snapshot, desktop_room_persistence_error) result io"
where
  "load_room_file from_slice p =
     io_try (fs_read p) Persistence_Io (\<lambda>body. io_return (room_file_of_bytes from_slice body))"

definition take_temp_sequence :: "world \<Rightarrow> u64 \<times> world" where
  "take_temp_sequence w = (temp_sequence w, w\<lparr>temp_sequence := temp_sequence w + 1\<rparr>)"

text \<open>The loops try 16 names.\<close>

fun create_temp_file :: "nat \<Rightarrow> path \<Rightarrow> (path, desktop_room_persistence_error) result io" where
  "create_temp_file 0 p w = Ret (Err Persistence_Io) w"
| "create_temp_file (Suc n) p w =
     (let (sequence, w1) = take_temp_sequence w;
          temp = sibling_path p
            (nat_to_string (process_id w1) @ ''.'' @ nat_to_string (unat sequence) @ ''.tmp'') in
      io_try (fs_try_create_new temp) Persistence_Io
        (\<lambda>created. if created then io_return (Ok temp) else create_temp_file n p) w1)"

fun preserve_corrupted_primary :: "nat \<Rightarrow> path \<Rightarrow> (unit, desktop_room_persistence_error) result io" where
  "preserve_corrupted_primary 0 p w = Ret (Err Persistence_Io) w"
| "preserve_corrupted_primary (Suc n) p w =
     (let (sequence, w1) = take_temp_sequence w;
          quarantine = sibling_path p
            (''corrupt-'' @ nat_to_string (process_id w1) @ ''-'' @ nat_to_string (unat sequence)) in
      if fs_exists quarantine w1 then preserve_corrupted_primary n p w1
      else io_try (fs_rename p quarantine) Persistence_Io (\<lambda>_. io_return (Ok ())) w1)"

text \<open>The old file becomes the backup.\<close>

definition room_rotate :: "path \<Rightarrow> (unit, desktop_room_persistence_error) result io" where
  "room_rotate p w =
     (let backup = room_backup_path p in
      if fs_exists p w
      then
        (if fs_exists backup w
         then io_try (fs_remove_file backup) Persistence_Io
                (\<lambda>_. io_try (fs_rename p backup) Persistence_Io (\<lambda>_. io_return (Ok ()))) w
         else io_try (fs_rename p backup) Persistence_Io (\<lambda>_. io_return (Ok ())) w)
      else Ret (Ok ()) w)"

definition room_write_file :: "path \<Rightarrow> string \<Rightarrow> (unit, desktop_room_persistence_error) result io" where
  "room_write_file p body =
     io_bind (create_temp_file 16 p)
       (\<lambda>r. case r of
          Inl e \<Rightarrow> io_return (Err e)
        | Inr temp \<Rightarrow>
            with_temp_guard temp
              (io_try (fs_write_all_sync temp body) Persistence_Io
                 (\<lambda>_. io_bind (room_rotate p)
                   (\<lambda>r. case r of
                      Inl e \<Rightarrow> io_return (Err e)
                    | Inr _ \<Rightarrow> install_temp Persistence_Io (room_backup_path p) temp p))))"

definition room_persist ::
  "room_encoder \<Rightarrow> path \<Rightarrow> room_snapshot \<Rightarrow> (unit, desktop_room_persistence_error) result io"
where
  "room_persist to_vec p snapshot =
     (if fst p = [] then io_return (Err Persistence_InvalidFile)
      else io_try (fs_create_dir_all (fst p)) Persistence_Io
        (\<lambda>_ w.
           if \<not> fs_is_dir (fst p) w \<or> fs_exists p w \<and> \<not> fs_is_file p w
              \<or> fs_exists (room_backup_path p) w \<and> \<not> fs_is_file (room_backup_path p) w
           then Ret (Err Persistence_InvalidFile) w
           else
             (case to_vec \<lparr>room_file_version = ROOM_FILE_VERSION, room_file_snapshot = snapshot\<rparr> of
                None \<Rightarrow> Ret (Err Persistence_InvalidFile) w
              | Some body \<Rightarrow>
                  if length body > MAXIMUM_ROOM_FILE_BYTES then Ret (Err Persistence_InvalidFile) w
                  else room_write_file p body w)))"

definition room_load ::
  "room_encoder \<Rightarrow> room_decoder \<Rightarrow> path
     \<Rightarrow> (room_snapshot option, desktop_room_persistence_error) result io"
where
  "room_load to_vec from_slice p w =
     (let backup = room_backup_path p in
      if fs_is_file p w then
        io_bind (load_room_file from_slice p)
          (\<lambda>r. case r of
             Inr snapshot \<Rightarrow> io_return (Ok (Some snapshot))
           | Inl Persistence_Io \<Rightarrow> io_return (Err Persistence_Io)
           | Inl Persistence_InvalidFile \<Rightarrow>
               (\<lambda>w1. if \<not> fs_is_file backup w1 then Ret (Err Persistence_InvalidFile) w1
                 else io_bind (load_room_file from_slice backup)
                   (\<lambda>r. case r of
                      Inl e \<Rightarrow> io_return (Err e)
                    | Inr snapshot \<Rightarrow>
                        io_bind (preserve_corrupted_primary 16 p)
                          (\<lambda>r. case r of
                             Inl e \<Rightarrow> io_return (Err e)
                           | Inr _ \<Rightarrow>
                               io_bind (room_persist to_vec p snapshot)
                                 (\<lambda>r. case r of
                                    Inl e \<Rightarrow> io_return (Err e)
                                  | Inr _ \<Rightarrow> io_return (Ok (Some snapshot))))) w1)) w
      else if fs_exists p w then Ret (Err Persistence_InvalidFile) w
      else if fs_is_file backup w
      then io_bind (load_room_file from_slice backup)
             (\<lambda>r. io_return (case r of Inl e \<Rightarrow> Err e | Inr snapshot \<Rightarrow> Ok (Some snapshot))) w
      else if fs_exists backup w then Ret (Err Persistence_InvalidFile) w
      else Ret (Ok None) w)"

section \<open>The source\<close>

record desktop_room_source =
  room_inner :: in_memory_room_source
  room_persistence :: "path option"

record prepared_desktop_room_source =
  prepared_snapshot :: room_snapshot
  prepared_persistence :: path
  needs_persist :: bool
  owner_migration :: "participant_id_migration option"

definition desktop_room_source_persistent ::
  "room_snapshot \<Rightarrow> path \<Rightarrow> (desktop_room_source, desktop_room_persistence_error) result"
where
  "desktop_room_source_persistent snapshot p =
     (case in_memory_new snapshot of
        Inl _ \<Rightarrow> Err Persistence_InvalidFile
      | Inr inner \<Rightarrow> Ok \<lparr>room_inner = inner, room_persistence = Some p\<rparr>)"

definition room_path_is_absolute :: "path \<Rightarrow> bool" where
  "room_path_is_absolute p \<longleftrightarrow> (case fst p of [] \<Rightarrow> False | c # _ \<Rightarrow> c = CHR ''/'')"

definition prepare_persistent_desktop_room_source ::
  "room_encoder \<Rightarrow> room_decoder \<Rightarrow> path
     \<Rightarrow> (prepared_desktop_room_source, desktop_room_persistence_error) result io"
where
  "prepare_persistent_desktop_room_source to_vec from_slice p =
     (if \<not> room_path_is_absolute p \<or> snd p = [] then io_return (Err Persistence_InvalidFile)
      else io_bind (room_load to_vec from_slice p)
        (\<lambda>loaded. io_return
           (case (case loaded of
                    Inl e \<Rightarrow> Err e
                  | Inr None \<Rightarrow> Ok (bundled_snapshot, False, None)
                  | Inr (Some snapshot) \<Rightarrow>
                      (case normalize_owner_participant snapshot of
                         Inl e \<Rightarrow> Err e
                       | Inr (normalized, migration, owner_upgraded) \<Rightarrow>
                           (let (merged, catalog_upgraded) = merge_bundled_catalog normalized in
                            Ok (merged, catalog_upgraded \<or> owner_upgraded, migration)))) of
              Inl e \<Rightarrow> Err e
            | Inr (snapshot, upgraded, migration) \<Rightarrow>
                (case in_memory_new snapshot of
                   Inl _ \<Rightarrow> Err Persistence_InvalidFile
                 | Inr _ \<Rightarrow>
                     Ok \<lparr>prepared_snapshot = snapshot, prepared_persistence = p,
                         needs_persist = upgraded, owner_migration = migration\<rparr>))))"

definition prepared_commit ::
  "room_encoder \<Rightarrow> prepared_desktop_room_source
     \<Rightarrow> (desktop_room_source, desktop_room_persistence_error) result io"
where
  "prepared_commit to_vec prepared =
     (let source = desktop_room_source_persistent (prepared_snapshot prepared)
                     (prepared_persistence prepared) in
      if needs_persist prepared
      then
        (case in_memory_new (prepared_snapshot prepared) of
           Inl _ \<Rightarrow> io_return (Err Persistence_InvalidFile)
         | Inr _ \<Rightarrow>
             io_bind (room_persist to_vec (prepared_persistence prepared) (prepared_snapshot prepared))
               (\<lambda>r. io_return (case r of Inl e \<Rightarrow> Err e | Inr _ \<Rightarrow> source)))
      else io_return source)"

definition product_room_file :: "path option \<Rightarrow> string \<Rightarrow> path" where
  "product_room_file data_file app_data_dir =
     (case data_file of Some p \<Rightarrow> p | None \<Rightarrow> (app_data_dir, ROOM_FILE_NAME))"

subsection \<open>Reads\<close>

definition owner_participant_id :: "desktop_room_source \<Rightarrow> string option" where
  "owner_participant_id src =
     (case in_memory_snapshot (room_inner src) of
        Inl _ \<Rightarrow> None
      | Inr snapshot \<Rightarrow>
          (case filter (\<lambda>p. p_kind p = Human) (participants snapshot) of
             [owner] \<Rightarrow> Some (p_id owner) | _ \<Rightarrow> None))"

definition is_human_participant :: "desktop_room_source \<Rightarrow> string \<Rightarrow> bool" where
  "is_human_participant src participant_id =
     (case in_memory_snapshot (room_inner src) of
        Inl _ \<Rightarrow> False
      | Inr snapshot \<Rightarrow>
          list_ex (\<lambda>p. p_id p = participant_id \<and> p_kind p = Human) (participants snapshot))"

definition has_participant :: "desktop_room_source \<Rightarrow> string \<Rightarrow> bool" where
  "has_participant src participant_id =
     (case in_memory_snapshot (room_inner src) of
        Inl _ \<Rightarrow> False
      | Inr snapshot \<Rightarrow> list_ex (\<lambda>p. p_id p = participant_id) (participants snapshot))"

record desktop_room_context =
  context_room :: room
  participant_names :: "(string, string) btree"
  participant_kinds :: "(string, room_participant_kind) btree"

definition room_context ::
  "desktop_room_source \<Rightarrow> string \<Rightarrow> (desktop_room_context, room_message_find_error) result"
where
  "room_context src room_id =
     (case in_memory_snapshot (room_inner src) of
        Inl _ \<Rightarrow> Err Find_SourceUnavailable
      | Inr snapshot \<Rightarrow>
          (case find (\<lambda>room. r_id room = room_id) (rooms snapshot) of
             None \<Rightarrow> Err Find_RoomNotFound
           | Some room \<Rightarrow>
               Ok \<lparr>context_room = room,
                   participant_names =
                     fold (\<lambda>p. bt_insert (p_id p) (p_display_name p)) (participants snapshot) [],
                   participant_kinds =
                     fold (\<lambda>p. bt_insert (p_id p) (p_kind p)) (participants snapshot) []\<rparr>))"

text \<open>\<open>read\_room\<close>, \<open>find\_message\<close> and \<open>list\_rooms\<close> pass on to the store in memory.\<close>

definition desktop_read_room :: "desktop_room_source \<Rightarrow> room_read_query \<Rightarrow> room_read_result" where
  "desktop_read_room src query = read_room (room_inner src) query"

definition desktop_find_message ::
  "desktop_room_source \<Rightarrow> string \<Rightarrow> string \<Rightarrow> (room_message, room_message_find_error) result"
where
  "desktop_find_message src room_id message_id' = find_message (room_inner src) room_id message_id'"

definition desktop_list_rooms ::
  "desktop_room_source \<Rightarrow> (room_summary list, room_catalog_error) result"
where
  "desktop_list_rooms src = list_rooms (room_inner src)"

subsection \<open>Writes\<close>

text \<open>The body the six mutations share: the change in memory, the write, and the way back when
  the write fails.\<close>

definition write_through ::
  "room_encoder \<Rightarrow> desktop_room_source \<Rightarrow> 'e
     \<Rightarrow> (in_memory_room_source \<Rightarrow> in_memory_room_source \<times> ('a, 'e) result)
     \<Rightarrow> (desktop_room_source \<times> ('a, 'e) result) io"
where
  "write_through to_vec src unavailable change =
     (case in_memory_snapshot (room_inner src) of
        Inl _ \<Rightarrow> io_return (src, Err unavailable)
      | Inr before \<Rightarrow>
          (case change (room_inner src) of
             (inner, Inl e) \<Rightarrow> io_return (src\<lparr>room_inner := inner\<rparr>, Err e)
           | (inner, Inr result) \<Rightarrow>
               (case room_persistence src of
                  None \<Rightarrow> io_return (src\<lparr>room_inner := inner\<rparr>, Ok result)
                | Some p \<Rightarrow>
                    (case in_memory_snapshot inner of
                       Inl _ \<Rightarrow> io_return (src\<lparr>room_inner := inner\<rparr>, Err unavailable)
                     | Inr snapshot \<Rightarrow>
                         io_bind (room_persist to_vec p snapshot)
                           (\<lambda>r. io_return
                              (if is_ok r then (src\<lparr>room_inner := inner\<rparr>, Ok result)
                               else (src\<lparr>room_inner := fst (replace_snapshot inner before)\<rparr>,
                                     Err unavailable)))))))"

definition desktop_append_message where
  "desktop_append_message to_vec src draft =
     write_through to_vec src Write_SourceUnavailable (\<lambda>inner. append_message inner draft)"

definition desktop_create_room where
  "desktop_create_room to_vec src draft =
     write_through to_vec src Mutation_SourceUnavailable (\<lambda>inner. create_room inner draft)"

definition desktop_add_room_participant where
  "desktop_add_room_participant to_vec src room_id participant_id updated_at =
     write_through to_vec src Mutation_SourceUnavailable
       (\<lambda>inner. add_room_participant inner room_id participant_id updated_at)"

definition desktop_rename_room where
  "desktop_rename_room to_vec src room_id name updated_at =
     write_through to_vec src Mutation_SourceUnavailable
       (\<lambda>inner. rename_room inner room_id name updated_at)"

definition desktop_remove_room_participant where
  "desktop_remove_room_participant to_vec src room_id participant_id updated_at =
     write_through to_vec src Mutation_SourceUnavailable
       (\<lambda>inner. remove_room_participant inner room_id participant_id updated_at)"

definition desktop_delete_room where
  "desktop_delete_room to_vec src room_id updated_at =
     write_through to_vec src Mutation_SourceUnavailable
       (\<lambda>inner. delete_room inner room_id updated_at)"

subsection \<open>Backups outside the data directory\<close>

definition strip_suffix :: "string \<Rightarrow> string \<Rightarrow> string option" where
  "strip_suffix suffix s =
     (if length suffix \<le> length s \<and> drop (length s - length suffix) s = suffix
      then Some (take (length s - length suffix) s) else None)"

definition valid_external_snapshot_path :: "path \<Rightarrow> bool" where
  "valid_external_snapshot_path p \<longleftrightarrow>
     room_path_is_absolute p \<and> from_utf8_ok (snd p)
     \<and> is_some_and
         (if take 16 (snd p) = ''moe-room-backup-'' then Some (drop 16 (snd p)) else None)
         (\<lambda>value. is_some_and (strip_suffix ''.json'' value)
            (\<lambda>stamp. length stamp = 20 \<and> list_all is_ascii_digit stamp))"

definition export_snapshot ::
  "room_encoder \<Rightarrow> desktop_room_source \<Rightarrow> path \<Rightarrow> (unit, desktop_room_persistence_error) result io"
where
  "export_snapshot to_vec src destination =
     (if \<not> valid_external_snapshot_path destination then io_return (Err Persistence_InvalidFile)
      else
        (case in_memory_snapshot (room_inner src) of
           Inl _ \<Rightarrow> io_return (Err Persistence_InvalidFile)
         | Inr snapshot \<Rightarrow> room_persist to_vec destination snapshot))"

text \<open>What \<open>inspect\_snapshot\<close> and \<open>restore\_snapshot\<close> begin with.\<close>

definition load_external_snapshot ::
  "room_decoder \<Rightarrow> path \<Rightarrow> (room_snapshot, desktop_room_persistence_error) result io"
where
  "load_external_snapshot from_slice source w =
     (if \<not> valid_external_snapshot_path source \<or> \<not> fs_is_file source w
      then Ret (Err Persistence_InvalidFile) w
      else io_bind (load_room_file from_slice source)
        (\<lambda>r. io_return
           (case r of
              Inl e \<Rightarrow> Err e
            | Inr snapshot \<Rightarrow>
                (case normalize_owner_participant snapshot of
                   Inl e \<Rightarrow> Err e
                 | Inr (normalized, _, _) \<Rightarrow>
                     (let (merged, _) = merge_bundled_catalog normalized in
                      case in_memory_new merged of
                        Inl _ \<Rightarrow> Err Persistence_InvalidFile
                      | Inr _ \<Rightarrow> Ok merged)))) w)"

definition inspect_snapshot ::
  "room_decoder \<Rightarrow> path \<Rightarrow> (nat, desktop_room_persistence_error) result io"
where
  "inspect_snapshot from_slice source =
     io_bind (load_external_snapshot from_slice source)
       (\<lambda>r. io_return (case r of Inl e \<Rightarrow> Err e | Inr snapshot \<Rightarrow> Ok (length (rooms snapshot))))"

definition restore_snapshot ::
  "room_encoder \<Rightarrow> room_decoder \<Rightarrow> desktop_room_source \<Rightarrow> path
     \<Rightarrow> (desktop_room_source \<times> (unit, desktop_room_persistence_error) result) io"
where
  "restore_snapshot to_vec from_slice src source =
     io_bind (load_external_snapshot from_slice source)
       (\<lambda>r. case r of
          Inl e \<Rightarrow> io_return (src, Err e)
        | Inr snapshot \<Rightarrow>
            (case in_memory_snapshot (room_inner src) of
               Inl _ \<Rightarrow> io_return (src, Err Persistence_InvalidFile)
             | Inr before \<Rightarrow>
                 (case replace_snapshot (room_inner src) snapshot of
                    (inner, Inl _) \<Rightarrow>
                      io_return (src\<lparr>room_inner := inner\<rparr>, Err Persistence_InvalidFile)
                  | (inner, Inr _) \<Rightarrow>
                      (case room_persistence src of
                         None \<Rightarrow> io_return (src\<lparr>room_inner := inner\<rparr>, Ok ())
                       | Some p \<Rightarrow>
                           io_bind (room_persist to_vec p snapshot)
                             (\<lambda>r. io_return
                                (if is_ok r then (src\<lparr>room_inner := inner\<rparr>, Ok ())
                                 else
                                   (case replace_snapshot inner before of
                                      (inner', Inl _) \<Rightarrow>
                                        (src\<lparr>room_inner := inner'\<rparr>, Err Persistence_InvalidFile)
                                    | (inner', Inr _) \<Rightarrow>
                                        (src\<lparr>room_inner := inner'\<rparr>, Err Persistence_Io))))))))"

end
