(* ===== verification/Room_Source_Claims.thy ===== *)
theory Room_Source_Claims
  imports Room_Source
begin

text \<open>
  What the desktop's Room store promises about its file: whatever file operation fails and wherever
  the process dies, the file or its backup holds the snapshot in memory, the next start finds it,
  and a corrupted file is repaired from the backup.
\<close>

section \<open>The file is replaced as a whole\<close>

abbreviation room_durable :: "path \<Rightarrow> world \<Rightarrow> string option" where
  "room_durable p w \<equiv> durable p (room_backup_path p) (files w)"

lemma sibling_path_distinct:
  "sibling_path p s \<noteq> p" "sibling_path p s = sibling_path p s' \<longleftrightarrow> s = s'"
proof -
  have "length (snd (sibling_path p s)) \<noteq> length (snd p)"
    by (simp add: sibling_path_def)
  then show "sibling_path p s \<noteq> p" by metis
qed (simp add: sibling_path_def)

lemma room_names_distinct:
  "room_backup_path p \<noteq> p" "sibling_path p (a @ ''.tmp'') \<noteq> room_backup_path p"
  "sibling_path p (''corrupt-'' @ a) \<noteq> room_backup_path p"
proof -
  have "drop (length (a @ ''.tmp'') - 2) (a @ ''.tmp'') \<noteq> drop (length ''backup'' - 2) ''backup''"
    by simp
  then have "a @ ''.tmp'' \<noteq> ''backup''"
    by metis
  then show "sibling_path p (a @ ''.tmp'') \<noteq> room_backup_path p"
    by (simp add: room_backup_path_def sibling_path_distinct)
qed (simp_all add: room_backup_path_def sibling_path_distinct)

lemmas room_names = room_names_distinct room_names_distinct [symmetric]
  sibling_path_distinct(1) sibling_path_distinct(1) [symmetric]

text \<open>A free name was taken, or nothing happened.\<close>

definition temp_created :: "path \<Rightarrow> path \<Rightarrow> (path \<Rightarrow> node option) \<Rightarrow> (path \<Rightarrow> node option) \<Rightarrow> bool" where
  "temp_created p t f f' \<longleftrightarrow>
     f t = None \<and> f' = f(t \<mapsto> Regular []) \<and> t \<noteq> p \<and> t \<noteq> room_backup_path p"

definition maybe_created :: "path \<Rightarrow> (path \<Rightarrow> node option) \<Rightarrow> (path \<Rightarrow> node option) \<Rightarrow> bool" where
  "maybe_created p f f' \<longleftrightarrow> f' = f \<or> (\<exists>t. temp_created p t f f')"

lemma maybe_created_intros [intro]:
  "maybe_created p f f" "temp_created p t f f' \<Longrightarrow> maybe_created p f f'"
  unfolding maybe_created_def by blast+

lemma wp_create_temp_file:
  "wp (create_temp_file n p)
    (\<lambda>r w'. case r of Inr t \<Rightarrow> temp_created p t (files w) (files w') | Inl _ \<Rightarrow> files w' = files w)
    (\<lambda>w'. maybe_created p (files w) (files w')) w"
proof (induction n arbitrary: w)
  case 0
  show ?case by (simp add: wp_def)
next
  case (Suc n)
  define t where "t = sibling_path p ((nat_to_string (process_id w) @ ''.''
      @ nat_to_string (unat (temp_sequence w))) @ ''.tmp'')"
  have t: "t \<noteq> p" "t \<noteq> room_backup_path p"
    unfolding t_def by (rule room_names)+
  let ?w1 = "w\<lparr>temp_sequence := temp_sequence w + 1\<rparr>"
  let ?body = "io_try (fs_try_create_new t) Persistence_Io
      (\<lambda>created. if created then io_return (Ok t) else create_temp_file n p)"
  have created: "temp_created p t (files w) (files w')"
    if "files w t = None" "files w' = (files w)(t \<mapsto> Regular [])" for w'
    using that t by (simp add: temp_created_def)
  have again: "wp (create_temp_file n p)
      (\<lambda>r w'. case r of Inr t \<Rightarrow> temp_created p t (files w) (files w') | Inl _ \<Rightarrow> files w' = files w)
      (\<lambda>w'. maybe_created p (files w) (files w')) w2"
    if "files w2 = files w" for w2
    using Suc.IH [of w2] unfolding that .
  have "wp ?body
      (\<lambda>r w'. case r of Inr t \<Rightarrow> temp_created p t (files w) (files w') | Inl _ \<Rightarrow> files w' = files w)
      (\<lambda>w'. maybe_created p (files w) (files w')) ?w1"
  proof (intro wp_try wp_try_create_new conjI allI impI)
    fix w' :: world
    assume w': "files ?w1 t = None" "files w' = (files ?w1)(t \<mapsto> Regular [])"
    then have new: "temp_created p t (files w) (files w')"
      by (intro created) simp_all
    then show "maybe_created p (files w) (files w')"
      by (rule maybe_created_intros)
    show "wp (if x then io_return (Ok t) else create_temp_file n p)
        (\<lambda>r w'. case r of Inr t \<Rightarrow> temp_created p t (files w) (files w') | Inl _ \<Rightarrow> files w' = files w)
        (\<lambda>w'. maybe_created p (files w) (files w')) w'" if "Ok True = Ok x" for x
      using that new by (simp add: wp_return)
  qed (auto intro!: wp_return again)
  then show ?case
    by (rule wp_same [OF wp_point_eq [THEN iffD2]]) (simp add: take_temp_sequence_def t_def Let_def cong: if_cong)
qed

text \<open>The other files stay, and no directory appears in the place of one of the two.\<close>

definition keeps_files :: "path \<Rightarrow> (path \<Rightarrow> node option) \<Rightarrow> (path \<Rightarrow> node option) \<Rightarrow> bool" where
  "keeps_files p f f' \<longleftrightarrow>
     (\<forall>q. q \<noteq> p \<longrightarrow> q \<noteq> room_backup_path p \<longrightarrow> f q \<noteq> None \<longrightarrow> f' q = f q)
     \<and> (f p \<noteq> Some Directory \<longrightarrow> f' p \<noteq> Some Directory)
     \<and> (f (room_backup_path p) \<noteq> Some Directory \<longrightarrow> f' (room_backup_path p) \<noteq> Some Directory)"

lemma keeps_files_refl [simp]: "keeps_files p f f"
  by (simp add: keeps_files_def)

lemma wp_room_rotate:
  assumes t: "t \<noteq> p" "t \<noteq> room_backup_path p"
  shows "wp (room_rotate p)
    (\<lambda>r w'. room_durable p w' = room_durable p w \<and> files w' t = files w t
       \<and> keeps_files p (files w) (files w') \<and> (is_ok r \<longrightarrow> files w' p = None))
    (\<lambda>w'. room_durable p w' = room_durable p w \<and> keeps_files p (files w) (files w')) w"
  unfolding room_rotate_def [abs_def] Let_def
  apply (intro wp_rules)
  using t room_names_distinct(1) [of p]
  by (auto intro!: wp_rules simp: durable_def fs_exists_def keeps_files_def
      split: option.splits node.splits)

lemma keeps_files_trans:
  assumes "keeps_files p f g" "keeps_files p g h"
  shows "keeps_files p f h"
  using assms by (auto simp: keeps_files_def)

lemma keeps_files_temp: "temp_created p t f g \<Longrightarrow> keeps_files p f g"
  by (auto simp: keeps_files_def temp_created_def)

lemma wp_room_write_file:
  "wp (room_write_file p body)
    (\<lambda>r w'. room_durable p w' = (if is_ok r then Some body else room_durable p w))
    (\<lambda>w'. room_durable p w' \<in> {room_durable p w, Some body}) w"
proof -
  have guarded: "wp (with_temp_guard t
      (io_try (fs_write_all_sync t body) Persistence_Io
         (\<lambda>_. io_bind (room_rotate p)
           (\<lambda>r. case r of
              Inl e \<Rightarrow> io_return (Err e)
            | Inr _ \<Rightarrow> install_temp Persistence_Io (room_backup_path p) t p))))
      (\<lambda>r w'. room_durable p w' = (if is_ok r then Some body else room_durable p w))
      (\<lambda>w'. room_durable p w' \<in> {room_durable p w, Some body}) w1"
    if created: "temp_created p t (files w) (files w1)" for t w1
  proof (rule wp_replace_written)
    show t: "t \<noteq> p" "t \<noteq> room_backup_path p" and "files w1 = (files w)(t \<mapsto> Regular [])"
      using created by (simp_all add: temp_created_def)
    show "room_backup_path p \<noteq> p" by (rule room_names)
    show "wp (room_rotate p)
        (\<lambda>r w'. room_durable p w' = room_durable p w \<and> files w' t = Some (Regular body)
           \<and> (is_ok r \<longrightarrow> files w' p = None))
        (\<lambda>w'. room_durable p w' = room_durable p w) w2"
      if "files w2 = (files w)(t \<mapsto> Regular body)" for w2
      using t by (intro wp_mono [OF wp_room_rotate [OF t]]) (auto simp: that)
  qed
  show ?thesis
    unfolding room_write_file_def
  proof (rule wp_bind, rule wp_mono [OF wp_create_temp_file])
    fix w1 :: world assume "maybe_created p (files w) (files w1)"
    then show "room_durable p w1 \<in> {room_durable p w, Some body}"
      by (auto simp: maybe_created_def temp_created_def)
  next
    fix r :: "(path, desktop_room_persistence_error) result" and w1 :: world
    assume r: "case r of Inr t \<Rightarrow> temp_created p t (files w) (files w1) | Inl _ \<Rightarrow> files w1 = files w"
    show "wp (case r of
          Inl e \<Rightarrow> io_return (Err e)
        | Inr temp \<Rightarrow> with_temp_guard temp
            (io_try (fs_write_all_sync temp body) Persistence_Io
               (\<lambda>_. io_bind (room_rotate p)
                 (\<lambda>r. case r of
                    Inl e \<Rightarrow> io_return (Err e)
                  | Inr _ \<Rightarrow> install_temp Persistence_Io (room_backup_path p) temp p))))
        (\<lambda>r w'. room_durable p w' = (if is_ok r then Some body else room_durable p w))
        (\<lambda>w'. room_durable p w' \<in> {room_durable p w, Some body}) w1"
    proof (cases r)
      case (Inl e)
      then show ?thesis using r by (simp add: wp_return)
    next
      case (Inr t)
      then show ?thesis using r guarded [of t w1] by simp
    qed
  qed
qed

text \<open>The frame of a write.\<close>

lemma wp_room_write_keeps:
  "wp (room_write_file p body) (\<lambda>_ w'. keeps_files p (files w) (files w'))
    (\<lambda>w'. keeps_files p (files w) (files w')) w"
proof -
  have guarded: "wp (with_temp_guard t
      (io_try (fs_write_all_sync t body) Persistence_Io
         (\<lambda>_. io_bind (room_rotate p)
           (\<lambda>r. case r of
              Inl e \<Rightarrow> io_return (Err e)
            | Inr _ \<Rightarrow> install_temp Persistence_Io (room_backup_path p) t p))))
      (\<lambda>_ w'. keeps_files p (files w) (files w')) (\<lambda>w'. keeps_files p (files w) (files w')) w1"
    if created: "temp_created p t (files w) (files w1)" for t w1
  proof -
    have t: "t \<noteq> p" "t \<noteq> room_backup_path p" "files w t = None"
      using created by (simp_all add: temp_created_def)
    have wrote: "keeps_files p (files w) (f(t := x))" if "keeps_files p (files w) f" for f x
      using that t by (auto simp: keeps_files_def)
    have move: "keeps_files p (files w) (f(q := None, q' \<mapsto> Regular x))"
      if "keeps_files p (files w) f" "q \<in> {t, p, room_backup_path p}" "q' \<in> {p, room_backup_path p}"
      for f q q' x
      using that t by (auto simp: keeps_files_def)
    have rotate: "wp (room_rotate p) (\<lambda>_ w'. keeps_files p (files w) (files w'))
        (\<lambda>w'. keeps_files p (files w) (files w')) w2" if "keeps_files p (files w) (files w2)" for w2
      by (rule wp_mono [OF wp_room_rotate [OF t(1,2)]]) (auto intro: keeps_files_trans [OF that])
    have install: "wp (install_temp Persistence_Io (room_backup_path p) t p)
        (\<lambda>_ w'. keeps_files p (files w) (files w')) (\<lambda>w'. keeps_files p (files w) (files w')) w2"
      if "keeps_files p (files w) (files w2)" for w2
      unfolding install_temp_def [abs_def]
      using that by (intro wp_rules) (auto intro!: wp_rules move)
    have whole: "wp (io_bind (room_rotate p)
           (\<lambda>r. case r of
              Inl e \<Rightarrow> io_return (Err e)
            | Inr _ \<Rightarrow> install_temp Persistence_Io (room_backup_path p) t p))
        (\<lambda>_ w'. keeps_files p (files w) (files w')) (\<lambda>w'. keeps_files p (files w) (files w')) w2"
      if "keeps_files p (files w) (files w2)" for w2
      by (rule wp_bind, rule wp_mono [OF rotate [OF that]])
        (auto intro!: wp_return install split: sum.split)
    show ?thesis
      using keeps_files_temp [OF created]
      by (auto intro!: wp_with_temp_guard wp_try wp_write_all_sync wp_mono [OF whole] wrote)
  qed
  show ?thesis
    unfolding room_write_file_def
    by (rule wp_bind, rule wp_mono [OF wp_create_temp_file])
      (auto intro!: wp_return guarded simp: maybe_created_def keeps_files_temp split: sum.splits)
qed

text \<open>The whole of \<open>persist\<close>.\<close>

abbreviation room_encode :: "room_encoder \<Rightarrow> room_snapshot \<Rightarrow> string option" where
  "room_encode to_vec s \<equiv> to_vec \<lparr>room_file_version = ROOM_FILE_VERSION, room_file_snapshot = s\<rparr>"

definition room_written :: "room_encoder \<Rightarrow> path \<Rightarrow> room_snapshot \<Rightarrow> world \<Rightarrow> bool" where
  "room_written to_vec p s w \<longleftrightarrow>
     (\<exists>body. room_encode to_vec s = Some body \<and> length body \<le> MAXIMUM_ROOM_FILE_BYTES
        \<and> room_durable p w = Some body)"

lemma wp_room_persist:
  "wp (room_persist to_vec p s)
    (\<lambda>r w'. keeps_files p (files w) (files w')
       \<and> (if is_ok r then room_written to_vec p s w' else room_durable p w' = room_durable p w))
    (\<lambda>w'. keeps_files p (files w) (files w')
       \<and> (room_durable p w' = room_durable p w \<or> room_written to_vec p s w')) w"
    (is "wp _ ?Q ?C w")
proof (cases "fst p = []")
  case True
  then show ?thesis
    by (simp add: room_persist_def wp_return)
next
  case False
  have written: "wp (room_write_file p body) ?Q ?C w1"
    if "files w1 = files w" "room_encode to_vec s = Some body" "length body \<le> MAXIMUM_ROOM_FILE_BYTES"
    for body w1
    using that
    by (intro wp_mono [OF wp_conj [OF wp_room_write_keeps wp_room_write_file]])
      (auto simp: room_written_def split: if_splits)
  show ?thesis
    unfolding room_persist_def if_not_P [OF False]
  proof (intro wp_try wp_create_dir_all conjI allI impI)
    fix r :: "(unit, unit) result" and w1 :: world and u
    assume w1: "files w1 = files w"
    show "wp (\<lambda>w. if \<not> fs_is_dir (fst p) w \<or> fs_exists p w \<and> \<not> fs_is_file p w
            \<or> fs_exists (room_backup_path p) w \<and> \<not> fs_is_file (room_backup_path p) w
         then Ret (Err Persistence_InvalidFile) w
         else case room_encode to_vec s of
            None \<Rightarrow> Ret (Err Persistence_InvalidFile) w
          | Some body \<Rightarrow>
              if length body > MAXIMUM_ROOM_FILE_BYTES then Ret (Err Persistence_InvalidFile) w
              else room_write_file p body w) ?Q ?C w1"
    proof (cases "room_encode to_vec s")
      case None
      then show ?thesis
        using w1 by (auto intro!: wp_if wp_Ret_const)
    next
      case (Some body)
      then show ?thesis
        using w1 by (auto intro!: wp_if wp_Ret_const wp_mono [OF written [OF w1, of body]] split: if_splits)
    qed
  qed auto
qed

section \<open>What the file holds\<close>

text \<open>The file, or the backup where there is no file, holds this snapshot.\<close>

definition file_holds :: "room_decoder \<Rightarrow> path \<Rightarrow> room_snapshot \<Rightarrow> world \<Rightarrow> bool" where
  "file_holds from_slice p s w \<longleftrightarrow>
     (\<exists>body. room_durable p w = Some body \<and> room_file_of_bytes from_slice body = Ok s)"

text \<open>A snapshot that is safe: the next start finds it. Before the first write there is no file,
  and the start takes the bundled snapshot.\<close>

definition on_disk :: "room_decoder \<Rightarrow> path \<Rightarrow> room_snapshot \<Rightarrow> world \<Rightarrow> bool" where
  "on_disk from_slice p s w \<longleftrightarrow>
     file_holds from_slice p s w
     \<or> files w p = None \<and> files w (room_backup_path p) = None \<and> s = bundled_snapshot"

text \<open>The codec reads back what it wrote.\<close>

definition faithful_room_codec :: "room_encoder \<Rightarrow> room_decoder \<Rightarrow> bool" where
  "faithful_room_codec to_vec from_slice \<longleftrightarrow>
     (\<forall>persisted body. snapshot_ok (room_file_snapshot persisted)
        \<longrightarrow> to_vec persisted = Some body \<longrightarrow> from_slice body = Some persisted)"

lemma room_written_holds:
  assumes "faithful_room_codec enc dec" "snapshot_ok s" "room_written enc p s w"
  shows "file_holds dec p s w"
proof -
  obtain body where body: "room_encode enc s = Some body" "length body \<le> MAXIMUM_ROOM_FILE_BYTES"
      "room_durable p w = Some body"
    using assms(3) by (auto simp: room_written_def)
  then have "dec body = Some \<lparr>room_file_version = ROOM_FILE_VERSION, room_file_snapshot = s\<rparr>"
    using assms(1,2) by (auto simp: faithful_room_codec_def)
  moreover have "validate_snapshot s = Ok ()"
    using assms(2) by (simp add: validate_snapshot_iff)
  ultimately show ?thesis
    using body by (simp add: file_holds_def room_file_of_bytes_def in_memory_new_def)
qed

lemma durable_None_fresh:
  assumes "durable p b f = None" "f p \<noteq> Some Directory" "f b \<noteq> Some Directory"
  shows "f p = None \<and> f b = None"
  using assms by (auto simp: durable_def split: option.splits node.splits)

lemma on_disk_same:
  assumes "on_disk dec p s w" "room_durable p w' = room_durable p w" "keeps_files p (files w) (files w')"
  shows "on_disk dec p s w'"
proof (cases "file_holds dec p s w")
  case True
  then show ?thesis
    using assms(2) by (simp add: on_disk_def file_holds_def)
next
  case False
  with assms(1) have fresh: "files w p = None" "files w (room_backup_path p) = None" "s = bundled_snapshot"
    by (auto simp: on_disk_def)
  then have "room_durable p w' = None"
    using assms(2) by (simp add: durable_def)
  then show ?thesis
    using fresh assms(3) durable_None_fresh [of p "room_backup_path p" "files w'"]
    by (auto simp: on_disk_def keeps_files_def)
qed

lemma wp_persist_on_disk:
  assumes "faithful_room_codec enc dec" "snapshot_ok s" "on_disk dec p s0 w"
  shows "wp (room_persist enc p s)
    (\<lambda>r w'. if is_ok r then on_disk dec p s w' else on_disk dec p s0 w')
    (\<lambda>w'. on_disk dec p s0 w' \<or> on_disk dec p s w') w"
proof -
  have written: "on_disk dec p s w'" if "room_written enc p s w'" for w'
    using room_written_holds [OF assms(1,2) that] by (simp add: on_disk_def)
  have same: "on_disk dec p s0 w'" if "room_durable p w' = room_durable p w"
      "keeps_files p (files w) (files w')" for w'
    using on_disk_same [OF assms(3) that] .
  show ?thesis
    by (intro wp_mono [OF wp_room_persist]) (auto dest: written same split: if_splits)
qed

section \<open>Every call is written through\<close>

datatype room_call =
  Call_Append room_message_draft
| Call_Create room_create_draft
| Call_AddParticipant string string string
| Call_Rename string string string
| Call_RemoveParticipant string string string
| Call_Delete string string
| Call_Restore path

text \<open>Whether the call succeeded stands for its result.\<close>

definition io_ok :: "('s \<times> ('a, 'e) result) io \<Rightarrow> ('s \<times> bool) io" where
  "io_ok m = io_bind m (\<lambda>(s, r). io_return (s, is_ok r))"

fun room_call_io ::
  "room_encoder \<Rightarrow> room_decoder \<Rightarrow> desktop_room_source \<Rightarrow> room_call \<Rightarrow> (desktop_room_source \<times> bool) io"
where
  "room_call_io enc dec src (Call_Append draft) = io_ok (desktop_append_message enc src draft)"
| "room_call_io enc dec src (Call_Create draft) = io_ok (desktop_create_room enc src draft)"
| "room_call_io enc dec src (Call_AddParticipant r p t) =
     io_ok (desktop_add_room_participant enc src r p t)"
| "room_call_io enc dec src (Call_Rename r n t) = io_ok (desktop_rename_room enc src r n t)"
| "room_call_io enc dec src (Call_RemoveParticipant r p t) =
     io_ok (desktop_remove_room_participant enc src r p t)"
| "room_call_io enc dec src (Call_Delete r t) = io_ok (desktop_delete_room enc src r t)"
| "room_call_io enc dec src (Call_Restore q) = io_ok (restore_snapshot enc dec src q)"

text \<open>The Rooms that a backup file stands for: its snapshot with the owner normalized and the bundled
  Rooms and participants added.\<close>

definition backup_rooms :: "room_decoder \<Rightarrow> world \<Rightarrow> path \<Rightarrow> room_snapshot option" where
  "backup_rooms dec w q =
     (case files w q of
        Some (Regular body) \<Rightarrow>
          (case room_file_of_bytes dec body of
             Inl _ \<Rightarrow> None
           | Inr snapshot \<Rightarrow>
               (case normalize_owner_participant snapshot of
                  Inl _ \<Rightarrow> None
                | Inr (normalized, _, _) \<Rightarrow> Some (fst (merge_bundled_catalog normalized))))
      | _ \<Rightarrow> None)"

lemma backup_rooms_faults [simp]: "backup_rooms dec (w\<lparr>faults := fs\<rparr>) = backup_rooms dec w"
  by (simp add: backup_rooms_def fun_eq_iff)

text \<open>What a successful call does to the store in memory; a restore puts the Rooms of the chosen
  backup there.\<close>

inductive room_change ::
  "(path \<Rightarrow> room_snapshot option) \<Rightarrow> in_memory_room_source \<Rightarrow> room_call \<Rightarrow> in_memory_room_source \<Rightarrow> bool"
  for backup
where
  append: "append_message src draft = (src', Ok x) \<Longrightarrow> room_change backup src (Call_Append draft) src'"
| create: "create_room src cdraft = (src', Ok y) \<Longrightarrow> room_change backup src (Call_Create cdraft) src'"
| add: "add_room_participant src r p t = (src', Ok y) \<Longrightarrow>
     room_change backup src (Call_AddParticipant r p t) src'"
| rename: "rename_room src r n t = (src', Ok y) \<Longrightarrow> room_change backup src (Call_Rename r n t) src'"
| remove: "remove_room_participant src r p t = (src', Ok y) \<Longrightarrow>
     room_change backup src (Call_RemoveParticipant r p t) src'"
| delete: "delete_room src r t = (src', Ok y) \<Longrightarrow> room_change backup src (Call_Delete r t) src'"
| restore: "backup q = Some s \<Longrightarrow> snapshot_ok s \<Longrightarrow> settled s \<Longrightarrow>
     room_change backup src (Call_Restore q) (src\<lparr>snapshot_of := s\<rparr>)"

text \<open>The drafts a caller can have.\<close>

fun call_ok :: "room_call \<Rightarrow> bool" where
  "call_ok (Call_Append draft) = draft_ok draft"
| "call_ok (Call_Create draft) = create_draft_ok draft"
| "call_ok _ = True"

lemma poisoned_ops:
  "poisoned (fst (append_message src d)) = poisoned src"
  "poisoned (fst (create_room src c)) = poisoned src"
  "poisoned (fst (add_room_participant src r p t)) = poisoned src"
  "poisoned (fst (rename_room src r n t)) = poisoned src"
  "poisoned (fst (remove_room_participant src r p t)) = poisoned src"
  "poisoned (fst (delete_room src r t)) = poisoned src"
  by (auto simp: store_ops_defs write_room_def Let_def split: option.splits)

lemmas store_ops_ok = append_message_ok create_room_ok add_room_participant_ok
  rename_room_ok remove_room_participant_ok delete_room_ok

lemma room_change_ok:
  assumes "room_change backup src c src'" "store_ok src" "call_ok c"
  shows "store_ok src'" "poisoned src' = poisoned src"
  using assms
  by (induction rule: room_change.induct)
    (use poisoned_ops store_ops_ok in \<open>(force simp: store_ok_def dest: arg_cong [where f = fst])+\<close>)

abbreviation source_snapshot :: "desktop_room_source \<Rightarrow> room_snapshot" where
  "source_snapshot src \<equiv> snapshot_of (room_inner src)"

text \<open>The source at rest: its store is valid, usable and safe on disk.\<close>

definition at_rest :: "room_decoder \<Rightarrow> path \<Rightarrow> desktop_room_source \<Rightarrow> world \<Rightarrow> bool" where
  "at_rest dec p src w \<longleftrightarrow>
     room_persistence src = Some p \<and> store_ok (room_inner src) \<and> \<not> poisoned (room_inner src)
     \<and> on_disk dec p (source_snapshot src) w"

text \<open>The way back restores the store as it was.\<close>

lemma replace_back:
  assumes "store_ok inner" "\<not> poisoned inner" "poisoned inner' = poisoned inner"
  shows "replace_snapshot inner' (snapshot_of inner) = (inner, Ok ())"
proof -
  have "validate_snapshot (snapshot_of inner) = Ok ()"
    using assms(1) by (simp add: store_ok_def validate_snapshot_iff)
  then show ?thesis
    using assms(2,3) by (simp add: replace_snapshot_def)
qed

text \<open>The end of every call: the new store is written, or everything is as before.\<close>

definition settles_to ::
  "room_decoder \<Rightarrow> path \<Rightarrow> desktop_room_source \<Rightarrow> (in_memory_room_source \<Rightarrow> bool)
     \<Rightarrow> desktop_room_source \<times> bool \<Rightarrow> world \<Rightarrow> bool"
where
  "settles_to dec p src changed res w' \<longleftrightarrow>
     at_rest dec p (fst res) w'
     \<and> (if snd res then changed (room_inner (fst res)) else fst res = src)"

definition cut_off ::
  "room_decoder \<Rightarrow> path \<Rightarrow> desktop_room_source \<Rightarrow> (in_memory_room_source \<Rightarrow> bool) \<Rightarrow> world \<Rightarrow> bool"
where
  "cut_off dec p src changed w' \<longleftrightarrow>
     on_disk dec p (source_snapshot src) w'
     \<or> (\<exists>inner. changed inner \<and> on_disk dec p (snapshot_of inner) w')"

lemma wp_persist_or_back:
  assumes codec: "faithful_room_codec enc dec" and rest: "at_rest dec p src w"
    and inner: "store_ok inner" "\<not> poisoned inner" "changed inner"
    and yes: "\<And>r. is_ok r \<Longrightarrow> res r = (src\<lparr>room_inner := inner\<rparr>, True)"
    and no: "\<And>r. \<not> is_ok r \<Longrightarrow> res r = (src, False)"
  shows "wp (io_bind (room_persist enc p (snapshot_of inner)) (\<lambda>r. io_return (res r)))
    (settles_to dec p src changed) (cut_off dec p src changed) w"
proof -
  have "snapshot_ok (snapshot_of inner)"
    using inner(1) by (simp add: store_ok_def)
  note persist = wp_persist_on_disk [OF codec this, of p "source_snapshot src" w]
  show ?thesis
    using rest inner
    by (intro wp_bind wp_mono [OF persist])
      (auto intro!: wp_return simp: at_rest_def settles_to_def cut_off_def yes no split: if_splits)
qed

lemma io_ok_return: "io_ok (io_return (s, r)) = io_return (s, is_ok r)"
  by (simp add: io_ok_def io_bind_def io_return_def fun_eq_iff)

lemma io_ok_bind: "io_ok (io_bind m (\<lambda>r. io_return (f r))) =
    io_bind m (\<lambda>r. io_return (fst (f r), is_ok (snd (f r))))"
  by (auto simp: io_ok_def io_bind_def io_return_def fun_eq_iff split: outcome.split prod.split)

lemma wp_write_through:
  assumes codec: "faithful_room_codec enc dec" and rest: "at_rest dec p src w"
    and change: "\<And>inner r. change (room_inner src) = (inner, r) \<Longrightarrow>
      (case r of Inl e \<Rightarrow> inner = room_inner src
       | Inr x \<Rightarrow> changed inner \<and> store_ok inner \<and> poisoned inner = poisoned (room_inner src))"
  shows "wp (io_ok (write_through enc src e change))
    (settles_to dec p src changed) (cut_off dec p src changed) w"
proof -
  have src: "room_persistence src = Some p" "\<not> poisoned (room_inner src)" "store_ok (room_inner src)"
    using rest by (simp_all add: at_rest_def)
  then have before: "in_memory_snapshot (room_inner src) = Ok (source_snapshot src)"
    by (simp add: in_memory_snapshot_def)
  obtain inner r where eq: "change (room_inner src) = (inner, r)" by fastforce
  show ?thesis
  proof (cases r)
    case (Inl e')
    then show ?thesis
      using change [OF eq] eq before rest
      by (simp add: write_through_def io_ok_return settles_to_def wp_return)
  next
    case (Inr x)
    then have inner: "changed inner" "store_ok inner" "poisoned inner = poisoned (room_inner src)"
      using change [OF eq] by simp_all
    then have new: "in_memory_snapshot inner = Ok (snapshot_of inner)"
      using src by (simp add: in_memory_snapshot_def)
    have restored: "fst (replace_snapshot inner (source_snapshot src)) = room_inner src"
      using replace_back [OF src(3,2) inner(3)] by simp
    have "wp (io_bind (room_persist enc p (snapshot_of inner))
        (\<lambda>r. io_return (if is_ok r then (src\<lparr>room_inner := inner\<rparr>, True) else (src, False))))
      (settles_to dec p src changed) (cut_off dec p src changed) w"
      using src inner by (intro wp_persist_or_back [OF codec rest]) simp_all
    moreover have "io_ok (write_through enc src e change) =
        io_bind (room_persist enc p (snapshot_of inner))
        (\<lambda>r. io_return (if is_ok r then (src\<lparr>room_inner := inner\<rparr>, True) else (src, False)))"
      using eq Inr before new src(1)
      by (simp add: write_through_def io_ok_bind restored cong: if_cong) (simp add: if_distrib cong: if_cong)
    ultimately show ?thesis by simp
  qed
qed

lemma wp_load_room_file:
  assumes "\<And>w'. files w' = files w \<Longrightarrow> Q (Err Persistence_Io) w' \<and> C w'"
    and "\<And>w' body. files w p = Some (Regular body) \<Longrightarrow> files w' = files w \<Longrightarrow>
           Q (room_file_of_bytes dec body) w'"
  shows "wp (load_room_file dec p) Q C w"
  unfolding load_room_file_def
  by (intro wp_try wp_read) (use assms in \<open>auto intro!: wp_return\<close>)

lemma wp_load_external_snapshot:
  "wp (load_external_snapshot dec q)
    (\<lambda>r w'. files w' = files w
       \<and> (\<forall>s. r = Ok s \<longrightarrow> backup_rooms dec w q = Some s \<and> snapshot_ok s \<and> settled s))
    (\<lambda>w'. files w' = files w) w"
  unfolding load_external_snapshot_def [abs_def]
  by (intro wp_if wp_bind wp_load_room_file)
    (auto intro!: wp_return wp_Ret_const dest!: upgrades_settle
      simp: in_memory_new_def validate_snapshot_iff backup_rooms_def split: sum.splits prod.splits)

lemma at_rest_files: "at_rest dec p src w \<Longrightarrow> files w' = files w \<Longrightarrow> at_rest dec p src w'"
  by (simp add: at_rest_def on_disk_def file_holds_def)

lemma wp_restore_snapshot:
  assumes codec: "faithful_room_codec enc dec" and rest: "at_rest dec p src w"
  shows "wp (io_ok (restore_snapshot enc dec src q))
    (settles_to dec p src (\<lambda>inner. room_change (backup_rooms dec w) (room_inner src) (Call_Restore q) inner))
    (cut_off dec p src (\<lambda>inner. room_change (backup_rooms dec w) (room_inner src) (Call_Restore q) inner)) w"
    (is "wp _ ?Q ?C w")
proof -
  have loaded: "wp (io_ok (case r of
          Inl e \<Rightarrow> io_return (src, Err e)
        | Inr snapshot \<Rightarrow>
            (case in_memory_snapshot (room_inner src) of
               Inl _ \<Rightarrow> io_return (src, Err Persistence_InvalidFile)
             | Inr before \<Rightarrow>
                 (case replace_snapshot (room_inner src) snapshot of
                    (inner, Inl _) \<Rightarrow>
                      io_return (src\<lparr>room_inner := inner\<rparr>, Err Persistence_InvalidFile)
                  | (inner, Inr _) \<Rightarrow>
                      (case room_persistence src of
                         None \<Rightarrow> io_return (src\<lparr>room_inner := inner\<rparr>, Ok ())
                       | Some p \<Rightarrow>
                           io_bind (room_persist enc p snapshot)
                             (\<lambda>r. io_return
                                (if is_ok r then (src\<lparr>room_inner := inner\<rparr>, Ok ())
                                 else
                                   (case replace_snapshot inner before of
                                      (inner', Inl _) \<Rightarrow>
                                        (src\<lparr>room_inner := inner'\<rparr>, Err Persistence_InvalidFile)
                                    | (inner', Inr _) \<Rightarrow>
                                        (src\<lparr>room_inner := inner'\<rparr>, Err Persistence_Io))))))))) ?Q ?C w1"
    if files: "files w1 = files w"
      and r: "\<forall>s. r = Ok s \<longrightarrow> backup_rooms dec w q = Some s \<and> snapshot_ok s \<and> settled s"
    for r :: "(room_snapshot, desktop_room_persistence_error) result" and w1 :: world
  proof (cases r)
    case (Inl e)
    then show ?thesis
      using at_rest_files [OF rest files] by (simp add: io_ok_return wp_return settles_to_def)
  next
    case (Inr s)
    let ?inner = "(room_inner src)\<lparr>snapshot_of := s\<rparr>"
    have s: "snapshot_ok s" "settled s" "backup_rooms dec w q = Some s"
      using r Inr by simp_all
    have src: "room_persistence src = Some p" "\<not> poisoned (room_inner src)" "store_ok (room_inner src)"
      using rest by (simp_all add: at_rest_def)
    have "validate_snapshot s = Ok ()"
      using s(1) by (simp add: validate_snapshot_iff)
    then have replaced: "replace_snapshot (room_inner src) s = (?inner, Ok ())"
      using src(2) by (simp add: replace_snapshot_def)
    have restored: "replace_snapshot ?inner (source_snapshot src) = (room_inner src, Ok ())"
      using replace_back [OF src(3,2), of ?inner] by simp
    have "wp (io_bind (room_persist enc p (snapshot_of ?inner))
        (\<lambda>r. io_return (if is_ok r then (src\<lparr>room_inner := ?inner\<rparr>, True) else (src, False)))) ?Q ?C w1"
      using src s
      by (intro wp_persist_or_back [OF codec at_rest_files [OF rest files]])
        (auto simp: store_ok_def intro: room_change.restore)
    then show ?thesis
      using Inr replaced restored src(1,2)
      by (simp add: in_memory_snapshot_def io_ok_bind cong: if_cong) (simp add: if_distrib cong: if_cong)
  qed
  have io_ok_assoc: "io_ok (io_bind m f) = io_bind m (\<lambda>r. io_ok (f r))" for m :: "'x io" and f
    by (auto simp: io_ok_def io_bind_def fun_eq_iff split: outcome.split)
  have cut: "?C w'" if "files w' = files w" for w'
    using at_rest_files [OF rest that] by (simp add: cut_off_def at_rest_def)
  show ?thesis
    unfolding restore_snapshot_def io_ok_assoc
    by (rule wp_bind, rule wp_mono [OF wp_load_external_snapshot])
      (use loaded cut in blast)+
qed

lemma wp_room_mutation:
  assumes "faithful_room_codec enc dec" "at_rest dec p src w" "call_ok c"
    and "\<And>inner e. change (room_inner src) = (inner, Err e) \<Longrightarrow> inner = room_inner src"
    and "\<And>inner x. change (room_inner src) = (inner, Ok x) \<Longrightarrow> room_change (backup_rooms dec w) (room_inner src) c inner"
  shows "wp (io_ok (write_through enc src e change))
    (settles_to dec p src (room_change (backup_rooms dec w) (room_inner src) c))
    (cut_off dec p src (room_change (backup_rooms dec w) (room_inner src) c)) w"
proof (rule wp_write_through [OF assms(1,2)])
  fix inner r assume "change (room_inner src) = (inner, r)"
  then show "case r of Inl e \<Rightarrow> inner = room_inner src
    | Inr x \<Rightarrow> room_change (backup_rooms dec w) (room_inner src) c inner \<and> store_ok inner
        \<and> poisoned inner = poisoned (room_inner src)"
    using assms(4,5) room_change_ok [of "backup_rooms dec w" "room_inner src" c inner] assms(2,3)
    by (cases r) (auto simp: at_rest_def)
qed

lemma wp_room_call:
  assumes "faithful_room_codec enc dec" "at_rest dec p src w" "call_ok c"
  shows "wp (room_call_io enc dec src c)
    (settles_to dec p src (room_change (backup_rooms dec w) (room_inner src) c))
    (cut_off dec p src (room_change (backup_rooms dec w) (room_inner src) c)) w"
proof (cases c)
  case (Call_Append draft)
  show ?thesis
    using assms unfolding Call_Append room_call_io.simps desktop_append_message_def
    by (rule wp_room_mutation) (erule append_message_error, erule room_change.append)
next
  case (Call_Create draft)
  show ?thesis
    using assms unfolding Call_Create room_call_io.simps desktop_create_room_def
    by (rule wp_room_mutation) (erule create_room_error, erule room_change.create)
next
  case (Call_AddParticipant r q t)
  show ?thesis
    using assms unfolding Call_AddParticipant room_call_io.simps desktop_add_room_participant_def
    by (rule wp_room_mutation) (erule add_room_participant_error, erule room_change.add)
next
  case (Call_Rename r n t)
  show ?thesis
    using assms unfolding Call_Rename room_call_io.simps desktop_rename_room_def
    by (rule wp_room_mutation) (erule rename_room_error, erule room_change.rename)
next
  case (Call_RemoveParticipant r q t)
  show ?thesis
    using assms unfolding Call_RemoveParticipant room_call_io.simps desktop_remove_room_participant_def
    by (rule wp_room_mutation) (erule remove_room_participant_error, erule room_change.remove)
next
  case (Call_Delete r t)
  show ?thesis
    using assms unfolding Call_Delete room_call_io.simps desktop_delete_room_def
    by (rule wp_room_mutation) (erule delete_room_error, erule room_change.delete)
next
  case (Call_Restore q)
  then show ?thesis
    using wp_restore_snapshot [OF assms(1,2)] by simp
qed

text \<open>C3: The Rooms in memory and on disk never part: whatever file operation of a call fails, the file
  (or the backup in its place) holds exactly the Rooms in memory afterwards; a call that reports
  success has made its one change (the restoring of a backup: exactly that file's Rooms, with the
  owner normalized and the bundled Rooms added), a call that reports an error has changed nothing.
  If the process dies in the middle, the disk holds the Rooms from before or from after the call.\<close>

theorem room_source_writes_through:
  assumes "faithful_room_codec enc dec" "at_rest dec p src w" "call_ok c"
  shows "(\<forall>src' success w'. room_call_io enc dec src c w = Ret (src', success) w' \<longrightarrow>
      at_rest dec p src' w'
      \<and> (if success then room_change (backup_rooms dec w) (room_inner src) c (room_inner src') else src' = src))
    \<and> (\<forall>w'. room_call_io enc dec src c w = Crashed w' \<longrightarrow>
      on_disk dec p (source_snapshot src) w'
      \<or> (\<exists>inner. room_change (backup_rooms dec w) (room_inner src) c inner \<and> on_disk dec p (snapshot_of inner) w'))"
proof -
  note call = wp_room_call [OF assms]
  show ?thesis
    using wp_Ret [OF call] wp_Crashed [OF call] by (fastforce simp: settles_to_def cut_off_def)
qed

section \<open>Restart\<close>

text \<open>What the start of the application does.\<close>

definition room_start ::
  "room_encoder \<Rightarrow> room_decoder \<Rightarrow> path \<Rightarrow> (desktop_room_source, desktop_room_persistence_error) result io"
where
  "room_start enc dec p =
     io_bind (prepare_persistent_desktop_room_source enc dec p)
       (\<lambda>r. case r of Inl e \<Rightarrow> io_return (Err e) | Inr prepared \<Rightarrow> prepared_commit enc prepared)"

text \<open>Only the deletion of a bundled Room takes anything bundled away, and the commands of the
  desktop refuse that one (\<open>room\_commands.rs\<close>).\<close>

fun deletes_bundled :: "room_call \<Rightarrow> bool" where
  "deletes_bundled (Call_Delete r t) \<longleftrightarrow> r \<in> r_id ` set (rooms bundled_snapshot)"
| "deletes_bundled _ \<longleftrightarrow> False"

lemma write_room_ids:
  assumes "\<And>room. r_id (f room) = r_id room"
  shows "r_id ` set (rooms (snapshot_of (write_room src r f t))) = r_id ` set (rooms (snapshot_of src))"
    "participants (snapshot_of (write_room src r f t)) = participants (snapshot_of src)"
proof -
  have "map r_id (update_first P f rs) = map r_id rs" for P rs
    using assms by (induction rs) auto
  then have "r_id ` set (update_first P f rs) = r_id ` set rs" for P rs
    by (metis list.set_map)
  then show "r_id ` set (rooms (snapshot_of (write_room src r f t))) = r_id ` set (rooms (snapshot_of src))"
    by (simp add: write_room_def)
qed (simp add: write_room_def)

lemma settled_mono:
  assumes "settled s" "participants s' = participants s"
    "r_id ` set (rooms bundled_snapshot) \<inter> r_id ` set (rooms s) \<subseteq> r_id ` set (rooms s')"
  shows "settled s'"
proof -
  have "r_id ` set (rooms bundled_snapshot) \<subseteq> r_id ` set (rooms s')"
    using assms(1,3) unfolding settled_def has_bundled_def by blast
  then show ?thesis
    using assms(1,2) by (simp add: settled_def has_bundled_def owner_settled_def)
qed

lemma delete_room_ids:
  assumes "delete_room src r t = (src', Ok y)"
  shows "participants (snapshot_of src') = participants (snapshot_of src)"
    "r_id ` set (rooms (snapshot_of src)) - {r} \<subseteq> r_id ` set (rooms (snapshot_of src'))"
proof -
  from assms obtain i where i: "position (\<lambda>room. r_id room = r) (rooms (snapshot_of src)) = Some i"
    and src': "src' = src\<lparr>snapshot_of := (snapshot_of src)
      \<lparr>rooms := vec_remove i (rooms (snapshot_of src)), generated_at := t\<rparr>\<rparr>"
    by (auto simp: delete_room_def Let_def split: if_splits option.splits)
  then show "participants (snapshot_of src') = participants (snapshot_of src)" by simp
  let ?rs = "rooms (snapshot_of src)"
  have "set ?rs = set (take i ?rs @ ?rs ! i # drop (Suc i) ?rs)"
    by (rule arg_cong [OF position_split [OF i]])
  then have "set ?rs = insert (?rs ! i) (set (vec_remove i ?rs))"
    by (simp add: vec_remove_def)
  moreover have "r_id (?rs ! i) = r"
    using position_SomeD [OF i] by simp
  ultimately have "r_id ` set ?rs = insert r (r_id ` set (vec_remove i ?rs))"
    by simp
  then show "r_id ` set ?rs - {r} \<subseteq> r_id ` set (rooms (snapshot_of src'))"
    by (auto simp: src')
qed

text \<open>A change that keeps the participants and the Rooms there are.\<close>

definition keeps_catalog :: "in_memory_room_source \<Rightarrow> in_memory_room_source \<Rightarrow> bool" where
  "keeps_catalog src src' \<longleftrightarrow>
     participants (snapshot_of src') = participants (snapshot_of src)
     \<and> r_id ` set (rooms (snapshot_of src)) \<subseteq> r_id ` set (rooms (snapshot_of src'))"

lemma keeps_catalog_intros [simp]:
  "keeps_catalog src src"
  "(\<And>room. r_id (f room) = r_id room) \<Longrightarrow> keeps_catalog src (write_room src r f t)"
  by (simp_all add: keeps_catalog_def write_room_ids)

lemma ops_keep_catalog:
  "keeps_catalog src (fst (append_message src d))"
  "keeps_catalog src (fst (create_room src c))"
  "keeps_catalog src (fst (add_room_participant src r p t))"
  "keeps_catalog src (fst (rename_room src r n t))"
  "keeps_catalog src (fst (remove_room_participant src r p t))"
proof -
  show "keeps_catalog src (fst (create_room src c))"
    by (auto simp: create_room_def Let_def keeps_catalog_def split: option.split)
qed (simp_all add: append_message_def add_room_participant_def rename_room_def
    remove_room_participant_def Let_def split: option.split)

lemma keeps_catalog_settled:
  "keeps_catalog src src' \<Longrightarrow> settled (snapshot_of src) \<Longrightarrow> settled (snapshot_of src')"
  by (rule settled_mono) (auto simp: keeps_catalog_def)

lemma room_change_settled:
  assumes "room_change backup src c src'" "settled (snapshot_of src)" "\<not> deletes_bundled c"
  shows "settled (snapshot_of src')"
  using assms
proof (induction rule: room_change.induct)
  case (delete src r t src' y)
  then show ?case
    using delete_room_ids [OF delete(1)] by (intro settled_mono [OF delete(2)]) auto
next
  case (restore s src q)
  then show ?case by simp
qed (use ops_keep_catalog keeps_catalog_settled in \<open>(simp, metis fst_conv)+\<close>)

text \<open>Reading without a fault.\<close>

lemma load_file_no_fault:
  assumes "files w q = Some (Regular body)" "faults w = []"
  shows "load_room_file dec q w = Ret (room_file_of_bytes dec body) w"
  using assms
  by (simp add: load_room_file_def io_try_def io_bind_def fs_read_def atomic_op_def next_fault_def
      io_return_def)

lemma room_load_on_disk:
  assumes "on_disk dec p s w" "faults w = []"
  shows "\<exists>loaded. room_load enc dec p w = Ret (Ok loaded) w
    \<and> (loaded = Some s \<or> loaded = None \<and> s = bundled_snapshot)"
proof (cases "file_holds dec p s w")
  case True
  then obtain body where body: "room_durable p w = Some body" "room_file_of_bytes dec body = Ok s"
    by (auto simp: file_holds_def)
  from body(1) show ?thesis
    by (rule durable_SomeE)
      (use body(2) assms(2) in \<open>simp_all add: room_load_def fs_is_file_def fs_exists_def io_bind_def
         load_file_no_fault io_return_def\<close>)
next
  case False
  then show ?thesis
    using assms(1) by (simp add: on_disk_def room_load_def fs_is_file_def fs_exists_def)
qed

lemma room_start_on_disk:
  assumes "on_disk dec p s w" "faults w = []" "snapshot_ok s" "settled s"
    and "room_path_is_absolute p" "snd p \<noteq> []"
  shows "room_start enc dec p w =
    Ret (Ok \<lparr>room_inner = \<lparr>snapshot_of = s, poisoned = False\<rparr>, room_persistence = Some p\<rparr>) w"
proof -
  obtain loaded where loaded: "room_load enc dec p w = Ret (Ok loaded) w"
      "loaded = Some s \<or> loaded = None \<and> s = bundled_snapshot"
    using room_load_on_disk [OF assms(1,2)] by blast
  have valid: "validate_snapshot s = Ok ()"
    using assms(3) by (simp add: validate_snapshot_iff)
  have upgrades: "normalize_owner_participant s = Ok (s, None, False)"
      "merge_bundled_catalog s = (s, False)"
    using assms(4) by (simp_all add: settled_def normalize_settled merge_settled)
  show ?thesis
    using loaded(2)
    by (elim disjE conjE)
      (use loaded(1) valid upgrades assms(5,6) in \<open>simp_all add: room_start_def prepared_commit_def
         prepare_persistent_desktop_room_source_def desktop_room_source_persistent_def io_bind_def
         io_return_def in_memory_new_def\<close>)
qed

text \<open>C4: A crash loses nothing: if the process dies anywhere in a call, the next start finds the Rooms
  exactly as they were before the call or as the completed call leaves them, and is at rest with
  them. Two conditions bound the claim: the source is settled, as every start leaves it and every
  other call keeps it, and the call does not delete a bundled Room, as a start brings those back
  (the commands of the desktop refuse that deletion).\<close>

theorem room_source_crash_then_restart:
  assumes "faithful_room_codec enc dec" "at_rest dec p src w" "call_ok c"
    and "settled (source_snapshot src)" "\<not> deletes_bundled c"
    and "room_path_is_absolute p" "snd p \<noteq> []"
    and "room_call_io enc dec src c w = Crashed w'"
  shows "\<exists>src'. room_start enc dec p (w'\<lparr>faults := []\<rparr>) = Ret (Ok src') (w'\<lparr>faults := []\<rparr>)
    \<and> at_rest dec p src' (w'\<lparr>faults := []\<rparr>) \<and> settled (source_snapshot src')
    \<and> (room_inner src' = room_inner src \<or> room_change (backup_rooms dec w) (room_inner src) c (room_inner src'))"
proof -
  let ?w = "w'\<lparr>faults := []\<rparr>"
  have src: "store_ok (room_inner src)" "\<not> poisoned (room_inner src)"
    using assms(2) by (simp_all add: at_rest_def)
  have start: ?thesis
    if inner: "on_disk dec p (snapshot_of inner) w'" "store_ok inner" "\<not> poisoned inner"
      "settled (snapshot_of inner)" "inner = room_inner src \<or> room_change (backup_rooms dec w) (room_inner src) c inner"
    for inner
  proof -
    have "on_disk dec p (snapshot_of inner) ?w"
      using inner(1) by (simp add: on_disk_def file_holds_def)
    moreover have same: "\<lparr>snapshot_of = snapshot_of inner, poisoned = False\<rparr> = inner"
      using inner(3) by simp
    ultimately have "room_start enc dec p ?w = Ret (Ok \<lparr>room_inner = inner, room_persistence = Some p\<rparr>) ?w"
      using room_start_on_disk [of dec p "snapshot_of inner" ?w enc, unfolded same] inner assms(6,7)
      by (simp add: store_ok_def)
    then show ?thesis
      using \<open>on_disk dec p (snapshot_of inner) ?w\<close> inner by (simp add: at_rest_def)
  qed
  from wp_Crashed [OF wp_room_call [OF assms(1-3)] assms(8)]
  show ?thesis
    unfolding cut_off_def
  proof (elim disjE exE conjE)
    assume "on_disk dec p (source_snapshot src) w'"
    then show ?thesis
      using start [of "room_inner src"] src assms(4) by simp
  next
    fix inner assume inner: "room_change (backup_rooms dec w) (room_inner src) c inner" "on_disk dec p (snapshot_of inner) w'"
    then show ?thesis
      using start [of inner] room_change_ok [OF inner(1) src(1) assms(3)] src(2)
        room_change_settled [OF inner(1) assms(4,5)] by simp
  qed
qed

section \<open>Recovery from a corrupted file\<close>

text \<open>The snapshot can still be found: the file holds it, or is missing or corrupted and the
  backup holds it.\<close>

definition recoverable :: "room_decoder \<Rightarrow> path \<Rightarrow> room_snapshot \<Rightarrow> world \<Rightarrow> bool" where
  "recoverable dec p s w \<longleftrightarrow>
     file_holds dec p s w
     \<or> (\<exists>body old. files w p = Some (Regular body)
          \<and> room_file_of_bytes dec body = Err Persistence_InvalidFile
          \<and> files w (room_backup_path p) = Some (Regular old)
          \<and> room_file_of_bytes dec old = Ok s)"

text \<open>Some file under another name holds these bytes.\<close>

definition set_aside :: "path \<Rightarrow> string \<Rightarrow> world \<Rightarrow> bool" where
  "set_aside p body w \<longleftrightarrow>
     (\<exists>q. q \<noteq> p \<and> q \<noteq> room_backup_path p \<and> files w q = Some (Regular body))"

lemma wp_preserve:
  assumes body: "files w p = Some (Regular body)"
  shows "wp (preserve_corrupted_primary n p)
    (\<lambda>r w'. if is_ok r then set_aside p body w' \<and> files w' p = None
         \<and> files w' (room_backup_path p) = files w (room_backup_path p)
       else files w' = files w)
    (\<lambda>w'. files w' = files w \<or> set_aside p body w' \<and> files w' p = None
       \<and> files w' (room_backup_path p) = files w (room_backup_path p)) w"
  using body
proof (induction n arbitrary: w)
  case 0
  then show ?case by (simp add: wp_def)
next
  case (Suc n)
  define q where "q = sibling_path p (''corrupt-'' @ (nat_to_string (process_id w) @ ''-''
      @ nat_to_string (unat (temp_sequence w))))"
  have q: "q \<noteq> p" "q \<noteq> room_backup_path p"
    unfolding q_def by (rule room_names)+
  let ?w1 = "w\<lparr>temp_sequence := temp_sequence w + 1\<rparr>"
  have aside: "set_aside p body w'" if "files w' = (files w)(p := None, q \<mapsto> Regular body)" for w'
    unfolding set_aside_def using that q by (intro exI [of _ q]) simp
  have "wp (\<lambda>w1. if fs_exists q w1 then preserve_corrupted_primary n p w1
      else io_try (fs_rename p q) Persistence_Io (\<lambda>_. io_return (Ok ())) w1)
    (\<lambda>r w'. if is_ok r then set_aside p body w' \<and> files w' p = None
         \<and> files w' (room_backup_path p) = files w (room_backup_path p)
       else files w' = files w)
    (\<lambda>w'. files w' = files w \<or> set_aside p body w' \<and> files w' p = None
       \<and> files w' (room_backup_path p) = files w (room_backup_path p)) ?w1"
    using Suc.IH [of ?w1] Suc.prems q room_names_distinct(1) [of p]
    by (intro wp_if) (auto intro!: wp_try wp_rename wp_return aside cong: if_cong)
  then show ?case
    by (rule wp_same [OF wp_point_eq [THEN iffD2]])
      (simp add: take_temp_sequence_def q_def Let_def cong: if_cong)
qed

lemma set_aside_keeps: "set_aside p body w \<Longrightarrow> keeps_files p (files w) (files w') \<Longrightarrow> set_aside p body w'"
  unfolding set_aside_def keeps_files_def by (metis option.discI)

lemma wp_persist_holds:
  assumes "faithful_room_codec enc dec" "snapshot_ok s" "file_holds dec p s w"
  shows "wp (room_persist enc p s)
    (\<lambda>_ w'. file_holds dec p s w' \<and> keeps_files p (files w) (files w'))
    (\<lambda>w'. file_holds dec p s w' \<and> keeps_files p (files w) (files w')) w"
proof -
  have same: "file_holds dec p s w'" if "room_durable p w' = room_durable p w" for w'
    using assms(3) that by (simp add: file_holds_def)
  have written: "file_holds dec p s w'" if "room_written enc p s w'" for w'
    by (rule room_written_holds [OF assms(1,2) that])
  show ?thesis
    by (intro wp_mono [OF wp_room_persist]) (auto simp: same written split: if_splits)
qed

text \<open>The repair of a corrupted file, with the bytes of the corrupted one.\<close>

definition repairing :: "room_decoder \<Rightarrow> path \<Rightarrow> room_snapshot \<Rightarrow> string \<Rightarrow> world \<Rightarrow> bool" where
  "repairing dec p s body w \<longleftrightarrow>
     recoverable dec p s w \<and> (files w p = Some (Regular body) \<or> set_aside p body w)"

definition repaired :: "room_decoder \<Rightarrow> path \<Rightarrow> room_snapshot \<Rightarrow> string \<Rightarrow> world \<Rightarrow> bool" where
  "repaired dec p s body w \<longleftrightarrow> file_holds dec p s w \<and> set_aside p body w"

lemma repaired_repairing: "repaired dec p s body w \<Longrightarrow> repairing dec p s body w"
  by (simp add: repaired_def repairing_def recoverable_def)

lemma repairing_files: "repairing dec p s body w \<Longrightarrow> files w' = files w \<Longrightarrow> repairing dec p s body w'"
  by (simp add: repairing_def recoverable_def file_holds_def set_aside_def)

lemma wp_repair:
  assumes codec: "faithful_room_codec enc dec" "snapshot_ok s"
    and corrupted: "files w p = Some (Regular body)" "room_file_of_bytes dec body = Err Persistence_InvalidFile"
    and backup: "files w (room_backup_path p) = Some (Regular old)" "room_file_of_bytes dec old = Ok s"
  shows "wp (io_bind (preserve_corrupted_primary 16 p)
      (\<lambda>r. case r of
         Inl e \<Rightarrow> io_return (Err e)
       | Inr _ \<Rightarrow> io_bind (room_persist enc p s)
           (\<lambda>r. case r of Inl e \<Rightarrow> io_return (Err e) | Inr _ \<Rightarrow> io_return (Ok (Some s)))))
    (\<lambda>r w'. repairing dec p s body w' \<and> (\<forall>x. r = Ok x \<longrightarrow> x = Some s \<and> repaired dec p s body w'))
    (\<lambda>w'. repairing dec p s body w') w"
proof -
  have start: "repairing dec p s body w'" if "files w' = files w" for w'
    using corrupted backup that by (auto simp: repairing_def recoverable_def)
  have moved: "repaired dec p s body w'"
    if "set_aside p body w'" "files w' p = None"
      "files w' (room_backup_path p) = files w (room_backup_path p)" for w'
    using that backup by (simp add: repaired_def file_holds_def durable_def)
  have persist: "wp (io_bind (room_persist enc p s)
        (\<lambda>r. case r of Inl e \<Rightarrow> io_return (Err e) | Inr _ \<Rightarrow> io_return (Ok (Some s))))
      (\<lambda>r w'. repairing dec p s body w' \<and> (\<forall>x. r = Ok x \<longrightarrow> x = Some s \<and> repaired dec p s body w'))
      (\<lambda>w'. repairing dec p s body w') w1" if "repaired dec p s body w1" for w1
  proof -
    have "repaired dec p s body w'" if "file_holds dec p s w'" "keeps_files p (files w1) (files w')" for w'
      using that set_aside_keeps [of p body w1 w'] \<open>repaired dec p s body w1\<close>
      by (simp add: repaired_def)
    then show ?thesis
      using \<open>repaired dec p s body w1\<close>
      by (intro wp_bind wp_mono [OF wp_persist_holds [OF codec]])
        (auto intro!: wp_return repaired_repairing simp: repaired_def split: sum.splits)
  qed
  show ?thesis
    by (rule wp_bind, rule wp_mono [OF wp_preserve [OF corrupted(1)]])
      (auto intro!: wp_return persist simp: start repaired_repairing moved is_ok_def
        split: sum.splits if_splits)
qed

lemma wp_room_load_corrupted:
  assumes codec: "faithful_room_codec enc dec" "snapshot_ok s"
    and corrupted: "files w p = Some (Regular body)" "room_file_of_bytes dec body = Err Persistence_InvalidFile"
    and backup: "files w (room_backup_path p) = Some (Regular old)" "room_file_of_bytes dec old = Ok s"
  shows "wp (room_load enc dec p)
    (\<lambda>r w'. repairing dec p s body w' \<and> (\<forall>x. r = Ok x \<longrightarrow> x = Some s \<and> repaired dec p s body w'))
    (\<lambda>w'. repairing dec p s body w') w"
    (is "wp _ ?Q ?C w")
proof -
  have start: "repairing dec p s body w'" if "files w' = files w" for w'
    using corrupted backup that by (auto simp: repairing_def recoverable_def)
  let ?repair = "\<lambda>snapshot. io_bind (preserve_corrupted_primary 16 p)
      (\<lambda>r. case r of
         Inl e \<Rightarrow> io_return (Err e)
       | Inr _ \<Rightarrow> io_bind (room_persist enc p snapshot)
           (\<lambda>r. case r of Inl e \<Rightarrow> io_return (Err e) | Inr _ \<Rightarrow> io_return (Ok (Some snapshot))))"
  have repair: "wp (?repair s) ?Q ?C w1" if "files w1 = files w" for w1
    using corrupted backup that by (intro wp_repair [OF codec]) simp_all
  have from_backup: "wp (io_bind (load_room_file dec (room_backup_path p))
      (\<lambda>r. case r of Inl e \<Rightarrow> io_return (Err e) | Inr snapshot \<Rightarrow> ?repair snapshot)) ?Q ?C w1"
    if "files w1 = files w" for w1
    using that backup by (intro wp_bind wp_load_room_file) (auto intro!: wp_return repair simp: start)
  have invalid: "wp (\<lambda>w1. if \<not> fs_is_file (room_backup_path p) w1
        then Ret (Err Persistence_InvalidFile) w1
        else io_bind (load_room_file dec (room_backup_path p))
          (\<lambda>r. case r of Inl e \<Rightarrow> io_return (Err e) | Inr snapshot \<Rightarrow> ?repair snapshot) w1) ?Q ?C w1"
    if "files w1 = files w" for w1
    using that backup by (intro wp_if wp_Ret_const from_backup) (auto simp: fs_is_file_def)
  have loaded: "wp (io_bind (load_room_file dec p)
      (\<lambda>r. case r of
         Inr snapshot \<Rightarrow> io_return (Ok (Some snapshot))
       | Inl Persistence_Io \<Rightarrow> io_return (Err Persistence_Io)
       | Inl Persistence_InvalidFile \<Rightarrow>
           (\<lambda>w1. if \<not> fs_is_file (room_backup_path p) w1
             then Ret (Err Persistence_InvalidFile) w1
             else io_bind (load_room_file dec (room_backup_path p))
               (\<lambda>r. case r of Inl e \<Rightarrow> io_return (Err e) | Inr snapshot \<Rightarrow> ?repair snapshot) w1))) ?Q ?C w"
    using corrupted by (intro wp_bind wp_load_room_file) (auto intro!: wp_return invalid simp: start)
  have "fs_is_file p w"
    using corrupted by (simp add: fs_is_file_def)
  then show ?thesis
    by (intro wp_same [OF loaded]) (simp only: room_load_def Let_def if_True)
qed

text \<open>A corrupted file is repaired from its backup and nothing is destroyed: whatever file
  operation fails, a load that succeeds yields the backup's Rooms, has them in the main file (or
  safe in its place) and has set the corrupted bytes aside under another name; a load that fails
  or is cut off anywhere leaves a state from which the next load can do the same, with the
  corrupted bytes still in place or set aside.\<close>

theorem corrupted_file_is_repaired:
  assumes "faithful_room_codec enc dec" "snapshot_ok s"
    and "files w p = Some (Regular body)" "room_file_of_bytes dec body = Err Persistence_InvalidFile"
    and "files w (room_backup_path p) = Some (Regular old)" "room_file_of_bytes dec old = Ok s"
  shows "(\<forall>r w'. room_load enc dec p w = Ret r w' \<longrightarrow>
      repairing dec p s body w' \<and> (\<forall>loaded. r = Ok loaded \<longrightarrow> loaded = Some s \<and> repaired dec p s body w'))
    \<and> (\<forall>w'. room_load enc dec p w = Crashed w' \<longrightarrow> repairing dec p s body w')"
  using wp_Ret [OF wp_room_load_corrupted [OF assms]] wp_Crashed [OF wp_room_load_corrupted [OF assms]]
  by blast

section \<open>A concrete start\<close>

definition example_room_path :: path where
  "example_room_path = (''/data'', ROOM_FILE_NAME)"

definition example_room_source :: desktop_room_source where
  "example_room_source = \<lparr>room_inner = \<lparr>snapshot_of = bundled_snapshot, poisoned = False\<rparr>,
     room_persistence = Some example_room_path\<rparr>"

definition example_renamed :: in_memory_room_source where
  "example_renamed = fst (rename_room (room_inner example_room_source) ''mcp-lab'' ''Lab'' ''t'')"

definition example_room_enc :: room_encoder where
  "example_room_enc f =
     (if f = \<lparr>room_file_version = 1, room_file_snapshot = snapshot_of example_renamed\<rparr> then Some ''new''
      else if f = \<lparr>room_file_version = 1, room_file_snapshot = bundled_snapshot\<rparr> then Some ''old''
      else None)"

definition example_room_dec :: room_decoder where
  "example_room_dec body =
     (if body = ''new'' then Some \<lparr>room_file_version = 1, room_file_snapshot = snapshot_of example_renamed\<rparr>
      else if body = ''old'' then Some \<lparr>room_file_version = 1, room_file_snapshot = bundled_snapshot\<rparr>
      else None)"

definition example_room_world :: "(path \<Rightarrow> node option) \<Rightarrow> fault list \<Rightarrow> world" where
  "example_room_world f fs =
     \<lparr>files = f, directories = {''/data''}, faults = fs, temp_sequence = 1, process_id = 7\<rparr>"

lemma example_room_world_simps [simp]:
  "files (example_room_world f fs) = f" "faults (example_room_world f fs) = fs"
  "directories (example_room_world f fs) = {''/data''}"
  by (simp_all add: example_room_world_def)

lemma example_room_codec: "faithful_room_codec example_room_enc example_room_dec"
  by (auto simp: faithful_room_codec_def example_room_enc_def example_room_dec_def split: if_splits)

lemma example_room_rest: "at_rest example_room_dec example_room_path example_room_source (example_room_world (\<lambda>_. None) fs)"
  by (simp add: at_rest_def example_room_source_def store_ok_def bundled_ok on_disk_def)

lemma example_rename_runs: "rename_room (room_inner example_room_source) ''mcp-lab'' ''Lab'' ''t'' =
    (example_renamed, Ok (room_mutation_success_new Renamed (bundled_mcp_lab\<lparr>r_name := ''Lab''\<rparr>)))"
  and example_renamed_generated: "generated_at (snapshot_of example_renamed) = ''t''"
proof -
  have lab: "bundled_mcp_lab \<in> set (rooms bundled_snapshot)" "r_id bundled_mcp_lab = ''mcp-lab''"
    "r_name bundled_mcp_lab \<noteq> ''Lab''"
    by (simp_all add: bundled_snapshot_def bundled_mcp_lab_def bytes_str_def)
  have "find (\<lambda>room. r_id room = ''mcp-lab'') (rooms bundled_snapshot) = Some bundled_mcp_lab"
    using find_by_key [of r_id "rooms bundled_snapshot" bundled_mcp_lab] lab bundled_ok
    by (simp add: snapshot_ok_def)
  moreover have "valid_text ''Lab'' MAXIMUM_DISPLAY_NAME_BYTES" "valid_text ''t'' 64"
    by (simp_all add: valid_text_def room_limits)
  ultimately show "rename_room (room_inner example_room_source) ''mcp-lab'' ''Lab'' ''t'' =
      (example_renamed, Ok (room_mutation_success_new Renamed (bundled_mcp_lab\<lparr>r_name := ''Lab''\<rparr>)))"
    "generated_at (snapshot_of example_renamed) = ''t''"
    using lab(3)
    by (simp_all add: example_renamed_def rename_room_def write_room_def example_room_source_def Let_def)
qed

abbreviation example_room_call :: room_call where
  "example_room_call \<equiv> Call_Rename ''mcp-lab'' ''Lab'' ''t''"

lemmas example_room_run = room_call_io.simps desktop_rename_room_def write_through_def io_ok_def
  room_persist_def room_write_file_def create_temp_file.simps take_temp_sequence_def room_rotate_def
  install_temp_def with_temp_guard_def io_bind_def io_try_def io_return_def fs_create_dir_all_def
  fs_try_create_new_def fs_write_all_sync_def fs_rename_def fs_remove_file_def fs_read_def atomic_op_def next_fault_def
  put_file_def fs_is_dir_def fs_exists_def fs_is_file_def Let_def in_memory_snapshot_def

lemma example_room_encodes:
  "room_encode example_room_enc (snapshot_of example_renamed) = Some ''new''"
  "room_encode example_room_enc bundled_snapshot \<in> {Some ''old'', Some ''new''}"
  by (simp_all add: example_room_enc_def ROOM_FILE_VERSION_def)

lemma example_renamed_usable: "\<not> poisoned example_renamed"
  using poisoned_ops(4) [of "room_inner example_room_source" "''mcp-lab''" "''Lab''" "''t''"]
  by (simp add: example_renamed_def example_room_source_def)

lemmas sixteen_tries = create_temp_file.simps(2) [of 15, simplified]
  preserve_corrupted_primary.simps(2) [of 15, simplified]

lemma example_room_facts [simp]:
  "fst example_room_path = ''/data''" "fst (sibling_path p s) = fst p" "fst (room_backup_path p) = fst p"
  "Suc (Suc (Suc 0)) \<le> MAXIMUM_ROOM_FILE_BYTES"
  by (simp_all add: example_room_path_def sibling_path_def room_backup_path_def MAXIMUM_ROOM_FILE_BYTES_def)

text \<open>Without faults a write succeeds: nothing but files in the two places, the next temporary name
  free, and the encoded snapshot not too long.\<close>

lemma room_persist_succeeds:
  assumes "room_encode enc s = Some body" "length body \<le> MAXIMUM_ROOM_FILE_BYTES" "fst p \<noteq> []"
    and "files w p \<noteq> Some Directory" "files w (room_backup_path p) \<noteq> Some Directory" "faults w = []"
    and "files w (sibling_path p (nat_to_string (process_id w) @ ''.''
           @ nat_to_string (unat (temp_sequence w)) @ ''.tmp'')) = None"
  shows "\<exists>w'. room_persist enc p s w = Ret (Ok ()) w'"
  using assms room_names(2) [of p "nat_to_string (process_id w) @ ''.''
      @ nat_to_string (unat (temp_sequence w))"]
  by (cases "files w p"; cases "files w (room_backup_path p)")
    (auto simp: example_room_run sixteen_tries room_names split: node.splits)

lemma example_room_call_returns:
  "\<exists>w'. room_call_io example_room_enc example_room_dec example_room_source example_room_call
      (example_room_world (\<lambda>_. None) [])
    = Ret (example_room_source\<lparr>room_inner := example_renamed\<rparr>, True) w'"
proof -
  obtain w' where "room_persist example_room_enc example_room_path (snapshot_of example_renamed)
      (example_room_world (\<lambda>_. None) []) = Ret (Ok ()) w'"
    using room_persist_succeeds [where enc = example_room_enc and s = "snapshot_of example_renamed"
        and p = example_room_path and w = "example_room_world (\<lambda>_. None) []"] example_room_encodes(1)
    by auto
  moreover have "in_memory_snapshot (room_inner example_room_source) = Ok bundled_snapshot"
    "in_memory_snapshot example_renamed = Ok (snapshot_of example_renamed)"
    "room_persistence example_room_source = Some example_room_path"
    using example_renamed_usable by (simp_all add: in_memory_snapshot_def example_room_source_def)
  ultimately show ?thesis
    by (simp add: desktop_rename_room_def write_through_def io_ok_def io_bind_def io_return_def
        example_rename_runs)
qed

lemma example_renamed_new: "snapshot_of example_renamed \<noteq> bundled_snapshot"
proof
  assume "snapshot_of example_renamed = bundled_snapshot"
  then have "generated_at bundled_snapshot = ''t''"
    using example_renamed_generated by simp
  then show False
    by (simp add: bundled_snapshot_def)
qed

theorem room_source_writes_through_witness:
  "\<exists>w'. room_call_io example_room_enc example_room_dec example_room_source example_room_call
      (example_room_world (\<lambda>_. None) [])
    = Ret (example_room_source\<lparr>room_inner := example_renamed\<rparr>, True) w'
    \<and> file_holds example_room_dec example_room_path (snapshot_of example_renamed) w'"
  using room_source_writes_through [OF example_room_codec example_room_rest [of "[]"], of example_room_call]
    example_room_call_returns example_renamed_new
  by (fastforce simp: at_rest_def on_disk_def)

lemma example_room_call_crashes:
  "\<exists>w'. room_call_io example_room_enc example_room_dec example_room_source example_room_call
      (example_room_world (\<lambda>_. None) [CrashAfter]) = Crashed w'"
proof -
  have "\<exists>w'. room_persist example_room_enc example_room_path (snapshot_of example_renamed)
      (example_room_world (\<lambda>_. None) [CrashAfter]) = Crashed w'"
    by (simp add: example_room_run)
  moreover have "in_memory_snapshot (room_inner example_room_source) = Ok bundled_snapshot"
    "in_memory_snapshot example_renamed = Ok (snapshot_of example_renamed)"
    "room_persistence example_room_source = Some example_room_path"
    using example_renamed_usable by (simp_all add: in_memory_snapshot_def example_room_source_def)
  ultimately show ?thesis
    by (auto simp: desktop_rename_room_def write_through_def io_ok_def io_bind_def io_return_def
        example_rename_runs)
qed

theorem room_source_crash_then_restart_witness:
  "\<exists>w' src'. room_call_io example_room_enc example_room_dec example_room_source example_room_call
      (example_room_world (\<lambda>_. None) [CrashAfter]) = Crashed w'
    \<and> room_start example_room_enc example_room_dec example_room_path (w'\<lparr>faults := []\<rparr>)
      = Ret (Ok src') (w'\<lparr>faults := []\<rparr>)"
proof -
  obtain w' where crash: "room_call_io example_room_enc example_room_dec example_room_source
      example_room_call (example_room_world (\<lambda>_. None) [CrashAfter]) = Crashed w'"
    using example_room_call_crashes by blast
  have "settled (source_snapshot example_room_source)" "room_path_is_absolute example_room_path"
    "snd example_room_path \<noteq> []"
    by (simp_all add: example_room_source_def bundled_settled room_path_is_absolute_def)
      (simp add: example_room_path_def ROOM_FILE_NAME_def)
  moreover have "\<not> deletes_bundled example_room_call" "call_ok example_room_call"
    by simp_all
  ultimately show ?thesis
    using room_source_crash_then_restart [OF example_room_codec example_room_rest _ _ _ _ _ crash]
      crash by blast
qed

definition example_corrupted_files :: "path \<Rightarrow> node option" where
  "example_corrupted_files = [example_room_path \<mapsto> Regular ''torn'',
     room_backup_path example_room_path \<mapsto> Regular ''old'']"

lemma example_corrupted_bytes:
  "room_file_of_bytes example_room_dec ''torn'' = Err Persistence_InvalidFile"
  "room_file_of_bytes example_room_dec ''old'' = Ok bundled_snapshot"
  using bundled_ok
  by (simp_all add: room_file_of_bytes_def example_room_dec_def ROOM_FILE_VERSION_def in_memory_new_def
      validate_snapshot_iff [THEN iffD2] MAXIMUM_ROOM_FILE_BYTES_def)

lemma example_corrupted_files [simp]:
  "example_corrupted_files example_room_path = Some (Regular ''torn'')"
  "example_corrupted_files (room_backup_path example_room_path) = Some (Regular ''old'')"
  "s \<noteq> ''backup'' \<Longrightarrow> example_corrupted_files (sibling_path example_room_path s) = None"
  by (simp_all add: example_corrupted_files_def room_names room_backup_path_def sibling_path_distinct)

lemma example_digits [simp]: "nat_to_string 7 = ''7''" "nat_to_string (Suc 0) = ''1''" "nat_to_string 2 = ''2''"
  by (simp_all add: nat_to_string.simps char_of_def bit_simps)

lemma example_room_load_returns:
  "\<exists>w'. room_load example_room_enc example_room_dec example_room_path
      (example_room_world example_corrupted_files []) = Ret (Ok (Some bundled_snapshot)) w'"
proof -
  let ?w = "example_room_world example_corrupted_files []"
  have files: "fs_is_file example_room_path ?w" "fs_is_file (room_backup_path example_room_path) ?w"
    by (simp_all add: fs_is_file_def)
  have reads: "load_room_file example_room_dec example_room_path ?w = Ret (Err Persistence_InvalidFile) ?w"
    "load_room_file example_room_dec (room_backup_path example_room_path) ?w = Ret (Ok bundled_snapshot) ?w"
    by (simp_all add: load_file_no_fault example_corrupted_bytes)
  obtain w1 where w1: "preserve_corrupted_primary 16 example_room_path ?w = Ret (Ok ()) w1"
      "files w1 = example_corrupted_files(example_room_path := None,
         sibling_path example_room_path ''corrupt-7-1'' \<mapsto> Regular ''torn'')"
      "faults w1 = []" "process_id w1 = 7" "temp_sequence w1 = 2"
    by (simp add: sixteen_tries example_room_run example_room_world_def sibling_path_distinct)
  obtain body where body: "room_encode example_room_enc bundled_snapshot = Some body"
      "length body \<le> MAXIMUM_ROOM_FILE_BYTES"
    using example_room_encodes(2) by auto
  have "room_backup_path example_room_path \<noteq> sibling_path example_room_path ''corrupt-7-1''"
    by (simp add: room_backup_path_def sibling_path_distinct)
  then obtain w2 where "room_persist example_room_enc example_room_path bundled_snapshot w1 = Ret (Ok ()) w2"
    using room_persist_succeeds [where enc = example_room_enc and s = bundled_snapshot
        and body = body and p = example_room_path and w = w1] body w1
    by (auto simp: sibling_path_distinct room_names)
  then show ?thesis
    using files reads w1(1) by (simp add: room_load_def Let_def io_bind_def io_return_def)
qed

theorem corrupted_file_is_repaired_witness:
  "\<exists>w'. room_load example_room_enc example_room_dec example_room_path
      (example_room_world example_corrupted_files []) = Ret (Ok (Some bundled_snapshot)) w'
    \<and> repaired example_room_dec example_room_path bundled_snapshot ''torn'' w'"
proof -
  obtain w' where load: "room_load example_room_enc example_room_dec example_room_path
      (example_room_world example_corrupted_files []) = Ret (Ok (Some bundled_snapshot)) w'"
    using example_room_load_returns by blast
  moreover have "files (example_room_world example_corrupted_files []) example_room_path = Some (Regular ''torn'')"
    "files (example_room_world example_corrupted_files []) (room_backup_path example_room_path) = Some (Regular ''old'')"
    by simp_all
  ultimately show ?thesis
    using corrupted_file_is_repaired [OF example_room_codec bundled_ok _ example_corrupted_bytes(1) _
        example_corrupted_bytes(2)] by blast
qed

end
