(* ===== verification/Room_Commands.thy ===== *)
theory Room_Commands
  imports Room_Source_Claims
begin

text \<open>
  The commands of the interface on Rooms (\<open>apps/desktop/src-tauri/src/room\_commands.rs\<close>): each
  checks what only the desktop knows (who the owner is, which Rooms are bundled), stamps the time
  and passes on to the Room source. The clock's RFC 3339 timestamp is a parameter, \<open>None\<close> when it
  cannot be had.
\<close>

section \<open>Errors\<close>

definition COMMAND_ROOM_READ_LIMIT :: u8 where "COMMAND_ROOM_READ_LIMIT = 30"

text \<open>The three error structures have the same two fields.\<close>

record room_command_error =
  command_error_code :: string
  command_error_message :: string

type_synonym room_read_command_error = room_command_error
type_synonym room_write_command_error = room_command_error
type_synonym room_mutation_command_error = room_command_error

definition command_error :: "string \<Rightarrow> string \<Rightarrow> room_command_error" where
  "command_error code message = \<lparr>command_error_code = code, command_error_message = message\<rparr>"

record room_catalog_success =
  catalog_ok :: bool
  catalog_rooms :: "room_summary list"

fun command_map_mutation_error :: "room_mutation_error \<Rightarrow> room_mutation_command_error" where
  "command_map_mutation_error Mutation_InvalidMutation =
     command_error ''invalidRoomMutation'' ''The Room mutation is invalid.''"
| "command_map_mutation_error Mutation_RoomNotFound =
     command_error ''roomNotFound'' ''The Room is not available.''"
| "command_map_mutation_error Mutation_ParticipantNotFound =
     command_error ''roomParticipantInvalid'' ''The participant is not available.''"
| "command_map_mutation_error Mutation_ParticipantInUse =
     command_error ''roomParticipantInUse''
       ''A participant referenced by Room history cannot be removed.''"
| "command_map_mutation_error Mutation_RequiredParticipant =
     command_error ''roomParticipantRequired''
       ''The Room must keep its owner and at least one AI participant.''"
| "command_map_mutation_error Mutation_RequiredRoom =
     command_error ''roomRequired'' ''The final Room cannot be deleted.''"
| "command_map_mutation_error Mutation_IdempotencyConflict =
     command_error ''roomConflict'' ''The Room ID was already used for different content.''"
| "command_map_mutation_error Mutation_CapacityReached =
     command_error ''roomCapacityReached'' ''The Room catalog has reached its capacity.''"
| "command_map_mutation_error Mutation_SourceUnavailable =
     command_error ''roomMutationUnavailable'' ''The Room is temporarily unavailable.''"

fun command_map_write_error :: "room_write_error \<Rightarrow> room_write_command_error" where
  "command_map_write_error Write_RoomNotFound =
     command_error ''roomNotFound'' ''The Room is not available.''"
| "command_map_write_error Write_AuthorNotParticipant =
     command_error ''roomParticipantInvalid''
       ''A message participant is not available in the Room.''"
| "command_map_write_error Write_RecipientNotParticipant =
     command_error ''roomParticipantInvalid''
       ''A message participant is not available in the Room.''"
| "command_map_write_error Write_IdempotencyConflict =
     command_error ''messageConflict'' ''The message ID was already used for different content.''"
| "command_map_write_error Write_RoomCapacityReached =
     command_error ''roomCapacityReached'' ''The Room cannot accept more in-memory messages.''"
| "command_map_write_error Write_SourceUnavailable =
     command_error ''roomWriteUnavailable'' ''The Room is temporarily unavailable.''"

section \<open>Commands\<close>

definition command_read_room ::
  "desktop_room_source \<Rightarrow> string \<Rightarrow> string option \<Rightarrow> u8 option
     \<Rightarrow> (room_read_result, room_read_command_error) result"
where
  "command_read_room src room_id after_message_id limit =
     (case room_read_query_try_new room_id after_message_id
             (case limit of None \<Rightarrow> COMMAND_ROOM_READ_LIMIT | Some l \<Rightarrow> l) of
        Inl _ \<Rightarrow> Err (command_error ''invalidRoomRequest'' ''The Room read request is invalid.'')
      | Inr query \<Rightarrow> Ok (desktop_read_room src query))"

definition command_list_rooms ::
  "desktop_room_source \<Rightarrow> (room_catalog_success, room_mutation_command_error) result"
where
  "command_list_rooms src =
     (case desktop_list_rooms src of
        Inl _ \<Rightarrow> Err (command_error ''roomCatalogUnavailable''
                        ''The Room catalog is temporarily unavailable.'')
      | Inr summaries \<Rightarrow> Ok \<lparr>catalog_ok = True, catalog_rooms = summaries\<rparr>)"

definition current_timestamp :: "string option \<Rightarrow> (string, room_write_command_error) result" where
  "current_timestamp now =
     ok_or now (command_error ''roomWriteUnavailable'' ''The Room message could not be timestamped.'')"

definition mutation_timestamp :: "string option \<Rightarrow> (string, room_mutation_command_error) result" where
  "mutation_timestamp now =
     ok_or now (command_error ''roomMutationUnavailable'' ''The Room mutation could not be timestamped.'')"

text \<open>The result of a call of the source, with its error mapped.\<close>

definition io_map_err :: "('e \<Rightarrow> 'f) \<Rightarrow> ('s \<times> ('a, 'e) result) io \<Rightarrow> ('s \<times> ('a, 'f) result) io" where
  "io_map_err f m = io_bind m (\<lambda>(s, r). io_return (s, map_err f r))"

definition command_create_room ::
  "room_encoder \<Rightarrow> string option \<Rightarrow> desktop_room_source \<Rightarrow> string \<Rightarrow> string
     \<Rightarrow> (desktop_room_source \<times> (room_mutation_success, room_mutation_command_error) result) io"
where
  "command_create_room enc now src room_id name =
     (case owner_participant_id src of
        None \<Rightarrow> io_return (src, Err (command_error ''roomMutationUnavailable''
                  ''The Room owner is temporarily unavailable.''))
      | Some owner_id \<Rightarrow>
          (case mutation_timestamp now of
             Inl e \<Rightarrow> io_return (src, Err e)
           | Inr timestamp \<Rightarrow>
               (case room_create_draft_try_new room_id name [owner_id, ''codex''] timestamp of
                  Inl _ \<Rightarrow> io_return (src, Err (command_error ''invalidRoomMutation''
                             ''The Room creation request is invalid.''))
                | Inr draft \<Rightarrow> io_map_err command_map_mutation_error (desktop_create_room enc src draft))))"

definition command_add_participant ::
  "room_encoder \<Rightarrow> string option \<Rightarrow> desktop_room_source \<Rightarrow> string \<Rightarrow> string
     \<Rightarrow> (desktop_room_source \<times> (room_mutation_success, room_mutation_command_error) result) io"
where
  "command_add_participant enc now src room_id participant_id =
     (case mutation_timestamp now of
        Inl e \<Rightarrow> io_return (src, Err e)
      | Inr timestamp \<Rightarrow>
          io_map_err command_map_mutation_error
            (desktop_add_room_participant enc src room_id participant_id timestamp))"

definition command_rename_room ::
  "room_encoder \<Rightarrow> string option \<Rightarrow> desktop_room_source \<Rightarrow> string \<Rightarrow> string
     \<Rightarrow> (desktop_room_source \<times> (room_mutation_success, room_mutation_command_error) result) io"
where
  "command_rename_room enc now src room_id name =
     (case mutation_timestamp now of
        Inl e \<Rightarrow> io_return (src, Err e)
      | Inr timestamp \<Rightarrow>
          io_map_err command_map_mutation_error (desktop_rename_room enc src room_id name timestamp))"

definition command_remove_participant ::
  "room_encoder \<Rightarrow> string option \<Rightarrow> desktop_room_source \<Rightarrow> string \<Rightarrow> string
     \<Rightarrow> (desktop_room_source \<times> (room_mutation_success, room_mutation_command_error) result) io"
where
  "command_remove_participant enc now src room_id participant_id =
     (if is_human_participant src participant_id
      then io_return (src, Err (command_error ''roomParticipantRequired''
             ''The Room owner cannot be removed.''))
      else
        (case mutation_timestamp now of
           Inl e \<Rightarrow> io_return (src, Err e)
         | Inr timestamp \<Rightarrow>
             io_map_err command_map_mutation_error
               (desktop_remove_room_participant enc src room_id participant_id timestamp)))"

definition command_delete_room ::
  "room_encoder \<Rightarrow> string option \<Rightarrow> desktop_room_source \<Rightarrow> string
     \<Rightarrow> (desktop_room_source \<times> (room_mutation_success, room_mutation_command_error) result) io"
where
  "command_delete_room enc now src room_id =
     (if room_id \<in> set [''moe-dev-room'', ''comparison-room'', ''mcp-lab'']
      then io_return (src, Err (command_error ''protectedRoom'' ''A bundled Room cannot be deleted.''))
      else
        (case mutation_timestamp now of
           Inl e \<Rightarrow> io_return (src, Err e)
         | Inr timestamp \<Rightarrow>
             io_map_err command_map_mutation_error (desktop_delete_room enc src room_id timestamp)))"

definition command_write_message ::
  "room_encoder \<Rightarrow> string option \<Rightarrow> desktop_room_source \<Rightarrow> string \<Rightarrow> string \<Rightarrow> string list \<Rightarrow> string
     \<Rightarrow> (desktop_room_source \<times> (room_write_success, room_write_command_error) result) io"
where
  "command_write_message enc now src room_id message_id' recipient_ids body =
     (case owner_participant_id src of
        None \<Rightarrow> io_return (src, Err (command_error ''roomWriteUnavailable''
                  ''The Room owner is temporarily unavailable.''))
      | Some owner_id \<Rightarrow>
          (case current_timestamp now of
             Inl e \<Rightarrow> io_return (src, Err e)
           | Inr timestamp \<Rightarrow>
               (case room_message_draft_try_new message_id' room_id owner_id recipient_ids body
                       timestamp [] of
                  Inl _ \<Rightarrow> io_return (src, Err (command_error ''invalidRoomMessage''
                             ''The Room message is invalid.''))
                | Inr draft \<Rightarrow> io_map_err command_map_write_error (desktop_append_message enc src draft))))"

end
