(* ===== verification/Utf8_Text.thy ===== *)
theory Utf8_Text
  imports Prelude
begin

text \<open>
  \<open>chars()\<close> where the characters are put together again: a string as the list of the bytes of its
  characters, and the functions of the standard library on it that the desktop uses.
\<close>

text \<open>A line feed.\<close>

definition nl :: string where "nl = [CHR 0x0A]"

definition utf8_length :: "char \<Rightarrow> nat" where
  "utf8_length c = (if byte_of c < 128 then 1 else if byte_of c < 224 then 2 else if byte_of c < 240 then 3 else 4)"

function utf8_pieces :: "string \<Rightarrow> string list" where
  "utf8_pieces [] = []"
| "utf8_pieces (c # cs) =
     (c # take (utf8_length c - 1) cs) # utf8_pieces (drop (utf8_length c - 1) cs)"
  by pat_completeness auto
termination by (relation "measure length") auto

lemma concat_utf8_pieces [simp]: "concat (utf8_pieces s) = s"
  by (induction s rule: utf8_pieces.induct) auto

text \<open>\<open>chars().take(n).collect()\<close>, \<open>chars().count()\<close>, \<open>trim()\<close>.\<close>

definition take_chars :: "nat \<Rightarrow> string \<Rightarrow> string" where
  "take_chars n s = concat (take n (utf8_pieces s))"

definition count_chars :: "string \<Rightarrow> nat" where
  "count_chars s = length (utf8_pieces s)"

definition is_whitespace_piece :: "string \<Rightarrow> bool" where
  "is_whitespace_piece piece \<longleftrightarrow> list_all is_whitespace (str_chars piece)"

definition str_trim :: "string \<Rightarrow> string" where
  "str_trim s =
     concat (rev (dropWhile is_whitespace_piece (rev (dropWhile is_whitespace_piece (utf8_pieces s)))))"

definition has_control :: "string \<Rightarrow> bool" where
  "has_control s \<longleftrightarrow> list_ex is_control (str_chars s)"

definition starts_with :: "string \<Rightarrow> string \<Rightarrow> bool" where
  "starts_with s pre \<longleftrightarrow> take (length pre) s = pre"

text \<open>\<open>split\_once(',')\<close>: what follows the first comma.\<close>

fun after_comma :: "string \<Rightarrow> string option" where
  "after_comma [] = None"
| "after_comma (c # cs) = (if c = CHR '','' then Some cs else after_comma cs)"

lemma take_chars_all [simp]: "count_chars s \<le> n \<Longrightarrow> take_chars n s = s"
  by (simp add: take_chars_def count_chars_def)

lemma take_chars_prefix: "\<exists>rest. s = take_chars n s @ rest"
  using concat_append [of "take n (utf8_pieces s)" "drop n (utf8_pieces s)"]
  by (auto simp: take_chars_def)

lemma utf8_pieces_take:
  "utf8_pieces (take_chars n s) = take n (utf8_pieces s)"
proof (induction s arbitrary: n rule: utf8_pieces.induct)
  case (2 c cs)
  show ?case
  proof (cases n)
    case (Suc m)
    let ?k = "utf8_length c - 1"
    have "take_chars n (c # cs) = c # take ?k cs @ take_chars m (drop ?k cs)"
      by (simp add: take_chars_def Suc)
    moreover have "take ?k (take ?k cs @ take_chars m (drop ?k cs)) = take ?k cs
        \<and> drop ?k (take ?k cs @ take_chars m (drop ?k cs)) = take_chars m (drop ?k cs)"
      by (cases "length cs \<le> ?k") (simp_all add: take_chars_def)
    ultimately show ?thesis
      using 2 [of m] by (simp add: Suc)
  qed (simp add: take_chars_def)
qed (simp add: take_chars_def)

lemma count_take_chars [simp]: "count_chars (take_chars n s) = min n (count_chars s)"
  by (simp add: count_chars_def utf8_pieces_take)

text \<open>On valid UTF-8 both views of the characters agree.\<close>

lemma count_chars_decode: "from_utf8_ok s \<Longrightarrow> count_chars s = length (str_chars s)"
proof (induction s rule: utf8_pieces.induct)
  case (2 c cs)
  have tail: "from_utf8_ok (drop (utf8_length c - 1) cs)
      \<and> length (str_chars (c # cs)) = Suc (length (str_chars (drop (utf8_length c - 1) cs)))"
    using 2(2)
    by (auto simp: from_utf8_ok_def str_chars_def utf8_length_def numeral_2_eq_2 numeral_3_eq_3
        split: if_splits list.splits)
  then show ?case
    using 2(1) by (simp add: count_chars_def)
qed (simp add: count_chars_def str_chars_def)

end
