(* ===== verification/Room_Backups.thy ===== *)
theory Room_Backups
  imports Room_Source Command_Broker Utf8_Text
begin

text \<open>
  Backups of all Rooms outside the data directory
  (\<open>apps/desktop/src-tauri/src/room\_backup\_commands.rs\<close>): the file names with their time stamps,
  the choice of the latest backup, export, preview and restore, and the setting of the folder with
  its file. What \<open>fs::read\_dir\<close> lists is an argument, like the faults of a file operation; dialogs
  and the shell are not modelled.
\<close>

section \<open>Values\<close>

definition BACKUP_PREFIX :: string where "BACKUP_PREFIX = ''moe-room-backup-''"
definition BACKUP_SUFFIX :: string where "BACKUP_SUFFIX = ''.json''"
definition BACKUP_SETTINGS_FILE_VERSION :: u8 where "BACKUP_SETTINGS_FILE_VERSION = 1"
definition MAXIMUM_BACKUP_SETTINGS_BYTES :: nat where "MAXIMUM_BACKUP_SETTINGS_BYTES = 64 * 1024"
definition BACKUP_DIRECTORY_NAME :: string where "BACKUP_DIRECTORY_NAME = ''M.O.E Backups''"

record room_backup_success =
  backup_ok :: bool
  backup_file_name :: string
  backup_room_count :: nat

record room_backup_directory_status =
  directory_ok :: bool
  directory_path_of :: string
  directory_is_custom :: bool
  directory_available :: bool

record room_backup_preview =
  preview_ok :: bool
  preview_file_name :: string
  preview_room_count :: nat
  preview_created_at :: u64

record room_backup_command_error =
  backup_error_code :: string
  backup_error_message :: string

definition backup_error :: "string \<Rightarrow> string \<Rightarrow> room_backup_command_error" where
  "backup_error code message = \<lparr>backup_error_code = code, backup_error_message = message\<rparr>"

definition backup_unavailable :: room_backup_command_error where
  "backup_unavailable = backup_error ''roomBackupUnavailable'' ''The Room backup could not be accessed.''"

definition map_backup_error :: "desktop_room_persistence_error \<Rightarrow> room_backup_command_error" where
  "map_backup_error e = backup_unavailable"

definition invalid_backup_settings :: room_backup_command_error where
  "invalid_backup_settings =
     backup_error ''roomBackupSettingsInvalid'' ''The Room backup settings are invalid.''"

definition unavailable_backup_settings :: room_backup_command_error where
  "unavailable_backup_settings =
     backup_error ''roomBackupSettingsUnavailable'' ''The Room backup settings could not be accessed.''"

text \<open>An absolute path that ends in a name has a parent.\<close>

definition valid_directory_path :: "string \<Rightarrow> bool" where
  "valid_directory_path directory \<longleftrightarrow>
     path_is_absolute directory
     \<and> (case rev (path_components directory) of Normal _ # _ \<Rightarrow> True | _ \<Rightarrow> False)
     \<and> from_utf8_ok directory \<and> length directory \<le> 32768 \<and> \<not> has_control directory"

section \<open>File names\<close>

text \<open>\<open>\{stamp:020\}\<close>.\<close>

definition pad_zeros :: "nat \<Rightarrow> string \<Rightarrow> string" where
  "pad_zeros width digits = replicate (width - length digits) (CHR ''0'') @ digits"

definition backup_file :: "string \<Rightarrow> nat \<Rightarrow> path" where
  "backup_file directory stamp =
     (directory, BACKUP_PREFIX @ pad_zeros 20 (nat_to_string stamp) @ BACKUP_SUFFIX)"

definition backup_stamp_digits :: "string \<Rightarrow> string option" where
  "backup_stamp_digits name =
     (case strip_prefix BACKUP_PREFIX name of
        None \<Rightarrow> None
      | Some value \<Rightarrow>
          (case strip_suffix BACKUP_SUFFIX value of
             None \<Rightarrow> None
           | Some stamp \<Rightarrow>
               if length stamp = 20 \<and> list_all is_ascii_digit stamp then Some stamp else None))"

definition valid_backup_file_name :: "string \<Rightarrow> bool" where
  "valid_backup_file_name name \<longleftrightarrow> backup_stamp_digits name \<noteq> None"

definition digits_value :: "string \<Rightarrow> nat" where
  "digits_value = foldl (\<lambda>n c. 10 * n + (of_char c - 48)) 0"

definition backup_stamp_from_path :: "path \<Rightarrow> (u64, room_backup_command_error) result" where
  "backup_stamp_from_path p =
     (case backup_stamp_digits (snd p) of
        None \<Rightarrow> Err invalid_backup_settings
      | Some stamp \<Rightarrow>
          if digits_value stamp < 2 ^ 64 then Ok (of_nat (digits_value stamp))
          else Err invalid_backup_settings)"

section \<open>Export, preview and restore\<close>

definition export_rooms ::
  "room_encoder \<Rightarrow> desktop_room_source \<Rightarrow> string \<Rightarrow> nat
     \<Rightarrow> (room_backup_success, room_backup_command_error) result io"
where
  "export_rooms enc src directory stamp =
     (if \<not> valid_directory_path directory then io_return (Err invalid_backup_settings)
      else io_bind (export_snapshot enc src (backup_file directory stamp))
        (\<lambda>r. io_return (case r of
           Inl e \<Rightarrow> Err (map_backup_error e)
         | Inr _ \<Rightarrow>
             (case desktop_list_rooms src of
                Inl _ \<Rightarrow> Err (backup_error ''roomBackupUnavailable''
                           ''The Room catalog could not be read.'')
              | Inr summaries \<Rightarrow>
                  Ok \<lparr>backup_ok = True, backup_file_name = snd (backup_file directory stamp),
                      backup_room_count = length summaries\<rparr>))))"

text \<open>\<open>listing\<close> is what \<open>fs::read\_dir\<close> yields: the names in the folder, or an error.\<close>

definition latest_backup ::
  "string list option \<Rightarrow> string \<Rightarrow> world \<Rightarrow> (path, room_backup_command_error) result"
where
  "latest_backup listing directory w =
     (if \<not> valid_directory_path directory \<or> \<not> fs_is_dir directory w then Err backup_unavailable
      else
        (case listing of
           None \<Rightarrow> Err backup_unavailable
         | Some names \<Rightarrow>
             (case filter valid_backup_file_name (filter (\<lambda>name. fs_is_file (directory, name) w) names) of
                [] \<Rightarrow> Err (backup_error ''roomBackupMissing'' ''No M.I.O. Room backup was found.'')
              | name # rest \<Rightarrow> Ok (directory, fold max rest name))))"

definition preview_latest_rooms ::
  "room_decoder \<Rightarrow> string list option \<Rightarrow> string
     \<Rightarrow> (room_backup_preview, room_backup_command_error) result io"
where
  "preview_latest_rooms dec listing directory w =
     (case latest_backup listing directory w of
        Inl e \<Rightarrow> Ret (Err e) w
      | Inr p \<Rightarrow>
          io_bind (inspect_snapshot dec p)
            (\<lambda>r. io_return (case r of
               Inl e \<Rightarrow> Err (map_backup_error e)
             | Inr room_count \<Rightarrow>
                 (case backup_stamp_from_path p of
                    Inl e \<Rightarrow> Err e
                  | Inr stamp \<Rightarrow>
                      Ok \<lparr>preview_ok = True, preview_file_name = snd p,
                          preview_room_count = room_count, preview_created_at = stamp\<rparr>))) w)"

definition restore_selected_rooms ::
  "room_encoder \<Rightarrow> room_decoder \<Rightarrow> string list option \<Rightarrow> desktop_room_source \<Rightarrow> string \<Rightarrow> string
     \<Rightarrow> (desktop_room_source \<times> (room_backup_success, room_backup_command_error) result) io"
where
  "restore_selected_rooms enc dec listing src directory expected_file_name w =
     (if \<not> valid_backup_file_name expected_file_name then Ret (src, Err invalid_backup_settings) w
      else
        (case latest_backup listing directory w of
           Inl e \<Rightarrow> Ret (src, Err e) w
         | Inr p \<Rightarrow>
             if snd p \<noteq> expected_file_name
             then Ret (src, Err (backup_error ''roomBackupChanged''
                    ''The selected Room backup is no longer the latest backup.'')) w
             else io_bind (restore_snapshot enc dec src p)
               (\<lambda>(src, r). io_return (src, case r of
                  Inl e \<Rightarrow> Err (map_backup_error e)
                | Inr _ \<Rightarrow>
                    (case desktop_list_rooms src of
                       Inl _ \<Rightarrow> Err (backup_error ''roomBackupUnavailable''
                                  ''The restored Room catalog could not be read.'')
                     | Inr summaries \<Rightarrow>
                         Ok \<lparr>backup_ok = True, backup_file_name = expected_file_name,
                             backup_room_count = length summaries\<rparr>))) w))"

section \<open>The folder\<close>

record room_backup_settings_file =
  backup_settings_version :: u8
  backup_settings_directory :: "string option"

record desktop_room_backup_settings =
  backup_settings_path :: path
  custom_directory :: "string option"
  backup_settings_poisoned :: bool

record backup_settings_codec =
  backup_settings_to_vec :: "room_backup_settings_file \<Rightarrow> string option"
  backup_settings_from_slice :: "string \<Rightarrow> room_backup_settings_file option"

definition read_backup_settings ::
  "backup_settings_codec \<Rightarrow> path \<Rightarrow> (string option, room_backup_command_error) result io"
where
  "read_backup_settings codec p =
     io_try (fs_read p) unavailable_backup_settings
       (\<lambda>body. io_return
          (if length body > MAXIMUM_BACKUP_SETTINGS_BYTES then Err invalid_backup_settings
           else
             (case backup_settings_from_slice codec body of
                None \<Rightarrow> Err invalid_backup_settings
              | Some value \<Rightarrow>
                  if backup_settings_version value \<noteq> BACKUP_SETTINGS_FILE_VERSION
                  then Err invalid_backup_settings
                  else
                    (case backup_settings_directory value of
                       None \<Rightarrow> Ok None
                     | Some directory \<Rightarrow>
                         if valid_directory_path directory then Ok (Some directory)
                         else Err invalid_backup_settings))))"

definition backup_settings_load ::
  "backup_settings_codec \<Rightarrow> path \<Rightarrow> (desktop_room_backup_settings, room_backup_command_error) result io"
where
  "backup_settings_load codec p w =
     (let backup = with_extension p ''backup'';
          finish = (\<lambda>r. io_return (case r of
            Inl e \<Rightarrow> Err e
          | Inr directory \<Rightarrow> Ok \<lparr>backup_settings_path = p, custom_directory = directory,
                               backup_settings_poisoned = False\<rparr>)) in
      if fs_is_file p w
      then io_bind (read_backup_settings codec p)
             (\<lambda>r w. case r of
                Inr directory \<Rightarrow> finish (Ok directory) w
              | Inl primary_error \<Rightarrow>
                  if fs_is_file backup w
                  then io_bind (read_backup_settings codec backup)
                         (\<lambda>r. finish (case r of Inl _ \<Rightarrow> Err primary_error | Inr d \<Rightarrow> Ok d)) w
                  else finish (Err primary_error) w) w
      else if fs_exists p w then Ret (Err invalid_backup_settings) w
      else if fs_is_file backup w then io_bind (read_backup_settings codec backup) finish w
      else if fs_exists backup w then Ret (Err invalid_backup_settings) w
      else finish (Ok None) w)"

text \<open>The temporary file is removed when its writing or the last rename fails, but not when the old
  file cannot be moved.\<close>

definition backup_settings_temp :: "path \<Rightarrow> nat \<Rightarrow> u64 \<Rightarrow> path" where
  "backup_settings_temp p pid sequence =
     with_extension p (''tmp-'' @ nat_to_string pid @ ''-'' @ nat_to_string (unat sequence))"

definition backup_settings_install ::
  "path \<Rightarrow> path \<Rightarrow> path \<Rightarrow> (unit, room_backup_command_error) result io"
where
  "backup_settings_install temp backup p =
     io_bind (fs_rename temp p)
       (\<lambda>r. if is_ok r then io_return (Ok ())
            else io_bind (fs_remove_file temp)
              (\<lambda>_ w. if \<not> fs_exists p w \<and> fs_is_file backup w
                 then io_bind (fs_rename backup p)
                        (\<lambda>_. io_return (Err unavailable_backup_settings)) w
                 else Ret (Err unavailable_backup_settings) w))"

definition backup_settings_persist ::
  "backup_settings_codec \<Rightarrow> path \<Rightarrow> string option \<Rightarrow> (unit, room_backup_command_error) result io"
where
  "backup_settings_persist codec p directory =
     io_try (fs_create_dir_all (fst p)) unavailable_backup_settings
       (\<lambda>_. case backup_settings_to_vec codec \<lparr>backup_settings_version = BACKUP_SETTINGS_FILE_VERSION,
                backup_settings_directory = directory\<rparr> of
            None \<Rightarrow> io_return (Err invalid_backup_settings)
          | Some body \<Rightarrow>
              if length body > MAXIMUM_BACKUP_SETTINGS_BYTES then io_return (Err invalid_backup_settings)
              else (\<lambda>w.
                let temp = backup_settings_temp p (process_id w) (temp_sequence w);
                    backup = with_extension p ''backup'' in
                io_try (fs_create_new temp) unavailable_backup_settings
                  (\<lambda>_. io_bind (fs_write_all_sync temp body)
                    (\<lambda>written. if \<not> is_ok written
                       then io_bind (fs_remove_file temp)
                              (\<lambda>_. io_return (Err unavailable_backup_settings))
                       else (\<lambda>w.
                         if \<not> fs_exists p w then backup_settings_install temp backup p w
                         else if fs_exists backup w
                         then io_try (fs_remove_file backup) unavailable_backup_settings
                           (\<lambda>_. io_try (fs_rename p backup) unavailable_backup_settings
                             (\<lambda>_. backup_settings_install temp backup p)) w
                         else io_try (fs_rename p backup) unavailable_backup_settings
                           (\<lambda>_. backup_settings_install temp backup p) w)))
                  (w\<lparr>temp_sequence := temp_sequence w + 1\<rparr>)))"

definition get_custom_directory ::
  "desktop_room_backup_settings \<Rightarrow> (string option, room_backup_command_error) result"
where
  "get_custom_directory st =
     (if backup_settings_poisoned st then Err unavailable_backup_settings else Ok (custom_directory st))"

definition set_custom_directory ::
  "backup_settings_codec \<Rightarrow> desktop_room_backup_settings \<Rightarrow> string option
     \<Rightarrow> (desktop_room_backup_settings \<times> (unit, room_backup_command_error) result) io"
where
  "set_custom_directory codec st directory w =
     (if (case directory of None \<Rightarrow> False | Some d \<Rightarrow> \<not> valid_directory_path d \<or> \<not> fs_is_dir d w)
      then Ret (st, Err invalid_backup_settings) w
      else if backup_settings_poisoned st then Ret (st, Err unavailable_backup_settings) w
      else io_bind (backup_settings_persist codec (backup_settings_path st) directory)
        (\<lambda>r. io_return (case r of
           Inl e \<Rightarrow> (st, Err e) | Inr _ \<Rightarrow> (st\<lparr>custom_directory := directory\<rparr>, Ok ()))) w)"

text \<open>The folder in use: the environment's, the owner's, or the one in the documents folder.\<close>

definition default_backup_directory :: "string option \<Rightarrow> (string, room_backup_command_error) result" where
  "default_backup_directory document_dir =
     (case document_dir of
        None \<Rightarrow> Err backup_unavailable
      | Some documents \<Rightarrow> Ok (path_push documents BACKUP_DIRECTORY_NAME))"

definition configured_backup_directory ::
  "string option \<Rightarrow> string option \<Rightarrow> desktop_room_backup_settings
     \<Rightarrow> (string \<times> bool, room_backup_command_error) result"
where
  "configured_backup_directory environment document_dir st =
     (case environment of
        Some directory \<Rightarrow>
          if valid_directory_path directory then Ok (directory, True) else Err invalid_backup_settings
      | None \<Rightarrow>
          (case get_custom_directory st of
             Inl e \<Rightarrow> Err e
           | Inr (Some directory) \<Rightarrow> Ok (directory, True)
           | Inr None \<Rightarrow>
               (case default_backup_directory document_dir of
                  Inl e \<Rightarrow> Err e | Inr directory \<Rightarrow> Ok (directory, False))))"

definition directory_status ::
  "string \<Rightarrow> bool \<Rightarrow> world \<Rightarrow> (room_backup_directory_status, room_backup_command_error) result"
where
  "directory_status directory is_custom w =
     (if \<not> valid_directory_path directory then Err invalid_backup_settings
      else Ok \<lparr>directory_ok = True, directory_path_of = directory, directory_is_custom = is_custom,
               directory_available = fs_is_dir directory w\<rparr>)"

definition product_room_backup_settings_file :: "string \<Rightarrow> path" where
  "product_room_backup_settings_file app_data_dir = (app_data_dir, ''room-backup-settings-v1.json'')"

section \<open>The commands\<close>

definition command_backup_status ::
  "string option \<Rightarrow> string option \<Rightarrow> desktop_room_backup_settings \<Rightarrow> world
     \<Rightarrow> (room_backup_directory_status, room_backup_command_error) result"
where
  "command_backup_status environment document_dir st w =
     (case configured_backup_directory environment document_dir st of
        Inl e \<Rightarrow> Err e
      | Inr (directory, is_custom) \<Rightarrow> directory_status directory is_custom w)"

text \<open>What the dialog's callback does with the folder that was picked: the new setting, and the status
  and the error code it emits.\<close>

definition directory_chosen ::
  "backup_settings_codec \<Rightarrow> desktop_room_backup_settings \<Rightarrow> string
     \<Rightarrow> (desktop_room_backup_settings \<times> room_backup_directory_status option \<times> string option) io"
where
  "directory_chosen codec st directory =
     io_bind (set_custom_directory codec st (Some directory))
       (\<lambda>(st, r) w. case r of
          Inl e \<Rightarrow> Ret (st, None, Some (backup_error_code e)) w
        | Inr _ \<Rightarrow>
            Ret (st, (case get_custom_directory st of
                   Inr (Some d) \<Rightarrow> (case directory_status d True w of Inr s \<Rightarrow> Some s | Inl _ \<Rightarrow> None)
                 | _ \<Rightarrow> None), None) w)"

definition command_use_default_directory ::
  "backup_settings_codec \<Rightarrow> string option \<Rightarrow> desktop_room_backup_settings
     \<Rightarrow> (desktop_room_backup_settings
          \<times> (room_backup_directory_status, room_backup_command_error) result) io"
where
  "command_use_default_directory codec document_dir st =
     io_bind (set_custom_directory codec st None)
       (\<lambda>(st, r) w. case r of
          Inl e \<Rightarrow> Ret (st, Err e) w
        | Inr _ \<Rightarrow>
            Ret (st, case default_backup_directory document_dir of
                Inl e \<Rightarrow> Err e | Inr directory \<Rightarrow> directory_status directory False w) w)"

definition command_backup ::
  "room_encoder \<Rightarrow> string option \<Rightarrow> string option \<Rightarrow> nat option \<Rightarrow> desktop_room_backup_settings
     \<Rightarrow> desktop_room_source \<Rightarrow> (room_backup_success, room_backup_command_error) result io"
where
  "command_backup enc environment document_dir now st src w =
     (case configured_backup_directory environment document_dir st of
        Inl e \<Rightarrow> Ret (Err e) w
      | Inr (directory, _) \<Rightarrow>
          (case get_custom_directory st of
             Inl e \<Rightarrow> Ret (Err e) w
           | Inr custom \<Rightarrow>
               if custom \<noteq> None \<and> \<not> fs_is_dir directory w then Ret (Err backup_unavailable) w
               else
                 (case now of
                    None \<Rightarrow> Ret (Err backup_unavailable) w
                  | Some stamp \<Rightarrow> export_rooms enc src directory stamp w)))"

definition command_preview_latest ::
  "room_decoder \<Rightarrow> string option \<Rightarrow> string option \<Rightarrow> string list option \<Rightarrow> desktop_room_backup_settings
     \<Rightarrow> (room_backup_preview, room_backup_command_error) result io"
where
  "command_preview_latest dec environment document_dir listing st =
     (case configured_backup_directory environment document_dir st of
        Inl e \<Rightarrow> io_return (Err e)
      | Inr (directory, _) \<Rightarrow> preview_latest_rooms dec listing directory)"

definition command_restore_backup ::
  "room_encoder \<Rightarrow> room_decoder \<Rightarrow> string option \<Rightarrow> string option \<Rightarrow> string list option
     \<Rightarrow> desktop_room_backup_settings \<Rightarrow> desktop_room_source \<Rightarrow> string
     \<Rightarrow> (desktop_room_source \<times> (room_backup_success, room_backup_command_error) result) io"
where
  "command_restore_backup enc dec environment document_dir listing st src file_name =
     (case configured_backup_directory environment document_dir st of
        Inl e \<Rightarrow> io_return (src, Err e)
      | Inr (directory, _) \<Rightarrow> restore_selected_rooms enc dec listing src directory file_name)"

end
