(* ===== verification/Room_Command_Claims.thy ===== *)
theory Room_Command_Claims
  imports Room_Commands Room_Backups
begin

text \<open>
  What a user of the interface can rely on: through any commands, failing file operations, crashes
  and restarts the bundled Rooms stay, and every Room keeps its owner and an AI, as long as the
  backups that are restored have both in every Room.
\<close>

section \<open>Guarded Rooms\<close>

definition room_guarded :: "room \<Rightarrow> bool" where
  "room_guarded room \<longleftrightarrow>
     OWNER_PARTICIPANT_ID \<in> set (r_participant_ids room)
     \<and> (\<exists>i \<in> set (r_participant_ids room). i \<noteq> OWNER_PARTICIPANT_ID)"

definition guarded :: "room_snapshot \<Rightarrow> bool" where
  "guarded s \<longleftrightarrow> settled s \<and> (\<forall>room \<in> set (rooms s). room_guarded room)"

lemma bundled_guarded: "guarded bundled_snapshot"
  using bundled_settled
  by (simp add: guarded_def room_guarded_def bundled_snapshot_def
      bundled_dev_room_def bundled_comparison_room_def bundled_mcp_lab_def)

lemma settled_human:
  assumes "settled s" "p \<in> set (participants s)"
  shows "p_kind p = Human \<longleftrightarrow> p = bundled_participant OWNER_PARTICIPANT_ID ''Owner'' Human"
proof -
  have "p_kind p = Human \<longleftrightarrow> p \<in> set (filter (\<lambda>p. p_kind p = Human) (participants s))"
    using assms(2) by simp
  also have "filter (\<lambda>p. p_kind p = Human) (participants s)
      = [bundled_participant OWNER_PARTICIPANT_ID ''Owner'' Human]"
    using assms(1) by (simp add: settled_def owner_settled_def)
  finally show ?thesis by simp
qed

lemma settled_owner:
  assumes "settled s"
  shows "bundled_participant OWNER_PARTICIPANT_ID ''Owner'' Human \<in> set (participants s)"
proof -
  have "bundled_participant OWNER_PARTICIPANT_ID ''Owner'' Human
      \<in> set (filter (\<lambda>p. p_kind p = Human) (participants s))"
    using assms by (simp add: settled_def owner_settled_def del: set_filter)
  then show ?thesis by simp
qed

lemma settled_other_is_ai:
  assumes "settled s" "i \<in> p_id ` set (participants s)" "i \<noteq> OWNER_PARTICIPANT_ID"
  shows "\<exists>p \<in> set (participants s). p_kind p = Ai \<and> p_id p = i"
proof -
  obtain p where p: "p \<in> set (participants s)" "p_id p = i"
    using assms(2) by auto
  then have "p_kind p \<noteq> Human"
    using settled_human [OF assms(1) p(1)] assms(3) by (auto simp: bundled_participant_def)
  then have "p_kind p = Ai"
    by (cases "p_kind p") simp_all
  then show ?thesis
    using p by blast
qed

lemma settled_owner_id:
  assumes "settled (source_snapshot src)" "\<not> poisoned (room_inner src)"
  shows "owner_participant_id src = Some OWNER_PARTICIPANT_ID"
  using assms
  by (simp add: owner_participant_id_def in_memory_snapshot_def settled_def owner_settled_def
      bundled_participant_def)

section \<open>What the commands let through\<close>

datatype room_command =
  Cmd_Create string string
| Cmd_AddParticipant string string
| Cmd_Rename string string
| Cmd_RemoveParticipant string string
| Cmd_Delete string
| Cmd_Write string string "string list" string
| Cmd_Restore "string option" "string option" "string list option" desktop_room_backup_settings string

fun room_command_io ::
  "room_encoder \<Rightarrow> room_decoder \<Rightarrow> string option \<Rightarrow> desktop_room_source \<Rightarrow> room_command \<Rightarrow> (desktop_room_source \<times> bool) io"
where
  "room_command_io enc dec now src (Cmd_Create r n) = io_ok (command_create_room enc now src r n)"
| "room_command_io enc dec now src (Cmd_AddParticipant r p) =
     io_ok (command_add_participant enc now src r p)"
| "room_command_io enc dec now src (Cmd_Rename r n) = io_ok (command_rename_room enc now src r n)"
| "room_command_io enc dec now src (Cmd_RemoveParticipant r p) =
     io_ok (command_remove_participant enc now src r p)"
| "room_command_io enc dec now src (Cmd_Delete r) = io_ok (command_delete_room enc now src r)"
| "room_command_io enc dec now src (Cmd_Write r m rs b) =
     io_ok (command_write_message enc now src r m rs b)"
| "room_command_io enc dec now src (Cmd_Restore environment document_dir listing st name) =
     io_ok (command_restore_backup enc dec environment document_dir listing st src name)"

text \<open>The calls of the source that a command makes.\<close>

definition rooms_guarded :: "room_snapshot \<Rightarrow> bool" where
  "rooms_guarded s \<longleftrightarrow> (\<forall>room \<in> set (rooms s). room_guarded room)"

fun guarded_call :: "(path \<Rightarrow> room_snapshot option) \<Rightarrow> room_call \<Rightarrow> bool" where
  "guarded_call backup (Call_Append draft) \<longleftrightarrow> draft_ok draft"
| "guarded_call backup (Call_Create draft) \<longleftrightarrow>
     create_draft_ok draft
     \<and> r_participant_ids (create_room_of draft) = [OWNER_PARTICIPANT_ID, ''codex'']"
| "guarded_call backup (Call_RemoveParticipant r p t) \<longleftrightarrow> p \<noteq> OWNER_PARTICIPANT_ID"
| "guarded_call backup (Call_Delete r t) \<longleftrightarrow> r \<notin> r_id ` set (rooms bundled_snapshot)"
| "guarded_call backup (Call_Restore q) \<longleftrightarrow> (\<forall>s. backup q = Some s \<longrightarrow> rooms_guarded s)"
| "guarded_call backup _ \<longleftrightarrow> True"

text \<open>The backups that a command restores if it gets that far.\<close>

fun restored_by :: "room_decoder \<Rightarrow> world \<Rightarrow> room_command \<Rightarrow> room_snapshot list" where
  "restored_by dec w (Cmd_Restore environment document_dir listing st name) =
     (case configured_backup_directory environment document_dir st of
        Inl _ \<Rightarrow> []
      | Inr (directory, _) \<Rightarrow>
          (case backup_rooms dec w (directory, name) of None \<Rightarrow> [] | Some s \<Rightarrow> [s]))"
| "restored_by dec w _ = []"

lemma io_ok_map_err: "io_ok (io_map_err f m) = io_ok m"
  by (auto simp: io_ok_def io_map_err_def io_bind_def io_return_def map_err_def is_ok_def fun_eq_iff
      split: outcome.split sum.split)

lemma bundled_room_ids: "r_id ` set (rooms bundled_snapshot) = {''moe-dev-room'', ''comparison-room'', ''mcp-lab''}"
  by (simp add: bundled_snapshot_def bundled_dev_room_def bundled_comparison_room_def bundled_mcp_lab_def)

lemma room_create_draft_participants:
  "room_create_draft_try_new i n ps c = Ok draft \<Longrightarrow> r_participant_ids (create_room_of draft) = ps"
  by (auto simp: room_create_draft_try_new_def split: if_splits)

text \<open>A restore that returns leaves a usable source.\<close>

lemma restore_snapshot_usable:
  assumes "restore_snapshot enc dec src q w = Ret (src', r) w'" "\<not> poisoned (room_inner src)"
  shows "\<not> poisoned (room_inner src')"
  using assms
  by (auto simp: restore_snapshot_def io_bind_def io_return_def in_memory_snapshot_def replace_snapshot_def
      split: outcome.splits sum.splits option.splits if_splits)

lemma restore_command_call:
  assumes "\<not> poisoned (room_inner src)"
  shows "io_ok (command_restore_backup enc dec environment document_dir listing st src name) w = Ret (src, False) w
    \<or> (\<exists>directory b. configured_backup_directory environment document_dir st = Ok (directory, b)
         \<and> io_ok (command_restore_backup enc dec environment document_dir listing st src name) w
             = room_call_io enc dec src (Call_Restore (directory, name)) w)"
proof (cases "configured_backup_directory environment document_dir st")
  case (Inr x)
  obtain directory b where x: "x = (directory, b)"
    by (metis prod.exhaust)
  show ?thesis
  proof (cases "valid_backup_file_name name \<and> latest_backup listing directory w = Ok (directory, name)")
    case True
    have "io_ok (restore_selected_rooms enc dec listing src directory name) w
        = io_ok (restore_snapshot enc dec src (directory, name)) w"
      using True restore_snapshot_usable [OF _ assms]
      by (auto simp: restore_selected_rooms_def io_ok_def io_bind_def io_return_def desktop_list_rooms_def
          list_rooms_def is_ok_def split: outcome.splits sum.splits)
    then show ?thesis
      using Inr by (simp add: command_restore_backup_def x)
  next
    case False
    have "fst q = directory" if "latest_backup listing directory w = Ok q" for q
      using that by (auto simp: latest_backup_def split: if_splits option.splits list.splits)
    then have "restore_selected_rooms enc dec listing src directory name w
        = Ret (src, Err (case latest_backup listing directory w of Inl e \<Rightarrow>
             if valid_backup_file_name name then e else invalid_backup_settings
           | Inr q \<Rightarrow> if valid_backup_file_name name then backup_error ''roomBackupChanged''
                    ''The selected Room backup is no longer the latest backup.''
             else invalid_backup_settings)) w"
      using False by (auto simp: restore_selected_rooms_def split: sum.splits)
    then show ?thesis
      using Inr by (simp add: command_restore_backup_def x io_ok_def io_bind_def io_return_def is_ok_def)
  qed
qed (simp add: command_restore_backup_def io_ok_return io_return_def)

text \<open>A command refuses, or makes one guarded call.\<close>

lemma plain_command_call:
  assumes "settled (source_snapshot src)" "\<not> poisoned (room_inner src)"
    and "\<And>environment document_dir listing st name. c \<noteq> Cmd_Restore environment document_dir listing st name"
  shows "room_command_io enc dec now src c = io_return (src, False)
    \<or> (\<exists>call. room_command_io enc dec now src c = room_call_io enc dec src call \<and> guarded_call backup call)"
proof (cases c)
  case (Cmd_Create r n)
  then show ?thesis
    using settled_owner_id [OF assms(1,2)]
    by (cases "mutation_timestamp now"; cases "room_create_draft_try_new r n [OWNER_PARTICIPANT_ID, ''codex''] (the now)")
      (auto simp: command_create_room_def io_ok_map_err io_ok_return mutation_timestamp_def ok_or_def
        room_create_draft_participants room_create_draft_OkD intro: exI [of _ "Call_Create _"]
        split: option.splits)
next
  case (Cmd_AddParticipant r p)
  then show ?thesis
    by (cases "mutation_timestamp now")
      (auto simp: command_add_participant_def io_ok_map_err io_ok_return
        intro: exI [of _ "Call_AddParticipant r p _"])
next
  case (Cmd_Rename r n)
  then show ?thesis
    by (cases "mutation_timestamp now")
      (auto simp: command_rename_room_def io_ok_map_err io_ok_return intro: exI [of _ "Call_Rename r n _"])
next
  case (Cmd_RemoveParticipant r p)
  have "is_human_participant src OWNER_PARTICIPANT_ID"
    using settled_owner [OF assms(1)] assms(2)
    by (auto simp: is_human_participant_def in_memory_snapshot_def list_ex_iff bundled_participant_def
        intro!: bexI [rotated])
  with Cmd_RemoveParticipant show ?thesis
    by (cases "mutation_timestamp now")
      (auto simp: command_remove_participant_def io_ok_map_err io_ok_return
        intro: exI [of _ "Call_RemoveParticipant r p _"])
next
  case (Cmd_Delete r)
  then show ?thesis
    by (cases "mutation_timestamp now")
      (auto simp: command_delete_room_def io_ok_map_err io_ok_return bundled_room_ids
        intro: exI [of _ "Call_Delete r _"])
next
  case (Cmd_Write r m rs b)
  show ?thesis
  proof (cases "current_timestamp now")
    case (Inr t)
    show ?thesis
    proof (cases "room_message_draft_try_new m r OWNER_PARTICIPANT_ID rs b t []")
      case (Inr draft)
      then have "guarded_call backup (Call_Append draft)"
        using room_message_draft_OkD [of m r OWNER_PARTICIPANT_ID rs b t "[]" None draft]
        by (simp add: room_message_draft_try_new_def)
      moreover have "room_command_io enc dec now src c = room_call_io enc dec src (Call_Append draft)"
        using Cmd_Write \<open>current_timestamp now = Ok t\<close> Inr settled_owner_id [OF assms(1,2)]
        by (simp add: command_write_message_def io_ok_map_err)
      ultimately show ?thesis by blast
    qed (use Cmd_Write \<open>current_timestamp now = Ok t\<close> settled_owner_id [OF assms(1,2)] in
        \<open>simp add: command_write_message_def io_ok_return\<close>)
  qed (use Cmd_Write settled_owner_id [OF assms(1,2)] in \<open>simp add: command_write_message_def io_ok_return\<close>)
qed (use assms(3) in blast)

lemma room_command_call:
  assumes "settled (source_snapshot src)" "\<not> poisoned (room_inner src)"
    and "\<forall>s \<in> set (restored_by dec w c). rooms_guarded s"
  shows "room_command_io enc dec now src c w = Ret (src, False) w
    \<or> (\<exists>call. room_command_io enc dec now src c w = room_call_io enc dec src call w
         \<and> guarded_call (backup_rooms dec w) call)"
proof (cases "\<exists>environment document_dir listing st name. c = Cmd_Restore environment document_dir listing st name")
  case True
  then obtain environment document_dir listing st name
    where c: "c = Cmd_Restore environment document_dir listing st name"
    by blast
  from restore_command_call [OF assms(2), of enc dec environment document_dir listing st name w] show ?thesis
  proof (elim disjE exE conjE)
    fix directory b
    assume directory: "configured_backup_directory environment document_dir st = Ok (directory, b)"
      and run: "io_ok (command_restore_backup enc dec environment document_dir listing st src name) w
        = room_call_io enc dec src (Call_Restore (directory, name)) w"
    then have "guarded_call (backup_rooms dec w) (Call_Restore (directory, name))"
      using assms(3) by (auto simp: c)
    then show ?thesis
      using run by (simp only: c room_command_io.simps) blast
  qed (simp add: c)
next
  case False
  then show ?thesis
    using plain_command_call [OF assms(1,2), of c enc dec now "backup_rooms dec w"]
    by (metis io_return_def)
qed

section \<open>Every change keeps the Rooms guarded\<close>

lemma write_room_guarded:
  assumes "guarded (snapshot_of src)" "\<And>room. r_id (f room) = r_id room"
    and "\<And>room. room \<in> set (rooms (snapshot_of src)) \<Longrightarrow> r_id room = i \<Longrightarrow> room_guarded (f room)"
  shows "guarded (snapshot_of (write_room src i f t))"
proof -
  have "settled (snapshot_of (write_room src i f t))"
    using assms(1,2) keeps_catalog_settled [OF keeps_catalog_intros(2) [of f src i t]]
    by (simp add: guarded_def)
  moreover have "room_guarded room" if "room \<in> set (rooms (snapshot_of (write_room src i f t)))" for room
    using that assms(1,3) set_update_first_subset [of "\<lambda>room. r_id room = i" f "rooms (snapshot_of src)"]
    by (auto simp: write_room_def guarded_def)
  ultimately show ?thesis
    by (simp add: guarded_def)
qed

lemma guarded_room: "guarded s \<Longrightarrow> room \<in> set (rooms s) \<Longrightarrow> room_guarded room"
  by (simp add: guarded_def)

lemma append_guarded: "guarded (snapshot_of src) \<Longrightarrow> guarded (snapshot_of (fst (append_message src d)))"
  by (auto simp: append_message_def Let_def split: option.split intro!: write_room_guarded)
    (auto simp: room_guarded_def dest: guarded_room)

lemma rename_guarded: "guarded (snapshot_of src) \<Longrightarrow> guarded (snapshot_of (fst (rename_room src r n t)))"
  by (auto simp: rename_room_def Let_def split: option.split intro!: write_room_guarded)
    (auto simp: room_guarded_def dest: guarded_room)

lemma add_guarded:
  "guarded (snapshot_of src) \<Longrightarrow> guarded (snapshot_of (fst (add_room_participant src r p t)))"
  by (auto simp: add_room_participant_def Let_def split: option.split intro!: write_room_guarded)
    (auto simp: room_guarded_def dest: guarded_room)

lemma create_guarded:
  assumes "guarded (snapshot_of src)" "room_guarded (create_room_of draft)"
  shows "guarded (snapshot_of (fst (create_room src draft)))"
  using assms ops_keep_catalog(2) [of src draft]
  by (auto simp: guarded_def dest: keeps_catalog_settled)
    (auto simp: create_room_def Let_def split: option.splits if_splits)

text \<open>The guard on the number of participants leaves one beside the owner.\<close>

lemma still_guarded:
  assumes "distinct ids" "i < length ids" "length ids > 2" "OWNER_PARTICIPANT_ID \<in> set ids"
    and "ids ! i \<noteq> OWNER_PARTICIPANT_ID"
  shows "room_guarded (room\<lparr>r_participant_ids := vec_remove i ids\<rparr>)"
proof -
  have "set (vec_remove i ids) = set ids - {ids ! i}"
    using assms(1,2) by (rule set_vec_remove_distinct)
  moreover have "card (set ids - {ids ! i} - {OWNER_PARTICIPANT_ID}) > 0"
    using assms by (simp add: distinct_card)
  then have "set ids - {ids ! i} - {OWNER_PARTICIPANT_ID} \<noteq> {}"
    by (metis card.empty less_numeral_extra(3))
  ultimately show ?thesis
    using assms(4,5) by (auto simp: room_guarded_def)
qed

lemma remove_guarded:
  assumes "guarded (snapshot_of src)" "store_ok src" "p \<noteq> OWNER_PARTICIPANT_ID"
    "remove_room_participant src r p t = (src', Ok y)"
  shows "guarded (snapshot_of src')"
proof (cases "src' = src")
  case False
  let ?P = "\<lambda>room. r_id room = r"
  obtain room i where room: "find ?P (rooms (snapshot_of src)) = Some room"
      "position (\<lambda>existing. existing = p) (r_participant_ids room) = Some i"
      "length (r_participant_ids room) > 2"
    and src': "src' = write_room src r
        (\<lambda>room. room\<lparr>r_participant_ids := vec_remove i (r_participant_ids room)\<rparr>) t"
    using assms(4) False by (auto simp: remove_room_participant_def Let_def split: if_splits option.splits)
  have member: "room \<in> set (rooms (snapshot_of src))" "r_id room = r"
    using room(1) by (auto simp: find_Some_iff)
  have ids: "distinct (map r_id (rooms (snapshot_of src)))" "distinct (r_participant_ids room)"
    using assms(2) member(1) by (auto simp: store_ok_def snapshot_ok_def room_ok_def)
  have "x = room" if "x \<in> set (rooms (snapshot_of src))" "r_id x = r" for x
    using that member ids(1) by (metis distinct_map inj_onD)
  moreover have "room_guarded (room\<lparr>r_participant_ids := vec_remove i (r_participant_ids room)\<rparr>)"
    using still_guarded ids(2) position_SomeD [OF room(2)] room(3) guarded_room [OF assms(1) member(1)]
      assms(3) by (auto simp: room_guarded_def)
  ultimately show ?thesis
    unfolding src' by (intro write_room_guarded [OF assms(1)]) auto
qed (use assms(1) in simp)

lemma delete_guarded:
  fixes backup :: "path \<Rightarrow> room_snapshot option"
  assumes "guarded (snapshot_of src)" "r \<notin> r_id ` set (rooms bundled_snapshot)"
    "delete_room src r t = (src', Ok y)"
  shows "guarded (snapshot_of src')"
proof -
  have "settled (snapshot_of src')"
    using room_change_settled [OF room_change.delete [OF assms(3), of backup]] assms(1,2)
    by (simp add: guarded_def)
  moreover have "set (rooms (snapshot_of src')) \<subseteq> set (rooms (snapshot_of src))"
    using assms(3) set_vec_remove_subset
    by (fastforce simp: delete_room_def Let_def split: if_splits option.splits)
  ultimately show ?thesis
    using assms(1) by (auto simp: guarded_def)
qed

lemma room_change_guarded:
  assumes "room_change backup src call src'" "store_ok src" "guarded (snapshot_of src)" "guarded_call backup call"
  shows "guarded (snapshot_of src')"
  using assms
proof (induction rule: room_change.induct)
  case (append src draft src' x)
  then show ?case using append_guarded [of src draft] by simp
next
  case (create src draft src' y)
  then have "room_guarded (create_room_of draft)"
    by (simp add: room_guarded_def)
  then show ?case
    using create create_guarded [of src draft] by simp
next
  case (add src r p t src' y)
  then show ?case using add_guarded [of src r p t] by simp
next
  case (rename src r n t src' y)
  then show ?case using rename_guarded [of src r n t] by simp
next
  case (remove src r p t src' y)
  then show ?case using remove_guarded [of src p r t src' y] by simp
next
  case (delete src r t src' y)
  then show ?case using delete_guarded [of src r t src' y] by simp
next
  case (restore q s src)
  then show ?case by (simp add: guarded_def rooms_guarded_def)
qed

section \<open>The life of the application\<close>

text \<open>What happens to the source: a command of the interface, or the message of an AI. Every call may
  meet its own failing file operations; a crash is followed by a start.\<close>

datatype room_act = By_Command room_command | By_AiMessage room_message_draft

fun room_act_io ::
  "room_encoder \<Rightarrow> room_decoder \<Rightarrow> string option \<Rightarrow> desktop_room_source \<Rightarrow> room_act
     \<Rightarrow> (desktop_room_source \<times> bool) io"
where
  "room_act_io enc dec now src (By_Command c) = room_command_io enc dec now src c"
| "room_act_io enc dec now src (By_AiMessage draft) = room_call_io enc dec src (Call_Append draft)"

text \<open>Every draft that the code can make is valid.\<close>

fun act_ok :: "room_act \<Rightarrow> bool" where
  "act_ok (By_AiMessage draft) \<longleftrightarrow> draft_ok draft"
| "act_ok _ \<longleftrightarrow> True"

fun act_restores :: "room_decoder \<Rightarrow> world \<Rightarrow> room_act \<Rightarrow> room_snapshot list" where
  "act_restores dec w (By_Command c) = restored_by dec w c"
| "act_restores dec w (By_AiMessage draft) = []"

text \<open>The life remembers the backups that were restored.\<close>

inductive room_life ::
  "room_encoder \<Rightarrow> room_decoder \<Rightarrow> path \<Rightarrow> room_snapshot list \<Rightarrow> desktop_room_source \<Rightarrow> world \<Rightarrow> bool"
  for enc dec p
where
  first_start: "files w p = None \<Longrightarrow> files w (room_backup_path p) = None \<Longrightarrow> faults w = [] \<Longrightarrow>
     room_start enc dec p w = Ret (Ok src) w' \<Longrightarrow> room_life enc dec p [] src w'"
| act: "room_life enc dec p backups src w \<Longrightarrow> act_ok a \<Longrightarrow>
     room_act_io enc dec now src a (w\<lparr>faults := fs\<rparr>) = Ret (src', b) w' \<Longrightarrow>
     room_life enc dec p (act_restores dec w a @ backups) src' w'"
| crash: "room_life enc dec p backups src w \<Longrightarrow> act_ok a \<Longrightarrow>
     room_act_io enc dec now src a (w\<lparr>faults := fs\<rparr>) = Crashed w' \<Longrightarrow>
     room_start enc dec p (w'\<lparr>faults := []\<rparr>) = Ret (Ok src') w'' \<Longrightarrow>
     room_life enc dec p (act_restores dec w a @ backups) src' w''"
| stop: "room_life enc dec p backups src w \<Longrightarrow>
     room_start enc dec p (w\<lparr>faults := []\<rparr>) = Ret (Ok src') w' \<Longrightarrow> room_life enc dec p backups src' w'"

definition in_order :: "room_decoder \<Rightarrow> path \<Rightarrow> desktop_room_source \<Rightarrow> world \<Rightarrow> bool" where
  "in_order dec p src w \<longleftrightarrow> at_rest dec p src w \<and> guarded (source_snapshot src)"

lemma restored_by_faults [simp]: "restored_by dec (w\<lparr>faults := fs\<rparr>) c = restored_by dec w c"
  by (cases c) (simp_all split: sum.split prod.split)

lemma room_act_call:
  assumes "in_order dec p src w" "act_ok a" "\<forall>s \<in> set (act_restores dec w a). rooms_guarded s"
  shows "room_act_io enc dec now src a (w\<lparr>faults := fs\<rparr>) = Ret (src, False) (w\<lparr>faults := fs\<rparr>)
    \<or> (\<exists>call. room_act_io enc dec now src a (w\<lparr>faults := fs\<rparr>) = room_call_io enc dec src call (w\<lparr>faults := fs\<rparr>)
         \<and> guarded_call (backup_rooms dec w) call)"
proof (cases a)
  case (By_Command c)
  then show ?thesis
    using room_command_call [of src dec "w\<lparr>faults := fs\<rparr>" c enc now] assms(1,3)
    by (simp add: in_order_def guarded_def at_rest_def)
next
  case (By_AiMessage draft)
  then show ?thesis
    using assms(2) by (intro disjI2 exI [of _ "Call_Append draft"]) simp
qed

lemma guarded_call_ok: "guarded_call backup call \<Longrightarrow> call_ok call" "guarded_call backup call \<Longrightarrow> \<not> deletes_bundled call"
  by (cases call; simp)+

lemma at_rest_faults: "at_rest dec p src (w\<lparr>faults := fs\<rparr>) = at_rest dec p src w"
  by (simp add: at_rest_def on_disk_def file_holds_def)

lemma act_returns:
  assumes "faithful_room_codec enc dec" "in_order dec p src w" "act_ok a"
    and "\<forall>s \<in> set (act_restores dec w a). rooms_guarded s"
    and "room_act_io enc dec now src a (w\<lparr>faults := fs\<rparr>) = Ret (src', b) w'"
  shows "in_order dec p src' w'"
  using room_act_call [OF assms(2-4), of enc now fs]
proof (elim disjE exE conjE)
  assume "room_act_io enc dec now src a (w\<lparr>faults := fs\<rparr>) = Ret (src, False) (w\<lparr>faults := fs\<rparr>)"
  then show ?thesis
    using assms(2,5) by (auto simp: in_order_def at_rest_faults)
next
  fix call
  assume call: "room_act_io enc dec now src a (w\<lparr>faults := fs\<rparr>) = room_call_io enc dec src call (w\<lparr>faults := fs\<rparr>)"
    and guard: "guarded_call (backup_rooms dec w) call"
  have rest: "at_rest dec p src (w\<lparr>faults := fs\<rparr>)"
    using assms(2) by (simp add: in_order_def at_rest_faults)
  have "settles_to dec p src (room_change (backup_rooms dec w) (room_inner src) call) (src', b) w'"
    using wp_Ret [OF wp_room_call [OF assms(1) rest guarded_call_ok(1) [OF guard]]] assms(5) call
    by simp
  then show ?thesis
    using assms(2) guard room_change_guarded [of "backup_rooms dec w" "room_inner src" call "room_inner src'"]
    by (auto simp: settles_to_def in_order_def at_rest_def split: if_splits)
qed

lemma start_in_order:
  assumes "at_rest dec p src w" "guarded (source_snapshot src)" "faults w = []"
    and "room_path_is_absolute p" "snd p \<noteq> []" "room_start enc dec p w = Ret (Ok src') w'"
  shows "in_order dec p src' w'"
proof -
  have "room_start enc dec p w =
      Ret (Ok \<lparr>room_inner = \<lparr>snapshot_of = source_snapshot src, poisoned = False\<rparr>,
        room_persistence = Some p\<rparr>) w"
    using assms by (intro room_start_on_disk) (simp_all add: at_rest_def store_ok_def guarded_def)
  then show ?thesis
    using assms(1,2,6) by (auto simp: in_order_def at_rest_def store_ok_def)
qed

lemma act_crashes:
  assumes "faithful_room_codec enc dec" "in_order dec p src w" "act_ok a"
    and "\<forall>s \<in> set (act_restores dec w a). rooms_guarded s"
    and "room_act_io enc dec now src a (w\<lparr>faults := fs\<rparr>) = Crashed w'"
    and "room_path_is_absolute p" "snd p \<noteq> []"
    and "room_start enc dec p (w'\<lparr>faults := []\<rparr>) = Ret (Ok src') w''"
  shows "in_order dec p src' w''"
  using room_act_call [OF assms(2-4), of enc now fs]
proof (elim disjE exE conjE)
  assume "room_act_io enc dec now src a (w\<lparr>faults := fs\<rparr>) = Ret (src, False) (w\<lparr>faults := fs\<rparr>)"
  then show ?thesis
    using assms(5) by simp
next
  fix call
  assume call: "room_act_io enc dec now src a (w\<lparr>faults := fs\<rparr>) = room_call_io enc dec src call (w\<lparr>faults := fs\<rparr>)"
    and guard: "guarded_call (backup_rooms dec w) call"
  have src: "at_rest dec p src (w\<lparr>faults := fs\<rparr>)" "guarded (source_snapshot src)"
    using assms(2) by (simp_all add: in_order_def at_rest_faults)
  have found: ?thesis
    if "on_disk dec p (snapshot_of inner) w'" "inner = room_inner src \<or> room_change (backup_rooms dec w) (room_inner src) call inner"
    for inner
  proof (rule start_in_order [OF _ _ _ assms(6-8)])
    have "store_ok inner \<and> poisoned inner = poisoned (room_inner src) \<and> guarded (snapshot_of inner)"
      using that(2) src guard room_change_ok [of "backup_rooms dec w" "room_inner src" call inner] guarded_call_ok(1)
        room_change_guarded [of "backup_rooms dec w" "room_inner src" call inner] by (auto simp: at_rest_def)
    then show "at_rest dec p (src\<lparr>room_inner := inner\<rparr>) (w'\<lparr>faults := []\<rparr>)"
      "guarded (source_snapshot (src\<lparr>room_inner := inner\<rparr>))"
      using that(1) src(1) unfolding at_rest_faults by (simp_all add: at_rest_def)
  qed simp
  have "cut_off dec p src (room_change (backup_rooms dec w) (room_inner src) call) w'"
    using wp_Crashed [OF wp_room_call [OF assms(1) src(1) guarded_call_ok(1) [OF guard]]] assms(5) call
    by simp
  then show ?thesis
    using found by (auto simp: cut_off_def)
qed

lemma room_life_in_order:
  assumes "faithful_room_codec enc dec" "room_path_is_absolute p" "snd p \<noteq> []"
    and "room_life enc dec p backups src w" "\<forall>s \<in> set backups. rooms_guarded s"
  shows "in_order dec p src w"
  using assms(4,5)
proof (induction rule: room_life.induct)
  case (first_start w src w')
  let ?src = "\<lparr>room_inner = \<lparr>snapshot_of = bundled_snapshot, poisoned = False\<rparr>, room_persistence = Some p\<rparr>"
  have "at_rest dec p ?src w"
    using first_start by (simp add: at_rest_def store_ok_def bundled_ok on_disk_def)
  moreover have "guarded (source_snapshot ?src)"
    by (simp add: bundled_guarded)
  ultimately show ?case
    using start_in_order [OF _ _ first_start(3) assms(2,3) first_start(4)] by blast
next
  case (act backups src w a now fs src' b w')
  then show ?case using act_returns [OF assms(1) _ act.hyps(2) _ act.hyps(3)] by simp
next
  case (crash backups src w a now fs w' src' w'')
  then show ?case
    using act_crashes [OF assms(1) _ crash.hyps(2) _ crash.hyps(3) assms(2,3) crash.hyps(4)] by simp
next
  case (stop backups src w src' w')
  then show ?case
    using start_in_order [of dec p src "w\<lparr>faults := []\<rparr>" enc src' w'] assms(2,3)
    unfolding in_order_def at_rest_faults by simp
qed

lemma guarded_room_members:
  assumes "guarded s" "snapshot_ok s" "room \<in> set (rooms s)"
  shows "OWNER_PARTICIPANT_ID \<in> set (r_participant_ids room)
    \<and> (\<exists>p \<in> set (participants s). p_kind p = Ai \<and> p_id p \<in> set (r_participant_ids room))"
proof -
  obtain i where i: "OWNER_PARTICIPANT_ID \<in> set (r_participant_ids room)"
      "i \<in> set (r_participant_ids room)" "i \<noteq> OWNER_PARTICIPANT_ID"
    using guarded_room [OF assms(1,3)] by (auto simp: room_guarded_def)
  then have "i \<in> p_id ` set (participants s)"
    using assms(2,3) unfolding snapshot_ok_def room_ok_def by blast
  then show ?thesis
    using settled_other_is_ai [of s i] assms(1) i by (auto simp: guarded_def)
qed

text \<open>C8: From the first start on, through any commands of the interface, messages of AI participants,
  failing file operations, crashes and restarts, the Rooms in memory are valid and the ones on disk,
  the bundled Rooms are there, and every Room keeps the owner and at least one AI participant. The
  one condition: in every backup that the owner restored each Room has the owner and another
  participant, as a restore puts the Rooms of the file there without looking for them.\<close>

theorem rooms_keep_owner_and_ai:
  assumes "faithful_room_codec enc dec" "room_path_is_absolute p" "snd p \<noteq> []"
    and "room_life enc dec p backups src w"
    and "\<forall>s \<in> set backups. \<forall>room \<in> set (rooms s). room_guarded room"
  shows "at_rest dec p src w
    \<and> r_id ` set (rooms bundled_snapshot) \<subseteq> r_id ` set (rooms (source_snapshot src))
    \<and> (\<forall>room \<in> set (rooms (source_snapshot src)).
        OWNER_PARTICIPANT_ID \<in> set (r_participant_ids room)
        \<and> (\<exists>q \<in> set (participants (source_snapshot src)).
              p_kind q = Ai \<and> p_id q \<in> set (r_participant_ids room)))"
proof -
  have "at_rest dec p src w" "guarded (source_snapshot src)"
    using room_life_in_order [OF assms(1-4)] assms(5) by (simp_all add: in_order_def rooms_guarded_def)
  moreover have "snapshot_ok (source_snapshot src)"
    using calculation(1) by (simp add: at_rest_def store_ok_def)
  moreover have "r_id ` set (rooms bundled_snapshot) \<subseteq> r_id ` set (rooms (source_snapshot src))"
    using calculation(2) by (simp add: guarded_def settled_def has_bundled_def)
  ultimately show ?thesis
    using guarded_room_members by blast
qed

text \<open>A renaming after the first start.\<close>

lemma example_room_life:
  "\<exists>w. room_life example_room_enc example_room_dec example_room_path []
    (example_room_source\<lparr>room_inner := example_renamed\<rparr>) w"
proof -
  let ?w = "example_room_world (\<lambda>_. None) []"
  have path: "room_path_is_absolute example_room_path" "snd example_room_path \<noteq> []"
    by (simp_all add: room_path_is_absolute_def) (simp add: example_room_path_def ROOM_FILE_NAME_def)
  have "room_start example_room_enc example_room_dec example_room_path ?w = Ret (Ok example_room_source) ?w"
    using room_start_on_disk [of example_room_dec example_room_path bundled_snapshot ?w] path
    by (simp add: on_disk_def bundled_ok bundled_settled example_room_source_def)
  then have start: "room_life example_room_enc example_room_dec example_room_path [] example_room_source ?w"
    by (intro room_life.first_start [of ?w]) simp_all
  obtain w' where rename: "room_call_io example_room_enc example_room_dec example_room_source example_room_call ?w
      = Ret (example_room_source\<lparr>room_inner := example_renamed\<rparr>, True) w'"
    using example_room_call_returns by blast
  have "room_act_io example_room_enc example_room_dec (Some ''t'') example_room_source
      (By_Command (Cmd_Rename ''mcp-lab'' ''Lab'')) (?w\<lparr>faults := []\<rparr>)
    = Ret (example_room_source\<lparr>room_inner := example_renamed\<rparr>, True) w'"
    using rename by (simp add: command_rename_room_def mutation_timestamp_def ok_or_def io_ok_map_err
        example_room_world_def)
  then have "room_life example_room_enc example_room_dec example_room_path
      (act_restores example_room_dec ?w (By_Command (Cmd_Rename ''mcp-lab'' ''Lab'')) @ [])
      (example_room_source\<lparr>room_inner := example_renamed\<rparr>) w'"
    by (rule room_life.act [OF start, rotated]) simp
  then show ?thesis by auto
qed

theorem rooms_keep_owner_and_ai_witness:
  "\<exists>w. at_rest example_room_dec example_room_path (example_room_source\<lparr>room_inner := example_renamed\<rparr>) w"
proof -
  have "room_path_is_absolute example_room_path" "snd example_room_path \<noteq> []"
    by (simp_all add: room_path_is_absolute_def) (simp add: example_room_path_def ROOM_FILE_NAME_def)
  moreover have "\<forall>s \<in> set []. \<forall>room \<in> set (rooms s). room_guarded room"
    by simp
  ultimately show ?thesis
    using rooms_keep_owner_and_ai [OF example_room_codec] example_room_life by blast
qed

end
