(* ===== verification/Adapter_Sdk.thy ===== *)
theory Adapter_Sdk
  imports Btree_Map Protocol
begin

text \<open>
  The interface to the AI providers (\<open>crates/moe-adapter-sdk/src/lib.rs\<close>) and the turns that can
  be stopped (\<open>apps/desktop/src-tauri/src/turn\_cancellation.rs\<close>). A \<open>TextTurnCancellation\<close> is a
  shared flag: clones of it are the same address, and the flags are in a store.
\<close>

section \<open>The shared flags\<close>

type_synonym text_turn_cancellation = nat

record cancellation_flags =
  flag_set :: "nat \<Rightarrow> bool"
  next_flag :: nat

definition flags_default :: cancellation_flags where
  "flags_default = \<lparr>flag_set = (\<lambda>_. False), next_flag = 0\<rparr>"

definition new_cancellation :: "cancellation_flags \<Rightarrow> cancellation_flags \<times> text_turn_cancellation" where
  "new_cancellation flags =
     (\<lparr>flag_set = (flag_set flags)(next_flag flags := False), next_flag = next_flag flags + 1\<rparr>, next_flag flags)"

definition cancel_turn :: "cancellation_flags \<Rightarrow> text_turn_cancellation \<Rightarrow> cancellation_flags" where
  "cancel_turn flags c = flags\<lparr>flag_set := (flag_set flags)(c := True)\<rparr>"

definition is_cancelled :: "cancellation_flags \<Rightarrow> text_turn_cancellation \<Rightarrow> bool" where
  "is_cancelled flags c = flag_set flags c"

section \<open>Requests and responses\<close>

datatype text_turn_continuity = StartPersistent | Resume string

fun continuity_session_id :: "text_turn_continuity \<Rightarrow> string option" where
  "continuity_session_id StartPersistent = None"
| "continuity_session_id (Resume session_id) = Some session_id"

datatype text_turn_workspace_access = Access_ReadOnly | Access_ReadWrite

record text_turn_workspace =
  turn_workspace_root :: string
  turn_workspace_access :: text_turn_workspace_access

record text_turn_request =
  turn_dispatch_id :: string
  turn_prompt :: string
  turn_model :: "string option"
  turn_room_id :: "string option"
  turn_workspace :: "text_turn_workspace option"
  turn_continuity :: "text_turn_continuity option"
  turn_cancellation :: "text_turn_cancellation option"

text \<open>\<open>new\<close> makes a flag of its own, which \<open>with\_cancellation\<close> replaces; it is \<open>None\<close> here.\<close>

definition text_turn_request_new :: "string \<Rightarrow> string \<Rightarrow> text_turn_request" where
  "text_turn_request_new i prompt =
     \<lparr>turn_dispatch_id = i, turn_prompt = prompt, turn_model = None, turn_room_id = None,
      turn_workspace = None, turn_continuity = None, turn_cancellation = None\<rparr>"

definition with_workspace :: "text_turn_workspace \<Rightarrow> text_turn_request \<Rightarrow> text_turn_request" where
  "with_workspace workspace request = request\<lparr>turn_workspace := Some workspace\<rparr>"

definition with_model :: "string \<Rightarrow> text_turn_request \<Rightarrow> text_turn_request" where
  "with_model model request = request\<lparr>turn_model := Some model\<rparr>"

definition with_room_id :: "string \<Rightarrow> text_turn_request \<Rightarrow> text_turn_request" where
  "with_room_id room_id request = request\<lparr>turn_room_id := Some room_id\<rparr>"

definition with_continuity :: "text_turn_continuity \<Rightarrow> text_turn_request \<Rightarrow> text_turn_request" where
  "with_continuity continuity request = request\<lparr>turn_continuity := Some continuity\<rparr>"

definition with_cancellation :: "text_turn_cancellation \<Rightarrow> text_turn_request \<Rightarrow> text_turn_request" where
  "with_cancellation c request = request\<lparr>turn_cancellation := Some c\<rparr>"

lemmas text_turn_builders = text_turn_request_new_def with_workspace_def with_model_def
  with_room_id_def with_continuity_def with_cancellation_def

record text_turn_response =
  response_text :: string
  response_session_id :: "string option"
  response_artifact_ids :: "string list"

definition text_turn_response_new :: "string \<Rightarrow> text_turn_response" where
  "text_turn_response_new body = \<lparr>response_text = body, response_session_id = None, response_artifact_ids = []\<rparr>"

definition with_session_id :: "string \<Rightarrow> text_turn_response \<Rightarrow> text_turn_response" where
  "with_session_id session_id response = response\<lparr>response_session_id := Some session_id\<rparr>"

definition with_artifact_ids :: "string list \<Rightarrow> text_turn_response \<Rightarrow> text_turn_response" where
  "with_artifact_ids ids response = response\<lparr>response_artifact_ids := ids\<rparr>"

datatype text_turn_error =
  Turn_Unavailable | Turn_WorkspaceUnavailable | Turn_WorkspaceSandboxUnavailable | Turn_TimedOut
| Turn_Rejected | Turn_ClientUpdateRequired | Turn_PreflightFailure | Turn_ConfirmedFailure
| Turn_InvalidResponse | Turn_Cancelled

section \<open>Turns that can be stopped\<close>

record active_turn =
  active_room_id :: string
  active_cancellation :: text_turn_cancellation

record desktop_turn_cancellations =
  active_turns :: "(string, active_turn) btree"
  turn_flags :: cancellation_flags
  turns_poisoned :: bool

definition turn_cancellations_default :: desktop_turn_cancellations where
  "turn_cancellations_default = \<lparr>active_turns = [], turn_flags = flags_default, turns_poisoned = False\<rparr>"

definition register_turn ::
  "desktop_turn_cancellations \<Rightarrow> string \<Rightarrow> string
     \<Rightarrow> desktop_turn_cancellations \<times> (text_turn_cancellation, unit) result"
where
  "register_turn turns room_id i =
     (let (flags, c) = new_cancellation (turn_flags turns);
          turns1 = turns\<lparr>turn_flags := flags\<rparr> in
      if turns_poisoned turns then (turns1, Err ())
      else if bt_contains_key (active_turns turns) i then (turns1, Err ())
      else (turns1\<lparr>active_turns :=
              bt_insert i \<lparr>active_room_id = room_id, active_cancellation = c\<rparr> (active_turns turns)\<rparr>, Ok c))"

definition cancel_room_turn ::
  "string \<Rightarrow> active_turn \<Rightarrow> cancellation_flags \<times> nat \<Rightarrow> cancellation_flags \<times> nat"
where
  "cancel_room_turn room_id turn = (\<lambda>(flags, cancelled).
     if active_room_id turn = room_id \<and> \<not> is_cancelled flags (active_cancellation turn)
     then (cancel_turn flags (active_cancellation turn), cancelled + 1) else (flags, cancelled))"

definition cancel_room :: "desktop_turn_cancellations \<Rightarrow> string \<Rightarrow> desktop_turn_cancellations \<times> nat" where
  "cancel_room turns room_id =
     (if turns_poisoned turns then (turns, 0)
      else
        (let (flags, cancelled) =
               fold (cancel_room_turn room_id) (map snd (active_turns turns)) (turn_flags turns, 0) in
         (turns\<lparr>turn_flags := flags\<rparr>, cancelled)))"

text \<open>The \<open>drop\<close> of a \<open>RegisteredTurn\<close>.\<close>

definition remove_turn :: "desktop_turn_cancellations \<Rightarrow> string \<Rightarrow> desktop_turn_cancellations" where
  "remove_turn turns i =
     (if turns_poisoned turns then turns else turns\<lparr>active_turns := bt_remove i (active_turns turns)\<rparr>)"

text \<open>The command that stops the turns of a Room: up to 21 looks, with what happens between two looks
  (25 milliseconds) as a parameter; the dispatcher's and the orchestrator's turns.\<close>

definition cancel_both ::
  "desktop_turn_cancellations \<times> desktop_turn_cancellations \<Rightarrow> string
     \<Rightarrow> (desktop_turn_cancellations \<times> desktop_turn_cancellations) \<times> nat"
where
  "cancel_both = (\<lambda>(dispatcher, orchestrator) room_id.
     (let (dispatcher', m) = cancel_room dispatcher room_id;
          (orchestrator', n) = cancel_room orchestrator room_id in
      ((dispatcher', orchestrator'), m + n)))"

fun cancel_attempts ::
  "nat \<Rightarrow> (desktop_turn_cancellations \<times> desktop_turn_cancellations
             \<Rightarrow> desktop_turn_cancellations \<times> desktop_turn_cancellations)
     \<Rightarrow> desktop_turn_cancellations \<times> desktop_turn_cancellations \<Rightarrow> string
     \<Rightarrow> (desktop_turn_cancellations \<times> desktop_turn_cancellations) \<times> nat"
where
  "cancel_attempts attempts meanwhile both room_id =
     (let (both1, cancelled) = cancel_both both room_id in
      if cancelled > 0 \<or> attempts = 0 then (both1, cancelled)
      else cancel_attempts (attempts - 1) meanwhile (meanwhile both1) room_id)"

declare cancel_attempts.simps [simp del]

definition room_cancel_turn ::
  "(desktop_turn_cancellations \<times> desktop_turn_cancellations
      \<Rightarrow> desktop_turn_cancellations \<times> desktop_turn_cancellations)
     \<Rightarrow> bool \<Rightarrow> desktop_turn_cancellations \<times> desktop_turn_cancellations \<Rightarrow> string
     \<Rightarrow> (desktop_turn_cancellations \<times> desktop_turn_cancellations) \<times> (nat, string) result"
where
  "room_cancel_turn meanwhile message_found both room_id =
     (if \<not> message_found then (both, Err ''The Room message to stop is unavailable.'')
      else (let (both1, cancelled) = cancel_attempts 20 meanwhile both room_id in (both1, Ok cancelled)))"

section \<open>What stopping a Room does\<close>

text \<open>The active turns have flags of their own that exist.\<close>

definition turns_ok :: "desktop_turn_cancellations \<Rightarrow> bool" where
  "turns_ok turns \<longleftrightarrow>
     bt_ok (active_turns turns)
     \<and> distinct (map (active_cancellation \<circ> snd) (active_turns turns))
     \<and> (\<forall>x \<in> set (active_turns turns). active_cancellation (snd x) < next_flag (turn_flags turns))"

lemma bt_insert_absent_set:
  "bt_get m k = None \<Longrightarrow> set (bt_insert k v m) = insert (k, v) (set m)"
  by (induction k v m rule: bt_insert.induct) (auto split: if_splits)

lemma bt_insert_absent_distinct:
  assumes "bt_get m k = None" "distinct (map f m)" "\<forall>x \<in> set m. f x \<noteq> f (k, v)"
  shows "distinct (map f (bt_insert k v m))"
  using assms
proof (induction k v m rule: bt_insert.induct)
  case (2 k v a b m)
  then show ?case
    using bt_insert_absent_set [of m k v] by (auto split: if_splits)
qed simp

lemma turns_ok_default: "turns_ok turn_cancellations_default"
  by (simp add: turns_ok_def turn_cancellations_default_def)

lemma turns_ok_register:
  assumes "turns_ok turns"
  shows "turns_ok (fst (register_turn turns room_id i))"
proof (cases "turns_poisoned turns \<or> bt_contains_key (active_turns turns) i")
  case True
  then show ?thesis
    using assms by (auto simp: register_turn_def turns_ok_def new_cancellation_def Let_def less_SucI)
next
  case False
  then have "bt_get (active_turns turns) i = None"
    by (simp add: bt_contains_key_def)
  then show ?thesis
    using assms False bt_insert_absent_set [of "active_turns turns" i]
    by (auto simp: register_turn_def turns_ok_def new_cancellation_def Let_def less_SucI
        intro!: bt_insert_absent_distinct dest: order.strict_implies_not_eq)
qed

lemma turns_ok_remove:
  assumes "turns_ok turns"
  shows "turns_ok (remove_turn turns i)"
proof (cases "turns_poisoned turns")
  case False
  have "set (bt_remove i (active_turns turns)) \<subseteq> set (active_turns turns)"
    unfolding bt_remove_def by (rule filter_is_subset)
  moreover have "distinct (map (active_cancellation \<circ> snd) (bt_remove i (active_turns turns)))"
    using assms unfolding turns_ok_def bt_remove_def by (intro distinct_map_filter) simp
  moreover have "bt_ok (bt_remove i (active_turns turns))"
    using assms by (simp add: turns_ok_def)
  ultimately show ?thesis
    using assms False by (auto simp: turns_ok_def remove_turn_def)
qed (use assms in \<open>simp add: remove_turn_def\<close>)

lemma cancel_room_turns_flags:
  assumes "fold (cancel_room_turn room_id) turns (flags, n) = (flags', n')"
    and "distinct (map active_cancellation turns)"
  shows "next_flag flags' = next_flag flags
    \<and> (\<forall>c. flag_set flags' c \<longleftrightarrow> flag_set flags c
          \<or> (\<exists>turn \<in> set turns. active_room_id turn = room_id \<and> active_cancellation turn = c))
    \<and> n' = n + length (filter (\<lambda>turn. active_room_id turn = room_id
          \<and> \<not> flag_set flags (active_cancellation turn)) turns)"
  using assms
proof (induction turns arbitrary: flags n)
  case (Cons turn turns)
  obtain flags1 n1 where step: "cancel_room_turn room_id turn (flags, n) = (flags1, n1)"
    by fastforce
  have flags1: "flag_set flags1 c \<longleftrightarrow> flag_set flags c
      \<or> active_room_id turn = room_id \<and> active_cancellation turn = c" for c
    using step by (auto simp: cancel_room_turn_def is_cancelled_def cancel_turn_def split: if_splits)
  have next1: "next_flag flags1 = next_flag flags"
    using step by (auto simp: cancel_room_turn_def cancel_turn_def split: if_splits)
  have same: "filter (\<lambda>t. active_room_id t = room_id \<and> \<not> flag_set flags1 (active_cancellation t)) turns
      = filter (\<lambda>t. active_room_id t = room_id \<and> \<not> flag_set flags (active_cancellation t)) turns"
    using Cons.prems(2) flags1 by (intro filter_cong) auto
  have rest: "fold (cancel_room_turn room_id) turns (flags1, n1) = (flags', n')"
    using Cons.prems(1) step by simp
  have distinct: "distinct (map active_cancellation turns)"
    using Cons.prems(2) by simp
  note IH = Cons.IH [OF rest distinct, unfolded same]
  have n1: "n1 = n + length (filter (\<lambda>t. active_room_id t = room_id
      \<and> \<not> flag_set flags (active_cancellation t)) [turn])"
    using step by (auto simp: cancel_room_turn_def is_cancelled_def split: if_splits)
  show ?case
  proof (intro conjI allI)
    fix c
    show "flag_set flags' c \<longleftrightarrow> flag_set flags c
        \<or> (\<exists>t \<in> set (turn # turns). active_room_id t = room_id \<and> active_cancellation t = c)"
      using IH flags1 [of c] by auto
  qed (use IH next1 n1 in auto)
qed simp

lemma turns_ok_cancel:
  assumes "turns_ok turns"
  shows "turns_ok (fst (cancel_room turns room_id))"
proof -
  obtain flags n where run: "fold (cancel_room_turn room_id) (map snd (active_turns turns)) (turn_flags turns, 0)
      = (flags, n)"
    by fastforce
  show ?thesis
    using assms cancel_room_turns_flags [OF run] run
    by (simp add: turns_ok_def cancel_room_def comp_def)
qed

text \<open>C25: Stopping a Room stops exactly its own running turns, each once: afterwards a turn's flag is set
  if it was set before or the turn belongs to the Room; the number reported is that of the turns
  stopped now; the turns of other Rooms go on; and stopping again finds nothing to stop.\<close>

theorem cancelling_stops_exactly_the_room:
  assumes "turns_ok turns" "\<not> turns_poisoned turns" "bt_get (active_turns turns) i = Some turn"
  shows "(is_cancelled (turn_flags (fst (cancel_room turns room_id))) (active_cancellation turn)
        \<longleftrightarrow> is_cancelled (turn_flags turns) (active_cancellation turn) \<or> active_room_id turn = room_id)
    \<and> snd (cancel_room turns room_id)
        = length (filter (\<lambda>t. active_room_id t = room_id
            \<and> \<not> is_cancelled (turn_flags turns) (active_cancellation t)) (map snd (active_turns turns)))
    \<and> active_turns (fst (cancel_room turns room_id)) = active_turns turns
    \<and> snd (cancel_room (fst (cancel_room turns room_id)) room_id) = 0"
proof -
  let ?list = "map snd (active_turns turns)"
  have distinct: "distinct (map active_cancellation ?list)"
    using assms(1) by (simp add: turns_ok_def comp_def)
  obtain flags n where run: "fold (cancel_room_turn room_id) ?list (turn_flags turns, 0) = (flags, n)"
    by fastforce
  note set = cancel_room_turns_flags [OF run distinct]
  obtain flags2 n2 where again: "fold (cancel_room_turn room_id) ?list (flags, 0) = (flags2, n2)"
    by fastforce
  have turn: "turn \<in> set ?list"
    using map_of_SomeD [OF assms(3)] by force
  have own: "t = turn" if "t \<in> set ?list" "active_cancellation t = active_cancellation turn" for t
    using distinct turn that unfolding distinct_map by (metis inj_onD)
  have "n2 = 0"
    using cancel_room_turns_flags [OF again distinct] set by (auto simp: filter_empty_conv)
  moreover have "flag_set flags (active_cancellation turn)
      \<longleftrightarrow> flag_set (turn_flags turns) (active_cancellation turn) \<or> active_room_id turn = room_id"
    using set own turn by metis
  ultimately show ?thesis
    using assms(2) run again set by (simp add: cancel_room_def is_cancelled_def)
qed

definition example_turns :: desktop_turn_cancellations where
  "example_turns = fst (register_turn (fst (register_turn turn_cancellations_default ''r1'' ''a'')) ''r2'' ''b'')"

lemma example_turns_ok: "turns_ok example_turns" "\<not> turns_poisoned example_turns"
  "bt_get (active_turns example_turns) ''a'' = Some \<lparr>active_room_id = ''r1'', active_cancellation = 0\<rparr>"
  unfolding example_turns_def
  by (intro turns_ok_register turns_ok_default)
    (simp_all add: register_turn_def new_cancellation_def turn_cancellations_default_def flags_default_def
      bt_contains_key_def)

theorem cancelling_stops_exactly_the_room_witness:
  "is_cancelled (turn_flags (fst (cancel_room example_turns ''r1''))) 0
   \<and> snd (cancel_room example_turns ''r1'') = 1"
  using cancelling_stops_exactly_the_room [OF example_turns_ok, of "''r1''"]
  by (simp add: example_turns_def register_turn_def new_cancellation_def turn_cancellations_default_def
      flags_default_def bt_contains_key_def is_cancelled_def)

end
