(* ===== verification/Ai_Continuity.thy ===== *)
theory Ai_Continuity
  imports Dispatch_Ledger Settings_File "HOL-Library.Product_Lexorder"
begin

text \<open>
  \<open>DesktopRoomAiContinuity\<close> (\<open>apps/desktop/src-tauri/src/room\_ai\_continuity.rs\<close>): the provider
  session that an AI participant of a Room goes on with, and up to which message it has seen the
  Room. In memory and in a file; the JSON codec is a parameter.
\<close>

section \<open>Bindings\<close>

definition CONTINUITY_FILE_VERSION :: u8 where "CONTINUITY_FILE_VERSION = 1"
definition CONTINUITY_FILE_NAME :: string where "CONTINUITY_FILE_NAME = ''room-ai-continuity-v1.json''"
definition MAXIMUM_CONTINUITY_FILE_BYTES :: nat where "MAXIMUM_CONTINUITY_FILE_BYTES = 256 * 1024"

record room_ai_continuation =
  continuation_session_id :: string
  last_synced_message_id :: string
  continuation_environment_key :: string

datatype room_ai_continuity_error = Continuity_Invalid | Continuity_Io

record persisted_binding =
  binding_room_id :: string
  binding_participant_id :: string
  binding_session_id :: string
  binding_last_synced_message_id :: string
  binding_environment_key :: string

record persisted_continuity_file =
  continuity_file_version :: u8
  continuity_file_bindings :: "persisted_binding list"

type_synonym continuity_bindings = "(string \<times> string, room_ai_continuation) btree"

definition continuity_valid_identifier :: "string \<Rightarrow> bool" where
  "continuity_valid_identifier value \<longleftrightarrow>
     value \<noteq> [] \<and> length value \<le> 128 \<and> list_all entity_id_byte value"

definition valid_session_id :: "string \<Rightarrow> bool" where
  "valid_session_id value \<longleftrightarrow> value \<noteq> [] \<and> length value \<le> 256 \<and> list_all is_ascii_graphic value"

definition valid_environment_key :: "string \<Rightarrow> bool" where
  "valid_environment_key value \<longleftrightarrow>
     value \<noteq> [] \<and> length value \<le> 128 \<and> list_all entity_id_byte value"

section \<open>The file\<close>

record continuity_codec =
  continuity_to_vec :: "persisted_continuity_file \<Rightarrow> string option"
  continuity_from_slice :: "string \<Rightarrow> persisted_continuity_file option"

fun continuity_load_bindings ::
  "persisted_binding list \<Rightarrow> continuity_bindings \<Rightarrow> (continuity_bindings, room_ai_continuity_error) result"
where
  "continuity_load_bindings [] bindings = Ok bindings"
| "continuity_load_bindings (b # bs) bindings =
     (if \<not> continuity_valid_identifier (binding_room_id b)
         \<or> \<not> continuity_valid_identifier (binding_participant_id b)
         \<or> \<not> valid_session_id (binding_session_id b)
         \<or> \<not> continuity_valid_identifier (binding_last_synced_message_id b)
         \<or> \<not> valid_environment_key (binding_environment_key b)
      then Err Continuity_Invalid
      else
        (let key = (binding_room_id b, binding_participant_id b);
             value = \<lparr>continuation_session_id = binding_session_id b,
                      last_synced_message_id = binding_last_synced_message_id b,
                      continuation_environment_key = binding_environment_key b\<rparr> in
         if bt_contains_key bindings key then Err Continuity_Invalid
         else continuity_load_bindings bs (bt_insert key value bindings)))"

definition continuity_decode ::
  "continuity_codec \<Rightarrow> string \<Rightarrow> (continuity_bindings, room_ai_continuity_error) result"
where
  "continuity_decode codec body =
     (case continuity_from_slice codec body of
        None \<Rightarrow> Err Continuity_Invalid
      | Some persisted \<Rightarrow>
          if continuity_file_version persisted \<noteq> CONTINUITY_FILE_VERSION then Err Continuity_Invalid
          else continuity_load_bindings (continuity_file_bindings persisted) [])"

definition persisted_binding_of :: "(string \<times> string) \<times> room_ai_continuation \<Rightarrow> persisted_binding" where
  "persisted_binding_of = (\<lambda>((room_id, participant_id), continuation).
     \<lparr>binding_room_id = room_id, binding_participant_id = participant_id,
      binding_session_id = continuation_session_id continuation,
      binding_last_synced_message_id = last_synced_message_id continuation,
      binding_environment_key = continuation_environment_key continuation\<rparr>)"

definition continuity_encode :: "continuity_codec \<Rightarrow> continuity_bindings \<Rightarrow> string option" where
  "continuity_encode codec bindings =
     continuity_to_vec codec \<lparr>continuity_file_version = CONTINUITY_FILE_VERSION,
       continuity_file_bindings = map persisted_binding_of bindings\<rparr>"

definition continuity_load ::
  "continuity_codec \<Rightarrow> path \<Rightarrow> (continuity_bindings, room_ai_continuity_error) result io"
where
  "continuity_load codec p =
     settings_load Continuity_Invalid Continuity_Io MAXIMUM_CONTINUITY_FILE_BYTES []
       (continuity_decode codec) p"

definition continuity_persist ::
  "continuity_codec \<Rightarrow> path \<Rightarrow> continuity_bindings \<Rightarrow> (unit, room_ai_continuity_error) result io"
where
  "continuity_persist codec p bindings =
     settings_persist Continuity_Invalid Continuity_Io MAXIMUM_CONTINUITY_FILE_BYTES p
       (continuity_encode codec bindings)"

section \<open>The store\<close>

type_synonym desktop_room_ai_continuity = "continuity_bindings settings_store"

definition continuity_persistent ::
  "continuity_codec \<Rightarrow> path \<Rightarrow> (desktop_room_ai_continuity, room_ai_continuity_error) result io"
where
  "continuity_persistent codec p =
     io_bind (continuity_load codec p)
       (\<lambda>r. io_return (case r of
          Inl e \<Rightarrow> Err e
        | Inr bindings \<Rightarrow>
            Ok \<lparr>settings_now = bindings, settings_path = Some p, settings_poisoned = False\<rparr>))"

definition continuity_get ::
  "desktop_room_ai_continuity \<Rightarrow> string \<Rightarrow> string
     \<Rightarrow> (room_ai_continuation option, room_ai_continuity_error) result"
where
  "continuity_get st room_id participant_id =
     (if \<not> continuity_valid_identifier room_id \<or> \<not> continuity_valid_identifier participant_id
      then Err Continuity_Invalid
      else if settings_poisoned st then Err Continuity_Io
      else Ok (bt_get (settings_now st) (room_id, participant_id)))"

definition continuity_commit ::
  "continuity_codec \<Rightarrow> desktop_room_ai_continuity \<Rightarrow> string \<Rightarrow> string \<Rightarrow> room_ai_continuation
     \<Rightarrow> (desktop_room_ai_continuity \<times> (unit, room_ai_continuity_error) result) io"
where
  "continuity_commit codec st room_id participant_id continuation =
     (if \<not> continuity_valid_identifier room_id
         \<or> \<not> continuity_valid_identifier participant_id
         \<or> \<not> valid_session_id (continuation_session_id continuation)
         \<or> \<not> continuity_valid_identifier (last_synced_message_id continuation)
         \<or> \<not> valid_environment_key (continuation_environment_key continuation)
      then io_return (st, Err Continuity_Invalid)
      else if settings_poisoned st then io_return (st, Err Continuity_Io)
      else settings_commit (continuity_persist codec) st
             (bt_insert (room_id, participant_id) continuation (settings_now st)) ())"

definition continuity_clear ::
  "continuity_codec \<Rightarrow> desktop_room_ai_continuity \<Rightarrow> string \<Rightarrow> string
     \<Rightarrow> (desktop_room_ai_continuity \<times> (bool, room_ai_continuity_error) result) io"
where
  "continuity_clear codec st room_id participant_id =
     (if \<not> continuity_valid_identifier room_id \<or> \<not> continuity_valid_identifier participant_id
      then io_return (st, Err Continuity_Invalid)
      else if settings_poisoned st then io_return (st, Err Continuity_Io)
      else
        (let key = (room_id, participant_id) in
         if \<not> bt_contains_key (settings_now st) key then io_return (st, Ok False)
         else settings_commit (continuity_persist codec) st
                (bt_remove key (settings_now st)) True))"

definition product_ai_continuity_file :: "path option \<Rightarrow> string \<Rightarrow> path" where
  "product_ai_continuity_file continuity_file app_data_dir =
     (case continuity_file of Some p \<Rightarrow> p | None \<Rightarrow> (app_data_dir, CONTINUITY_FILE_NAME))"

section \<open>The contract of the store\<close>

definition continuation_ok :: "(string \<times> string) \<times> room_ai_continuation \<Rightarrow> bool" where
  "continuation_ok = (\<lambda>((room_id, participant_id), continuation).
     continuity_valid_identifier room_id \<and> continuity_valid_identifier participant_id
     \<and> valid_session_id (continuation_session_id continuation)
     \<and> continuity_valid_identifier (last_synced_message_id continuation)
     \<and> valid_environment_key (continuation_environment_key continuation))"

definition continuity_ok :: "continuity_bindings \<Rightarrow> bool" where
  "continuity_ok bindings \<longleftrightarrow> bt_ok bindings \<and> list_all continuation_ok bindings"

definition faithful_continuity_codec :: "continuity_codec \<Rightarrow> bool" where
  "faithful_continuity_codec codec \<longleftrightarrow>
     (\<forall>persisted body. continuity_to_vec codec persisted = Some body
        \<longrightarrow> body \<noteq> [] \<and> continuity_from_slice codec body = Some persisted)"

lemma continuity_load_bindings_persisted:
  assumes "bt_ok (earlier @ bindings)" "list_all continuation_ok bindings"
  shows "continuity_load_bindings (map persisted_binding_of bindings) earlier = Ok (earlier @ bindings)"
  using assms
proof (induction bindings arbitrary: earlier)
  case (Cons b bs)
  obtain r q c where b: "b = ((r, q), c)"
    by (metis prod.exhaust)
  have ok: "bt_ok ((earlier @ [b]) @ bs)"
    using Cons.prems(1) by simp
  show ?case
    using Cons.IH [OF ok] Cons.prems bt_ok_append_single [of earlier "(r, q)" c bs] b
    by (cases c) (simp add: persisted_binding_of_def continuation_ok_def bt_contains_key_def)
qed simp

interpretation continuity_file: settings_contract faithful_continuity_codec continuity_encode
  continuity_decode continuity_ok "[]" Continuity_Invalid Continuity_Io MAXIMUM_CONTINUITY_FILE_BYTES
proof unfold_locales
  fix codec m body
  assume "faithful_continuity_codec codec" "continuity_ok m" "continuity_encode codec m = Some body"
  then show "body \<noteq> [] \<and> continuity_decode codec body = Ok m"
    using continuity_load_bindings_persisted [of "[]" m]
    by (auto simp: faithful_continuity_codec_def continuity_encode_def continuity_decode_def
        continuity_ok_def)
qed (simp add: continuity_ok_def)

lemma continuity_ok_insert:
  "continuity_ok m \<Longrightarrow> continuation_ok (k, c) \<Longrightarrow> continuity_ok (bt_insert k c m)"
proof (unfold continuity_ok_def, intro conjI; elim conjE)
  assume "list_all continuation_ok m" "continuation_ok (k, c)"
  then show "list_all continuation_ok (bt_insert k c m)"
    by (induction k c m rule: bt_insert.induct) auto
qed simp

lemma continuity_ok_remove: "continuity_ok m \<Longrightarrow> continuity_ok (bt_remove k m)"
  by (auto simp: continuity_ok_def bt_remove_def list_all_iff bt_ok_filter)

end
