(* ===== verification/Room_Workspace.thy ===== *)
theory Room_Workspace
  imports Ai_Continuity Room_Source Conductor_Ids Command_Broker
begin

text \<open>
  \<open>DesktopRoomWorkspaces\<close> (\<open>apps/desktop/src-tauri/src/room\_workspace.rs\<close>): the folder that the
  owner chose for a Room, in memory and in a file, and what the folder is now. What the operating
  system says about folders is a parameter; the identity of a folder is the one of Unix.
\<close>

section \<open>Bindings\<close>

definition WORKSPACE_FILE_VERSION :: u8 where "WORKSPACE_FILE_VERSION = 1"
definition WORKSPACE_FILE_NAME :: string where "WORKSPACE_FILE_NAME = ''room-workspaces-v1.json''"
definition MAXIMUM_WORKSPACE_FILE_BYTES :: nat where "MAXIMUM_WORKSPACE_FILE_BYTES = 64 * 1024"

datatype room_workspace_error =
  Workspace_Io | Workspace_Invalid | Workspace_RoomNotFound | Workspace_Unavailable | Workspace_UnsafeLink

record persisted_workspace_binding =
  workspace_binding_room_id :: string
  workspace_binding_root :: string

record persisted_workspace_file =
  workspace_file_version :: u8
  workspace_file_bindings :: "persisted_workspace_binding list"

type_synonym workspace_bindings = "(string, string) btree"

definition valid_room_id :: "string \<Rightarrow> bool" where
  "valid_room_id room_id \<longleftrightarrow> room_id \<noteq> [] \<and> length room_id \<le> 128 \<and> list_all entity_id_byte room_id"

text \<open>\<open>Path::is\_absolute\<close> on Unix.\<close>

definition is_absolute_path :: "string \<Rightarrow> bool" where
  "is_absolute_path root \<longleftrightarrow> (case root of [] \<Rightarrow> False | c # _ \<Rightarrow> c = CHR ''/'')"

section \<open>The file\<close>

record workspace_codec =
  workspace_to_vec :: "persisted_workspace_file \<Rightarrow> string option"
  workspace_from_slice :: "string \<Rightarrow> persisted_workspace_file option"

fun workspace_load_bindings ::
  "persisted_workspace_binding list \<Rightarrow> workspace_bindings \<Rightarrow> (workspace_bindings, room_workspace_error) result"
where
  "workspace_load_bindings [] bindings = Ok bindings"
| "workspace_load_bindings (b # bs) bindings =
     (if \<not> valid_room_id (workspace_binding_room_id b)
         \<or> \<not> is_absolute_path (workspace_binding_root b)
         \<or> bt_contains_key bindings (workspace_binding_room_id b)
      then Err Workspace_Invalid
      else workspace_load_bindings bs
             (bt_insert (workspace_binding_room_id b) (workspace_binding_root b) bindings))"

definition workspace_decode ::
  "workspace_codec \<Rightarrow> string \<Rightarrow> (workspace_bindings, room_workspace_error) result"
where
  "workspace_decode codec body =
     (case workspace_from_slice codec body of
        None \<Rightarrow> Err Workspace_Invalid
      | Some persisted \<Rightarrow>
          if workspace_file_version persisted \<noteq> WORKSPACE_FILE_VERSION then Err Workspace_Invalid
          else workspace_load_bindings (workspace_file_bindings persisted) [])"

definition workspace_encode :: "workspace_codec \<Rightarrow> workspace_bindings \<Rightarrow> string option" where
  "workspace_encode codec bindings =
     workspace_to_vec codec \<lparr>workspace_file_version = WORKSPACE_FILE_VERSION,
       workspace_file_bindings =
         map (\<lambda>(room_id, root). \<lparr>workspace_binding_room_id = room_id, workspace_binding_root = root\<rparr>)
           bindings\<rparr>"

definition workspace_load ::
  "workspace_codec \<Rightarrow> path \<Rightarrow> (workspace_bindings, room_workspace_error) result io"
where
  "workspace_load codec p =
     settings_load Workspace_Invalid Workspace_Io MAXIMUM_WORKSPACE_FILE_BYTES []
       (workspace_decode codec) p"

definition workspace_persist ::
  "workspace_codec \<Rightarrow> path \<Rightarrow> workspace_bindings \<Rightarrow> (unit, room_workspace_error) result io"
where
  "workspace_persist codec p bindings =
     settings_persist Workspace_Invalid Workspace_Io MAXIMUM_WORKSPACE_FILE_BYTES p
       (workspace_encode codec bindings)"

section \<open>Folders\<close>

text \<open>The answers of \<open>is\_dir\<close>, \<open>symlink\_metadata\<close> (\<open>None\<close> an error), \<open>canonicalize\<close> and
  \<open>metadata\<close> (device and inode).\<close>

record folders =
  folder_is_dir :: "string \<Rightarrow> bool"
  folder_is_link :: "string \<Rightarrow> bool option"
  folder_canonical :: "string \<Rightarrow> string option"
  folder_identity :: "string \<Rightarrow> (u64 \<times> u64) option"

definition is_filesystem_link :: "folders \<Rightarrow> string \<Rightarrow> (bool, room_workspace_error) result" where
  "is_filesystem_link os p = ok_or (folder_is_link os p) Workspace_Unavailable"

definition safe_workspace_root :: "folders \<Rightarrow> string \<Rightarrow> (string, room_workspace_error) result" where
  "safe_workspace_root os root =
     (if \<not> is_absolute_path root then Err Workspace_Invalid
      else
        (case is_filesystem_link os root of
           Inl e \<Rightarrow> Err e
         | Inr True \<Rightarrow> Err Workspace_UnsafeLink
         | Inr False \<Rightarrow>
             (case folder_canonical os root of
                None \<Rightarrow> Err Workspace_Unavailable
              | Some canonical \<Rightarrow>
                  if \<not> folder_is_dir os canonical then Err Workspace_UnsafeLink
                  else
                    (case is_filesystem_link os canonical of
                       Inl e \<Rightarrow> Err e
                     | Inr linked \<Rightarrow> if linked then Err Workspace_UnsafeLink else Ok canonical))))"

definition workspace_identity_key :: "folders \<Rightarrow> string \<Rightarrow> (string, room_workspace_error) result" where
  "workspace_identity_key os root =
     (case folder_identity os root of
        None \<Rightarrow> Err Workspace_Unavailable
      | Some (dev, ino) \<Rightarrow> Ok (''unix-'' @ hex16 dev @ ''-'' @ hex16 ino))"

section \<open>The store\<close>

type_synonym desktop_room_workspaces = "workspace_bindings settings_store"

record available_room_workspace =
  workspace_root :: string
  workspace_identity :: string

definition workspaces_persistent ::
  "workspace_codec \<Rightarrow> path \<Rightarrow> (desktop_room_workspaces, room_workspace_error) result io"
where
  "workspaces_persistent codec p =
     io_bind (workspace_load codec p)
       (\<lambda>r. io_return (case r of
          Inl e \<Rightarrow> Err e
        | Inr bindings \<Rightarrow>
            Ok \<lparr>settings_now = bindings, settings_path = Some p, settings_poisoned = False\<rparr>))"

definition workspace_bind ::
  "workspace_codec \<Rightarrow> folders \<Rightarrow> desktop_room_workspaces \<Rightarrow> string \<Rightarrow> string
     \<Rightarrow> (desktop_room_workspaces \<times> (unit, room_workspace_error) result) io"
where
  "workspace_bind codec os st room_id root =
     (if \<not> valid_room_id room_id \<or> \<not> folder_is_dir os root then io_return (st, Err Workspace_Invalid)
      else
        (case safe_workspace_root os root of
           Inl e \<Rightarrow> io_return (st, Err e)
         | Inr canonical \<Rightarrow>
             if settings_poisoned st then io_return (st, Err Workspace_Io)
             else settings_commit (workspace_persist codec) st
                    (bt_insert room_id canonical (settings_now st)) ()))"

definition workspace_clear ::
  "workspace_codec \<Rightarrow> desktop_room_workspaces \<Rightarrow> string
     \<Rightarrow> (desktop_room_workspaces \<times> (unit, room_workspace_error) result) io"
where
  "workspace_clear codec st room_id =
     (if \<not> valid_room_id room_id then io_return (st, Err Workspace_Invalid)
      else if settings_poisoned st then io_return (st, Err Workspace_Io)
      else settings_commit (workspace_persist codec) st (bt_remove room_id (settings_now st)) ())"

definition configured_root ::
  "desktop_room_workspaces \<Rightarrow> string \<Rightarrow> (string option, room_workspace_error) result"
where
  "configured_root st room_id =
     (if settings_poisoned st then Err Workspace_Io else Ok (bt_get (settings_now st) room_id))"

definition available_workspace ::
  "folders \<Rightarrow> desktop_room_workspaces \<Rightarrow> string
     \<Rightarrow> (available_room_workspace option, room_workspace_error) result"
where
  "available_workspace os st room_id =
     (case configured_root st room_id of
        Inl e \<Rightarrow> Err e
      | Inr None \<Rightarrow> Ok None
      | Inr (Some configured) \<Rightarrow>
          (case safe_workspace_root os configured of
             Inl e \<Rightarrow> Err e
           | Inr root \<Rightarrow>
               (case workspace_identity_key os root of
                  Inl e \<Rightarrow> Err e
                | Inr key \<Rightarrow> Ok (Some \<lparr>workspace_root = root, workspace_identity = key\<rparr>))))"

definition available_root ::
  "folders \<Rightarrow> desktop_room_workspaces \<Rightarrow> string \<Rightarrow> (string option, room_workspace_error) result"
where
  "available_root os st room_id =
     (case available_workspace os st room_id of
        Inl e \<Rightarrow> Err e
      | Inr workspace \<Rightarrow> Ok (map_option workspace_root workspace))"

definition product_workspace_file :: "path option \<Rightarrow> string \<Rightarrow> path" where
  "product_workspace_file workspace_file app_data_dir =
     (case workspace_file of Some p \<Rightarrow> p | None \<Rightarrow> (app_data_dir, WORKSPACE_FILE_NAME))"

section \<open>The commands of the interface\<close>

datatype room_workspace_mode = Mode_ChatOnly | Mode_Workspace

record room_workspace_status =
  workspace_status_ok :: bool
  workspace_status_room_id :: string
  workspace_status_mode :: room_workspace_mode
  workspace_status_folder_name :: "string option"
  workspace_status_available :: bool
  workspace_status_changed :: bool

record room_workspace_command_error =
  workspace_error_code :: string
  workspace_error_message :: string

fun workspace_map_error :: "room_workspace_error \<Rightarrow> room_workspace_command_error" where
  "workspace_map_error Workspace_Invalid =
     \<lparr>workspace_error_code = ''roomWorkspaceInvalid'',
      workspace_error_message = ''The Room workspace selection is invalid.''\<rparr>"
| "workspace_map_error Workspace_RoomNotFound =
     \<lparr>workspace_error_code = ''roomNotFound'', workspace_error_message = ''The Room does not exist.''\<rparr>"
| "workspace_map_error Workspace_Unavailable =
     \<lparr>workspace_error_code = ''roomWorkspaceUnavailable'',
      workspace_error_message = ''The selected Room workspace is unavailable.''\<rparr>"
| "workspace_map_error Workspace_UnsafeLink =
     \<lparr>workspace_error_code = ''roomWorkspaceUnsafeLink'',
      workspace_error_message = ''Linked folders cannot be used as a Room workspace.''\<rparr>"
| "workspace_map_error Workspace_Io =
     \<lparr>workspace_error_code = ''roomWorkspaceUnavailable'',
      workspace_error_message = ''The Room workspace settings could not be accessed.''\<rparr>"

definition ensure_room_exists ::
  "desktop_room_source \<Rightarrow> string \<Rightarrow> (unit, room_workspace_command_error) result"
where
  "ensure_room_exists src room_id =
     (if \<not> valid_room_id room_id then Err (workspace_map_error Workspace_Invalid)
      else
        (case desktop_list_rooms src of
           Inl _ \<Rightarrow> Err (workspace_map_error Workspace_Io)
         | Inr summaries \<Rightarrow>
             if list_ex (\<lambda>room. s_id room = room_id) summaries then Ok ()
             else Err (workspace_map_error Workspace_RoomNotFound)))"

text \<open>\<open>Path::file\_name\<close>: the last component, when it is a normal one.\<close>

definition path_file_name :: "string \<Rightarrow> string option" where
  "path_file_name root =
     (case rev (path_components root) of Normal name # _ \<Rightarrow> Some name | _ \<Rightarrow> None)"

text \<open>\<open>to\_string\_lossy\<close> changes nothing in the valid UTF-8 of a canonical path.\<close>

definition workspace_status ::
  "folders \<Rightarrow> desktop_room_source \<Rightarrow> desktop_room_workspaces \<Rightarrow> string \<Rightarrow> bool
     \<Rightarrow> (room_workspace_status, room_workspace_command_error) result"
where
  "workspace_status os src st room_id changed =
     (case ensure_room_exists src room_id of
        Inl e \<Rightarrow> Err e
      | Inr _ \<Rightarrow>
          (case configured_root st room_id of
             Inl e \<Rightarrow> Err (workspace_map_error e)
           | Inr root \<Rightarrow>
               Ok \<lparr>workspace_status_ok = True, workspace_status_room_id = room_id,
                   workspace_status_mode = (if root \<noteq> None then Mode_Workspace else Mode_ChatOnly),
                   workspace_status_folder_name =
                     map_option (\<lambda>root. case path_file_name root of Some name \<Rightarrow> name | None \<Rightarrow> root) root,
                   workspace_status_available =
                     (case root of Some root \<Rightarrow> is_ok (safe_workspace_root os root) | None \<Rightarrow> True),
                   workspace_status_changed = changed\<rparr>))"

text \<open>What the answer of the folder dialog does; \<open>None\<close> is a dialog that was closed, an error a
  selection that is no path.\<close>

definition workspace_chosen ::
  "workspace_codec \<Rightarrow> folders \<Rightarrow> desktop_room_workspaces \<Rightarrow> string \<Rightarrow> (string, unit) result option
     \<Rightarrow> (desktop_room_workspaces \<times> bool \<times> string option) io"
where
  "workspace_chosen codec os st room_id selected =
     (case selected of
        None \<Rightarrow> io_return (st, False, None)
      | Some (Inl _) \<Rightarrow> io_return (st, False, Some (workspace_error_code (workspace_map_error Workspace_Invalid)))
      | Some (Inr root) \<Rightarrow>
          io_bind (workspace_bind codec os st room_id root)
            (\<lambda>(st', r). io_return (case r of
               Inr _ \<Rightarrow> (st', True, None)
             | Inl e \<Rightarrow> (st', False, Some (workspace_error_code (workspace_map_error e))))))"

definition workspace_clear_command ::
  "workspace_codec \<Rightarrow> folders \<Rightarrow> desktop_room_source \<Rightarrow> desktop_room_workspaces \<Rightarrow> string
     \<Rightarrow> (desktop_room_workspaces \<times> (room_workspace_status, room_workspace_command_error) result) io"
where
  "workspace_clear_command codec os src st room_id =
     (case ensure_room_exists src room_id of
        Inl e \<Rightarrow> io_return (st, Err e)
      | Inr _ \<Rightarrow>
          io_bind (workspace_clear codec st room_id)
            (\<lambda>(st', r). io_return (case r of
               Inl e \<Rightarrow> (st', Err (workspace_map_error e))
             | Inr _ \<Rightarrow> (st', workspace_status os src st' room_id True))))"

section \<open>The contract of the store\<close>

definition workspace_binding_ok :: "string \<times> string \<Rightarrow> bool" where
  "workspace_binding_ok = (\<lambda>(room_id, root). valid_room_id room_id \<and> is_absolute_path root)"

definition workspaces_ok :: "workspace_bindings \<Rightarrow> bool" where
  "workspaces_ok bindings \<longleftrightarrow> bt_ok bindings \<and> list_all workspace_binding_ok bindings"

definition faithful_workspace_codec :: "workspace_codec \<Rightarrow> bool" where
  "faithful_workspace_codec codec \<longleftrightarrow>
     (\<forall>persisted body. workspace_to_vec codec persisted = Some body
        \<longrightarrow> body \<noteq> [] \<and> workspace_from_slice codec body = Some persisted)"

lemma workspace_load_bindings_persisted:
  assumes "bt_ok (earlier @ bindings)" "list_all workspace_binding_ok bindings"
  shows "workspace_load_bindings (map (\<lambda>(room_id, root).
      \<lparr>workspace_binding_room_id = room_id, workspace_binding_root = root\<rparr>) bindings) earlier
    = Ok (earlier @ bindings)"
  using assms
proof (induction bindings arbitrary: earlier)
  case (Cons b bs)
  have ok: "bt_ok ((earlier @ [b]) @ bs)"
    using Cons.prems(1) by simp
  show ?case
    using Cons.IH [OF ok] Cons.prems bt_ok_append_single [of earlier "fst b" "snd b" bs]
    by (cases b) (simp add: workspace_binding_ok_def bt_contains_key_def)
qed simp

interpretation workspace_file: settings_contract faithful_workspace_codec workspace_encode
  workspace_decode workspaces_ok "[]" Workspace_Invalid Workspace_Io MAXIMUM_WORKSPACE_FILE_BYTES
proof unfold_locales
  fix codec m body
  assume "faithful_workspace_codec codec" "workspaces_ok m" "workspace_encode codec m = Some body"
  then show "body \<noteq> [] \<and> workspace_decode codec body = Ok m"
    using workspace_load_bindings_persisted [of "[]" m]
    by (auto simp: faithful_workspace_codec_def workspace_encode_def workspace_decode_def
        workspaces_ok_def)
qed (simp add: workspaces_ok_def)

end
