(* ===== verification/Profile_File.thy ===== *)
theory Profile_File
  imports File_System Utf8_Text Complex_Main
begin

text \<open>
  The files of the participant profiles and of the appearance
  (\<open>participant\_profiles.rs\<close>, \<open>appearance\_settings.rs\<close>), which are read and written by the same
  code but for the names, and the checks on pictures and numbers the two share.
\<close>

section \<open>Reading and writing\<close>

definition profile_read ::
  "'e \<Rightarrow> 'e \<Rightarrow> nat \<Rightarrow> (string \<Rightarrow> ('m, 'e) result) \<Rightarrow> path \<Rightarrow> ('m, 'e) result io"
where
  "profile_read invalid unreadable limit decode p =
     io_try (fs_read p) unreadable
       (\<lambda>body. io_return (if length body > limit then Err invalid else decode body))"

text \<open>\<open>read\_file(path).or\_else(read\_file(backup)).unwrap\_or\_default()\<close>.\<close>

definition profile_load ::
  "'e \<Rightarrow> 'e \<Rightarrow> nat \<Rightarrow> (string \<Rightarrow> ('m, 'e) result) \<Rightarrow> 'm \<Rightarrow> path \<Rightarrow> ('m, 'e) result io"
where
  "profile_load invalid unreadable limit decode initial p w =
     (if fs_is_file p w then
        io_bind (profile_read invalid unreadable limit decode p)
          (\<lambda>r. case r of
             Inr m \<Rightarrow> io_return (Ok m)
           | Inl _ \<Rightarrow>
               io_bind (profile_read invalid unreadable limit decode (with_extension p ''backup''))
                 (\<lambda>r. io_return (Ok (case r of Inr m \<Rightarrow> m | Inl _ \<Rightarrow> initial)))) w
      else if fs_exists p w then Ret (Err invalid) w
      else Ret (Ok initial) w)"

definition profile_temp :: "path \<Rightarrow> nat \<Rightarrow> u64 \<Rightarrow> path" where
  "profile_temp p pid sequence =
     with_extension p (''tmp-'' @ nat_to_string pid @ ''-'' @ nat_to_string (unat sequence))"

definition profile_rotate :: "'e \<Rightarrow> path \<Rightarrow> (unit, 'e) result io" where
  "profile_rotate unreadable p w =
     (let backup = with_extension p ''backup'';
          keep_old = io_try (fs_rename p backup) unreadable (\<lambda>_. io_return (Ok ())) in
      if fs_exists p w
      then (if fs_exists backup w
            then io_try (fs_remove_file backup) unreadable (\<lambda>_. keep_old) w
            else keep_old w)
      else Ret (Ok ()) w)"

definition profile_install :: "'e \<Rightarrow> path \<Rightarrow> path \<Rightarrow> (unit, 'e) result io" where
  "profile_install unreadable temp p =
     io_bind (fs_rename temp p)
       (\<lambda>r. if is_ok r then io_return (Ok ())
         else io_bind (fs_remove_file temp)
           (\<lambda>_ w. if \<not> fs_exists p w \<and> fs_is_file (with_extension p ''backup'') w
              then io_bind (fs_rename (with_extension p ''backup'') p) (\<lambda>_. io_return (Err unreadable)) w
              else Ret (Err unreadable) w))"

definition profile_persist :: "'e \<Rightarrow> 'e \<Rightarrow> nat \<Rightarrow> path \<Rightarrow> string option \<Rightarrow> (unit, 'e) result io" where
  "profile_persist invalid unreadable limit p encoded =
     io_try (fs_create_dir_all (fst p)) unreadable
       (\<lambda>_ w.
          (case encoded of
             None \<Rightarrow> Ret (Err invalid) w
           | Some body \<Rightarrow>
               if length body > limit then Ret (Err invalid) w
               else
                 (let temp = profile_temp p (process_id w) (temp_sequence w);
                      w1 = w\<lparr>temp_sequence := temp_sequence w + 1\<rparr> in
                  io_try (fs_create_new temp) unreadable
                    (\<lambda>_. io_bind (fs_write_all_sync temp body)
                      (\<lambda>r. if \<not> is_ok r
                         then io_bind (fs_remove_file temp) (\<lambda>_. io_return (Err unreadable))
                         else io_bind (profile_rotate unreadable p)
                           (\<lambda>r. case r of
                              Inl e \<Rightarrow> io_return (Err e)
                            | Inr _ \<Rightarrow> profile_install unreadable temp p))) w1)))"

record 'm profile_store =
  profile_path :: path
  profile_now :: 'm
  profile_poisoned :: bool

text \<open>\<open>self.persist(\&next)?; *current = next;\<close>\<close>

definition profile_commit ::
  "(path \<Rightarrow> 'm \<Rightarrow> (unit, 'e) result io) \<Rightarrow> 'm profile_store \<Rightarrow> 'm \<Rightarrow> 'a
     \<Rightarrow> ('m profile_store \<times> ('a, 'e) result) io"
where
  "profile_commit persist st following x =
     io_bind (persist (profile_path st) following)
       (\<lambda>r. io_return (case r of
          Inl e \<Rightarrow> (st, Err e)
        | Inr _ \<Rightarrow> (st\<lparr>profile_now := following\<rparr>, Ok x)))"

section \<open>Numbers and pictures\<close>

text \<open>An \<open>f64\<close> by its value; a range check is false of infinite numbers and of \<open>NaN\<close>.\<close>

datatype f64 = F64 real | F64_Infinite bool | F64_NaN

fun f64_is_finite :: "f64 \<Rightarrow> bool" where
  "f64_is_finite (F64 _) = True"
| "f64_is_finite _ = False"

fun f64_within :: "real \<Rightarrow> real \<Rightarrow> f64 \<Rightarrow> bool" where
  "f64_within lo hi (F64 x) \<longleftrightarrow> lo \<le> x \<and> x \<le> hi"
| "f64_within lo hi _ \<longleftrightarrow> False"

definition base64_byte :: "char \<Rightarrow> bool" where
  "base64_byte c \<longleftrightarrow> is_ascii_alphanumeric c \<or> c \<in> {CHR ''+'', CHR ''/'', CHR ''=''}"

definition image_data_url :: "nat \<Rightarrow> string \<Rightarrow> bool" where
  "image_data_url limit data_url \<longleftrightarrow>
     list_ex (starts_with data_url)
       [''data:image/png;base64,'', ''data:image/jpeg;base64,'', ''data:image/webp;base64,'']
     \<and> length data_url \<le> limit
     \<and> is_some_and (after_comma data_url) (\<lambda>body. body \<noteq> [] \<and> list_all base64_byte body)"

section \<open>A crash between the two renames\<close>

text \<open>The third rename-free moment of a write: the old file is the backup, the new one still
  temporary.\<close>

lemma profile_persist_crash:
  assumes "files w p = Some (Regular old)" "files w (with_extension p ''backup'') = None"
    and "files w (profile_temp p (process_id w) (temp_sequence w)) = None"
    and "encoded = Some body" "length body \<le> limit"
    and "faults w = [NoFault, NoFault, NoFault, CrashAfter]"
    and distinct: "with_extension p ''backup'' \<noteq> p"
      "profile_temp p (process_id w) (temp_sequence w) \<noteq> p"
      "profile_temp p (process_id w) (temp_sequence w) \<noteq> with_extension p ''backup''"
  shows "\<exists>w'. profile_persist e e' limit p encoded w = Crashed w' \<and> files w' p = None
    \<and> files w' (with_extension p ''backup'') = Some (Regular old)"
proof -
  have "fst (profile_temp p (process_id w) (temp_sequence w)) = fst p"
    by (simp add: profile_temp_def with_extension_def)
  then show ?thesis
    using assms
    by (simp add: profile_persist_def io_try_def io_bind_def fs_create_dir_all_def atomic_op_def
        next_fault_def Let_def fs_create_new_def fs_exists_def fs_is_dir_def put_file_def
        fs_write_all_sync_def profile_rotate_def fs_rename_def)
qed

lemma profile_load_missing:
  "files w p = None \<Longrightarrow> profile_load e e' limit decode initial p w = Ret (Ok initial) w"
  by (simp add: profile_load_def fs_is_file_def fs_exists_def)

end
