(* ===== verification/Participant_Profiles.thy ===== *)
theory Participant_Profiles
  imports Profile_File Btree_Map Room_Source
begin

text \<open>
  \<open>DesktopParticipantProfiles\<close> (\<open>apps/desktop/src-tauri/src/participant\_profiles.rs\<close>): name,
  picture, instructions, access and model of every participant. The access mode is what decides
  whether an AI may see or change the workspace of a Room.
\<close>

section \<open>Profiles\<close>

definition PROFILE_FILE_VERSION :: u8 where "PROFILE_FILE_VERSION = 1"
definition PROFILE_FILE_NAME :: string where "PROFILE_FILE_NAME = ''participant-profiles-v1.json''"
definition MAXIMUM_PROFILE_FILE_BYTES :: nat where "MAXIMUM_PROFILE_FILE_BYTES = 16 * 1024 * 1024"
definition MAXIMUM_AVATAR_DATA_URL_BYTES :: nat where "MAXIMUM_AVATAR_DATA_URL_BYTES = 8 * 1024 * 1024"
definition MAXIMUM_PROFILE_NAME_BYTES :: nat where "MAXIMUM_PROFILE_NAME_BYTES = 200"
definition MAXIMUM_AI_INSTRUCTIONS_CHARS :: nat where "MAXIMUM_AI_INSTRUCTIONS_CHARS = 2000"
definition PROVIDER_DEFAULT_MODEL :: string where "PROVIDER_DEFAULT_MODEL = ''providerDefault''"

datatype ai_access_mode = ProviderDefault | ChatOnly | WorkspaceRead | WorkspaceWrite

definition effective_for :: "ai_access_mode \<Rightarrow> string \<Rightarrow> ai_access_mode" where
  "effective_for mode participant_id = (if mode = ProviderDefault then ChatOnly else mode)"

record avatar_profile =
  avatar_data_url :: string
  avatar_scale :: f64
  avatar_x :: f64
  avatar_y :: f64

record participant_profile =
  profile_participant_id :: string
  profile_display_name :: string
  profile_avatar :: "avatar_profile option"
  profile_ai_instructions :: string
  profile_ai_access_mode :: ai_access_mode
  profile_ai_model :: string

record profile_file =
  profile_file_version :: u8
  profile_file_profiles :: "(string, participant_profile) btree"

record participant_profile_error =
  profile_error_code :: string
  profile_error_message :: string

definition invalid_profile :: participant_profile_error where
  "invalid_profile = \<lparr>profile_error_code = ''invalidParticipantProfile'',
     profile_error_message = ''The participant profile is invalid.''\<rparr>"

definition profile_unavailable :: participant_profile_error where
  "profile_unavailable = \<lparr>profile_error_code = ''participantProfileUnavailable'',
     profile_error_message = ''The participant profile is temporarily unavailable.''\<rparr>"

definition valid_display_name :: "string \<Rightarrow> bool" where
  "valid_display_name name \<longleftrightarrow>
     (let trimmed = str_trim name in
      trimmed \<noteq> [] \<and> length trimmed \<le> MAXIMUM_PROFILE_NAME_BYTES \<and> \<not> has_control trimmed)"

definition valid_avatar :: "avatar_profile \<Rightarrow> bool" where
  "valid_avatar avatar \<longleftrightarrow>
     image_data_url MAXIMUM_AVATAR_DATA_URL_BYTES (avatar_data_url avatar)
     \<and> f64_is_finite (avatar_scale avatar) \<and> f64_within 1 6 (avatar_scale avatar)
     \<and> f64_is_finite (avatar_x avatar) \<and> f64_within (-1) 1 (avatar_x avatar)
     \<and> f64_is_finite (avatar_y avatar) \<and> f64_within (-1) 1 (avatar_y avatar)"

definition valid_ai_model :: "string \<Rightarrow> string \<Rightarrow> bool" where
  "valid_ai_model participant_id model \<longleftrightarrow>
     model = PROVIDER_DEFAULT_MODEL
     \<or> (participant_id, model) \<in> set
         [(''codex'', ''gpt-5.6-sol''), (''codex'', ''gpt-5.6-terra''), (''codex'', ''gpt-5.6-luna''),
          (''claude-code'', ''claude-fable-5''), (''claude-code'', ''claude-opus-5''),
          (''claude-code'', ''claude-sonnet-5''), (''grok'', ''grok-4.6'')]"

definition profile_id_byte :: "char \<Rightarrow> bool" where
  "profile_id_byte c \<longleftrightarrow> is_ascii_alphanumeric c \<or> c \<in> {CHR ''-'', CHR ''_'', CHR ''.''}"

definition valid_access_mode :: "string \<Rightarrow> ai_access_mode \<Rightarrow> bool" where
  "valid_access_mode participant_id mode \<longleftrightarrow>
     (if participant_id = ''codex'' then True
      else if participant_id = ''grok'' then mode \<in> {ProviderDefault, ChatOnly, WorkspaceRead}
      else mode \<in> {ProviderDefault, ChatOnly})"

definition valid_profile :: "participant_profile \<Rightarrow> bool" where
  "valid_profile profile \<longleftrightarrow>
     profile_participant_id profile \<noteq> []
     \<and> length (profile_participant_id profile) \<le> 128
     \<and> list_all profile_id_byte (profile_participant_id profile)
     \<and> valid_display_name (profile_display_name profile)
     \<and> (case profile_avatar profile of None \<Rightarrow> True | Some avatar \<Rightarrow> valid_avatar avatar)
     \<and> length (str_chars (profile_ai_instructions profile)) \<le> MAXIMUM_AI_INSTRUCTIONS_CHARS
     \<and> \<not> list_ex (\<lambda>c. is_control c \<and> c \<notin> {10, 9}) (str_chars (profile_ai_instructions profile))
     \<and> valid_ai_model (profile_participant_id profile) (profile_ai_model profile)
     \<and> valid_access_mode (profile_participant_id profile) (profile_ai_access_mode profile)"

section \<open>The file\<close>

record profile_codec =
  profile_to_vec :: "profile_file \<Rightarrow> string option"
  profile_from_slice :: "string \<Rightarrow> profile_file option"

type_synonym profiles = "(string, participant_profile) btree"

definition profile_decode ::
  "profile_codec \<Rightarrow> string \<Rightarrow> (profiles, participant_profile_error) result"
where
  "profile_decode codec body =
     (case profile_from_slice codec body of
        None \<Rightarrow> Err invalid_profile
      | Some persisted \<Rightarrow>
          if profile_file_version persisted \<noteq> PROFILE_FILE_VERSION
             \<or> list_ex (\<lambda>(i, profile). i \<noteq> profile_participant_id profile \<or> \<not> valid_profile profile)
                 (profile_file_profiles persisted)
          then Err invalid_profile else Ok (profile_file_profiles persisted))"

definition profiles_persist ::
  "profile_codec \<Rightarrow> path \<Rightarrow> profiles \<Rightarrow> (unit, participant_profile_error) result io"
where
  "profiles_persist codec p profiles =
     profile_persist invalid_profile profile_unavailable MAXIMUM_PROFILE_FILE_BYTES p
       (profile_to_vec codec \<lparr>profile_file_version = PROFILE_FILE_VERSION,
          profile_file_profiles = profiles\<rparr>)"

text \<open>The participant got another id. (Equality of profiles is that of valid ones, whose numbers are
  finite.)\<close>

definition migrate_participant_id ::
  "profiles \<Rightarrow> participant_id_migration \<Rightarrow> profiles \<times> (bool, participant_profile_error) result"
where
  "migrate_participant_id profiles migration =
     (if previous_id migration = current_id migration then (profiles, Ok False)
      else
        (case bt_get profiles (previous_id migration) of
           None \<Rightarrow> (profiles, Ok False)
         | Some previous \<Rightarrow>
             (let removed = bt_remove (previous_id migration) profiles;
                  renamed = previous\<lparr>profile_participant_id := current_id migration\<rparr> in
              case bt_get removed (current_id migration) of
                Some current \<Rightarrow>
                  if current \<noteq> renamed
                  then (bt_insert (previous_id migration)
                          (renamed\<lparr>profile_participant_id := previous_id migration\<rparr>) removed,
                        Err invalid_profile)
                  else (removed, Ok True)
              | None \<Rightarrow> (bt_insert (current_id migration) renamed removed, Ok True))))"

type_synonym desktop_participant_profiles = "profiles profile_store"

definition load_with_participant_migration ::
  "profile_codec \<Rightarrow> path \<Rightarrow> participant_id_migration option
     \<Rightarrow> (desktop_participant_profiles, participant_profile_error) result io"
where
  "load_with_participant_migration codec p migration =
     io_bind (profile_load invalid_profile profile_unavailable MAXIMUM_PROFILE_FILE_BYTES
                (profile_decode codec) [] p)
       (\<lambda>loaded. case loaded of
          Inl e \<Rightarrow> io_return (Err e)
        | Inr profiles \<Rightarrow>
            (let (profiles', migrated) =
                   (case migration of
                      None \<Rightarrow> (profiles, Ok False)
                    | Some m \<Rightarrow> migrate_participant_id profiles m);
                 st = \<lparr>profile_path = p, profile_now = profiles', profile_poisoned = False\<rparr> in
             case migrated of
               Inl e \<Rightarrow> io_return (Err e)
             | Inr False \<Rightarrow> io_return (Ok st)
             | Inr True \<Rightarrow>
                 io_bind (profiles_persist codec p profiles')
                   (\<lambda>r. io_return (case r of Inl e \<Rightarrow> Err e | Inr _ \<Rightarrow> Ok st))))"

section \<open>The store\<close>

definition profiles_list ::
  "desktop_participant_profiles \<Rightarrow> (participant_profile list, participant_profile_error) result"
where
  "profiles_list st = (if profile_poisoned st then Err profile_unavailable else Ok (map snd (profile_now st)))"

text \<open>\<open>lock().ok().and\_then(|profiles| profiles.get(id))\<close>.\<close>

definition profile_get :: "desktop_participant_profiles \<Rightarrow> string \<Rightarrow> participant_profile option" where
  "profile_get st participant_id =
     (if profile_poisoned st then None else bt_get (profile_now st) participant_id)"

definition display_name :: "desktop_participant_profiles \<Rightarrow> string \<Rightarrow> string option" where
  "display_name st participant_id = map_option profile_display_name (profile_get st participant_id)"

definition ai_instructions :: "desktop_participant_profiles \<Rightarrow> string \<Rightarrow> string option" where
  "ai_instructions st participant_id =
     (case profile_get st participant_id of
        None \<Rightarrow> None
      | Some profile \<Rightarrow>
          (let instructions = str_trim (profile_ai_instructions profile) in
           if instructions = [] then None else Some instructions))"

definition ai_access_mode_of :: "desktop_participant_profiles \<Rightarrow> string \<Rightarrow> ai_access_mode" where
  "ai_access_mode_of st participant_id =
     effective_for
       (case profile_get st participant_id of
          None \<Rightarrow> ProviderDefault | Some profile \<Rightarrow> profile_ai_access_mode profile)
       participant_id"

definition ai_model :: "desktop_participant_profiles \<Rightarrow> string \<Rightarrow> string option" where
  "ai_model st participant_id =
     (case profile_get st participant_id of
        None \<Rightarrow> None
      | Some profile \<Rightarrow>
          if profile_ai_model profile = PROVIDER_DEFAULT_MODEL then None else Some (profile_ai_model profile))"

definition profiles_save ::
  "profile_codec \<Rightarrow> desktop_participant_profiles \<Rightarrow> participant_profile
     \<Rightarrow> (desktop_participant_profiles \<times> (participant_profile, participant_profile_error) result) io"
where
  "profiles_save codec st profile =
     (if \<not> valid_profile profile then io_return (st, Err invalid_profile)
      else if profile_poisoned st then io_return (st, Err profile_unavailable)
      else profile_commit (profiles_persist codec) st
             (bt_insert (profile_participant_id profile) profile (profile_now st)) profile)"

definition participant_profile_save ::
  "profile_codec \<Rightarrow> desktop_room_source \<Rightarrow> desktop_participant_profiles \<Rightarrow> participant_profile
     \<Rightarrow> (desktop_participant_profiles \<times> (participant_profile, participant_profile_error) result) io"
where
  "participant_profile_save codec src st given =
     (if \<not> has_participant src (profile_participant_id given) then io_return (st, Err invalid_profile)
      else profiles_save codec st
             (given\<lparr>profile_display_name := str_trim (profile_display_name given),
                    profile_ai_instructions := str_trim (profile_ai_instructions given)\<rparr>))"

definition product_profile_file :: "string \<Rightarrow> path" where
  "product_profile_file app_data_dir = (app_data_dir, PROFILE_FILE_NAME)"

section \<open>Who may see the workspace\<close>

definition profiles_ok :: "profiles \<Rightarrow> bool" where
  "profiles_ok profiles \<longleftrightarrow>
     bt_ok profiles \<and> (\<forall>i profile. bt_get profiles i = Some profile
        \<longrightarrow> i = profile_participant_id profile \<and> valid_profile profile)"

lemma profile_decode_ok:
  assumes "\<And>body persisted. profile_from_slice codec body = Some persisted \<Longrightarrow> bt_ok (profile_file_profiles persisted)"
    and "profile_decode codec body = Ok profiles"
  shows "profiles_ok profiles"
  using assms(2) assms(1) [of body]
  by (auto simp: profile_decode_def profiles_ok_def list_ex_iff split: option.splits if_splits dest!: map_of_SomeD)

lemma profiles_save_ok:
  assumes "profiles_ok (profile_now st)" "profiles_save codec st profile w = Ret (st', r) w'"
  shows "profiles_ok (profile_now st')"
proof -
  have "profile_now st' = profile_now st
      \<or> valid_profile profile \<and> profile_now st' = bt_insert (profile_participant_id profile) profile (profile_now st)"
    using assms(2)
    by (auto simp: profiles_save_def io_return_def profile_commit_def io_bind_def
        split: if_splits outcome.splits sum.splits)
  then show ?thesis
    using assms(1) by (auto simp: profiles_ok_def split: if_splits)
qed

lemma valid_access_mode_effective:
  "valid_access_mode i mode \<Longrightarrow> valid_access_mode i (effective_for mode i)"
  by (auto simp: valid_access_mode_def effective_for_def)

lemma access_mode_valid:
  assumes "profiles_ok (profile_now st)"
  shows "valid_access_mode i (ai_access_mode_of st i)"
  unfolding ai_access_mode_of_def
proof (rule valid_access_mode_effective)
  have "valid_access_mode i (profile_ai_access_mode profile)" if "profile_get st i = Some profile" for profile
    using assms that unfolding profiles_ok_def valid_profile_def profile_get_def
    by (metis option.distinct(1))
  then show "valid_access_mode i (case profile_get st i of
      None \<Rightarrow> ProviderDefault | Some profile \<Rightarrow> profile_ai_access_mode profile)"
    by (cases "profile_get st i") (simp_all add: valid_access_mode_def)
qed

section \<open>Profiles that a crash makes the application forget\<close>

lemma profile_names:
  "with_extension (product_profile_file dir) ''backup'' = (dir, ''participant-profiles-v1.backup'')"
  "profile_temp (product_profile_file dir) pid n =
     (dir, ''participant-profiles-v1.tmp-'' @ nat_to_string pid @ ''-'' @ nat_to_string (unat n))"
  by (simp_all add: product_profile_file_def PROFILE_FILE_NAME_def with_extension_def file_stem_def
      profile_temp_def)

lemma profile_names_distinct:
  "with_extension (product_profile_file dir) ''backup'' \<noteq> product_profile_file dir"
  "profile_temp (product_profile_file dir) pid n \<noteq> product_profile_file dir"
  "profile_temp (product_profile_file dir) pid n \<noteq> with_extension (product_profile_file dir) ''backup''"
  unfolding profile_names by (simp_all add: product_profile_file_def PROFILE_FILE_NAME_def)

text \<open>C40: A crash between the two renames of a save loses every profile for the next start: the old
  profiles are only in the backup then, which a start does not look at when the file is missing;
  it begins with no profiles at all, and reports no error.\<close>

theorem profiles_forgotten_after_crash:
  assumes "files w (product_profile_file dir) = Some (Regular old)"
    and "files w (with_extension (product_profile_file dir) ''backup'') = None"
    and "files w (profile_temp (product_profile_file dir) (process_id w) (temp_sequence w)) = None"
    and "faults w = [NoFault, NoFault, NoFault, CrashAfter]"
    and "profile_path st = product_profile_file dir" "\<not> profile_poisoned st" "valid_profile profile"
    and "profile_to_vec codec \<lparr>profile_file_version = PROFILE_FILE_VERSION, profile_file_profiles =
           bt_insert (profile_participant_id profile) profile (profile_now st)\<rparr> = Some body"
    and "length body \<le> MAXIMUM_PROFILE_FILE_BYTES"
  shows "\<exists>w'. profiles_save codec st profile w = Crashed w'
    \<and> files w' (with_extension (product_profile_file dir) ''backup'') = Some (Regular old)
    \<and> load_with_participant_migration codec (product_profile_file dir) None (w'\<lparr>faults := []\<rparr>)
        = Ret (Ok \<lparr>profile_path = product_profile_file dir, profile_now = [], profile_poisoned = False\<rparr>)
              (w'\<lparr>faults := []\<rparr>)"
proof -
  obtain w' where "profiles_persist codec (product_profile_file dir)
        (bt_insert (profile_participant_id profile) profile (profile_now st)) w = Crashed w'"
      "files w' (product_profile_file dir) = None"
      "files w' (with_extension (product_profile_file dir) ''backup'') = Some (Regular old)"
    using profile_persist_crash [OF assms(1-3,8,9,4) profile_names_distinct,
        of invalid_profile profile_unavailable] by (auto simp: profiles_persist_def)
  note crash = this
  have "profiles_save codec st profile w = Crashed w'"
    using assms(5-7) crash(1) by (simp add: profiles_save_def profile_commit_def io_bind_def)
  moreover have "load_with_participant_migration codec (product_profile_file dir) None (w'\<lparr>faults := []\<rparr>)
      = Ret (Ok \<lparr>profile_path = product_profile_file dir, profile_now = [], profile_poisoned = False\<rparr>)
          (w'\<lparr>faults := []\<rparr>)"
    using crash(2)
    by (simp add: load_with_participant_migration_def io_bind_def profile_load_missing io_return_def)
  ultimately show ?thesis
    using crash(3) by blast
qed

definition example_profile :: participant_profile where
  "example_profile = \<lparr>profile_participant_id = ''codex'', profile_display_name = ''Codex'',
     profile_avatar = None, profile_ai_instructions = [], profile_ai_access_mode = WorkspaceWrite,
     profile_ai_model = PROVIDER_DEFAULT_MODEL\<rparr>"

lemma example_profile_valid: "valid_profile example_profile"
  by (simp add: valid_profile_def example_profile_def profile_id_byte_def valid_display_name_def
      str_trim_def is_whitespace_piece_def utf8_length_def byte_class_defs str_chars_def
      is_whitespace_def has_control_def is_control_def valid_ai_model_def valid_access_mode_def
      MAXIMUM_PROFILE_NAME_BYTES_def)

theorem profiles_forgotten_after_crash_witness:
  "\<exists>w'. load_with_participant_migration \<lparr>profile_to_vec = \<lambda>_. Some ''x'', profile_from_slice = \<lambda>_. None\<rparr>
      (product_profile_file ''/data'') None (w'\<lparr>faults := []\<rparr>)
    = Ret (Ok \<lparr>profile_path = product_profile_file ''/data'', profile_now = [], profile_poisoned = False\<rparr>)
        (w'\<lparr>faults := []\<rparr>)
   \<and> files w' (with_extension (product_profile_file ''/data'') ''backup'') = Some (Regular ''old'')"
proof -
  let ?w = "\<lparr>files = [product_profile_file ''/data'' \<mapsto> Regular ''old''], directories = {''/data''},
    faults = [NoFault, NoFault, NoFault, CrashAfter], temp_sequence = 1, process_id = 7\<rparr>"
  let ?codec = "\<lparr>profile_to_vec = \<lambda>_. Some ''x'', profile_from_slice = \<lambda>_. None\<rparr>"
  let ?st = "\<lparr>profile_path = product_profile_file ''/data'', profile_now = [], profile_poisoned = False\<rparr>"
  show ?thesis
    using profiles_forgotten_after_crash [of ?w "''/data''" "''old''" ?st example_profile ?codec "''x''"]
      example_profile_valid
    by (auto simp: profile_names_distinct MAXIMUM_PROFILE_FILE_BYTES_def)
qed

end
