(* ===== verification/Appearance_Settings.thy ===== *)
theory Appearance_Settings
  imports Profile_File
begin

text \<open>
  \<open>DesktopAppearanceSettings\<close> (\<open>apps/desktop/src-tauri/src/appearance\_settings.rs\<close>): background and
  artwork of the application, checked and kept in a file.
\<close>

definition APPEARANCE_FILE_VERSION :: u8 where "APPEARANCE_FILE_VERSION = 1"
definition APPEARANCE_FILE_NAME :: string where "APPEARANCE_FILE_NAME = ''appearance-settings-v1.json''"
definition MAXIMUM_APPEARANCE_FILE_BYTES :: nat where "MAXIMUM_APPEARANCE_FILE_BYTES = 26 * 1024 * 1024"
definition MAXIMUM_IMAGE_DATA_URL_BYTES :: nat where "MAXIMUM_IMAGE_DATA_URL_BYTES = 12 * 1024 * 1024"
definition MAXIMUM_FILE_NAME_BYTES :: nat where "MAXIMUM_FILE_NAME_BYTES = 512"

record appearance_image =
  image_url :: string
  image_file_name :: string

record appearance_placement =
  placement_scale :: f64
  placement_x :: f64
  placement_y :: f64

record appearance_artwork =
  artwork_url :: string
  artwork_file_name :: string
  artwork_placement :: appearance_placement

record appearance_settings =
  background_color :: string
  background_image :: "appearance_image option"
  appearance_artwork_of :: "appearance_artwork option"

definition appearance_default :: appearance_settings where
  "appearance_default =
     \<lparr>background_color = ''#ffc126'', background_image = None, appearance_artwork_of = None\<rparr>"

record appearance_file =
  appearance_file_version :: u8
  appearance_file_settings :: appearance_settings

record appearance_settings_error =
  appearance_error_code :: string
  appearance_error_message :: string

definition invalid_settings :: appearance_settings_error where
  "invalid_settings = \<lparr>appearance_error_code = ''invalidAppearanceSettings'',
     appearance_error_message = ''The appearance settings are invalid.''\<rparr>"

definition appearance_unavailable :: appearance_settings_error where
  "appearance_unavailable = \<lparr>appearance_error_code = ''appearanceSettingsUnavailable'',
     appearance_error_message = ''The appearance settings are temporarily unavailable.''\<rparr>"

definition valid_file_name :: "string \<Rightarrow> bool" where
  "valid_file_name file_name \<longleftrightarrow>
     file_name \<noteq> [] \<and> length file_name \<le> MAXIMUM_FILE_NAME_BYTES \<and> \<not> has_control file_name"

definition is_ascii_hexdigit :: "char \<Rightarrow> bool" where
  "is_ascii_hexdigit c \<longleftrightarrow> is_ascii_digit c \<or> in_bytes 97 102 c \<or> in_bytes 65 70 c"

definition valid_settings :: "appearance_settings \<Rightarrow> bool" where
  "valid_settings settings \<longleftrightarrow>
     (length (background_color settings) = 7
      \<and> (case background_color settings of [] \<Rightarrow> False
         | c # digits \<Rightarrow> c = CHR ''#'' \<and> list_all is_ascii_hexdigit digits))
     \<and> (case background_image settings of None \<Rightarrow> True
        | Some picture \<Rightarrow> valid_file_name (image_file_name picture)
            \<and> image_data_url MAXIMUM_IMAGE_DATA_URL_BYTES (image_url picture))
     \<and> (case appearance_artwork_of settings of None \<Rightarrow> True
        | Some artwork \<Rightarrow>
            valid_file_name (artwork_file_name artwork)
            \<and> image_data_url MAXIMUM_IMAGE_DATA_URL_BYTES (artwork_url artwork)
            \<and> f64_is_finite (placement_scale (artwork_placement artwork))
            \<and> f64_within (5 / 100) 2 (placement_scale (artwork_placement artwork))
            \<and> f64_is_finite (placement_x (artwork_placement artwork))
            \<and> f64_within (- 1 / 2) (3 / 2) (placement_x (artwork_placement artwork))
            \<and> f64_is_finite (placement_y (artwork_placement artwork))
            \<and> f64_within (- 1 / 2) (3 / 2) (placement_y (artwork_placement artwork)))"

record appearance_codec =
  appearance_to_vec :: "appearance_file \<Rightarrow> string option"
  appearance_from_slice :: "string \<Rightarrow> appearance_file option"

definition appearance_decode ::
  "appearance_codec \<Rightarrow> string \<Rightarrow> (appearance_settings, appearance_settings_error) result"
where
  "appearance_decode codec body =
     (case appearance_from_slice codec body of
        None \<Rightarrow> Err invalid_settings
      | Some persisted \<Rightarrow>
          if appearance_file_version persisted \<noteq> APPEARANCE_FILE_VERSION
             \<or> \<not> valid_settings (appearance_file_settings persisted)
          then Err invalid_settings else Ok (appearance_file_settings persisted))"

type_synonym desktop_appearance_settings = "appearance_settings profile_store"

definition appearance_load ::
  "appearance_codec \<Rightarrow> path \<Rightarrow> (desktop_appearance_settings, appearance_settings_error) result io"
where
  "appearance_load codec p =
     io_bind (profile_load invalid_settings appearance_unavailable MAXIMUM_APPEARANCE_FILE_BYTES
                (appearance_decode codec) appearance_default p)
       (\<lambda>r. io_return (case r of
          Inl e \<Rightarrow> Err e
        | Inr settings \<Rightarrow> Ok \<lparr>profile_path = p, profile_now = settings, profile_poisoned = False\<rparr>))"

definition appearance_persist ::
  "appearance_codec \<Rightarrow> path \<Rightarrow> appearance_settings \<Rightarrow> (unit, appearance_settings_error) result io"
where
  "appearance_persist codec p settings =
     profile_persist invalid_settings appearance_unavailable MAXIMUM_APPEARANCE_FILE_BYTES p
       (appearance_to_vec codec \<lparr>appearance_file_version = APPEARANCE_FILE_VERSION,
          appearance_file_settings = settings\<rparr>)"

definition appearance_get ::
  "desktop_appearance_settings \<Rightarrow> (appearance_settings, appearance_settings_error) result"
where
  "appearance_get st = (if profile_poisoned st then Err appearance_unavailable else Ok (profile_now st))"

definition appearance_save ::
  "appearance_codec \<Rightarrow> desktop_appearance_settings \<Rightarrow> appearance_settings
     \<Rightarrow> (desktop_appearance_settings \<times> (appearance_settings, appearance_settings_error) result) io"
where
  "appearance_save codec st settings =
     (if \<not> valid_settings settings then io_return (st, Err invalid_settings)
      else if profile_poisoned st then io_return (st, Err appearance_unavailable)
      else profile_commit (appearance_persist codec) st settings settings)"

definition product_appearance_file :: "string \<Rightarrow> path" where
  "product_appearance_file app_data_dir = (app_data_dir, APPEARANCE_FILE_NAME)"

end
