(* ===== verification/Conductor_Settings.thy ===== *)
theory Conductor_Settings
  imports Room_Source Conductor_Ids
begin

text \<open>
  \<open>DesktopRoomConductorSettings\<close> (\<open>apps/desktop/src-tauri/src/room\_conductor\_settings.rs\<close>): which AI
  leads a Room and how messages are sent there. A setting that does not fit the Room any more is
  cleared when it is asked for.
\<close>

section \<open>Settings\<close>

definition CONDUCTOR_FILE_VERSION :: u8 where "CONDUCTOR_FILE_VERSION = 1"
definition CONDUCTOR_FILE_NAME :: string where "CONDUCTOR_FILE_NAME = ''room-conductor-settings-v1.json''"
definition MAXIMUM_CONDUCTOR_FILE_BYTES :: nat where "MAXIMUM_CONDUCTOR_FILE_BYTES = 256 * 1024"
definition MAXIMUM_ROOM_SETTINGS :: nat where "MAXIMUM_ROOM_SETTINGS = 1000"

datatype conductor_send_mode = Send_Direct | Send_Conductor

record room_conductor_status =
  conductor_status_ok :: bool
  conductor_status_room_id :: string
  conductor_status_id :: "string option"
  conductor_status_send_mode :: conductor_send_mode

definition conductor_direct :: "string \<Rightarrow> room_conductor_status" where
  "conductor_direct room_id =
     \<lparr>conductor_status_ok = True, conductor_status_room_id = room_id, conductor_status_id = None,
      conductor_status_send_mode = Send_Direct\<rparr>"

record persisted_room_conductor =
  setting_room_id :: string
  setting_conductor_id :: string
  setting_send_mode :: conductor_send_mode

record persisted_conductor_file =
  conductor_file_version :: u8
  conductor_file_rooms :: "persisted_room_conductor list"

record room_conductor_settings_error =
  conductor_error_code :: string
  conductor_error_message :: string

definition conductor_error :: "string \<Rightarrow> string \<Rightarrow> room_conductor_settings_error" where
  "conductor_error code message = \<lparr>conductor_error_code = code, conductor_error_message = message\<rparr>"

definition conductor_invalid :: room_conductor_settings_error where
  "conductor_invalid = conductor_error ''invalidRoomConductorSettings''
     ''The Room conductor settings are invalid.''"

definition conductor_unavailable :: room_conductor_settings_error where
  "conductor_unavailable = conductor_error ''roomConductorSettingsUnavailable''
     ''The Room conductor settings are temporarily unavailable.''"

definition setting_valid_identifier :: "string \<Rightarrow> bool" where
  "setting_valid_identifier value \<longleftrightarrow>
     value \<noteq> [] \<and> length value \<le> 128 \<and> all_indexed identifier_byte value"

definition validate_room_setting ::
  "persisted_room_conductor \<Rightarrow> (unit, room_conductor_settings_error) result"
where
  "validate_room_setting setting =
     (if \<not> setting_valid_identifier (setting_room_id setting)
         \<or> \<not> setting_valid_identifier (setting_conductor_id setting)
      then Err conductor_invalid else Ok ())"

type_synonym conductor_rooms = "(string, persisted_room_conductor) btree"

section \<open>The file\<close>

record conductor_codec =
  conductor_to_vec :: "persisted_conductor_file \<Rightarrow> string option"
  conductor_from_slice :: "string \<Rightarrow> persisted_conductor_file option"

abbreviation conductor_backup :: "path \<Rightarrow> path" where
  "conductor_backup p \<equiv> with_extension p ''json.backup''"

definition conductor_read_file ::
  "conductor_codec \<Rightarrow> path \<Rightarrow> (persisted_conductor_file, room_conductor_settings_error) result io"
where
  "conductor_read_file codec p w =
     (if \<not> fs_is_file p w then Ret (Err conductor_invalid) w
      else io_try (fs_read p) conductor_unavailable
             (\<lambda>body. io_return
                (if length body = 0 \<or> length body > MAXIMUM_CONDUCTOR_FILE_BYTES then Err conductor_invalid
                 else ok_or (conductor_from_slice codec body) conductor_invalid)) w)"

fun conductor_load_rooms ::
  "persisted_room_conductor list \<Rightarrow> conductor_rooms
     \<Rightarrow> (conductor_rooms, room_conductor_settings_error) result"
where
  "conductor_load_rooms [] leaders = Ok leaders"
| "conductor_load_rooms (r # rs) leaders =
     (case validate_room_setting r of
        Inl e \<Rightarrow> Err e
      | Inr _ \<Rightarrow>
          if bt_contains_key leaders (setting_room_id r) then Err conductor_invalid
          else conductor_load_rooms rs (bt_insert (setting_room_id r) r leaders))"

definition conductor_rooms_of_file ::
  "persisted_conductor_file \<Rightarrow> (conductor_rooms, room_conductor_settings_error) result"
where
  "conductor_rooms_of_file persisted =
     (if conductor_file_version persisted \<noteq> CONDUCTOR_FILE_VERSION
         \<or> length (conductor_file_rooms persisted) > MAXIMUM_ROOM_SETTINGS
      then Err conductor_invalid
      else conductor_load_rooms (conductor_file_rooms persisted) [])"

definition conductor_load ::
  "conductor_codec \<Rightarrow> path \<Rightarrow> (conductor_rooms, room_conductor_settings_error) result io"
where
  "conductor_load codec p w =
     (if \<not> fs_exists p w \<and> \<not> fs_exists (conductor_backup p) w then Ret (Ok []) w
      else io_bind (conductor_read_file codec p)
             (\<lambda>r. case r of
                Inr persisted \<Rightarrow> io_return (conductor_rooms_of_file persisted)
              | Inl _ \<Rightarrow>
                  io_bind (conductor_read_file codec (conductor_backup p))
                    (\<lambda>r. io_return (case r of
                       Inl e \<Rightarrow> Err e | Inr persisted \<Rightarrow> conductor_rooms_of_file persisted))) w)"

text \<open>The old file becomes the backup only when it can be read; otherwise it is removed and the
  backup stays.\<close>

definition conductor_rotate ::
  "conductor_codec \<Rightarrow> path \<Rightarrow> (unit, room_conductor_settings_error) result io"
where
  "conductor_rotate codec p w =
     (let backup = conductor_backup p;
          keep_old = io_try (fs_rename p backup) conductor_unavailable (\<lambda>_. io_return (Ok ())) in
      if fs_exists backup w \<and> \<not> fs_is_file backup w then Ret (Err conductor_invalid) w
      else if fs_exists p w then
        (if \<not> fs_is_file p w then Ret (Err conductor_invalid) w
         else io_bind (conductor_read_file codec p)
           (\<lambda>r. if is_ok r
             then (\<lambda>w. if fs_exists backup w
                then io_try (fs_remove_file backup) conductor_unavailable (\<lambda>_. keep_old) w
                else keep_old w)
             else io_try (fs_remove_file p) conductor_unavailable (\<lambda>_. io_return (Ok ()))) w)
      else Ret (Ok ()) w)"

definition conductor_write_file ::
  "conductor_codec \<Rightarrow> path \<Rightarrow> string \<Rightarrow> (unit, room_conductor_settings_error) result io"
where
  "conductor_write_file codec p body w =
     (let temp = temp_path p (process_id w) (temp_sequence w);
          w1 = w\<lparr>temp_sequence := temp_sequence w + 1\<rparr> in
      with_temp_guard temp
        (io_try (fs_create_new temp) conductor_unavailable
           (\<lambda>_. io_try (fs_write_all_sync temp body) conductor_unavailable
             (\<lambda>_. io_bind (conductor_rotate codec p)
               (\<lambda>r. case r of
                  Inl e \<Rightarrow> io_return (Err e)
                | Inr _ \<Rightarrow> install_temp conductor_unavailable (conductor_backup p) temp p)))) w1)"

definition conductor_persist ::
  "conductor_codec \<Rightarrow> path \<Rightarrow> conductor_rooms \<Rightarrow> (unit, room_conductor_settings_error) result io"
where
  "conductor_persist codec p leaders =
     (if length leaders > MAXIMUM_ROOM_SETTINGS then io_return (Err conductor_invalid)
      else if fst p = [] then io_return (Err conductor_invalid)
      else io_try (fs_create_dir_all (fst p)) conductor_unavailable
        (\<lambda>_ w.
           if \<not> fs_is_dir (fst p) w \<or> (fs_exists p w \<and> \<not> fs_is_file p w)
           then Ret (Err conductor_invalid) w
           else
             (case conductor_to_vec codec \<lparr>conductor_file_version = CONDUCTOR_FILE_VERSION,
                     conductor_file_rooms = map snd leaders\<rparr> of
                None \<Rightarrow> Ret (Err conductor_invalid) w
              | Some body \<Rightarrow>
                  if length body > MAXIMUM_CONDUCTOR_FILE_BYTES then Ret (Err conductor_invalid) w
                  else conductor_write_file codec p body w)))"

section \<open>The store\<close>

record desktop_room_conductor_settings =
  conductor_rooms_now :: conductor_rooms
  conductor_persistence :: "path option"
  conductor_poisoned :: bool

definition conductor_settings_persistent ::
  "conductor_codec \<Rightarrow> path \<Rightarrow> (desktop_room_conductor_settings, room_conductor_settings_error) result io"
where
  "conductor_settings_persistent codec p =
     (if \<not> room_path_is_absolute p \<or> snd p = [] then io_return (Err conductor_invalid)
      else io_bind (conductor_load codec p)
        (\<lambda>r. io_return (case r of
           Inl e \<Rightarrow> Err e
         | Inr leaders \<Rightarrow> Ok \<lparr>conductor_rooms_now = leaders, conductor_persistence = Some p,
             conductor_poisoned = False\<rparr>)))"

definition conductor_status_of :: "persisted_room_conductor \<Rightarrow> room_conductor_status" where
  "conductor_status_of setting =
     \<lparr>conductor_status_ok = True, conductor_status_room_id = setting_room_id setting,
      conductor_status_id = Some (setting_conductor_id setting),
      conductor_status_send_mode = setting_send_mode setting\<rparr>"

definition conductor_get ::
  "desktop_room_conductor_settings \<Rightarrow> string
     \<Rightarrow> (room_conductor_status, room_conductor_settings_error) result"
where
  "conductor_get st room_id =
     (if \<not> setting_valid_identifier room_id then Err conductor_invalid
      else if conductor_poisoned st then Err conductor_unavailable
      else Ok (case bt_get (conductor_rooms_now st) room_id of
          Some setting \<Rightarrow> conductor_status_of setting | None \<Rightarrow> conductor_direct room_id))"

definition conductor_commit ::
  "conductor_codec \<Rightarrow> desktop_room_conductor_settings \<Rightarrow> conductor_rooms \<Rightarrow> room_conductor_status
     \<Rightarrow> (desktop_room_conductor_settings \<times> (room_conductor_status, room_conductor_settings_error) result) io"
where
  "conductor_commit codec st following status =
     io_bind (case conductor_persistence st of
          None \<Rightarrow> io_return (Ok ()) | Some p \<Rightarrow> conductor_persist codec p following)
       (\<lambda>r. io_return (case r of
          Inl e \<Rightarrow> (st, Err e)
        | Inr _ \<Rightarrow> (st\<lparr>conductor_rooms_now := following\<rparr>, Ok status)))"

definition set_conductor ::
  "conductor_codec \<Rightarrow> desktop_room_conductor_settings \<Rightarrow> string \<Rightarrow> string
     \<Rightarrow> (desktop_room_conductor_settings \<times> (room_conductor_status, room_conductor_settings_error) result) io"
where
  "set_conductor codec st room_id conductor_id =
     (if \<not> setting_valid_identifier room_id \<or> \<not> setting_valid_identifier conductor_id
      then io_return (st, Err conductor_invalid)
      else if conductor_poisoned st then io_return (st, Err conductor_unavailable)
      else
        (let status = (\<lambda>mode. \<lparr>conductor_status_ok = True, conductor_status_room_id = room_id,
               conductor_status_id = Some conductor_id, conductor_status_send_mode = mode\<rparr>);
             changed = conductor_commit codec st
               (bt_insert room_id \<lparr>setting_room_id = room_id, setting_conductor_id = conductor_id,
                  setting_send_mode = Send_Conductor\<rparr> (conductor_rooms_now st)) (status Send_Conductor) in
         case bt_get (conductor_rooms_now st) room_id of
           Some setting \<Rightarrow>
             if setting_conductor_id setting = conductor_id
             then io_return (st, Ok (status (setting_send_mode setting))) else changed
         | None \<Rightarrow> changed))"

definition set_mode ::
  "conductor_codec \<Rightarrow> desktop_room_conductor_settings \<Rightarrow> string \<Rightarrow> conductor_send_mode
     \<Rightarrow> (desktop_room_conductor_settings \<times> (room_conductor_status, room_conductor_settings_error) result) io"
where
  "set_mode codec st room_id send_mode =
     (if \<not> setting_valid_identifier room_id then io_return (st, Err conductor_invalid)
      else if conductor_poisoned st then io_return (st, Err conductor_unavailable)
      else
        (case bt_get (conductor_rooms_now st) room_id of
           None \<Rightarrow> io_return (st, Err (conductor_error ''roomConductorNotConfigured''
                     ''This Room does not have a configured conductor.''))
         | Some current \<Rightarrow>
             (let updated = current\<lparr>setting_send_mode := send_mode\<rparr> in
              if setting_send_mode current = send_mode
              then io_return (st, Ok (conductor_status_of updated))
              else conductor_commit codec st
                     (bt_update room_id (\<lambda>_. updated) (conductor_rooms_now st)) (conductor_status_of updated))))"

definition conductor_clear ::
  "conductor_codec \<Rightarrow> desktop_room_conductor_settings \<Rightarrow> string
     \<Rightarrow> (desktop_room_conductor_settings \<times> (room_conductor_status, room_conductor_settings_error) result) io"
where
  "conductor_clear codec st room_id =
     (if \<not> setting_valid_identifier room_id then io_return (st, Err conductor_invalid)
      else if conductor_poisoned st then io_return (st, Err conductor_unavailable)
      else if \<not> bt_contains_key (conductor_rooms_now st) room_id
      then io_return (st, Ok (conductor_direct room_id))
      else conductor_commit codec st (bt_remove room_id (conductor_rooms_now st)) (conductor_direct room_id))"

section \<open>What a Room's setting is worth\<close>

type_synonym desktop_conductor_capabilities = "(string, bool) btree"

definition product_conductor_capabilities :: desktop_conductor_capabilities where
  "product_conductor_capabilities = [(''codex'', True)]"

definition supports_conductor :: "desktop_conductor_capabilities \<Rightarrow> string \<Rightarrow> bool" where
  "supports_conductor capabilities participant_id =
     is_some_and (bt_get capabilities participant_id) (\<lambda>conductor_plan_v1. conductor_plan_v1)"

fun map_room_error :: "room_message_find_error \<Rightarrow> room_conductor_settings_error" where
  "map_room_error Find_RoomNotFound =
     conductor_error ''roomConductorRoomNotFound'' ''The requested Room is not available.''"
| "map_room_error _ = conductor_unavailable"

text \<open>\<open>settings.clear(id)?\<close> on the way to another result.\<close>

definition room_status ::
  "conductor_codec \<Rightarrow> desktop_room_source \<Rightarrow> desktop_room_conductor_settings
     \<Rightarrow> desktop_conductor_capabilities \<Rightarrow> string
     \<Rightarrow> (desktop_room_conductor_settings \<times> (room_conductor_status, room_conductor_settings_error) result) io"
where
  "room_status codec src st capabilities room_id =
     (case room_context src room_id of
        Inl Find_RoomNotFound \<Rightarrow>
          io_bind (conductor_clear codec st room_id)
            (\<lambda>(st', r). io_return (case r of
               Inl e \<Rightarrow> (st', Err e) | Inr _ \<Rightarrow> (st', Err (map_room_error Find_RoomNotFound))))
      | Inl e \<Rightarrow> io_return (st, Err (map_room_error e))
      | Inr seen \<Rightarrow>
          (case conductor_get st room_id of
             Inl e \<Rightarrow> io_return (st, Err e)
           | Inr status \<Rightarrow>
               (case conductor_status_id status of
                  None \<Rightarrow> io_return (st, Ok status)
                | Some conductor_id \<Rightarrow>
                    if list_ex (\<lambda>i. i = conductor_id) (r_participant_ids (context_room seen))
                       \<and> bt_get (participant_kinds seen) conductor_id = Some Ai
                       \<and> supports_conductor capabilities conductor_id
                    then io_return (st, Ok status)
                    else conductor_clear codec st room_id)))"

definition configure_room_conductor ::
  "conductor_codec \<Rightarrow> desktop_room_source \<Rightarrow> desktop_room_conductor_settings
     \<Rightarrow> desktop_conductor_capabilities \<Rightarrow> string \<Rightarrow> string
     \<Rightarrow> (desktop_room_conductor_settings \<times> (room_conductor_status, room_conductor_settings_error) result) io"
where
  "configure_room_conductor codec src st capabilities room_id conductor_id =
     (case room_context src room_id of
        Inl e \<Rightarrow> io_return (st, Err (map_room_error e))
      | Inr seen \<Rightarrow>
          if \<not> list_ex (\<lambda>i. i = conductor_id) (r_participant_ids (context_room seen))
          then io_return (st, Err (conductor_error ''roomConductorParticipantNotFound''
                 ''The selected conductor is not participating in this Room.''))
          else if bt_get (participant_kinds seen) conductor_id \<noteq> Some Ai
          then io_return (st, Err (conductor_error ''roomConductorRequiresAi''
                 ''Only an AI participant can be selected as conductor.''))
          else if \<not> supports_conductor capabilities conductor_id
          then io_return (st, Err (conductor_error ''roomConductorUnsupported''
                 ''This AI does not support Room conductor orchestration.''))
          else set_conductor codec st room_id conductor_id)"

text \<open>The check and the change lock the settings one after the other; \<open>between\<close> is what other commands
  do to them in the meantime.\<close>

definition conductor_mode_save ::
  "conductor_codec \<Rightarrow> (desktop_room_conductor_settings \<Rightarrow> desktop_room_conductor_settings io)
     \<Rightarrow> desktop_room_source \<Rightarrow> desktop_room_conductor_settings
     \<Rightarrow> desktop_conductor_capabilities \<Rightarrow> string \<Rightarrow> conductor_send_mode
     \<Rightarrow> (desktop_room_conductor_settings \<times> (room_conductor_status, room_conductor_settings_error) result) io"
where
  "conductor_mode_save codec between src st capabilities room_id send_mode =
     io_bind (room_status codec src st capabilities room_id)
       (\<lambda>(st', r). case r of
          Inl e \<Rightarrow> io_return (st', Err e)
        | Inr _ \<Rightarrow> io_bind (between st') (\<lambda>st''. set_mode codec st'' room_id send_mode))"

definition product_room_conductor_settings_file :: "path option \<Rightarrow> string \<Rightarrow> path" where
  "product_room_conductor_settings_file settings_file app_data_dir =
     (case settings_file of Some p \<Rightarrow> p | None \<Rightarrow> (app_data_dir, CONDUCTOR_FILE_NAME))"

section \<open>A leader that fits the Room\<close>

text \<open>Whatever the file says, a Room is only ever led by one of its own AI participants that can lead.\<close>

definition leader_fits ::
  "desktop_room_source \<Rightarrow> desktop_conductor_capabilities \<Rightarrow> string \<Rightarrow> string \<Rightarrow> bool"
where
  "leader_fits src capabilities room_id i \<longleftrightarrow>
     (\<exists>seen. room_context src room_id = Ok seen \<and> i \<in> set (r_participant_ids (context_room seen))
        \<and> bt_get (participant_kinds seen) i = Some Ai \<and> supports_conductor capabilities i)"

lemma conductor_commit_returns:
  "conductor_commit codec st following status w = Ret (st', Ok s) w' \<Longrightarrow>
     s = status \<and> st' = st\<lparr>conductor_rooms_now := following\<rparr>"
  by (auto simp: conductor_commit_def io_bind_def io_return_def split: outcome.splits sum.splits)

lemma conductor_clear_returns:
  "conductor_clear codec st room_id w = Ret (st', Ok s) w' \<Longrightarrow> s = conductor_direct room_id"
  by (auto simp: conductor_clear_def io_return_def split: if_splits dest: conductor_commit_returns)

lemma set_conductor_returns:
  "set_conductor codec st room_id i w = Ret (st', Ok s) w' \<Longrightarrow> conductor_status_id s = Some i"
  by (auto simp: set_conductor_def io_return_def Let_def split: if_splits option.splits
      dest!: conductor_commit_returns)

lemma room_status_fits:
  assumes "room_status codec src st capabilities room_id w = Ret (st', Ok s) w'" "conductor_status_id s = Some i"
  shows "leader_fits src capabilities room_id i"
proof -
  obtain seen where seen: "room_context src room_id = Ok seen"
    using assms(1) by (auto simp: room_status_def io_bind_def io_return_def
        split: sum.splits outcome.splits room_message_find_error.splits prod.splits)
  then show ?thesis
    using assms conductor_clear_returns [of codec st room_id w st' s w']
    by (auto simp: room_status_def leader_fits_def io_return_def list_ex_iff conductor_direct_def
        split: sum.splits option.splits if_splits)
qed

lemma configure_fits:
  assumes "configure_room_conductor codec src st capabilities room_id j w = Ret (st', Ok s) w'"
    "conductor_status_id s = Some i"
  shows "leader_fits src capabilities room_id i"
proof -
  obtain seen where seen: "room_context src room_id = Ok seen"
    using assms(1) by (auto simp: configure_room_conductor_def io_return_def split: sum.splits)
  then have "set_conductor codec st room_id j w = Ret (st', Ok s) w'"
    "j \<in> set (r_participant_ids (context_room seen))" "bt_get (participant_kinds seen) j = Some Ai"
    "supports_conductor capabilities j"
    using assms(1) by (auto simp: configure_room_conductor_def io_return_def list_ex_iff split: if_splits)
  then show ?thesis
    using seen assms(2) set_conductor_returns [of codec st room_id j w st' s w'] by (auto simp: leader_fits_def)
qed

lemma set_mode_keeps_leader:
  assumes "set_mode codec st room_id mode w = Ret (st', Ok s) w'" "conductor_status_id s = Some i"
  shows "\<exists>setting. bt_get (conductor_rooms_now st) room_id = Some setting \<and> setting_conductor_id setting = i"
  using assms
  by (auto simp: set_mode_def io_return_def Let_def conductor_status_of_def split: if_splits option.splits
      dest!: conductor_commit_returns)

lemma conductor_clear_forgets:
  assumes "conductor_clear codec st room_id w = Ret (st', Ok s) w'"
  shows "bt_get (conductor_rooms_now st') room_id = None"
  using assms
  by (auto simp: conductor_clear_def io_return_def bt_contains_key_def split: if_splits
      dest!: conductor_commit_returns)

text \<open>The status that was found, or none any more.\<close>

lemma room_status_setting:
  assumes "room_status codec src st capabilities room_id w = Ret (st', Ok s) w'"
    and "bt_get (conductor_rooms_now st') room_id = Some setting"
  shows "leader_fits src capabilities room_id (setting_conductor_id setting)"
proof (rule room_status_fits [OF assms(1)])
  have "conductor_clear codec st room_id w \<noteq> Ret (st', Ok s) w'"
    using assms(2) conductor_clear_forgets by fastforce
  then show "conductor_status_id s = Some (setting_conductor_id setting)"
    using assms
    by (auto simp: room_status_def io_bind_def io_return_def conductor_get_def conductor_status_of_def
        conductor_direct_def
        split: sum.splits outcome.splits room_message_find_error.splits prod.splits option.splits if_splits)
qed

definition leader_in :: "desktop_room_conductor_settings \<Rightarrow> string \<Rightarrow> string option" where
  "leader_in st room_id = map_option setting_conductor_id (bt_get (conductor_rooms_now st) room_id)"

lemma mode_save_fits:
  assumes "conductor_mode_save codec between src st capabilities room_id mode w = Ret (st', Ok s) w'"
    "conductor_status_id s = Some i"
    and "\<And>st w st' w'. between st w = Ret st' w' \<Longrightarrow> leader_in st' room_id \<in> {None, leader_in st room_id}"
  shows "leader_fits src capabilities room_id i"
proof -
  obtain st1 status w1 st2 w2
    where status: "room_status codec src st capabilities room_id w = Ret (st1, Ok status) w1"
    and other: "between st1 w1 = Ret st2 w2"
    and moded: "set_mode codec st2 room_id mode w2 = Ret (st', Ok s) w'"
    using assms(1) by (auto simp: conductor_mode_save_def io_bind_def io_return_def
        split: outcome.splits sum.splits)
  have "leader_in st2 room_id = Some i"
    using set_mode_keeps_leader [OF moded assms(2)] by (auto simp: leader_in_def)
  then have "leader_in st1 room_id = Some i"
    using assms(3) [OF other] by auto
  then show ?thesis
    using room_status_setting [OF status] by (auto simp: leader_in_def)
qed

text \<open>C24: A Room is only led by one of its own AI participants that can lead: whatever the settings or
  their file say, no status that is asked for, no choice of a leader and no change of the mode
  reports anybody else (a change of the mode, where no other command chooses another leader for the
  Room between its check and its change).\<close>

theorem leader_belongs_to_the_room:
  assumes "room_status codec src st capabilities room_id w = Ret (st', Ok s) w'
      \<or> configure_room_conductor codec src st capabilities room_id j w = Ret (st', Ok s) w'
      \<or> (\<forall>st w st' w'. between st w = Ret st' w' \<longrightarrow> leader_in st' room_id \<in> {None, leader_in st room_id})
        \<and> conductor_mode_save codec between src st capabilities room_id mode w = Ret (st', Ok s) w'"
    and "conductor_status_id s = Some i"
  shows "\<exists>seen. room_context src room_id = Ok seen \<and> i \<in> set (r_participant_ids (context_room seen))
    \<and> bt_get (participant_kinds seen) i = Some Ai \<and> supports_conductor capabilities i"
  using assms(1) room_status_fits [OF _ assms(2)] configure_fits [OF _ assms(2)] mode_save_fits [OF _ assms(2)]
  by (metis leader_fits_def)

definition example_led_room :: desktop_room_source where
  "example_led_room = \<lparr>room_inner = \<lparr>snapshot_of = \<lparr>schema_version = [], generated_at = [],
     participants = [\<lparr>p_id = ''codex'', p_display_name = ''Codex'', p_kind = Ai\<rparr>],
     rooms = [\<lparr>r_id = ''room-1'', r_name = ''Room'', r_participant_ids = [''codex''], r_messages = []\<rparr>]\<rparr>,
     poisoned = False\<rparr>, room_persistence = None\<rparr>"

definition example_leaders :: desktop_room_conductor_settings where
  "example_leaders = \<lparr>conductor_rooms_now = [], conductor_persistence = None, conductor_poisoned = False\<rparr>"

theorem leader_belongs_to_the_room_witness:
  "\<exists>st' s w w' seen. configure_room_conductor \<lparr>conductor_to_vec = \<lambda>_. None, conductor_from_slice = \<lambda>_. None\<rparr>
       example_led_room example_leaders product_conductor_capabilities ''room-1'' ''codex'' w = Ret (st', Ok s) w'
     \<and> room_context example_led_room ''room-1'' = Ok seen \<and> ''codex'' \<in> set (r_participant_ids (context_room seen))"
proof -
  fix w :: world
  obtain st' s where run: "configure_room_conductor \<lparr>conductor_to_vec = \<lambda>_. None, conductor_from_slice = \<lambda>_. None\<rparr>
       example_led_room example_leaders product_conductor_capabilities ''room-1'' ''codex'' w = Ret (st', Ok s) w"
    and leader: "conductor_status_id s = Some ''codex''"
    by (simp add: configure_room_conductor_def example_led_room_def example_leaders_def room_context_def
        in_memory_snapshot_def supports_conductor_def product_conductor_capabilities_def set_conductor_def
        setting_valid_identifier_def all_indexed_identifier identifier_tail_byte_def byte_class_defs
        conductor_commit_def io_bind_def io_return_def Let_def)
  show ?thesis
    using run leader_belongs_to_the_room [OF disjI2 [OF disjI1 [OF run]] leader] by blast
qed

end
