(* ===== verification/Browser_Bridge.thy ===== *)
theory Browser_Bridge
  imports Room_Source Utf8_Text Conductor_Ids
begin

text \<open>
  \<open>DesktopBrowserBridge\<close> (\<open>apps/desktop/src-tauri/src/browser\_bridge.rs\<close>): an extension of the
  browser fetches the questions for Gemini over HTTP and brings the answers back as messages of
  the Room. The hash map of dispatches is iterated in the order of its keys. The JSON decoder, the
  clock, \<open>DefaultHasher\<close> and the bytes that the socket delivers are parameters; how an answer is
  written to the socket is not modelled.
\<close>

section \<open>Dispatches\<close>

definition GEMINI_SEARCH_PARTICIPANT_ID :: string where "GEMINI_SEARCH_PARTICIPANT_ID = ''gemini''"
definition BRIDGE_HEADER :: string where "BRIDGE_HEADER = ''x-moe-browser-bridge''"
definition BRIDGE_HEADER_VALUE :: string where "BRIDGE_HEADER_VALUE = ''google-ai-mode-poc-v1''"
definition MAXIMUM_HTTP_BYTES :: nat where "MAXIMUM_HTTP_BYTES = 64000"
definition MAXIMUM_REPLY_BODY_BYTES :: nat where "MAXIMUM_REPLY_BODY_BYTES = 4000"
definition MAXIMUM_BRIDGE_PROMPT_BYTES :: nat where "MAXIMUM_BRIDGE_PROMPT_BYTES = 32000"
definition EXTENSION_RECENT_SECONDS :: u64 where "EXTENSION_RECENT_SECONDS = 15"

record browser_bridge_dispatch =
  bridge_dispatch_id :: string
  bridge_room_id :: string
  bridge_source_message_id :: string
  bridge_prompt :: string
  bridge_reply_token :: string

datatype browser_dispatch_state =
  Bridge_Pending browser_bridge_dispatch
| Bridge_Completed browser_bridge_dispatch room_message

datatype browser_bridge_queue_result = Bridge_Queued | Bridge_Answered room_message

record browser_bridge_reply_success =
  bridge_reply_ok :: bool
  bridge_reply_status :: string
  bridge_reply_truncated :: bool
  bridge_reply_message :: room_message

record browser_bridge_reply_input =
  input_dispatch_id :: string
  input_reply_token :: string
  input_body :: string
  input_source_url :: string

datatype browser_bridge_error = Bridge_InvalidRequest | Bridge_DispatchNotFound | Bridge_SourceUnavailable

record desktop_browser_bridge =
  bridge_enabled :: bool
  bridge_order :: "string list"
  bridge_states :: "(string, browser_dispatch_state) btree"
  bridge_poisoned :: bool
  bridge_listening :: bool
  last_extension_seen :: u64

definition desktop_browser_bridge_new :: "bool \<Rightarrow> desktop_browser_bridge" where
  "desktop_browser_bridge_new enabled =
     \<lparr>bridge_enabled = enabled, bridge_order = [], bridge_states = [], bridge_poisoned = False,
      bridge_listening = False, last_extension_seen = 0\<rparr>"

definition extension_recently_seen :: "u64 \<Rightarrow> desktop_browser_bridge \<Rightarrow> bool" where
  "extension_recently_seen unix_seconds b \<longleftrightarrow>
     (let seen = last_extension_seen b in
      seen > 0 \<and> (if unix_seconds < seen then 0 else unix_seconds - seen) \<le> EXTENSION_RECENT_SECONDS)"

definition touch_extension :: "u64 \<Rightarrow> desktop_browser_bridge \<Rightarrow> desktop_browser_bridge" where
  "touch_extension unix_seconds b = b\<lparr>last_extension_seen := unix_seconds\<rparr>"

text \<open>The token is made of the message and the time by \<open>DefaultHasher\<close>; it is a parameter.\<close>

definition bridge_queue ::
  "string \<Rightarrow> desktop_browser_bridge \<Rightarrow> room_message \<Rightarrow> string
     \<Rightarrow> desktop_browser_bridge \<times> (browser_bridge_queue_result, browser_bridge_error) result"
where
  "bridge_queue reply_token b source_message prompt =
     (if str_trim prompt = [] \<or> length prompt > MAXIMUM_BRIDGE_PROMPT_BYTES
      then (b, Err Bridge_InvalidRequest)
      else if bridge_poisoned b then (b, Err Bridge_SourceUnavailable)
      else
        (case bt_get (bridge_states b) (m_id source_message) of
           Some (Bridge_Pending _) \<Rightarrow> (b, Ok Bridge_Queued)
         | Some (Bridge_Completed _ message) \<Rightarrow> (b, Ok (Bridge_Answered message))
         | None \<Rightarrow>
             (let dispatch = \<lparr>bridge_dispatch_id = ''browser-gemini:'' @ m_room_id source_message @ '':''
                    @ m_id source_message,
                  bridge_room_id = m_room_id source_message, bridge_source_message_id = m_id source_message,
                  bridge_prompt = prompt, bridge_reply_token = reply_token\<rparr> in
              (b\<lparr>bridge_order := bridge_order b @ [m_id source_message],
                 bridge_states := bt_insert (m_id source_message) (Bridge_Pending dispatch) (bridge_states b)\<rparr>,
               Ok Bridge_Queued))))"

fun first_pending ::
  "(string, browser_dispatch_state) btree \<Rightarrow> string list \<Rightarrow> browser_bridge_dispatch option"
where
  "first_pending states [] = None"
| "first_pending states (i # rest) =
     (case bt_get states i of
        Some (Bridge_Pending dispatch) \<Rightarrow> Some dispatch
      | _ \<Rightarrow> first_pending states rest)"

definition next_dispatch ::
  "desktop_browser_bridge \<Rightarrow> (browser_bridge_dispatch option, browser_bridge_error) result"
where
  "next_dispatch b =
     (if bridge_poisoned b then Err Bridge_SourceUnavailable
      else Ok (first_pending (bridge_states b) (bridge_order b)))"

section \<open>Replies\<close>

definition reply_suffix :: string where
  "reply_suffix =
     nl @ nl @ bytes_str [239, 188, 136] @ ''M.I.O.'' @
     bytes_str [227, 129, 174, 229, 143, 150, 227, 130, 138, 232, 190, 188, 227, 129, 191, 228, 184,
     138, 233, 153, 144, 227, 129, 171, 227, 130, 136, 227, 130, 138, 230, 156, 171, 229, 176, 190, 227, 130, 146, 231, 156, 129, 231, 149, 165, 227, 129, 151, 227, 129, 190, 227, 129, 151, 227, 129, 159, 239, 188, 137]"

text \<open>\<open>is\_char\_boundary\<close>, and the loop that goes back to one.\<close>

definition is_char_boundary :: "string \<Rightarrow> nat \<Rightarrow> bool" where
  "is_char_boundary s i \<longleftrightarrow>
     i = 0 \<or> i = length s \<or> (i < length s \<and> \<not> utf8_cont (byte_of (s ! i)))"

fun back_to_boundary :: "string \<Rightarrow> nat \<Rightarrow> nat" where
  "back_to_boundary s 0 = 0"
| "back_to_boundary s (Suc i) = (if is_char_boundary s (Suc i) then Suc i else back_to_boundary s i)"

definition bounded_reply_body :: "string \<Rightarrow> (string \<times> bool, browser_bridge_error) result" where
  "bounded_reply_body input =
     (let trimmed = str_trim input in
      if trimmed = [] then Err Bridge_InvalidRequest
      else if length trimmed \<le> MAXIMUM_REPLY_BODY_BYTES then Ok (trimmed, False)
      else
        (let maximum_prefix = MAXIMUM_REPLY_BODY_BYTES - length reply_suffix;
             e = back_to_boundary trimmed (min maximum_prefix (length trimmed)) in
         Ok (take e trimmed @ reply_suffix, True)))"

definition valid_google_source :: "string \<Rightarrow> bool" where
  "valid_google_source source_url \<longleftrightarrow>
     list_ex (\<lambda>pre. source_url = pre \<or> starts_with source_url (pre @ ''/''))
       [''https://www.google.com/search'', ''https://www.google.com/ai'',
        ''https://www.google.co.jp/search'', ''https://www.google.co.jp/ai'']"

definition browser_reply_message_id :: "(string \<Rightarrow> u64) \<Rightarrow> string \<Rightarrow> string" where
  "browser_reply_message_id hash source_message_id =
     ''browser-reply-gemini-'' @ hex16 (hash source_message_id)"

definition pending_for :: "browser_bridge_reply_input \<Rightarrow> browser_dispatch_state \<Rightarrow> bool" where
  "pending_for input state =
     (case state of
        Bridge_Pending dispatch \<Rightarrow>
          bridge_dispatch_id dispatch = input_dispatch_id input
          \<and> bridge_reply_token dispatch = input_reply_token input
      | Bridge_Completed _ _ \<Rightarrow> False)"

text \<open>The search, then the second look at what was found, as the source has them.\<close>

definition complete_reply ::
  "room_encoder \<Rightarrow> (string \<Rightarrow> u64) \<Rightarrow> string option \<Rightarrow> desktop_room_source \<Rightarrow> desktop_browser_bridge
     \<Rightarrow> browser_bridge_reply_input
     \<Rightarrow> ((desktop_room_source \<times> desktop_browser_bridge)
          \<times> (browser_bridge_reply_success, browser_bridge_error) result) io"
where
  "complete_reply to_vec hash now src b input =
     (let give_up = (\<lambda>e. io_return ((src, b), Err e)) in
      if \<not> valid_google_source (input_source_url input) then give_up Bridge_InvalidRequest
      else if bridge_poisoned b then give_up Bridge_SourceUnavailable
      else
        (case find (\<lambda>(_, state). pending_for input state) (bridge_states b) of
           None \<Rightarrow> give_up Bridge_DispatchNotFound
         | Some (source_message_id, _) \<Rightarrow>
             (case bt_get (bridge_states b) source_message_id of
                None \<Rightarrow> give_up Bridge_DispatchNotFound
              | Some (Bridge_Completed _ message) \<Rightarrow>
                  io_return ((src, b), Ok \<lparr>bridge_reply_ok = True, bridge_reply_status = ''duplicate'',
                    bridge_reply_truncated = False, bridge_reply_message = message\<rparr>)
              | Some (Bridge_Pending dispatch) \<Rightarrow>
                  (case bounded_reply_body (input_body input) of
                     Inl e \<Rightarrow> give_up e
                   | Inr (body, truncated) \<Rightarrow>
                       (case desktop_find_message src (bridge_room_id dispatch) (bridge_source_message_id dispatch) of
                          Inl _ \<Rightarrow> give_up Bridge_SourceUnavailable
                        | Inr source_message \<Rightarrow>
                            if \<not> is_human_participant src (m_author_id source_message)
                            then give_up Bridge_InvalidRequest
                            else
                              (case now of
                                 None \<Rightarrow> give_up Bridge_SourceUnavailable
                               | Some created_at \<Rightarrow>
                                   (case room_message_draft_try_new
                                       (browser_reply_message_id hash (bridge_source_message_id dispatch))
                                       (bridge_room_id dispatch) GEMINI_SEARCH_PARTICIPANT_ID
                                       [m_author_id source_message] body created_at [] of
                                      Inl _ \<Rightarrow> give_up Bridge_InvalidRequest
                                    | Inr draft \<Rightarrow>
                                        io_bind (desktop_append_message to_vec src draft)
                                          (\<lambda>(src, r). io_return (case r of
                                             Inl _ \<Rightarrow> ((src, b), Err Bridge_SourceUnavailable)
                                           | Inr saved \<Rightarrow>
                                               ((src, b\<lparr>bridge_states := bt_insert source_message_id
                                                     (Bridge_Completed dispatch (write_message saved)) (bridge_states b),
                                                   bridge_order := filter (\<lambda>i. i \<noteq> source_message_id) (bridge_order b)\<rparr>),
                                                Ok \<lparr>bridge_reply_ok = True,
                                                  bridge_reply_status = (case write_status saved of
                                                    Appended \<Rightarrow> ''appended'' | Write_Duplicate \<Rightarrow> ''duplicate''),
                                                  bridge_reply_truncated = truncated,
                                                  bridge_reply_message = write_message saved\<rparr>))))))))))"

section \<open>Requests\<close>

record http_request =
  http_method :: string
  http_path :: string
  http_headers :: "(string, string) btree"
  http_body :: string

text \<open>The request, an invalid one, or the panic of an index out of range.\<close>

datatype request_outcome = Request_Read http_request | Request_Invalid | Request_Panics

definition crlf :: string where "crlf = [CHR 0x0D, CHR 0x0A]"

text \<open>\<open>windows(4).position(...)\<close>\<close>

definition find_header_end :: "string \<Rightarrow> nat option" where
  "find_header_end bytes =
     position (\<lambda>i. take 4 (drop i bytes) = crlf @ crlf) [0..<length bytes - 3]"

fun split_crlf :: "string \<Rightarrow> string list" where
  "split_crlf [] = [[]]"
| "split_crlf [c] = [[c]]"
| "split_crlf (c # d # cs) =
     (if [c, d] = crlf then [] # split_crlf cs
      else (case split_crlf (d # cs) of [] \<Rightarrow> [[c]] | line # lines \<Rightarrow> (c # line) # lines))"

fun split_pieces :: "string list \<Rightarrow> string list" where
  "split_pieces [] = [[]]"
| "split_pieces (piece # pieces) =
     (if is_whitespace_piece piece then [] # split_pieces pieces
      else (case split_pieces pieces of [] \<Rightarrow> [piece] | word # words \<Rightarrow> (piece @ word) # words))"

definition split_whitespace :: "string \<Rightarrow> string list" where
  "split_whitespace s = filter (\<lambda>w. w \<noteq> []) (split_pieces (utf8_pieces s))"

fun split_once_colon :: "string \<Rightarrow> (string \<times> string) option" where
  "split_once_colon [] = None"
| "split_once_colon (c # cs) =
     (if c = CHR '':'' then Some ([], cs) else map_option (\<lambda>(l, r). (c # l, r)) (split_once_colon cs))"

definition to_ascii_lowercase :: "string \<Rightarrow> string" where
  "to_ascii_lowercase s = map (\<lambda>c. if is_ascii_uppercase c then char_of (byte_of c + 32) else c) s"

text \<open>\<open>parse::<usize>()\<close>: digits after an optional plus sign, below \<open>2 ^ 64\<close>.\<close>

definition parse_usize :: "string \<Rightarrow> u64 option" where
  "parse_usize s =
     (let digits = (case s of c # cs \<Rightarrow> if c = CHR ''+'' then cs else s | [] \<Rightarrow> s);
          value = foldl (\<lambda>n c. 10 * n + (byte_of c - 48)) 0 digits in
      if digits = [] \<or> \<not> list_all is_ascii_digit digits \<or> value \<ge> 2 ^ 64 then None
      else Some (word_of_nat value))"

fun read_headers :: "string list \<Rightarrow> (string, string) btree \<Rightarrow> (string, string) btree option" where
  "read_headers [] headers = Some headers"
| "read_headers (line # lines) headers =
     (if line = [] then read_headers lines headers
      else
        (case split_once_colon line of
           None \<Rightarrow> None
         | Some (name, value) \<Rightarrow>
             read_headers lines (bt_insert (to_ascii_lowercase (str_trim name)) (str_trim value) headers)))"

text \<open>What the reads of the socket return: bytes (none at the end of the stream) or an error; when the
  list is used up, a read times out.\<close>

type_synonym socket_reads = "(string, unit) result list"

fun read_header_bytes :: "string \<Rightarrow> socket_reads \<Rightarrow> (string \<times> nat \<times> socket_reads) option" where
  "read_header_bytes buffer [] = None"
| "read_header_bytes buffer (r # reads) =
     (if length buffer > MAXIMUM_HTTP_BYTES then None
      else
        (case r of
           Inl _ \<Rightarrow> None
         | Inr bytes \<Rightarrow>
             if bytes = [] then None
             else
               (case find_header_end (buffer @ bytes) of
                  Some i \<Rightarrow> Some (buffer @ bytes, i, reads)
                | None \<Rightarrow> read_header_bytes (buffer @ bytes) reads)))"

fun read_body_bytes :: "u64 \<Rightarrow> string \<Rightarrow> socket_reads \<Rightarrow> string option" where
  "read_body_bytes whole buffer [] = (if length buffer < unat whole then None else Some buffer)"
| "read_body_bytes whole buffer (r # reads) =
     (if length buffer < unat whole then
        (case r of
           Inl _ \<Rightarrow> None
         | Inr bytes \<Rightarrow> if bytes = [] then None else read_body_bytes whole (buffer @ bytes) reads)
      else Some buffer)"

text \<open>The header of a request: method, path and header fields.\<close>

definition parse_header :: "string \<Rightarrow> (string \<times> string \<times> (string, string) btree) option" where
  "parse_header header =
     (if \<not> from_utf8_ok header then None
      else
        (case split_crlf header of
           [] \<Rightarrow> None
         | line # lines \<Rightarrow>
             (case split_whitespace line of
                [verb, p, version] \<Rightarrow>
                  if version = ''HTTP/1.1''
                  then map_option (\<lambda>headers. (verb, p, headers)) (read_headers lines []) else None
              | _ \<Rightarrow> None)))"

text \<open>Sums of \<open>usize\<close> wrap around, as in a build without overflow checks; with the checks the same
  sums panic.\<close>

definition read_request :: "socket_reads \<Rightarrow> request_outcome" where
  "read_request reads =
     (case read_header_bytes [] reads of
        None \<Rightarrow> Request_Invalid
      | Some (buffer, header_end, reads) \<Rightarrow>
          (case parse_header (take header_end buffer) of
             None \<Rightarrow> Request_Invalid
           | Some (verb, p, headers) \<Rightarrow>
               (case (case bt_get headers ''content-length'' of
                        None \<Rightarrow> Some 0 | Some value \<Rightarrow> parse_usize value) of
                  None \<Rightarrow> Request_Invalid
                | Some content_length \<Rightarrow>
                    (let whole = word_of_nat header_end + 4 + content_length in
                     if unat whole > MAXIMUM_HTTP_BYTES then Request_Invalid
                     else
                       (case read_body_bytes whole buffer reads of
                          None \<Rightarrow> Request_Invalid
                        | Some buffer \<Rightarrow>
                            if header_end + 4 > unat whole \<or> unat whole > length buffer then Request_Panics
                            else Request_Read \<lparr>http_method = verb, http_path = p, http_headers = headers,
                                   http_body = drop (header_end + 4) (take (unat whole) buffer)\<rparr>)))))"

definition valid_extension_origin :: "string option \<Rightarrow> bool" where
  "valid_extension_origin origin \<longleftrightarrow>
     is_some_and origin (\<lambda>origin.
       (starts_with origin ''chrome-extension://'' \<or> starts_with origin ''extension://''
        \<or> starts_with origin ''moz-extension://'')
       \<and> CHR 0x0D \<notin> set origin \<and> CHR 0x0A \<notin> set origin)"

definition valid_bridge_request_origin :: "string option \<Rightarrow> bool" where
  "valid_bridge_request_origin origin \<longleftrightarrow> origin = None \<or> valid_extension_origin origin"

datatype bridge_answer =
  Bridge_Empty nat
| Bridge_Error nat string
| Bridge_Status
| Bridge_Outbox "browser_bridge_dispatch option"
| Bridge_Reply browser_bridge_reply_success bool

fun bridge_error_answer :: "browser_bridge_error \<Rightarrow> bridge_answer" where
  "bridge_error_answer Bridge_DispatchNotFound = Bridge_Error 409 ''dispatchNotFound''"
| "bridge_error_answer Bridge_InvalidRequest = Bridge_Error 400 ''invalidReply''"
| "bridge_error_answer Bridge_SourceUnavailable = Bridge_Error 503 ''roomUnavailable''"

text \<open>One connection after its request was read. The flag of \<open>Bridge\_Reply\<close> says whether the event
  for the interface is emitted.\<close>

definition answer_request ::
  "room_encoder \<Rightarrow> (string \<Rightarrow> u64) \<Rightarrow> (string \<Rightarrow> browser_bridge_reply_input option) \<Rightarrow> u64
     \<Rightarrow> string option \<Rightarrow> desktop_room_source \<Rightarrow> desktop_browser_bridge \<Rightarrow> http_request
     \<Rightarrow> ((desktop_room_source \<times> desktop_browser_bridge) \<times> bridge_answer) io"
where
  "answer_request to_vec hash from_slice seconds now src b request =
     (let origin = bt_get (http_headers request) ''origin'';
          refuse = (\<lambda>code. io_return ((src, b), Bridge_Error 403 code)) in
      if http_method request = ''OPTIONS'' then
        (if valid_extension_origin origin then io_return ((src, b), Bridge_Empty 204)
         else refuse ''extensionOriginRequired'')
      else if \<not> valid_bridge_request_origin origin then refuse ''extensionOriginRequired''
      else if bt_get (http_headers request) BRIDGE_HEADER \<noteq> Some BRIDGE_HEADER_VALUE
      then refuse ''bridgeHeaderRequired''
      else
        (let b = touch_extension seconds b; called = (http_method request, http_path request) in
         if called = (''GET'', ''/v1/status'') then io_return ((src, b), Bridge_Status)
         else if called = (''GET'', ''/v1/outbox/next'') then
           io_return ((src, b), case next_dispatch b of
             Inr dispatch \<Rightarrow> Bridge_Outbox dispatch
           | Inl _ \<Rightarrow> Bridge_Error 503 ''bridgeUnavailable'')
         else if called = (''POST'', ''/v1/replies'') then
           (case from_slice (http_body request) of
              None \<Rightarrow> io_return ((src, b), Bridge_Error 400 ''invalidReply'')
            | Some input \<Rightarrow>
                io_bind (complete_reply to_vec hash now src b input)
                  (\<lambda>(st, r). io_return (st, case r of
                     Inr success \<Rightarrow> Bridge_Reply success (bridge_reply_status success = ''appended'')
                   | Inl e \<Rightarrow> bridge_error_answer e)))
         else io_return ((src, b), Bridge_Error 404 ''notFound'')))"

text \<open>\<open>None\<close> is the panic that ends the thread of the bridge.\<close>

definition handle_connection ::
  "room_encoder \<Rightarrow> (string \<Rightarrow> u64) \<Rightarrow> (string \<Rightarrow> browser_bridge_reply_input option) \<Rightarrow> u64
     \<Rightarrow> string option \<Rightarrow> desktop_room_source \<Rightarrow> desktop_browser_bridge \<Rightarrow> socket_reads
     \<Rightarrow> ((desktop_room_source \<times> desktop_browser_bridge) \<times> bridge_answer option) io"
where
  "handle_connection to_vec hash from_slice seconds now src b reads =
     (case read_request reads of
        Request_Panics \<Rightarrow> io_return ((src, b), None)
      | Request_Invalid \<Rightarrow> io_return ((src, b), Some (Bridge_Error 400 ''invalidRequest''))
      | Request_Read request \<Rightarrow>
          io_bind (answer_request to_vec hash from_slice seconds now src b request)
            (\<lambda>(st, answer). io_return (st, Some answer)))"

end
