(* ===== verification/Browser_Bridge_Claims.thy ===== *)
theory Browser_Bridge_Claims
  imports Browser_Bridge Dispatch_Claims Adapter_Sdk Room_Claims
begin

text \<open>
  What the bridge to the browser guarantees: a reply fits into a message and is taken once, only
  the extension changes anything, and one bad length in a request stops the bridge.
\<close>

section \<open>Boundaries of characters\<close>

lemma from_utf8_ok_Nil [simp]: "from_utf8_ok []"
  by (simp add: from_utf8_ok_def)

lemma utf8_valid_append: "utf8_valid a \<Longrightarrow> utf8_valid (a @ b) = utf8_valid b"
  by (induction a rule: utf8_valid.induct) (auto split: if_splits list.splits)

lemma from_utf8_ok_append: "from_utf8_ok a \<Longrightarrow> from_utf8_ok (a @ b) = from_utf8_ok b"
  by (simp add: from_utf8_ok_def utf8_valid_append)

text \<open>A valid string is its first character, valid by itself, and a valid rest.\<close>

lemma utf8_first_piece:
  assumes "from_utf8_ok (c # cs)"
  shows "from_utf8_ok (c # take (utf8_length c - 1) cs) \<and> from_utf8_ok (drop (utf8_length c - 1) cs)
    \<and> utf8_length c - 1 \<le> length cs
    \<and> (\<forall>i < utf8_length c - 1. utf8_cont (byte_of (cs ! i)))"
  using assms
  by (auto simp: from_utf8_ok_def utf8_length_def numeral_2_eq_2 numeral_3_eq_3 less_Suc_eq
      split: if_splits list.splits)

lemma utf8_pieces_ok: "from_utf8_ok s \<Longrightarrow> list_all from_utf8_ok (utf8_pieces s)"
  by (induction s rule: utf8_pieces.induct) (auto dest: utf8_first_piece)

lemma from_utf8_ok_concat: "list_all from_utf8_ok pieces \<Longrightarrow> from_utf8_ok (concat pieces)"
  by (induction pieces) (auto simp: from_utf8_ok_append)

lemma str_trim_ok:
  assumes "from_utf8_ok s"
  shows "from_utf8_ok (str_trim s)"
proof -
  have "\<forall>piece \<in> set (utf8_pieces s). from_utf8_ok piece"
    using utf8_pieces_ok [OF assms] by (simp add: list_all_iff)
  then show ?thesis
    unfolding str_trim_def
    by (intro from_utf8_ok_concat) (auto simp: list_all_iff dest!: set_dropWhileD)
qed

lemma take_boundary_ok:
  assumes "from_utf8_ok s" "is_char_boundary s i"
  shows "from_utf8_ok (take i s)"
  using assms
proof (induction s arbitrary: i rule: utf8_pieces.induct)
  case (2 c cs)
  let ?l = "utf8_length c - 1"
  note first = utf8_first_piece [OF 2(2)]
  show ?case
  proof (cases i)
    case (Suc j)
    show ?thesis
    proof (cases "?l \<le> j")
      case True
      have "is_char_boundary (drop ?l cs) (j - ?l)"
        using 2(3) True Suc first by (auto simp: is_char_boundary_def intro: diff_less_mono)
      then have "from_utf8_ok (take (j - ?l) (drop ?l cs))"
        using 2(1) first by blast
      moreover have "take j cs = take ?l cs @ take (j - ?l) (drop ?l cs)"
        using True take_add [of ?l "j - ?l" cs] by simp
      ultimately show ?thesis
        using first from_utf8_ok_append [of "c # take ?l cs"] Suc by simp
    next
      case False
      then have "utf8_cont (byte_of (cs ! j))" "j < length cs"
        using first by auto
      then show ?thesis
        using 2(3) Suc by (simp add: is_char_boundary_def)
    qed
  qed simp
qed simp

lemma back_to_boundary_stops: "is_char_boundary s (back_to_boundary s i) \<and> back_to_boundary s i \<le> i"
  by (induction i) (auto simp: is_char_boundary_def)

lemma length_reply_suffix: "length reply_suffix = 71"
  by (simp add: reply_suffix_def nl_def bytes_str_def)

text \<open>C26: A reply of any length becomes a body that a Room message can have: not empty, at most 4,000
  bytes, and valid UTF-8; it is the trimmed answer itself, or, when that is longer, a beginning of it
  that ends between two characters, with the note that says so.\<close>

theorem reply_body_fits:
  assumes "from_utf8_ok input" "bounded_reply_body input = Ok (body, truncated)"
  shows "body \<noteq> [] \<and> length body \<le> MAXIMUM_REPLY_BODY_BYTES \<and> from_utf8_ok body
    \<and> (if truncated then \<exists>n. body = take n (str_trim input) @ reply_suffix \<and> length (str_trim input) > MAXIMUM_REPLY_BODY_BYTES
       else body = str_trim input)"
proof -
  have ok: "from_utf8_ok (str_trim input)" "from_utf8_ok reply_suffix"
    using str_trim_ok [OF assms(1)]
    by (simp_all add: reply_suffix_def nl_def bytes_str_def from_utf8_ok_def byte_of_def utf8_cont_def)
  show ?thesis
    using assms(2) ok back_to_boundary_stops [of "str_trim input"] length_reply_suffix
      from_utf8_ok_append take_boundary_ok [OF ok(1)]
    by (auto simp: bounded_reply_body_def Let_def MAXIMUM_REPLY_BODY_BYTES_def min.coboundedI2 split: if_splits)
qed

theorem reply_body_fits_witness:
  "bounded_reply_body ''  yes '' = Ok (''yes'', False) \<and> length ''yes'' \<le> MAXIMUM_REPLY_BODY_BYTES
     \<and> str_trim ''  yes '' = ''yes''"
proof -
  have trimmed: "str_trim ''  yes '' = ''yes''"
    by (simp add: str_trim_def is_whitespace_piece_def utf8_length_def byte_of_def str_chars_def is_whitespace_def)
  then have run: "bounded_reply_body ''  yes '' = Ok (''yes'', False)"
    by (simp add: bounded_reply_body_def MAXIMUM_REPLY_BODY_BYTES_def)
  have "from_utf8_ok ''  yes ''"
    by (simp add: from_utf8_ok_def byte_of_def)
  from reply_body_fits [OF this run] show ?thesis
    using run by (simp add: trimmed)
qed

section \<open>A reply is taken once\<close>

definition dispatch_of_state :: "browser_dispatch_state \<Rightarrow> browser_bridge_dispatch" where
  "dispatch_of_state state = (case state of Bridge_Pending d \<Rightarrow> d | Bridge_Completed d _ \<Rightarrow> d)"

definition is_pending :: "browser_dispatch_state \<Rightarrow> bool" where
  "is_pending state = (case state of Bridge_Pending _ \<Rightarrow> True | Bridge_Completed _ _ \<Rightarrow> False)"

text \<open>Every dispatch is filed under its message and has the id made of Room and message; the order holds
  the pending ones, each once.\<close>

definition bridge_ok :: "desktop_browser_bridge \<Rightarrow> bool" where
  "bridge_ok b \<longleftrightarrow>
     bt_ok (bridge_states b)
     \<and> (\<forall>(i, state) \<in> set (bridge_states b).
          bridge_source_message_id (dispatch_of_state state) = i
          \<and> CHR '':'' \<notin> set (bridge_room_id (dispatch_of_state state))
          \<and> bridge_dispatch_id (dispatch_of_state state)
              = ''browser-gemini:'' @ bridge_room_id (dispatch_of_state state) @ '':'' @ i)
     \<and> distinct (bridge_order b)
     \<and> set (bridge_order b) = {i. is_some_and (bt_get (bridge_states b) i) is_pending}"

lemma bridge_ok_new: "bridge_ok (desktop_browser_bridge_new enabled)"
  by (simp add: bridge_ok_def desktop_browser_bridge_new_def)

lemma bridge_ok_queue:
  assumes "bridge_ok b" "CHR '':'' \<notin> set (m_room_id msg)"
  shows "bridge_ok (fst (bridge_queue token b msg prompt))"
proof (cases "bt_get (bridge_states b) (m_id msg)")
  case (Some state)
  then show ?thesis
    using assms(1) by (simp add: bridge_queue_def split: browser_dispatch_state.split)
next
  case None
  have "set (bt_insert (m_id msg) v (bridge_states b)) = insert (m_id msg, v) (set (bridge_states b))" for v
    using None by (rule bt_insert_absent_set)
  moreover have "m_id msg \<notin> set (bridge_order b)"
    using assms(1) None by (simp add: bridge_ok_def)
  ultimately show ?thesis
    using assms None
    by (auto simp: bridge_queue_def bridge_ok_def Let_def dispatch_of_state_def is_pending_def is_some_and_iff
        split: if_splits)
qed

lemma pending_is_found:
  assumes "bridge_ok b" "find (\<lambda>(_, state). pending_for input state) (bridge_states b) = Some (i, state)"
  obtains dispatch where "bt_get (bridge_states b) i = Some (Bridge_Pending dispatch)"
    "bridge_dispatch_id dispatch = input_dispatch_id input" "bridge_source_message_id dispatch = i"
proof -
  have "(i, state) \<in> set (bridge_states b)" "pending_for input state"
    using find_SomeD [OF assms(2)] by simp_all
  moreover then obtain dispatch where "state = Bridge_Pending dispatch"
      "bridge_dispatch_id dispatch = input_dispatch_id input"
    by (cases state) (auto simp: pending_for_def)
  ultimately show thesis
    using assms(1) that [of dispatch] bt_get_in_set [of "bridge_states b" i state]
    by (auto simp: bridge_ok_def dispatch_of_state_def)
qed

lemma bridge_entry:
  assumes "bridge_ok b" "bt_get (bridge_states b) i = Some s"
  shows "CHR '':'' \<notin> set (bridge_room_id (dispatch_of_state s))
    \<and> bridge_source_message_id (dispatch_of_state s) = i
    \<and> bridge_dispatch_id (dispatch_of_state s)
      = ''browser-gemini:'' @ bridge_room_id (dispatch_of_state s) @ '':'' @ i"
proof -
  have "(i, s) \<in> set (bridge_states b)"
    using assms bt_get_in_set [of "bridge_states b" i s] by (simp add: bridge_ok_def)
  then show ?thesis
    using assms(1) unfolding bridge_ok_def by fast
qed

lemma dispatch_ids_distinct:
  assumes "bridge_ok b" "bt_get (bridge_states b) i = Some s" "bt_get (bridge_states b) j = Some t"
    and "bridge_dispatch_id (dispatch_of_state s) = bridge_dispatch_id (dispatch_of_state t)"
  shows "i = j"
  using bridge_entry [OF assms(1,2)] bridge_entry [OF assms(1,3)] assms(4) by (auto simp: append_sep_eq)

lemma complete_reply_completes:
  assumes "bridge_ok b" "complete_reply enc hash now src b input w = Ret ((src', b'), Ok success) w'"
  obtains i dispatch where "bt_get (bridge_states b) i = Some (Bridge_Pending dispatch)"
    "bridge_dispatch_id dispatch = input_dispatch_id input"
    "b' = b\<lparr>bridge_states := bt_insert i (Bridge_Completed dispatch (bridge_reply_message success)) (bridge_states b),
            bridge_order := filter (\<lambda>j. j \<noteq> i) (bridge_order b)\<rparr>"
proof -
  obtain i state where found: "find (\<lambda>(_, state). pending_for input state) (bridge_states b) = Some (i, state)"
    using assms(2) by (auto simp: complete_reply_def io_return_def Let_def split: if_splits option.splits)
  obtain dispatch where d: "bt_get (bridge_states b) i = Some (Bridge_Pending dispatch)"
      "bridge_dispatch_id dispatch = input_dispatch_id input" "bridge_source_message_id dispatch = i"
    by (rule pending_is_found [OF assms(1) found])
  have "b' = b\<lparr>bridge_states := bt_insert i (Bridge_Completed dispatch (bridge_reply_message success)) (bridge_states b),
            bridge_order := filter (\<lambda>j. j \<noteq> i) (bridge_order b)\<rparr>"
    using assms(2) found d
    by (auto simp: complete_reply_def io_return_def io_bind_def Let_def
        split: if_splits option.splits sum.splits prod.splits outcome.splits)
  then show thesis
    using that d by blast
qed

lemma complete_reply_error:
  "complete_reply enc hash now src b input w = Ret ((src', b'), Inl e) w' \<Longrightarrow> b' = b"
  by (auto simp: complete_reply_def io_return_def io_bind_def Let_def
      split: if_splits option.splits sum.splits prod.splits outcome.splits browser_dispatch_state.splits)

lemma bridge_ok_complete:
  assumes "bridge_ok b" "complete_reply enc hash now src b input w = Ret ((src', b'), r) w'"
  shows "bridge_ok b'"
proof (cases r)
  case (Inl e)
  then show ?thesis
    using assms complete_reply_error by blast
next
  case (Inr success)
  obtain i dispatch where i: "bt_get (bridge_states b) i = Some (Bridge_Pending dispatch)"
    "b' = b\<lparr>bridge_states := bt_insert i (Bridge_Completed dispatch (bridge_reply_message success)) (bridge_states b),
            bridge_order := filter (\<lambda>j. j \<noteq> i) (bridge_order b)\<rparr>"
    using complete_reply_completes [OF assms(1), of enc hash now src input w src' b' success w'] assms(2) Inr by blast
  have ok: "bt_ok (bridge_states b)" "bt_ok (bridge_states b')"
    using assms(1) i(2) by (simp_all add: bridge_ok_def)
  have "bridge_source_message_id (dispatch_of_state s) = j
      \<and> CHR '':'' \<notin> set (bridge_room_id (dispatch_of_state s))
      \<and> bridge_dispatch_id (dispatch_of_state s) = ''browser-gemini:'' @ bridge_room_id (dispatch_of_state s) @ '':'' @ j"
    if "(j, s) \<in> set (bridge_states b')" for j s
    using that bridge_entry [OF assms(1), of j s] bridge_entry [OF assms(1) i(1)] bt_get_in_set [OF ok(2)] i(2)
    by (auto simp: dispatch_of_state_def split: if_splits)
  then show ?thesis
    using assms(1) i ok by (auto simp: bridge_ok_def is_pending_def is_some_and_iff)
qed

lemma first_pending_in_order:
  "first_pending states is = Some d \<Longrightarrow> \<exists>i \<in> set is. bt_get states i = Some (Bridge_Pending d)"
  by (induction "is") (auto split: option.splits browser_dispatch_state.splits)

text \<open>What happens to a bridge: questions are queued, and the extension connects with any requests,
  for any state of the Room and at any time. A question is of a Room, and the name of a Room is an
  identifier, which has no colon.\<close>

inductive bridge_moves ::
  "room_encoder \<Rightarrow> (string \<Rightarrow> u64) \<Rightarrow> (string \<Rightarrow> browser_bridge_reply_input option)
     \<Rightarrow> desktop_browser_bridge \<Rightarrow> desktop_browser_bridge \<Rightarrow> bool"
  for enc hash from_slice b
where
  stays: "bridge_moves enc hash from_slice b b"
| queued: "bridge_moves enc hash from_slice b b' \<Longrightarrow> CHR '':'' \<notin> set (m_room_id msg) \<Longrightarrow>
    bridge_moves enc hash from_slice b (fst (bridge_queue token b' msg prompt))"
| connected: "bridge_moves enc hash from_slice b b' \<Longrightarrow>
    handle_connection enc hash from_slice seconds now src b' reads w = Ret ((src', b''), answer) w' \<Longrightarrow>
    bridge_moves enc hash from_slice b b''"

lemma connection_bridge:
  assumes "handle_connection enc hash from_slice seconds now src b reads w = Ret ((src', b'), answer) w'"
  obtains "b' = b" | "b' = touch_extension seconds b"
  | input r where "complete_reply enc hash now src (touch_extension seconds b) input w = Ret ((src', b'), r) w'"
  using assms
  by (auto simp: handle_connection_def answer_request_def io_return_def io_bind_def Let_def
      split: request_outcome.splits if_splits option.splits outcome.splits prod.splits)

text \<open>The question is answered, with this message.\<close>

definition bridge_answered :: "desktop_browser_bridge \<Rightarrow> string \<Rightarrow> browser_bridge_dispatch \<Rightarrow> room_message \<Rightarrow> bool" where
  "bridge_answered b i dispatch message \<longleftrightarrow>
     bridge_ok b \<and> \<not> bridge_poisoned b
     \<and> bt_get (bridge_states b) i = Some (Bridge_Completed dispatch message)"

lemma answered_touch: "bridge_answered (touch_extension seconds b) = bridge_answered b"
  by (simp add: fun_eq_iff bridge_answered_def bridge_ok_def touch_extension_def)

lemma answered_complete:
  assumes "bridge_answered b i d m" "complete_reply enc hash now src b input w = Ret ((src', b'), r) w'"
  shows "bridge_answered b' i d m"
proof (cases r)
  case (Inl e)
  then show ?thesis
    using assms complete_reply_error by blast
next
  case (Inr success)
  have ok: "bridge_ok b" and i: "bt_get (bridge_states b) i = Some (Bridge_Completed d m)"
    and free: "\<not> bridge_poisoned b"
    using assms(1) by (auto simp: bridge_answered_def)
  obtain j dispatch where "bt_get (bridge_states b) j = Some (Bridge_Pending dispatch)"
    and b': "b' = b\<lparr>bridge_states := bt_insert j (Bridge_Completed dispatch (bridge_reply_message success)) (bridge_states b),
            bridge_order := filter (\<lambda>k. k \<noteq> j) (bridge_order b)\<rparr>"
    using complete_reply_completes [OF ok assms(2) [unfolded Inr]] by metis
  then have "j \<noteq> i"
    using i by auto
  then show ?thesis
    using bridge_ok_complete [OF ok assms(2)] i free b' by (simp add: bridge_answered_def)
qed

lemma answered_queue:
  assumes "bridge_answered b i d m" "CHR '':'' \<notin> set (m_room_id msg)"
  shows "bridge_answered (fst (bridge_queue token b msg prompt)) i d m"
  using assms bridge_ok_queue [of b msg token prompt]
  by (auto simp: bridge_answered_def bridge_queue_def Let_def split: option.splits browser_dispatch_state.splits)

lemma answered_for_ever:
  assumes "bridge_moves enc hash from_slice b later" "bridge_answered b i d m"
  shows "bridge_answered later i d m"
  using assms
proof (induction rule: bridge_moves.induct)
  case (connected b' seconds now src reads w src' b'' answer w')
  from connected(2) show ?case
    by (rule connection_bridge)
      (use connected(3,4) answered_complete [of "touch_extension seconds b'" i d m]
          in \<open>auto simp: answered_touch\<close>)
qed (simp_all add: answered_queue)

lemma complete_reply_answers:
  assumes "bridge_ok b" "complete_reply enc hash now src b input w = Ret ((src', b'), Ok success) w'"
  obtains i dispatch where "bridge_answered b' i dispatch (bridge_reply_message success)"
    "bridge_dispatch_id dispatch = input_dispatch_id input"
proof -
  obtain i dispatch where "bt_get (bridge_states b) i = Some (Bridge_Pending dispatch)"
    and d: "bridge_dispatch_id dispatch = input_dispatch_id input"
    and b': "b' = b\<lparr>bridge_states := bt_insert i (Bridge_Completed dispatch (bridge_reply_message success)) (bridge_states b),
            bridge_order := filter (\<lambda>j. j \<noteq> i) (bridge_order b)\<rparr>"
    by (rule complete_reply_completes [OF assms])
  moreover have "\<not> bridge_poisoned b"
    using assms(2) by (auto simp: complete_reply_def io_return_def split: if_splits)
  ultimately show thesis
    using that [of i dispatch] bridge_ok_complete [OF assms] by (simp add: bridge_answered_def)
qed

lemma answered_not_pending:
  assumes "bridge_answered b i dispatch m" "bt_get (bridge_states b) j = Some (Bridge_Pending d)"
  shows "bridge_dispatch_id d \<noteq> bridge_dispatch_id dispatch"
proof
  assume "bridge_dispatch_id d = bridge_dispatch_id dispatch"
  then have "j = i"
    using assms dispatch_ids_distinct [of b j "Bridge_Pending d" i "Bridge_Completed dispatch m"]
    by (simp add: bridge_answered_def dispatch_of_state_def)
  then show False
    using assms by (simp add: bridge_answered_def)
qed

lemma answered_not_found:
  assumes "bridge_answered b i dispatch m" "input_dispatch_id input = bridge_dispatch_id dispatch"
  shows "find (\<lambda>(_, state). pending_for input state) (bridge_states b) = None"
proof (rule ccontr)
  assume "find (\<lambda>(_, state). pending_for input state) (bridge_states b) \<noteq> None"
  then obtain j s where "find (\<lambda>(_, state). pending_for input state) (bridge_states b) = Some (j, s)"
    by auto
  moreover have "bridge_ok b"
    using assms(1) by (simp add: bridge_answered_def)
  ultimately show False
    using pending_is_found answered_not_pending [OF assms(1)] assms(2) by metis
qed

lemma answered_question:
  assumes "bridge_answered b i dispatch m" "CHR '':'' \<notin> set room"
    "''browser-gemini:'' @ room @ '':'' @ j = bridge_dispatch_id dispatch"
  shows "j = i"
  using assms bridge_entry [of b i "Bridge_Completed dispatch m"]
  by (auto simp: bridge_answered_def dispatch_of_state_def append_sep_eq)

text \<open>C23: A question gets at most one reply. Once a reply was taken, then after any further questions,
  connections of the extension and replies its dispatch is never offered again, a reply to it, with any
  body and for any state of the Room, is refused as unknown and changes nothing, and asking the
  question again is answered with the message that was stored. (The branch that would answer a
  repeated reply with the stored message is never reached.)\<close>

theorem reply_is_taken_once:
  assumes "bridge_ok b"
    and "complete_reply enc hash now src b input w = Ret ((src', b'), Ok success) w'"
    and "bridge_moves enc hash from_slice b' later"
    and "valid_google_source (input_source_url again)"
    and "input_dispatch_id again = input_dispatch_id input"
    and "CHR '':'' \<notin> set (m_room_id question)"
    and "''browser-gemini:'' @ m_room_id question @ '':'' @ m_id question = input_dispatch_id input"
    and "str_trim prompt \<noteq> []" "length prompt \<le> MAXIMUM_BRIDGE_PROMPT_BYTES"
  shows "complete_reply enc hash now' src'' later again w'' = Ret ((src'', later), Err Bridge_DispatchNotFound) w''
    \<and> bridge_queue token later question prompt = (later, Ok (Bridge_Answered (bridge_reply_message success)))
    \<and> (\<exists>offer. next_dispatch later = Ok offer
         \<and> (\<forall>d. offer = Some d \<longrightarrow> bridge_dispatch_id d \<noteq> input_dispatch_id input))"
proof -
  obtain i dispatch where "bridge_answered b' i dispatch (bridge_reply_message success)"
    and d: "bridge_dispatch_id dispatch = input_dispatch_id input"
    by (rule complete_reply_answers [OF assms(1,2)])
  then have over: "bridge_answered later i dispatch (bridge_reply_message success)"
    using answered_for_ever [OF assms(3)] by blast
  moreover have "m_id question = i"
    using answered_question [OF over assms(6)] assms(7) d by simp
  moreover have "bridge_dispatch_id e \<noteq> input_dispatch_id input"
    if "first_pending (bridge_states later) (bridge_order later) = Some e" for e
    using first_pending_in_order [OF that] answered_not_pending [OF over] d by auto
  ultimately show ?thesis
    using answered_not_found [OF over, of again] assms(4,5,8,9) d
    by (simp add: complete_reply_def io_return_def bridge_queue_def next_dispatch_def bridge_answered_def)
qed

definition example_question :: room_message where
  "example_question = example_message ''message-1'' ''body 1''"

definition example_bridge :: desktop_browser_bridge where
  "example_bridge = fst (bridge_queue ''t'' (desktop_browser_bridge_new True) example_question ''q'')"

definition example_reply :: browser_bridge_reply_input where
  "example_reply = \<lparr>input_dispatch_id = ''browser-gemini:room-1:message-1'', input_reply_token = ''t'',
     input_body = ''yes'', input_source_url = ''https://www.google.com/search''\<rparr>"

lemma short_trims [simp]: "str_trim ''q'' = ''q''" "str_trim ''yes'' = ''yes''"
  by (simp_all add: str_trim_def is_whitespace_piece_def utf8_length_def byte_of_def str_chars_def is_whitespace_def)

lemma example_bridge_ok: "bridge_ok example_bridge"
  unfolding example_bridge_def
  by (rule bridge_ok_queue [OF bridge_ok_new]) (simp add: example_question_def example_message_def)

lemma example_bridge_states:
  "\<not> bridge_poisoned example_bridge"
  "bridge_states example_bridge = [(''message-1'', Bridge_Pending \<lparr>bridge_dispatch_id = ''browser-gemini:room-1:message-1'',
     bridge_room_id = ''room-1'', bridge_source_message_id = ''message-1'', bridge_prompt = ''q'',
     bridge_reply_token = ''t''\<rparr>)]"
  by (simp_all add: example_bridge_def bridge_queue_def desktop_browser_bridge_new_def example_question_def
      example_message_def MAXIMUM_BRIDGE_PROMPT_BYTES_def)

lemma google_search_valid: "valid_google_source ''https://www.google.com/search''"
  by (simp add: valid_google_source_def)

lemma example_reply_completes:
  "\<exists>src' b' success. complete_reply enc (\<lambda>_. 0) (Some ''1'') \<lparr>room_inner = example_store, room_persistence = None\<rparr>
     example_bridge example_reply w = Ret ((src', b'), Ok success) w"
proof -
  let ?i = "browser_reply_message_id (\<lambda>_. 0) ''message-1''"
  let ?reply = "\<lparr>m_id = ?i, m_room_id = ''room-1'', m_author_id = ''gemini'', m_recipients = [''owner''],
    m_body = ''yes'', m_created_at = ''1'', m_artifact_ids = [], m_provenance = None\<rparr>"
  have "list_all identifier_tail_byte (hex16 0)"
    using hex16_alphanumeric [of 0] by (auto simp: list_all_iff identifier_tail_byte_def)
  then have "valid_identifier ?i"
    by (simp add: browser_reply_message_id_def valid_identifier_eval identifier_tail_byte_def byte_class_defs)
  then have draft: "room_message_draft_try_new ?i ''room-1'' ''gemini'' [''owner''] ''yes'' ''1'' []
      = Ok (RoomMessageDraft ?reply)"
    by (simp add: room_message_draft_try_new_def room_message_draft_try_new_with_provenance_def Let_def
        valid_message_shape_def unique_valid_identifiers_iff identifier_eval valid_text_def room_limits
        trim_is_empty_def str_chars_def is_whitespace_def)
  have other: "?i \<noteq> ''message-'' @ n" "''message-'' @ n \<noteq> ?i" for n
    by (simp_all add: browser_reply_message_id_def)
  obtain inner where "append_message example_store (RoomMessageDraft ?reply)
      = (inner, Ok (room_write_success_new Appended ?reply))"
    using other [of "''1''"] other [of "''2''"] other [of "''3''"]
    by (simp add: append_message_def example_store_defs room_limits Let_def)
  then have append: "desktop_append_message enc \<lparr>room_inner = example_store, room_persistence = None\<rparr>
      (RoomMessageDraft ?reply) w
      = Ret (\<lparr>room_inner = inner, room_persistence = None\<rparr>, Ok (room_write_success_new Appended ?reply)) w"
    by (simp add: desktop_append_message_def write_through_def in_memory_snapshot_def io_return_def)
      (simp add: example_store_def)
  have found: "desktop_find_message \<lparr>room_inner = example_store, room_persistence = None\<rparr> ''room-1'' ''message-1''
      = Ok example_question"
    by (simp add: desktop_find_message_def find_message_def example_store_defs identifier_eval example_question_def)
  have human: "is_human_participant \<lparr>room_inner = example_store, room_persistence = None\<rparr> (m_author_id example_question)"
    by (simp add: is_human_participant_def in_memory_snapshot_def example_store_defs example_question_def)
  have author: "m_author_id example_question = ''owner''"
    by (simp add: example_question_def example_message_def)
  show ?thesis
    using draft append found human google_search_valid
    by (simp add: complete_reply_def example_bridge_states example_reply_def pending_for_def author
        bounded_reply_body_def MAXIMUM_REPLY_BODY_BYTES_def GEMINI_SEARCH_PARTICIPANT_ID_def io_bind_def
        io_return_def Let_def room_write_success_new_def)
qed

theorem reply_is_taken_once_witness:
  "\<exists>src' b' success w. complete_reply (\<lambda>_. None) (\<lambda>_. 0) (Some ''1'')
       \<lparr>room_inner = example_store, room_persistence = None\<rparr> example_bridge example_reply w = Ret ((src', b'), Ok success) w
     \<and> bridge_queue ''u'' b' example_question ''q'' = (b', Ok (Bridge_Answered (bridge_reply_message success)))
     \<and> complete_reply (\<lambda>_. None) (\<lambda>_. 0) (Some ''2'') src' (fst (bridge_queue ''u'' b' example_question ''q''))
           example_reply w = Ret ((src', b'), Err Bridge_DispatchNotFound) w"
proof -
  fix w
  obtain src' b' success where run: "complete_reply (\<lambda>_. None) (\<lambda>_. 0) (Some ''1'')
      \<lparr>room_inner = example_store, room_persistence = None\<rparr> example_bridge example_reply w
      = Ret ((src', b'), Ok success) w"
    using example_reply_completes by blast
  have source: "valid_google_source (input_source_url example_reply)"
    using google_search_valid by (simp add: example_reply_def)
  have question: "CHR '':'' \<notin> set (m_room_id example_question)"
      "''browser-gemini:'' @ m_room_id example_question @ '':'' @ m_id example_question = input_dispatch_id example_reply"
      "str_trim ''q'' \<noteq> []" "length ''q'' \<le> MAXIMUM_BRIDGE_PROMPT_BYTES"
    by (simp_all add: example_question_def example_message_def example_reply_def MAXIMUM_BRIDGE_PROMPT_BYTES_def)
  have "bridge_moves (\<lambda>_. None) (\<lambda>_. 0) (\<lambda>_. None) b' (fst (bridge_queue ''u'' b' example_question ''q''))"
    using bridge_moves.stays question(1) by (rule bridge_moves.queued)
  from reply_is_taken_once [OF example_bridge_ok run this source refl question]
    reply_is_taken_once [OF example_bridge_ok run bridge_moves.stays source refl question]
  show ?thesis
    using run by fastforce
qed

section \<open>A length that stops the bridge\<close>

lemma find_header_end_bound: "find_header_end bytes = Some i \<Longrightarrow> i + 4 \<le> length bytes"
  by (auto simp: find_header_end_def dest!: position_SomeD(1))

lemma read_header_bytes_bound:
  "read_header_bytes buffer reads = Some (bytes, i, rest) \<Longrightarrow> i + 4 \<le> length bytes"
  by (induction buffer reads rule: read_header_bytes.induct)
    (auto split: if_splits sum.splits option.splits dest: find_header_end_bound)

lemma read_body_bytes_enough: "unat whole \<le> length buffer \<Longrightarrow> read_body_bytes whole buffer reads = Some buffer"
  by (cases reads) auto

text \<open>C39: A request whose \<open>Content-Length\<close> makes the sum of the lengths exceed \<open>2 ^ 64\<close> stops the bridge:
  the sum wraps around, passes the check against the maximum, and the slice of the body ends before
  it starts. The panic ends the thread of the bridge before any origin or header was checked, so
  any local program can cause it.\<close>

theorem content_length_stops_the_bridge:
  assumes "read_header_bytes [] reads = Some (buffer, header_end, rest)"
    and "parse_header (take header_end buffer) = Some (verb, p, headers)"
    and "bt_get headers ''content-length'' = Some value" "parse_usize value = Some n"
    and "header_end + 4 \<le> MAXIMUM_HTTP_BYTES" "2 ^ 64 \<le> header_end + 4 + unat n"
  shows "handle_connection enc hash from_slice seconds now src b reads w = Ret ((src, b), None) w"
proof -
  let ?whole = "word_of_nat header_end + 4 + n :: u64"
  have "word_of_nat header_end + 4 = (word_of_nat (header_end + 4) :: u64)"
    by simp
  then have small: "unat (word_of_nat header_end + 4 :: u64) = header_end + 4"
    using assms(5) by (simp only: unat_of_nat) (simp add: MAXIMUM_HTTP_BYTES_def)
  have "unat ?whole = (header_end + 4 + unat n) mod 2 ^ 64"
    using unat_word_ariths(1) [of "word_of_nat header_end + 4 :: u64" n] small by simp
  moreover have "unat n < 2 ^ 64"
    using unsigned_less [of n] by simp
  ultimately have whole: "unat ?whole < header_end + 4"
    using assms(5,6) by (simp add: MAXIMUM_HTTP_BYTES_def le_mod_geq)
  then have "read_body_bytes ?whole buffer rest = Some buffer"
    using read_header_bytes_bound [OF assms(1)] by (intro read_body_bytes_enough) simp
  then have "read_request reads = Request_Panics"
    using assms(1-5) whole by (simp add: read_request_def Let_def)
  then show ?thesis
    by (simp add: handle_connection_def io_return_def)
qed

definition stopping_request :: string where
  "stopping_request = ''POST /v1/replies HTTP/1.1'' @ crlf @ ''content-length: 18446744073709551615'' @ crlf @ crlf"

lemma stopping_request_read:
  "read_header_bytes [] [Ok stopping_request] = Some (stopping_request, 63, [])"
  by (simp add: stopping_request_def crlf_def find_header_end_def MAXIMUM_HTTP_BYTES_def upt_rec_numeral)

lemma stopping_request_header:
  "parse_header (take 63 stopping_request) = Some (''POST'', ''/v1/replies'', [(''content-length'', ''18446744073709551615'')])"
  by (simp add: parse_header_def stopping_request_def crlf_def from_utf8_ok_def byte_of_def split_whitespace_def
      utf8_length_def is_whitespace_piece_def str_chars_def is_whitespace_def str_trim_def to_ascii_lowercase_def
      is_ascii_uppercase_def in_bytes_def)

lemma stopping_request_length: "parse_usize ''18446744073709551615'' = Some 18446744073709551615"
  by (simp add: parse_usize_def byte_class_defs)

theorem content_length_stops_the_bridge_witness:
  "handle_connection (\<lambda>_. None) (\<lambda>_. 0) (\<lambda>_. None) 0 None \<lparr>room_inner = example_store, room_persistence = None\<rparr>
     example_bridge [Ok stopping_request] (example_dispatch_world Map.empty [])
   = Ret ((\<lparr>room_inner = example_store, room_persistence = None\<rparr>, example_bridge), None)
       (example_dispatch_world Map.empty [])"
  by (rule content_length_stops_the_bridge [OF stopping_request_read stopping_request_header _ stopping_request_length])
    (simp_all add: MAXIMUM_HTTP_BYTES_def)

end
