(* ===== verification/Ai_Dispatcher.thy ===== *)
theory Ai_Dispatcher
  imports Dispatch_Context
begin

text \<open>
  \<open>DesktopAiDispatcher\<close> (\<open>apps/desktop/src-tauri/src/ai\_dispatch.rs\<close>): a message of a Room is sent to
  the AI participants it is for. The four provider functions of the source have the same text with
  other names, ids and sentences; here they are one function of a \<open>provider\<close>, in three parts: what
  is done before the adapter is called, the call, and what is done with the answer. The adapters,
  the clock (one answer for each place that asks it) and what other threads do while an adapter
  runs are parameters; profiles and folders do not change during one dispatch.
\<close>

section \<open>State and services\<close>

record dispatch_state =
  st_source :: desktop_room_source
  st_ledger :: dispatch_ledger
  st_continuity :: desktop_room_ai_continuity
  st_turns :: desktop_turn_cancellations
  st_bridge :: desktop_browser_bridge

datatype clock_look = Look_Begin | Look_Started | Look_Reply | Look_Finish

record dispatch_services =
  dispatch_codec :: "persisted_dispatch_ledger \<Rightarrow> string option"
  dispatch_room_encoder :: room_encoder
  dispatch_continuity_codec :: continuity_codec
  dispatch_json :: "json \<Rightarrow> string"
  dispatch_folders :: folders
  dispatch_workspaces :: desktop_room_workspaces
  dispatch_profiles :: desktop_participant_profiles
  dispatch_gemini_available :: bool
  gate_poisoned :: "string \<Rightarrow> bool"
  run_text_turn :: "string \<Rightarrow> text_turn_request \<Rightarrow> (text_turn_response, text_turn_error) result"
  other_threads :: "dispatch_state \<Rightarrow> dispatch_state io"
  clock :: "string \<Rightarrow> clock_look \<Rightarrow> string option"
  default_hash :: "string \<Rightarrow> u64"
  reply_token :: "room_message \<Rightarrow> string"

record provider =
  provider_id :: string
  provider_workspace :: bool
  provider_key ::
    "string option \<Rightarrow> text_turn_workspace_access option \<Rightarrow> string option \<Rightarrow> string option \<Rightarrow> string"
  provider_prompt ::
    "(json \<Rightarrow> string) \<Rightarrow> desktop_room_context \<Rightarrow> desktop_participant_profiles \<Rightarrow> room_message
       \<Rightarrow> room_context_plan_value \<Rightarrow> text_turn_workspace_access option \<Rightarrow> string"
  provider_confirms :: "text_turn_error \<Rightarrow> bool"
  provider_name :: string
  provider_preflight :: string
  provider_session :: string

text \<open>What is returned at once is \<open>Inl\<close>, what goes on is \<open>Inr\<close>.\<close>

type_synonym dispatch_return = "(recipient_dispatch_result, room_dispatch_command_error) result"

definition dispatch_then ::
  "(dispatch_state \<times> (dispatch_return + 'a)) io
     \<Rightarrow> (dispatch_state \<Rightarrow> 'a \<Rightarrow> (dispatch_state \<times> (dispatch_return + 'b)) io)
     \<Rightarrow> (dispatch_state \<times> (dispatch_return + 'b)) io"
where
  "dispatch_then m f =
     io_bind m (\<lambda>(d, r). case r of Inl e \<Rightarrow> io_return (d, Inl e) | Inr x \<Rightarrow> f d x)"

section \<open>The ledger\<close>

definition ledger_step ::
  "dispatch_state \<Rightarrow> (dispatch_ledger \<times> ('a, ai_dispatch_ledger_error) result) io
     \<Rightarrow> (dispatch_state \<times> bool) io"
where
  "ledger_step d m = io_bind m (\<lambda>(l, r). io_return (d\<lparr>st_ledger := l\<rparr>, is_ok r))"

definition begin_result ::
  "string \<Rightarrow> ai_dispatch_begin
     \<Rightarrow> (recipient_dispatch_result option, room_dispatch_command_error) result"
where
  "begin_result recipient_id begun =
     (case begun of
        DispatchReserved \<Rightarrow> Ok None
      | DispatchActive \<Rightarrow> Err (dispatch_error ''aiDispatchInProgress''
                            ''The AI response is already in progress.'')
      | DispatchExisting r \<Rightarrow>
          (case d_state r of
             ExternalStarted \<Rightarrow> Ok (Some (unknown_dispatch_result recipient_id ''aiDispatchOutcomeUnknown''
                 ''The message may have reached the AI. It was not retried.''))
           | DispatchCompleted \<Rightarrow> Ok (Some (unknown_dispatch_result recipient_id ''aiDispatchReplyMissing''
                 ''The external turn completed, but its saved Room reply is unavailable. It was not retried.''))
           | _ \<Rightarrow> Err (dispatch_error ''aiDispatchPreviouslyFailed''
                 ''The previous AI turn is confirmed failed and was not retried.'')))"

definition begin_dispatch ::
  "dispatch_services \<Rightarrow> dispatch_state \<Rightarrow> string \<Rightarrow> room_message \<Rightarrow> string \<Rightarrow> string
     \<Rightarrow> (dispatch_state \<times> (recipient_dispatch_result option, room_dispatch_command_error) result) io"
where
  "begin_dispatch sv d i source_message recipient_id reply_id =
     (case clock sv recipient_id Look_Begin of
        None \<Rightarrow> io_return (d, Err dispatch_unavailable)
      | Some updated_at \<Rightarrow>
          io_bind (dispatch_begin (dispatch_codec sv) (st_ledger d)
              \<lparr>d_dispatch_id = i, d_room_id = m_room_id source_message,
               d_source_message_id = m_id source_message, d_recipient_id = recipient_id,
               d_reply_message_id = reply_id, d_state = DispatchPrepared, d_updated_at = updated_at\<rparr>)
            (\<lambda>(l, r). io_return (d\<lparr>st_ledger := l\<rparr>,
               case r of Inl _ \<Rightarrow> Err dispatch_unavailable | Inr begun \<Rightarrow> begin_result recipient_id begun)))"

definition start_external_turn ::
  "dispatch_services \<Rightarrow> string \<Rightarrow> dispatch_state \<Rightarrow> string \<Rightarrow> (dispatch_state \<times> bool) io"
where
  "start_external_turn sv recipient_id d i =
     (case clock sv recipient_id Look_Started of
        None \<Rightarrow> io_return (d, False)
      | Some updated_at \<Rightarrow> ledger_step d (mark_external_started (dispatch_codec sv) (st_ledger d) i updated_at))"

definition finish_local_preflight_failed ::
  "dispatch_services \<Rightarrow> string \<Rightarrow> dispatch_state \<Rightarrow> string \<Rightarrow> (dispatch_state \<times> bool) io"
where
  "finish_local_preflight_failed sv recipient_id d i =
     (case clock sv recipient_id Look_Finish of
        None \<Rightarrow> io_return (d, False)
      | Some updated_at \<Rightarrow> ledger_step d (dispatch_mark_failed (dispatch_codec sv) (st_ledger d) i updated_at))"

definition finish_external_preflight_failed ::
  "dispatch_services \<Rightarrow> string \<Rightarrow> dispatch_state \<Rightarrow> string \<Rightarrow> (dispatch_state \<times> bool) io"
where
  "finish_external_preflight_failed sv recipient_id d i =
     (case clock sv recipient_id Look_Finish of
        None \<Rightarrow> io_return (d, False)
      | Some updated_at \<Rightarrow>
          ledger_step d (mark_external_preflight_failed (dispatch_codec sv) (st_ledger d) i updated_at))"

definition finish_turn_unknown :: "dispatch_state \<Rightarrow> string \<Rightarrow> dispatch_state" where
  "finish_turn_unknown d i = d\<lparr>st_ledger := finish_unknown (st_ledger d) i\<rparr>"

definition finish_failed ::
  "dispatch_services \<Rightarrow> string \<Rightarrow> dispatch_state \<Rightarrow> string \<Rightarrow> dispatch_state io"
where
  "finish_failed sv recipient_id d i =
     io_bind (finish_local_preflight_failed sv recipient_id d i)
       (\<lambda>(d, recorded). io_return (if recorded then d else finish_turn_unknown d i))"

text \<open>\<open>finish\_failed\<close> and the error after it.\<close>

definition fail_turn ::
  "dispatch_services \<Rightarrow> string \<Rightarrow> dispatch_state \<Rightarrow> string \<Rightarrow> room_dispatch_command_error
     \<Rightarrow> (dispatch_state \<times> (dispatch_return + 'a)) io"
where
  "fail_turn sv recipient_id d i e =
     io_bind (finish_failed sv recipient_id d i) (\<lambda>d. io_return (d, Inl (Err e)))"

section \<open>Before the adapter is called\<close>

definition dispatch_id_of :: "room_message \<Rightarrow> string \<Rightarrow> string" where
  "dispatch_id_of source_message recipient_id =
     ''room-message:'' @ m_id source_message @ '':'' @ recipient_id"

definition plain_result ::
  "string \<Rightarrow> recipient_dispatch_status \<Rightarrow> room_message option \<Rightarrow> recipient_dispatch_result"
where
  "plain_result recipient_id status message =
     \<lparr>result_recipient_id = recipient_id, result_status = status, result_message = message,
      result_error = None, result_context = None\<rparr>"

text \<open>A reply that is in the Room already ends the dispatch; otherwise the pair is reserved.\<close>

definition reserve_turn ::
  "dispatch_services \<Rightarrow> provider \<Rightarrow> dispatch_state \<Rightarrow> room_message
     \<Rightarrow> (dispatch_state \<times> (dispatch_return + unit)) io"
where
  "reserve_turn sv prov d source_message =
     (let participant_id = provider_id prov;
          reply_id = reply_message_id (m_id source_message) participant_id in
      case desktop_find_message (st_source d) (m_room_id source_message) reply_id of
        Inr message \<Rightarrow>
          io_return (d, Inl (Ok (plain_result participant_id Recipient_Duplicate (Some message))))
      | Inl Find_MessageNotFound \<Rightarrow>
          io_bind (begin_dispatch sv d (dispatch_id_of source_message participant_id) source_message
              participant_id reply_id)
            (\<lambda>(d, r). io_return (d, case r of
               Inl e \<Rightarrow> Inl (Err e) | Inr (Some result) \<Rightarrow> Inl (Ok result) | Inr None \<Rightarrow> Inr ()))
      | Inl e \<Rightarrow> io_return (d, Inl (Err (map_find_error e))))"

definition workspace_access_for ::
  "dispatch_services \<Rightarrow> provider \<Rightarrow> text_turn_workspace_access option"
where
  "workspace_access_for sv prov =
     (if \<not> provider_workspace prov then None
      else
        (case ai_access_mode_of (dispatch_profiles sv) (provider_id prov) of
           WorkspaceRead \<Rightarrow> Some Access_ReadOnly
         | WorkspaceWrite \<Rightarrow> Some Access_ReadWrite
         | _ \<Rightarrow> None))"

text \<open>The gate of the provider and the workspace of the Room.\<close>

definition workspace_preflight ::
  "dispatch_services \<Rightarrow> provider \<Rightarrow> dispatch_state \<Rightarrow> room_message
     \<Rightarrow> (dispatch_state \<times> (dispatch_return + string option)) io"
where
  "workspace_preflight sv prov d source_message =
     (let participant_id = provider_id prov; i = dispatch_id_of source_message participant_id in
      if gate_poisoned sv participant_id then fail_turn sv participant_id d i dispatch_unavailable
      else
        (case workspace_access_for sv prov of
           None \<Rightarrow> io_return (d, Inr None)
         | Some _ \<Rightarrow>
             (case available_root (dispatch_folders sv) (dispatch_workspaces sv) (m_room_id source_message) of
                Inr folder \<Rightarrow> io_return (d, Inr folder)
              | Inl e \<Rightarrow>
                  io_bind (finish_local_preflight_failed sv participant_id d i)
                    (\<lambda>(d, recorded). io_return
                       (if recorded
                        then (d, Inl (Ok (failed_dispatch_result participant_id
                               (dispatch_error_code (dispatch_map_workspace_error e))
                               (dispatch_error_message (dispatch_map_workspace_error e)))))
                        else (finish_turn_unknown d i, Inl (Ok (unknown_dispatch_result participant_id
                               ''aiDispatchOutcomeUnknown''
                               ''The workspace preflight result could not be recorded safely. It was not retried.'')))))))) "

record planned_turn =
  planned_request :: text_turn_request
  planned_context :: room_context_plan_value
  planned_key :: string

definition turn_continuity_of ::
  "room_context_plan_value \<Rightarrow> room_ai_continuation option \<Rightarrow> text_turn_continuity"
where
  "turn_continuity_of plan continuation =
     (case continuation of
        Some c \<Rightarrow> if context_resuming plan then Resume (continuation_session_id c) else StartPersistent
      | None \<Rightarrow> StartPersistent)"

text \<open>The request; the room id and the workspace are only for the two providers that may have a
  workspace.\<close>

definition turn_request ::
  "dispatch_services \<Rightarrow> provider \<Rightarrow> desktop_room_context \<Rightarrow> room_message \<Rightarrow> room_context_plan_value
     \<Rightarrow> room_ai_continuation option \<Rightarrow> string option \<Rightarrow> text_turn_cancellation \<Rightarrow> text_turn_request"
where
  "turn_request sv prov ctxt source_message plan continuation folder c =
     (let participant_id = provider_id prov;
          access = workspace_access_for sv prov;
          prompt = provider_prompt prov (dispatch_json sv) ctxt (dispatch_profiles sv) source_message plan
            (if folder = None then None else access);
          base = with_continuity (turn_continuity_of plan continuation)
            (with_cancellation c
              ((if provider_workspace prov then with_room_id (m_room_id source_message) else id)
                (text_turn_request_new (dispatch_id_of source_message participant_id) prompt)));
          modelled = (case ai_model (dispatch_profiles sv) participant_id of
            Some model \<Rightarrow> with_model model base | None \<Rightarrow> base) in
      case (folder, access) of
        (Some folder, Some access) \<Rightarrow>
          with_workspace \<lparr>turn_workspace_root = folder, turn_workspace_access = access\<rparr> modelled
      | _ \<Rightarrow> modelled)"

text \<open>From the context of the Room to the request that is recorded as started.\<close>

definition plan_turn ::
  "dispatch_services \<Rightarrow> provider \<Rightarrow> dispatch_state \<Rightarrow> room_message \<Rightarrow> string option
     \<Rightarrow> (dispatch_state \<times> (dispatch_return + planned_turn)) io"
where
  "plan_turn sv prov d source_message folder =
     (let participant_id = provider_id prov; i = dispatch_id_of source_message participant_id;
          fail = (\<lambda>d e. fail_turn sv participant_id d i e) in
      case room_context (st_source d) (m_room_id source_message) of
        Inl e \<Rightarrow> fail d (map_find_error e)
      | Inr ctxt \<Rightarrow>
          (let key = provider_key prov folder (workspace_access_for sv prov)
                 (ai_instructions (dispatch_profiles sv) participant_id)
                 (ai_model (dispatch_profiles sv) participant_id) in
           case continuity_get (st_continuity d) (m_room_id source_message) participant_id of
             Inl e \<Rightarrow> fail d (map_continuity_error e)
           | Inr continuation \<Rightarrow>
               (case room_context_plan ctxt source_message continuation key participant_id of
                  Inl e \<Rightarrow> fail d e
                | Inr plan \<Rightarrow>
                    (case register_turn (st_turns d) (m_room_id source_message) i of
                       (turns, Inl _) \<Rightarrow> fail (d\<lparr>st_turns := turns\<rparr>) dispatch_unavailable
                     | (turns, Inr c) \<Rightarrow>
                         io_bind (start_external_turn sv participant_id (d\<lparr>st_turns := turns\<rparr>) i)
                           (\<lambda>(d, started).
                              if started
                              then io_return (d, Inr
                                \<lparr>planned_request = turn_request sv prov ctxt source_message plan
                                    continuation folder c,
                                 planned_context = plan, planned_key = key\<rparr>)
                              else io_bind (fail d dispatch_unavailable)
                                (\<lambda>(d, r). io_return (d\<lparr>st_turns := remove_turn (st_turns d) i\<rparr>, r)))))))"

definition prepare_turn ::
  "dispatch_services \<Rightarrow> provider \<Rightarrow> dispatch_state \<Rightarrow> room_message
     \<Rightarrow> (dispatch_state \<times> (dispatch_return + planned_turn)) io"
where
  "prepare_turn sv prov d source_message =
     dispatch_then (reserve_turn sv prov d source_message)
       (\<lambda>d _. dispatch_then (workspace_preflight sv prov d source_message)
          (\<lambda>d folder. plan_turn sv prov d source_message folder))"

section \<open>After the adapter has answered\<close>

text \<open>\<open>finish\_unknown\<close> and the result that says so.\<close>

definition outcome_unknown ::
  "provider \<Rightarrow> dispatch_state \<Rightarrow> string \<Rightarrow> string \<Rightarrow> string \<Rightarrow> (dispatch_state \<times> dispatch_return) io"
where
  "outcome_unknown prov d i code message =
     io_return (finish_turn_unknown d i, Ok (unknown_dispatch_result (provider_id prov) code message))"

text \<open>The adapter returned an error: some of them say that nothing reached the AI.\<close>

definition turn_failed ::
  "dispatch_services \<Rightarrow> provider \<Rightarrow> dispatch_state \<Rightarrow> string \<Rightarrow> text_turn_error
     \<Rightarrow> (dispatch_state \<times> dispatch_return) io"
where
  "turn_failed sv prov d i e =
     (let mapped = map_adapter_error (provider_id prov) e in
      if provider_confirms prov e
      then io_bind (finish_external_preflight_failed sv (provider_id prov) d i)
        (\<lambda>(d, recorded).
           if recorded
           then io_return (d, Ok (failed_dispatch_result (provider_id prov)
                  (dispatch_error_code mapped) (dispatch_error_message mapped)))
           else outcome_unknown prov d i ''aiDispatchOutcomeUnknown''
                  (''The '' @ provider_preflight prov
                   @ '' result could not be recorded safely. It was not retried.''))
      else outcome_unknown prov d i (dispatch_error_code mapped) (dispatch_error_message mapped))"

text \<open>The reply is in the Room: the session is kept for the next turn and the dispatch is completed.\<close>

definition reply_stored ::
  "dispatch_services \<Rightarrow> provider \<Rightarrow> dispatch_state \<Rightarrow> room_message \<Rightarrow> planned_turn \<Rightarrow> string \<Rightarrow> string
     \<Rightarrow> room_write_success \<Rightarrow> (dispatch_state \<times> dispatch_return) io"
where
  "reply_stored sv prov d source_message planned session_id created_at saved =
     (let participant_id = provider_id prov; i = dispatch_id_of source_message participant_id in
      io_bind (continuity_commit (dispatch_continuity_codec sv) (st_continuity d)
          (m_room_id source_message) participant_id
          \<lparr>continuation_session_id = session_id, last_synced_message_id = m_id source_message,
           continuation_environment_key = planned_key planned\<rparr>)
        (\<lambda>(continuity, kept).
           io_bind (ledger_step (d\<lparr>st_continuity := continuity\<rparr>)
               (dispatch_mark_completed (dispatch_codec sv) (st_ledger d) i created_at))
             (\<lambda>(d, completed). io_return
                (if completed then d else finish_turn_unknown d i,
                 Ok \<lparr>result_recipient_id = participant_id,
                   result_status = (case write_status saved of
                     Appended \<Rightarrow> Recipient_Completed | Write_Duplicate \<Rightarrow> Recipient_Duplicate),
                   result_message = Some (write_message saved), result_error = None,
                   result_context = Some (plan_report (planned_context planned) (is_ok kept))\<rparr>))))"

definition answer_turn ::
  "dispatch_services \<Rightarrow> provider \<Rightarrow> dispatch_state \<Rightarrow> room_message \<Rightarrow> string \<Rightarrow> planned_turn
     \<Rightarrow> (text_turn_response, text_turn_error) result \<Rightarrow> (dispatch_state \<times> dispatch_return) io"
where
  "answer_turn sv prov d source_message reply_recipient_id planned answer =
     (let participant_id = provider_id prov; i = dispatch_id_of source_message participant_id in
      case answer of
        Inl e \<Rightarrow> turn_failed sv prov d i e
      | Inr response \<Rightarrow>
          (case response_session_id response of
             None \<Rightarrow> outcome_unknown prov d i ''aiResponseInvalid''
                 (provider_name prov @ '' replied without a persistent Room '' @ provider_session prov
                  @ ''. It was not retried.'')
           | Some session_id \<Rightarrow>
               (case clock sv participant_id Look_Reply of
                  None \<Rightarrow> outcome_unknown prov d i ''aiDispatchOutcomeUnknown''
                      (provider_name prov
                       @ '' replied, but the local result could not be completed. It was not retried.'')
                | Some created_at \<Rightarrow>
                    (case room_message_draft_try_new (reply_message_id (m_id source_message) participant_id)
                        (m_room_id source_message) participant_id [reply_recipient_id]
                        (response_text response) created_at (response_artifact_ids response) of
                       Inl _ \<Rightarrow> outcome_unknown prov d i ''aiResponseInvalid''
                           (''The '' @ provider_name prov
                            @ '' response could not be stored as a Room message. It was not retried.'')
                     | Inr reply \<Rightarrow>
                         io_bind (desktop_append_message (dispatch_room_encoder sv) (st_source d) reply)
                           (\<lambda>(src, r).
                              let d = d\<lparr>st_source := src\<rparr> in
                              case r of
                                Inl _ \<Rightarrow> outcome_unknown prov d i ''aiDispatchOutcomeUnknown''
                                    (provider_name prov
                                     @ '' replied, but the Room reply could not be saved. It was not retried.'')
                              | Inr saved \<Rightarrow>
                                  reply_stored sv prov d source_message planned session_id created_at saved)))))"

text \<open>The whole dispatch. The registered turn is removed when the function returns. Other threads run
  while the adapter does (\<open>other\_threads\<close>), which is where the time goes; the other gaps between two
  locks of the source (after the reservation, before the reply is stored, and so on) are not
  interrupted in this model.\<close>

definition dispatch_turn ::
  "dispatch_services \<Rightarrow> provider \<Rightarrow> dispatch_state \<Rightarrow> room_message \<Rightarrow> string
     \<Rightarrow> (dispatch_state \<times> dispatch_return) io"
where
  "dispatch_turn sv prov d source_message reply_recipient_id =
     io_bind (prepare_turn sv prov d source_message)
       (\<lambda>(d, r). case r of
          Inl result \<Rightarrow> io_return (d, result)
        | Inr planned \<Rightarrow>
            io_bind (other_threads sv d)
              (\<lambda>d. io_bind (answer_turn sv prov d source_message reply_recipient_id planned
                     (run_text_turn sv (provider_id prov) (planned_request planned)))
                 (\<lambda>(d, result). io_return
                    (d\<lparr>st_turns := remove_turn (st_turns d)
                         (dispatch_id_of source_message (provider_id prov))\<rparr>, result))))"

section \<open>The four providers\<close>

definition codex_provider :: "room_image_generation_preferences option \<Rightarrow> provider" where
  "codex_provider image_generation =
     \<lparr>provider_id = CODEX_PARTICIPANT_ID, provider_workspace = True,
      provider_key = continuity_environment_key,
      provider_prompt = (\<lambda>to_json ctxt profiles message plan access.
        with_image_generation_preferences (codex_prompt to_json ctxt profiles message plan access)
          image_generation),
      provider_confirms = (\<lambda>e. e \<in> {Turn_WorkspaceUnavailable, Turn_WorkspaceSandboxUnavailable,
        Turn_ClientUpdateRequired, Turn_PreflightFailure, Turn_ConfirmedFailure}),
      provider_name = ''Codex'', provider_preflight = ''Codex preflight'', provider_session = ''session''\<rparr>"

definition grok_provider :: provider where
  "grok_provider =
     \<lparr>provider_id = GROK_PARTICIPANT_ID, provider_workspace = True,
      provider_key = grok_continuity_environment_key, provider_prompt = grok_prompt,
      provider_confirms = (\<lambda>e. e \<in> {Turn_WorkspaceUnavailable, Turn_WorkspaceSandboxUnavailable}),
      provider_name = ''Grok'', provider_preflight = ''Grok review preflight'',
      provider_session = ''session''\<rparr>"

definition gemini_provider :: provider where
  "gemini_provider =
     \<lparr>provider_id = GEMINI_SEARCH_PARTICIPANT_ID, provider_workspace = False,
      provider_key = (\<lambda>_ _. chat_environment_key GEMINI_CHAT_ENVIRONMENT_PREFIX),
      provider_prompt = (\<lambda>to_json ctxt profiles message plan _. gemini_prompt to_json ctxt profiles message plan),
      provider_confirms = (\<lambda>_. False),
      provider_name = ''Gemini'', provider_preflight = [], provider_session = ''conversation''\<rparr>"

definition claude_provider :: provider where
  "claude_provider =
     \<lparr>provider_id = CLAUDE_CODE_PARTICIPANT_ID, provider_workspace = False,
      provider_key = (\<lambda>_ _. chat_environment_key CLAUDE_CHAT_ENVIRONMENT_PREFIX),
      provider_prompt = (\<lambda>to_json ctxt profiles message plan _. claude_prompt to_json ctxt profiles message plan),
      provider_confirms = (\<lambda>_. False),
      provider_name = ''Claude Code'', provider_preflight = [], provider_session = ''conversation''\<rparr>"

definition dispatch_codex_with_image_generation ::
  "dispatch_services \<Rightarrow> dispatch_state \<Rightarrow> room_message \<Rightarrow> string
     \<Rightarrow> room_image_generation_preferences option \<Rightarrow> (dispatch_state \<times> dispatch_return) io"
where
  "dispatch_codex_with_image_generation sv d source_message reply_recipient_id image_generation =
     dispatch_turn sv (codex_provider image_generation) d source_message reply_recipient_id"

definition dispatch_codex ::
  "dispatch_services \<Rightarrow> dispatch_state \<Rightarrow> room_message \<Rightarrow> string \<Rightarrow> (dispatch_state \<times> dispatch_return) io"
where
  "dispatch_codex sv d source_message reply_recipient_id =
     dispatch_codex_with_image_generation sv d source_message reply_recipient_id None"

definition dispatch_grok ::
  "dispatch_services \<Rightarrow> dispatch_state \<Rightarrow> room_message \<Rightarrow> string \<Rightarrow> (dispatch_state \<times> dispatch_return) io"
where
  "dispatch_grok sv = dispatch_turn sv grok_provider"

definition dispatch_gemini ::
  "dispatch_services \<Rightarrow> dispatch_state \<Rightarrow> room_message \<Rightarrow> string \<Rightarrow> (dispatch_state \<times> dispatch_return) io"
where
  "dispatch_gemini sv = dispatch_turn sv gemini_provider"

definition dispatch_claude ::
  "dispatch_services \<Rightarrow> dispatch_state \<Rightarrow> room_message \<Rightarrow> string \<Rightarrow> (dispatch_state \<times> dispatch_return) io"
where
  "dispatch_claude sv = dispatch_turn sv claude_provider"

section \<open>To whom a message goes\<close>

definition dispatch_gemini_search ::
  "dispatch_services \<Rightarrow> dispatch_state \<Rightarrow> room_message \<Rightarrow> dispatch_state \<times> dispatch_return"
where
  "dispatch_gemini_search sv d source_message =
     (let result = plain_result GEMINI_SEARCH_PARTICIPANT_ID in
      if \<not> bridge_listening (st_bridge d) then (d, Ok (result Recipient_Unsupported None))
      else
        (case desktop_find_message (st_source d) (m_room_id source_message)
            (browser_reply_message_id (default_hash sv) (m_id source_message)) of
           Inr message \<Rightarrow> (d, Ok (result Recipient_Duplicate (Some message)))
         | Inl Find_MessageNotFound \<Rightarrow>
             (case room_context (st_source d) (m_room_id source_message) of
                Inl e \<Rightarrow> (d, Err (map_find_error e))
              | Inr ctxt \<Rightarrow>
                  (case bridge_queue (reply_token sv source_message) (st_bridge d) source_message
                       (gemini_search_prompt ctxt (dispatch_profiles sv) source_message) of
                     (bridge, Inl _) \<Rightarrow> (d\<lparr>st_bridge := bridge\<rparr>, Err dispatch_unavailable)
                   | (bridge, Inr Bridge_Queued) \<Rightarrow>
                       (d\<lparr>st_bridge := bridge\<rparr>, Ok (result Recipient_Queued None))
                   | (bridge, Inr (Bridge_Answered message)) \<Rightarrow>
                       (d\<lparr>st_bridge := bridge\<rparr>, Ok (result Recipient_Duplicate (Some message)))))
         | Inl e \<Rightarrow> (d, Err (map_find_error e))))"

definition result_of_return :: "string \<Rightarrow> dispatch_return \<Rightarrow> recipient_dispatch_result" where
  "result_of_return recipient_id r =
     (case r of
        Inr result \<Rightarrow> result
      | Inl e \<Rightarrow> \<lparr>result_recipient_id = recipient_id, result_status = Recipient_Failed,
          result_message = None, result_error = Some e, result_context = None\<rparr>)"

definition dispatch_recipient_result ::
  "dispatch_services \<Rightarrow> dispatch_state \<Rightarrow> room_message \<Rightarrow> string \<Rightarrow> string
     \<Rightarrow> (dispatch_state \<times> recipient_dispatch_result) io"
where
  "dispatch_recipient_result sv d source_message recipient_id reply_recipient_id =
     (let unsupported = Ok (plain_result recipient_id Recipient_Unsupported None) in
      io_bind
        (if recipient_id = CODEX_PARTICIPANT_ID
         then dispatch_codex sv d source_message reply_recipient_id
         else if recipient_id = CLAUDE_CODE_PARTICIPANT_ID
         then dispatch_claude sv d source_message reply_recipient_id
         else if recipient_id = GROK_PARTICIPANT_ID
         then dispatch_grok sv d source_message reply_recipient_id
         else if recipient_id = GEMINI_SEARCH_PARTICIPANT_ID
         then (if dispatch_gemini_available sv
               then dispatch_gemini sv d source_message reply_recipient_id
               else if \<not> is_human_participant (st_source d) reply_recipient_id
               then io_return (d, unsupported)
               else io_return (dispatch_gemini_search sv d source_message))
         else io_return (d, unsupported))
        (\<lambda>(d, r). io_return (d, result_of_return recipient_id r)))"

record room_dispatch_success =
  success_ok :: bool
  success_source_message_id :: string
  success_results :: "recipient_dispatch_result list"

fun dispatch_recipients ::
  "dispatch_services \<Rightarrow> dispatch_state \<Rightarrow> room_message \<Rightarrow> string list
     \<Rightarrow> (dispatch_state \<times> recipient_dispatch_result list) io"
where
  "dispatch_recipients sv d source_message [] = io_return (d, [])"
| "dispatch_recipients sv d source_message (recipient_id # rest) =
     io_bind (dispatch_recipient_result sv d source_message recipient_id (m_author_id source_message))
       (\<lambda>(d, result). io_bind (dispatch_recipients sv d source_message rest)
          (\<lambda>(d, results). io_return (d, result # results)))"

definition dispatch_message ::
  "dispatch_services \<Rightarrow> dispatch_state \<Rightarrow> string \<Rightarrow> string
     \<Rightarrow> (dispatch_state \<times> (room_dispatch_success, room_dispatch_command_error) result) io"
where
  "dispatch_message sv d room_id message_id' =
     (case desktop_find_message (st_source d) room_id message_id' of
        Inl e \<Rightarrow> io_return (d, Err (map_find_error e))
      | Inr source_message \<Rightarrow>
          if \<not> is_human_participant (st_source d) (m_author_id source_message)
             \<or> m_recipients source_message = []
          then io_return (d, Err (dispatch_error ''aiDispatchInvalidMessage''
                 ''Only a saved human Room message can be dispatched.''))
          else io_bind (dispatch_recipients sv d source_message (m_recipients source_message))
                 (\<lambda>(d, results). io_return (d, Ok \<lparr>success_ok = True,
                    success_source_message_id = m_id source_message, success_results = results\<rparr>)))"

definition dispatch_recipient_with_image_generation ::
  "dispatch_services \<Rightarrow> dispatch_state \<Rightarrow> string \<Rightarrow> string \<Rightarrow> string
     \<Rightarrow> room_image_generation_preferences option
     \<Rightarrow> (dispatch_state \<times> (room_dispatch_success, room_dispatch_command_error) result) io"
where
  "dispatch_recipient_with_image_generation sv d room_id message_id' recipient_id image_generation =
     (case desktop_find_message (st_source d) room_id message_id' of
        Inl e \<Rightarrow> io_return (d, Err (map_find_error e))
      | Inr source_message \<Rightarrow>
          if \<not> is_human_participant (st_source d) (m_author_id source_message)
             \<or> m_recipients source_message = []
             \<or> \<not> list_ex (\<lambda>saved_id. saved_id = recipient_id) (m_recipients source_message)
          then io_return (d, Err (dispatch_error ''aiDispatchInvalidRecipient''
                 ''Only a recipient on the saved human Room message can be dispatched.''))
          else io_bind
            (if recipient_id = CODEX_PARTICIPANT_ID
             then io_bind (dispatch_codex_with_image_generation sv d source_message
                    (m_author_id source_message) image_generation)
                    (\<lambda>(d, r). io_return (d, result_of_return recipient_id r))
             else dispatch_recipient_result sv d source_message recipient_id (m_author_id source_message))
            (\<lambda>(d, result). io_return (d, Ok \<lparr>success_ok = True,
               success_source_message_id = m_id source_message, success_results = [result]\<rparr>)))"

definition dispatch_recipient ::
  "dispatch_services \<Rightarrow> dispatch_state \<Rightarrow> string \<Rightarrow> string \<Rightarrow> string
     \<Rightarrow> (dispatch_state \<times> (room_dispatch_success, room_dispatch_command_error) result) io"
where
  "dispatch_recipient sv d room_id message_id' recipient_id =
     dispatch_recipient_with_image_generation sv d room_id message_id' recipient_id None"

definition supports_orchestration_worker :: "dispatch_services \<Rightarrow> string \<Rightarrow> bool" where
  "supports_orchestration_worker sv participant_id \<longleftrightarrow>
     participant_id = CODEX_PARTICIPANT_ID
     \<or> participant_id = CLAUDE_CODE_PARTICIPANT_ID
     \<or> participant_id = GROK_PARTICIPANT_ID
     \<or> (participant_id = GEMINI_SEARCH_PARTICIPANT_ID \<and> dispatch_gemini_available sv)"

datatype orchestration_worker_dispatch =
  Worker_Completed room_message | Worker_Failed string | Worker_Unknown

definition worker_dispatch_of :: "recipient_dispatch_result \<Rightarrow> orchestration_worker_dispatch" where
  "worker_dispatch_of result =
     (let failed = Worker_Failed (case result_error result of
            Some e \<Rightarrow> dispatch_error_code e | None \<Rightarrow> ''workerDispatchFailed'') in
      if result_status result \<in> {Recipient_Completed, Recipient_Duplicate} then
        (case result_message result of Some message \<Rightarrow> Worker_Completed message | None \<Rightarrow> failed)
      else if result_status result \<in> {Recipient_Unknown, Recipient_Queued} then Worker_Unknown
      else failed)"

definition dispatch_orchestration_worker ::
  "dispatch_services \<Rightarrow> dispatch_state \<Rightarrow> room_message \<Rightarrow> string \<Rightarrow> string
     \<Rightarrow> (dispatch_state \<times> orchestration_worker_dispatch) io"
where
  "dispatch_orchestration_worker sv d source_message conductor_id worker_id =
     (if m_author_id source_message \<noteq> conductor_id
         \<or> m_recipients source_message \<noteq> [worker_id]
         \<or> \<not> supports_orchestration_worker sv worker_id
      then io_return (d, Worker_Failed ''unsupportedOrInvalidWorkerDispatch'')
      else io_bind (dispatch_recipient_result sv d source_message worker_id conductor_id)
             (\<lambda>(d, result). io_return (d, worker_dispatch_of result)))"

section \<open>Unknown outcomes and sessions\<close>

record room_dispatch_unknown =
  unknown_source_message_id :: string
  unknown_recipient_id :: string
  unknown_code :: string

fun collect_unknowns ::
  "desktop_room_source \<Rightarrow> ai_dispatch_record list
     \<Rightarrow> (room_dispatch_unknown list, room_dispatch_command_error) result"
where
  "collect_unknowns src [] = Ok []"
| "collect_unknowns src (r # rs) =
     (let entry = (\<lambda>code. case collect_unknowns src rs of
            Inl e \<Rightarrow> Err e
          | Inr unknowns \<Rightarrow> Ok (\<lparr>unknown_source_message_id = d_source_message_id r,
              unknown_recipient_id = d_recipient_id r, unknown_code = code\<rparr> # unknowns)) in
      case desktop_find_message src (d_room_id r) (d_reply_message_id r) of
        Inr _ \<Rightarrow> collect_unknowns src rs
      | Inl Find_MessageNotFound \<Rightarrow>
          (case d_state r of
             ExternalStarted \<Rightarrow> entry ''aiDispatchOutcomeUnknown''
           | DispatchCompleted \<Rightarrow> entry ''aiDispatchReplyMissing''
           | _ \<Rightarrow> collect_unknowns src rs)
      | Inl e \<Rightarrow> Err (map_find_error e))"

definition room_dispatch_unknowns ::
  "desktop_room_source \<Rightarrow> dispatch_ledger \<Rightarrow> string
     \<Rightarrow> (room_dispatch_unknown list, room_dispatch_command_error) result"
where
  "room_dispatch_unknowns src l room_id =
     (case unresolved_for_room l room_id of
        Inl _ \<Rightarrow> Err dispatch_unavailable
      | Inr records \<Rightarrow> collect_unknowns src records)"

definition room_ai_continuity_reset ::
  "dispatch_services \<Rightarrow> dispatch_state \<Rightarrow> string \<Rightarrow> string
     \<Rightarrow> (dispatch_state \<times> (bool, room_dispatch_command_error) result) io"
where
  "room_ai_continuity_reset sv d room_id participant_id =
     (if participant_id \<noteq> CODEX_PARTICIPANT_ID \<and> participant_id \<noteq> GROK_PARTICIPANT_ID
      then io_return (d, Err (dispatch_error ''aiContinuityUnsupported''
             ''This participant does not use native Room continuity.''))
      else
        (case room_context (st_source d) room_id of
           Inl e \<Rightarrow> io_return (d, Err (map_find_error e))
         | Inr ctxt \<Rightarrow>
             if \<not> bt_contains_key (participant_names ctxt) participant_id
             then io_return (d, Err (dispatch_error ''aiContinuityParticipantNotFound''
                    ''The selected AI is not participating in this Room.''))
             else io_bind (continuity_clear (dispatch_continuity_codec sv) (st_continuity d)
                      room_id participant_id)
                    (\<lambda>(continuity, r). io_return (d\<lparr>st_continuity := continuity\<rparr>,
                       map_err map_continuity_error r))))"

end
