(* ===== verification/Ai_Dispatch_Claims.thy ===== *)
theory Ai_Dispatch_Claims
  imports Ai_Dispatcher Dispatch_Claims Room_Source_Claims
begin

text \<open>
  What a dispatch guarantees: an adapter is only called for a pair of message and participant that
  is recorded as started, in memory and on disk; a turn that was interrupted is never sent again; a
  reply that is reported is in the Room.
\<close>

section \<open>The steps of a preparation\<close>

lemma fail_turn_returns: "fail_turn sv i d j e w = Ret (d', r) w' \<Longrightarrow> r = Inl (Err e)"
  by (auto simp: fail_turn_def io_bind_def io_return_def split: outcome.splits)

lemma dispatch_then_Inr:
  assumes "dispatch_then m f w = Ret (d', Inr y) w'"
  obtains d1 x w1 where "m w = Ret (d1, Inr x) w1" "f d1 x w1 = Ret (d', Inr y) w'"
  using assms by (auto simp: dispatch_then_def io_bind_def io_return_def split: outcome.splits sum.splits)

lemma begin_result_reserved: "begin_result i b = Ok None \<longleftrightarrow> b = DispatchReserved"
  by (auto simp: begin_result_def split: ai_dispatch_begin.splits ai_dispatch_state.splits)

definition fresh_record :: "room_message \<Rightarrow> string \<Rightarrow> string \<Rightarrow> ai_dispatch_record" where
  "fresh_record msg recipient t =
     \<lparr>d_dispatch_id = dispatch_id_of msg recipient, d_room_id = m_room_id msg,
      d_source_message_id = m_id msg, d_recipient_id = recipient,
      d_reply_message_id = reply_message_id (m_id msg) recipient, d_state = DispatchPrepared,
      d_updated_at = t\<rparr>"

lemma reserve_turn_reserved:
  assumes "reserve_turn sv prov d msg w = Ret (d', Inr u) w'"
  obtains t l where
    "desktop_find_message (st_source d) (m_room_id msg) (reply_message_id (m_id msg) (provider_id prov))
       = Err Find_MessageNotFound"
    "dispatch_begin (dispatch_codec sv) (st_ledger d) (fresh_record msg (provider_id prov) t) w
       = Ret (l, Ok DispatchReserved) w'"
    "d' = d\<lparr>st_ledger := l\<rparr>"
  using assms
  by (auto simp: reserve_turn_def begin_dispatch_def fresh_record_def [symmetric] io_bind_def io_return_def
      Let_def begin_result_reserved
      split: sum.splits outcome.splits option.splits room_message_find_error.splits)

lemma workspace_preflight_go:
  assumes "workspace_preflight sv prov d msg w = Ret (d', Inr folder) w'"
  shows "d' = d \<and> w' = w \<and> (case workspace_access_for sv prov of
      None \<Rightarrow> folder = None
    | Some _ \<Rightarrow> available_root (dispatch_folders sv) (dispatch_workspaces sv) (m_room_id msg) = Ok folder)"
  using assms
  by (auto simp: workspace_preflight_def Let_def io_bind_def io_return_def
      split: if_splits option.splits sum.splits outcome.splits dest: fail_turn_returns)

lemma plan_turn_planned:
  assumes "plan_turn sv prov d msg folder w = Ret (d', Inr planned) w'"
  obtains ctxt continuation plan turns c t l where
    "room_context (st_source d) (m_room_id msg) = Ok ctxt"
    "continuity_get (st_continuity d) (m_room_id msg) (provider_id prov) = Ok continuation"
    "room_context_plan ctxt msg continuation (planned_key planned) (provider_id prov) = Ok plan"
    "register_turn (st_turns d) (m_room_id msg) (dispatch_id_of msg (provider_id prov)) = (turns, Ok c)"
    "mark_external_started (dispatch_codec sv) (st_ledger d) (dispatch_id_of msg (provider_id prov)) t w
       = Ret (l, Ok ()) w'"
    "d' = d\<lparr>st_turns := turns, st_ledger := l\<rparr>"
    "planned_request planned = turn_request sv prov ctxt msg plan continuation folder c"
    "planned_context planned = plan"
    "planned_key planned = provider_key prov folder (workspace_access_for sv prov)
       (ai_instructions (dispatch_profiles sv) (provider_id prov)) (ai_model (dispatch_profiles sv) (provider_id prov))"
proof -
  have step: "start_external_turn sv i d1 j w = Ret (d2, True) w2 \<Longrightarrow>
      \<exists>t l. mark_external_started (dispatch_codec sv) (st_ledger d1) j t w = Ret (l, Ok ()) w2
        \<and> d2 = d1\<lparr>st_ledger := l\<rparr>" for i d1 j w d2 w2
    by (auto simp: start_external_turn_def ledger_step_def io_bind_def io_return_def is_ok_def
        split: option.splits outcome.splits sum.splits) blast
  show thesis
    using assms that
    by (auto simp: plan_turn_def Let_def io_bind_def io_return_def
        split: sum.splits prod.splits outcome.splits if_splits dest!: fail_turn_returns step)
qed

section \<open>An adapter is only called for what is recorded\<close>

lemma commit_recorded:
  assumes codec: "\<And>f body. enc f = Some body \<Longrightarrow> dec body = Some f"
    and w: "dispatch_intact p w" and f: "dispatch_sync dec p f l w"
    and moves: "dispatch_moves (d_records l) (d_active l) m' act'" "dispatch_records_ok (d_records l)"
    and commit: "dispatch_commit enc l m' act' x w = Ret (l', Ok y) w'"
  shows "l' = l\<lparr>d_records := m', d_active := act'\<rparr> \<and> y = x
    \<and> dispatch_sync dec p m' l' w' \<and> dispatch_intact p w'"
proof -
  have y: "y = x"
    using commit by (auto simp: dispatch_commit_def io_bind_def io_return_def split: outcome.splits sum.splits)
  have "dispatch_active_ok (d_records l) (d_active l)" "d_persistence l = Some p"
    using f by (simp_all add: dispatch_sync_def)
  then show ?thesis
    using wp_Ret [OF wp_dispatch_commit [where enc = enc and dec = dec, OF codec w f] commit]
      dispatch_moves_ok [OF moves] y
    by (auto simp: dispatch_sync_def)
qed

lemma begin_recorded:
  assumes codec: "\<And>f body. enc f = Some body \<Longrightarrow> dec body = Some f"
    and w: "dispatch_intact p w" and f: "dispatch_sync dec p f l w"
    and begun: "dispatch_begin enc l r w = Ret (l', Ok DispatchReserved) w'"
  shows "bt_get (d_records l) (d_dispatch_id r) = None \<and> d_dispatch_id r \<notin> d_active l
    \<and> bt_get (d_records l') (d_dispatch_id r) = Some (r\<lparr>d_state := DispatchPrepared\<rparr>)
    \<and> d_dispatch_id r \<in> d_active l' \<and> dispatch_validate_record r = Ok ()
    \<and> dispatch_sync dec p (d_records l') l' w' \<and> dispatch_intact p w'"
proof -
  define l1 where "l1 = l\<lparr>d_records := prune_terminal_records (d_records l)\<rparr>"
  let ?i = "d_dispatch_id r" and ?r = "r\<lparr>d_state := DispatchPrepared\<rparr>"
  have facts: "dispatch_validate_record r = Ok ()" "?i \<notin> d_active l" "bt_get (d_records l) ?i = None"
    "length (d_records l1) < MAXIMUM_DISPATCH_RECORDS"
    and commit: "dispatch_commit enc l1 (bt_insert ?i ?r (d_records l1)) (insert ?i (d_active l1)) DispatchReserved w
      = Ret (l', Ok DispatchReserved) w'"
    using begun by (auto simp: dispatch_begin_def Let_def io_return_def l1_def split: sum.splits if_splits option.splits)
  have before: "dispatch_before l l1"
    by (simp add: dispatch_before_def l1_def)
  have "bt_get (d_records l1) ?i = None"
    using facts(3) by (auto simp: l1_def prune_terminal_records_def split: option.split)
  then have "dispatch_moves (d_records l1) (d_active l1) (bt_insert ?i ?r (d_records l1)) (insert ?i (d_active l1))"
    using facts by (intro dispatch_moves.begun) (auto simp: l1_def)
  from commit_recorded [where enc = enc and dec = dec, OF codec w dispatch_sync_before(1) [OF f before] this
      dispatch_sync_before(2) [OF f before] commit]
  show ?thesis
    using facts by auto
qed

lemma transition_recorded:
  assumes codec: "\<And>f body. enc f = Some body \<Longrightarrow> dec body = Some f"
    and w: "dispatch_intact p w" and f: "dispatch_sync dec p f l w"
    and move: "dispatch_move expected s finish"
    and moved: "dispatch_transition enc l i expected s t finish w = Ret (l', Ok u) w'"
  shows "\<exists>r. bt_get (d_records l) i = Some r \<and> d_state r = expected \<and> i \<in> d_active l
    \<and> bt_get (d_records l') i = Some (r\<lparr>d_state := s, d_updated_at := t\<rparr>)
    \<and> d_active l' = (if finish then d_active l - {i} else d_active l)
    \<and> dispatch_sync dec p (d_records l') l' w' \<and> dispatch_intact p w'"
proof -
  obtain r where r: "bt_get (d_records l) i = Some r" "d_state r = expected" "i \<in> d_active l"
      "dispatch_valid_timestamp t"
    and commit: "dispatch_commit enc l (bt_update i (\<lambda>r. r\<lparr>d_state := s, d_updated_at := t\<rparr>) (d_records l))
      (if finish then d_active l - {i} else d_active l) () w = Ret (l', Ok u) w'"
    using moved by (auto simp: dispatch_transition_def io_return_def split: if_splits option.splits)
  have "dispatch_moves (d_records l) (d_active l)
      (bt_update i (\<lambda>r. r\<lparr>d_state := s, d_updated_at := t\<rparr>) (d_records l))
      (if finish then d_active l - {i} else d_active l)"
    using r move by (intro dispatch_moves.moved) auto
  from commit_recorded [where enc = enc and dec = dec, OF codec w f this
      dispatch_sync_before(2) [OF f dispatch_before_refl] commit]
  show ?thesis
    using r by auto
qed

definition recorded_as_started :: "dispatch_ledger \<Rightarrow> room_message \<Rightarrow> string \<Rightarrow> bool" where
  "recorded_as_started l msg recipient \<longleftrightarrow>
     (\<exists>t. bt_get (d_records l) (dispatch_id_of msg recipient)
        = Some (fresh_record msg recipient t\<lparr>d_state := ExternalStarted\<rparr>))
     \<and> dispatch_id_of msg recipient \<in> d_active l"

lemma prepared_is_recorded:
  assumes codec: "\<And>f body. dispatch_codec sv f = Some body \<Longrightarrow> dec body = Some f"
    and w: "dispatch_intact p w" and f: "dispatch_sync dec p f (st_ledger d) w"
    and run: "prepare_turn sv prov d msg w = Ret (d', Inr planned) w'"
  shows "desktop_find_message (st_source d) (m_room_id msg) (reply_message_id (m_id msg) (provider_id prov))
       = Err Find_MessageNotFound
    \<and> bt_get (d_records (st_ledger d)) (dispatch_id_of msg (provider_id prov)) = None
    \<and> recorded_as_started (st_ledger d') msg (provider_id prov)
    \<and> dispatch_sync dec p (d_records (st_ledger d')) (st_ledger d') w' \<and> dispatch_intact p w'"
proof -
  obtain d1 u w1 d2 folder w2 where
    reserve: "reserve_turn sv prov d msg w = Ret (d1, Inr u) w1"
    and flight: "workspace_preflight sv prov d1 msg w1 = Ret (d2, Inr folder) w2"
    and plan: "plan_turn sv prov d2 msg folder w2 = Ret (d', Inr planned) w'"
    using run unfolding prepare_turn_def by (elim dispatch_then_Inr)
  obtain t l where find: "desktop_find_message (st_source d) (m_room_id msg)
        (reply_message_id (m_id msg) (provider_id prov)) = Err Find_MessageNotFound"
    and begun: "dispatch_begin (dispatch_codec sv) (st_ledger d) (fresh_record msg (provider_id prov) t) w
       = Ret (l, Ok DispatchReserved) w1"
    and d1: "d1 = d\<lparr>st_ledger := l\<rparr>"
    using reserve by (rule reserve_turn_reserved)
  have id: "d_dispatch_id (fresh_record msg (provider_id prov) t) = dispatch_id_of msg (provider_id prov)"
    by (simp add: fresh_record_def)
  note begun1 = begin_recorded [where enc = "dispatch_codec sv" and dec = dec, OF codec w f begun, unfolded id]
  have d2: "d2 = d1" "w2 = w1"
    using workspace_preflight_go [OF flight] by simp_all
  obtain t' turns l' where started: "mark_external_started (dispatch_codec sv) (st_ledger d2)
      (dispatch_id_of msg (provider_id prov)) t' w2 = Ret (l', Ok ()) w'"
    and d': "d' = d2\<lparr>st_turns := turns, st_ledger := l'\<rparr>"
    using plan_turn_planned [OF plan] by blast
  have "dispatch_sync dec p (d_records l) (st_ledger d2) w2" "dispatch_intact p w2"
    using begun1 d1 d2 by simp_all
  from transition_recorded [where enc = "dispatch_codec sv" and dec = dec, OF codec this(2,1)
      dispatch_move.started started [unfolded mark_external_started_def]]
  show ?thesis
    using find begun1 d1 d2(1) d'
    by (auto simp: recorded_as_started_def fresh_record_def)
qed

section \<open>A reply that is reported is in the Room\<close>

lemma stored_message_found:
  assumes ok: "store_ok src" and "\<not> poisoned src"
    and room: "room \<in> set (rooms (snapshot_of src))" and m: "m \<in> set (r_messages room)"
  shows "find_message src (r_id room) (m_id m) = Ok m"
proof -
  have "snapshot_ok (snapshot_of src)"
    using ok by (simp add: store_ok_def)
  then have shape: "message_ok room m" "valid_identifier (r_id room)"
    and distinct: "distinct (map r_id (rooms (snapshot_of src)))"
    and messages: "distinct (map m_id (all_messages (rooms (snapshot_of src))))"
    using room m by (auto simp: snapshot_ok_def room_ok_def)
  obtain xs ys where "rooms (snapshot_of src) = xs @ room # ys"
    using room by (meson split_list)
  then have "distinct (map m_id (r_messages room))"
    using messages by simp
  then show ?thesis
    using assms(2) shape find_by_key [OF distinct room] find_by_key [of m_id "r_messages room" m] m
    by (simp add: find_message_def message_ok_def valid_message_shape_def)
qed

lemma appended_message_found:
  assumes ok: "store_ok src" "draft_ok draft"
    and appended: "append_message src draft = (src', Ok saved)"
  shows "find_message src' (m_room_id (draft_message draft)) (m_id (draft_message draft))
      = Ok (write_message saved)
    \<and> same_idempotent_payload (write_message saved) (draft_message draft)"
proof -
  let ?m = "draft_message draft"
  have alive: "\<not> poisoned src" "poisoned src' = poisoned src" and ok': "store_ok src'"
    using appended append_message_ok [OF ok] poisoned_ops(1) [of src draft]
    by (auto simp: append_message_def Let_def split: if_splits)
  show ?thesis
  proof (cases "find (\<lambda>existing. m_id existing = m_id ?m) (all_messages (rooms (snapshot_of src)))")
    case (Some existing)
    then have same: "src' = src" "write_message saved = existing" "same_idempotent_payload existing ?m"
      using appended alive by (auto simp: append_message_def Let_def room_write_success_new_def split: if_splits)
    obtain room where room: "room \<in> set (rooms (snapshot_of src))" "existing \<in> set (r_messages room)"
      using find_SomeD(1) [OF Some] by (auto simp: set_all_messages)
    have "m_room_id existing = r_id room"
      using ok(1) room by (auto simp: store_ok_def snapshot_ok_def room_ok_def message_ok_def)
    then show ?thesis
      using stored_message_found [OF ok(1) alive(1) room] same by (simp add: same_idempotent_payload_def)
  next
    case None
    then obtain room where room: "find (\<lambda>room. r_id room = m_room_id ?m) (rooms (snapshot_of src)) = Some room"
      and src': "src' = write_room src (m_room_id ?m) (\<lambda>room. room\<lparr>r_messages := r_messages room @ [?m]\<rparr>) (m_created_at ?m)"
      and saved: "write_message saved = ?m"
      using appended alive
      by (auto simp: append_message_def Let_def room_write_success_new_def split: if_splits option.splits)
    let ?new = "room\<lparr>r_messages := r_messages room @ [?m]\<rparr>"
    have "find (\<lambda>room. r_id room = m_room_id ?m) (rooms (snapshot_of src')) = Some ?new"
      unfolding src' write_room_def using find_SomeD(2) [OF room]
      by (simp add: find_update_first [OF room])
    then have "?new \<in> set (rooms (snapshot_of src'))" "r_id ?new = m_room_id ?m"
      using find_SomeD by fastforce+
    then show ?thesis
      using stored_message_found [OF ok', of ?new ?m] alive saved by (simp add: same_idempotent_payload_def)
  qed
qed

lemma desktop_append_appended:
  assumes "desktop_append_message enc src draft w = Ret (src', Ok saved) w'"
  shows "append_message (room_inner src) draft = (room_inner src', Ok saved)"
  using assms by (auto simp: desktop_append_message_def write_through_def io_bind_def io_return_def
      split: sum.splits prod.splits option.splits outcome.splits if_splits)

definition reported_in_room :: "dispatch_state \<Rightarrow> room_message \<Rightarrow> string \<Rightarrow> recipient_dispatch_result \<Rightarrow> bool" where
  "reported_in_room d msg i result \<longleftrightarrow> result_recipient_id result = i \<and>
     (result_status result \<in> {Recipient_Completed, Recipient_Duplicate}
        \<longrightarrow> is_some_and (result_message result)
             (\<lambda>m. desktop_find_message (st_source d) (m_room_id msg) (reply_message_id (m_id msg) i) = Ok m))"

lemma ledger_step_source: "ledger_step d m w = Ret (d', ok) w' \<Longrightarrow> st_source d' = st_source d"
  by (auto simp: ledger_step_def io_bind_def io_return_def split: outcome.splits)

lemma unknown_results [simp]:
  "reported_in_room d msg i (unknown_dispatch_result i c t)"
  "reported_in_room d msg i (failed_dispatch_result i c t)"
  "st_source (finish_turn_unknown d i) = st_source d"
  by (simp_all add: reported_in_room_def unknown_dispatch_result_def failed_dispatch_result_def
      finish_turn_unknown_def)

lemma plain_reported:
  "desktop_find_message (st_source d) (m_room_id msg) (reply_message_id (m_id msg) i) = Ok m
     \<Longrightarrow> reported_in_room d msg i (plain_result i s (Some m))"
  by (simp add: reported_in_room_def plain_result_def)

lemma outcome_unknown_reported:
  "outcome_unknown prov d i c t w = Ret (d', Ok result) w'
     \<Longrightarrow> reported_in_room d'' msg (provider_id prov) result"
  by (auto simp: outcome_unknown_def io_return_def)

lemma turn_failed_reported:
  "turn_failed sv prov d i e w = Ret (d', Ok result) w'
     \<Longrightarrow> reported_in_room d'' msg (provider_id prov) result"
  by (auto simp: turn_failed_def Let_def io_bind_def io_return_def
      split: if_splits outcome.splits dest: outcome_unknown_reported)

lemma reply_stored_reported:
  assumes "reply_stored sv prov d msg planned session t saved w = Ret (d', Ok result) w'"
    and "desktop_find_message (st_source d) (m_room_id msg) (reply_message_id (m_id msg) (provider_id prov))
      = Ok (write_message saved)"
  shows "reported_in_room d' msg (provider_id prov) result"
proof -
  have "st_source d' = st_source d" "result_message result = Some (write_message saved)"
    "result_recipient_id result = provider_id prov"
    using assms(1) by (auto simp: reply_stored_def Let_def io_bind_def io_return_def
        split: outcome.splits dest!: ledger_step_source)
  then show ?thesis
    using assms(2) by (simp add: reported_in_room_def)
qed

lemma draft_fields:
  assumes "room_message_draft_try_new i r a rs b c arts = Ok draft"
  shows "draft_ok draft" "m_id (draft_message draft) = i" "m_room_id (draft_message draft) = r"
    "m_author_id (draft_message draft) = a" "m_recipients (draft_message draft) = rs"
    "m_body (draft_message draft) = b"
  using room_message_draft_OkD [of i r a rs b c arts None draft] assms
  by (simp_all add: room_message_draft_try_new_def)

lemma answer_turn_reported:
  assumes run: "answer_turn sv prov d msg to planned a w = Ret (d', Ok result) w'"
    and ok: "store_ok (room_inner (st_source d))"
  shows "reported_in_room d' msg (provider_id prov) result"
proof (cases a)
  case (Inl e)
  then show ?thesis
    using run by (auto simp: answer_turn_def Let_def dest: turn_failed_reported)
next
  case (Inr response)
  show ?thesis
  proof (cases "\<exists>session t draft src saved w1.
      room_message_draft_try_new (reply_message_id (m_id msg) (provider_id prov)) (m_room_id msg)
        (provider_id prov) [to] (response_text response) t (response_artifact_ids response) = Ok draft
      \<and> desktop_append_message (dispatch_room_encoder sv) (st_source d) draft w = Ret (src, Ok saved) w1
      \<and> reply_stored sv prov (d\<lparr>st_source := src\<rparr>) msg planned session t saved w1 = Ret (d', Ok result) w'")
    case True
    then obtain session t draft src saved w1 where
      draft: "room_message_draft_try_new (reply_message_id (m_id msg) (provider_id prov)) (m_room_id msg)
        (provider_id prov) [to] (response_text response) t (response_artifact_ids response) = Ok draft"
      and append: "desktop_append_message (dispatch_room_encoder sv) (st_source d) draft w = Ret (src, Ok saved) w1"
      and stored: "reply_stored sv prov (d\<lparr>st_source := src\<rparr>) msg planned session t saved w1 = Ret (d', Ok result) w'"
      by blast
    from appended_message_found [OF ok draft_fields(1) [OF draft] desktop_append_appended [OF append]]
    show ?thesis
      using draft_fields(2,3) [OF draft] by (intro reply_stored_reported [OF stored]) (simp add: desktop_find_message_def)
  next
    case False
    then show ?thesis
      using run Inr
      by (auto simp: answer_turn_def Let_def io_bind_def split: option.splits sum.splits outcome.splits
          dest: outcome_unknown_reported)
  qed
qed

lemma reserve_turn_early:
  assumes "reserve_turn sv prov d msg w = Ret (d', Inl (Ok result)) w'"
  shows "reported_in_room d' msg (provider_id prov) result"
proof -
  have begun: "begin_result i b = Ok (Some result) \<Longrightarrow> reported_in_room d'' msg i result" for i b d''
    by (auto simp: begin_result_def split: ai_dispatch_begin.splits ai_dispatch_state.splits)
  show ?thesis
    using assms
    by (auto simp: reserve_turn_def begin_dispatch_def Let_def io_bind_def io_return_def
        intro: begun plain_reported
        split: sum.splits option.splits outcome.splits room_message_find_error.splits)
qed

lemma prepare_turn_early:
  assumes "prepare_turn sv prov d msg w = Ret (d', Inl (Ok result)) w'"
  shows "reported_in_room d' msg (provider_id prov) result"
proof -
  have flight: "workspace_preflight sv prov d1 msg w1 = Ret (d2, Inl (Ok result)) w2
      \<Longrightarrow> reported_in_room d2 msg (provider_id prov) result" for d1 w1 d2 w2
    by (auto simp: workspace_preflight_def Let_def io_bind_def io_return_def
        split: if_splits option.splits sum.splits outcome.splits dest: fail_turn_returns)
  have plan: "plan_turn sv prov d1 msg folder w1 \<noteq> Ret (d2, Inl (Ok result)) w2" for d1 folder w1 d2 w2
    by (auto simp: plan_turn_def Let_def io_bind_def io_return_def
        split: if_splits sum.splits prod.splits outcome.splits dest!: fail_turn_returns)
  show ?thesis
    using assms reserve_turn_early [of sv prov d msg w d' result w'] flight plan
    by (auto simp: prepare_turn_def dispatch_then_def io_bind_def io_return_def
        split: outcome.splits sum.splits)
qed

lemma prepare_turn_keeps_source:
  assumes "prepare_turn sv prov d msg w = Ret (d', Inr planned) w'"
  shows "st_source d' = st_source d"
proof -
  obtain d1 u w1 d2 folder w2 where
    reserve: "reserve_turn sv prov d msg w = Ret (d1, Inr u) w1"
    and flight: "workspace_preflight sv prov d1 msg w1 = Ret (d2, Inr folder) w2"
    and plan: "plan_turn sv prov d2 msg folder w2 = Ret (d', Inr planned) w'"
    using assms unfolding prepare_turn_def by (elim dispatch_then_Inr)
  obtain l where "d1 = d\<lparr>st_ledger := l\<rparr>"
    using reserve by (rule reserve_turn_reserved)
  moreover obtain turns l' where "d' = d2\<lparr>st_turns := turns, st_ledger := l'\<rparr>"
    using plan_turn_planned [OF plan] by blast
  ultimately show ?thesis
    using workspace_preflight_go [OF flight] by simp
qed

lemma dispatch_turn_returns:
  assumes "dispatch_turn sv prov d msg to w = Ret (d', Ok result) w'"
  obtains "prepare_turn sv prov d msg w = Ret (d', Inl (Ok result)) w'"
  | d1 planned w1 d2 w2 d3 where
    "prepare_turn sv prov d msg w = Ret (d1, Inr planned) w1" "other_threads sv d1 w1 = Ret d2 w2"
    "answer_turn sv prov d2 msg to planned (run_text_turn sv (provider_id prov) (planned_request planned)) w2
       = Ret (d3, Ok result) w'"
    "d' = d3\<lparr>st_turns := remove_turn (st_turns d3) (dispatch_id_of msg (provider_id prov))\<rparr>"
  using assms by (auto simp: dispatch_turn_def io_bind_def io_return_def split: outcome.splits sum.splits)

lemma dispatch_turn_reported:
  assumes run: "dispatch_turn sv prov d msg to w = Ret (d', Ok result) w'"
    and rely: "\<And>d0 w0 d1 w1. other_threads sv d0 w0 = Ret d1 w1 \<Longrightarrow> store_ok (room_inner (st_source d0))
      \<Longrightarrow> store_ok (room_inner (st_source d1))"
    and ok: "store_ok (room_inner (st_source d))"
  shows "reported_in_room d' msg (provider_id prov) result"
  using run
proof (cases rule: dispatch_turn_returns)
  case 1
  then show ?thesis
    by (rule prepare_turn_early)
next
  case (2 d1 planned w1 d2 w2 d3)
  have "store_ok (room_inner (st_source d2))"
    using rely [OF 2(2)] ok prepare_turn_keeps_source [OF 2(1)] by simp
  from answer_turn_reported [OF 2(3) this] show ?thesis
    by (simp add: 2(4) reported_in_room_def)
qed

text \<open>C7: A dispatch that reports a reply as completed (or as there already) has that reply in the Room,
  under the id that belongs to the message and the participant, whatever other threads did to the
  Room while the adapter was running, as long as they keep its snapshot valid.\<close>

theorem completed_reply_is_in_the_room:
  assumes "dispatch_turn sv prov d msg reply_to w = Ret (d', Ok result) w'"
    and "\<And>d0 w0 d1 w1. other_threads sv d0 w0 = Ret d1 w1 \<Longrightarrow> store_ok (room_inner (st_source d0))
      \<Longrightarrow> store_ok (room_inner (st_source d1))"
    and "store_ok (room_inner (st_source d))"
    and "result_status result \<in> {Recipient_Completed, Recipient_Duplicate}"
  shows "\<exists>m. result_message result = Some m
    \<and> desktop_find_message (st_source d') (m_room_id msg) (reply_message_id (m_id msg) (provider_id prov)) = Ok m"
  using dispatch_turn_reported [OF assms(1,2,3)] assms(4)
  by (auto simp: reported_in_room_def is_some_and_iff)

lemma turn_request_dispatch_id:
  "turn_dispatch_id (turn_request sv prov ctxt msg plan continuation folder c) = dispatch_id_of msg (provider_id prov)"
  by (simp add: turn_request_def text_turn_builders Let_def split: option.split)

text \<open>C6: An adapter is only called for a message that its participant has not answered and that no
  dispatch was recorded for before; when it is called, the ledger holds the pair as started, in
  memory and, as far as the disk is intact, in the file, and the request carries the id of that
  record.\<close>

theorem adapter_is_called_only_when_recorded:
  assumes "\<And>f body. dispatch_codec sv f = Some body \<Longrightarrow> dec body = Some f"
    and "dispatch_intact p w" "dispatch_sync dec p f (st_ledger d) w"
    and "prepare_turn sv prov d msg w = Ret (d', Inr planned) w'"
  shows "desktop_find_message (st_source d) (m_room_id msg) (reply_message_id (m_id msg) (provider_id prov))
       = Err Find_MessageNotFound
    \<and> bt_get (d_records (st_ledger d)) (dispatch_id_of msg (provider_id prov)) = None
    \<and> recorded_as_started (st_ledger d') msg (provider_id prov)
    \<and> dispatch_on_file dec p (d_records (st_ledger d')) w'
    \<and> turn_dispatch_id (planned_request planned) = dispatch_id_of msg (provider_id prov)"
proof -
  obtain d2 folder w2 where plan: "plan_turn sv prov d2 msg folder w2 = Ret (d', Inr planned) w'"
    using assms(4) unfolding prepare_turn_def by (elim dispatch_then_Inr)
  obtain ctxt continuation plan c where
    "planned_request planned = turn_request sv prov ctxt msg plan continuation folder c"
    by (rule plan_turn_planned [OF plan])
  then have "turn_dispatch_id (planned_request planned) = dispatch_id_of msg (provider_id prov)"
    by (simp add: turn_request_dispatch_id)
  then show ?thesis
    using prepared_is_recorded [where dec = dec, OF assms] by (simp add: dispatch_sync_def)
qed


end
