(* ===== verification/Ai_Turn_Claims.thy ===== *)
theory Ai_Turn_Claims
  imports Ai_Dispatch_Claims
begin

text \<open>
  What goes to a provider with a turn (the messages of the context, the workspace) and what comes
  back to the caller: one result for each recipient. The session of a turn with a workspace is
  never kept.
\<close>

section \<open>The messages of the context\<close>

lemma context_truncation_counts:
  "context_truncation messages =
     (length (filter (\<lambda>m. count_chars (m_body m) > MAXIMUM_CONTEXT_BODY_CHARS) messages),
      sum_list (map (\<lambda>m. count_chars (m_body m) - count_chars (take_chars MAXIMUM_CONTEXT_BODY_CHARS (m_body m))) messages))"
proof -
  have "foldl (\<lambda>(count, omitted) message.
        (let characters = count_chars (m_body message) in
         if characters > MAXIMUM_CONTEXT_BODY_CHARS
         then (count + 1, omitted + characters - MAXIMUM_CONTEXT_BODY_CHARS) else (count, omitted)))
       (a, b) messages =
     (a + length (filter (\<lambda>m. count_chars (m_body m) > MAXIMUM_CONTEXT_BODY_CHARS) messages),
      b + sum_list (map (\<lambda>m. count_chars (m_body m) - count_chars (take_chars MAXIMUM_CONTEXT_BODY_CHARS (m_body m))) messages))"
    for a b
    by (induction messages arbitrary: a b) (auto simp: Let_def min_def)
  from this [of 0 0] show ?thesis
    by (simp add: context_truncation_def)
qed

lemma cursor_index_split:
  assumes "cursor_index messages continuation key n = Some i" "n < length messages"
  shows "\<exists>c older cursor newer. continuation = Some c \<and> continuation_environment_key c = key
    \<and> take n messages = older @ cursor # newer \<and> m_id cursor = last_synced_message_id c
    \<and> drop (i + 1) (take n messages) = newer"
proof -
  obtain c where c: "continuation = Some c" "continuation_environment_key c = key"
    and i: "position (\<lambda>m. m_id m = last_synced_message_id c) messages = Some i" "i < n"
    using assms by (auto simp: cursor_index_def split: option.splits if_splits)
  have "take n messages = take i messages @ messages ! i # drop (i + 1) (take n messages)"
    using i(2) assms(2) id_take_nth_drop [of i "take n messages"] by simp
  then show ?thesis
    using c position_SomeD(2) [OF i(1)] by blast
qed

text \<open>C15: The context of a turn misses nothing without saying so: a resumed session gets every message of
  the others since the last one it saw, and otherwise the latest messages go along, at most
  sixteen, and the report counts the earlier ones; the report also counts the bodies that were cut
  and the characters that were left out.\<close>

theorem context_plan_misses_nothing:
  assumes "room_context_plan ctxt msg continuation key i = Ok plan"
  shows "\<exists>before source rest. r_messages (context_room ctxt) = before @ source # rest \<and> m_id source = m_id msg
    \<and> length (context_messages plan) \<le> MAXIMUM_CONTEXT_MESSAGES
    \<and> (if context_resuming plan
       then \<exists>c older cursor newer. continuation = Some c \<and> continuation_environment_key c = key
         \<and> before = older @ cursor # newer \<and> m_id cursor = last_synced_message_id c
         \<and> context_messages plan = filter (\<lambda>m. m_author_id m \<noteq> i) newer \<and> context_omitted_messages plan = 0
       else \<exists>left. before = left @ context_messages plan \<and> context_omitted_messages plan = length left
         \<and> (left \<noteq> [] \<longrightarrow> length (context_messages plan) = MAXIMUM_CONTEXT_MESSAGES))
    \<and> context_truncated_messages plan
        = length (filter (\<lambda>m. count_chars (m_body m) > MAXIMUM_CONTEXT_BODY_CHARS) (context_messages plan))
    \<and> context_omitted_characters plan
        = sum_list (map (\<lambda>m. count_chars (m_body m)
            - count_chars (take_chars MAXIMUM_CONTEXT_BODY_CHARS (m_body m))) (context_messages plan))"
proof -
  let ?ms = "r_messages (context_room ctxt)"
  obtain n where n: "position (\<lambda>m. m_id m = m_id msg) ?ms = Some n"
    using assms by (auto simp: room_context_plan_def Let_def split: option.splits)
  note len = position_SomeD(1) [OF n] and source = position_SomeD(2) [OF n] and split = position_split [OF n]
  have counts: "context_truncated_messages (counted_plan r m ms k)
      = length (filter (\<lambda>m. count_chars (m_body m) > MAXIMUM_CONTEXT_BODY_CHARS) ms)"
    "context_omitted_characters (counted_plan r m ms k)
      = sum_list (map (\<lambda>m. count_chars (m_body m) - count_chars (take_chars MAXIMUM_CONTEXT_BODY_CHARS (m_body m))) ms)"
    for r m ms k
    by (simp_all add: counted_plan_def context_truncation_counts)
  let ?recent = "drop (n - MAXIMUM_CONTEXT_MESSAGES) (take n ?ms)"
  have cases: "(\<exists>j newer. cursor_index ?ms continuation key n = Some j
        \<and> newer = filter (\<lambda>m. m_author_id m \<noteq> i) (drop (j + 1) (take n ?ms))
        \<and> length newer \<le> MAXIMUM_CONTEXT_MESSAGES \<and> plan = counted_plan True Context_Resumed newer 0)
    \<or> (\<exists>mode. plan = counted_plan False mode ?recent (n - MAXIMUM_CONTEXT_MESSAGES))"
    using assms n by (auto simp: room_context_plan_def Let_def split: option.splits if_splits)
  have context': "length (context_messages plan) \<le> MAXIMUM_CONTEXT_MESSAGES
    \<and> (if context_resuming plan
       then \<exists>c older cursor newer. continuation = Some c \<and> continuation_environment_key c = key
         \<and> take n ?ms = older @ cursor # newer \<and> m_id cursor = last_synced_message_id c
         \<and> context_messages plan = filter (\<lambda>m. m_author_id m \<noteq> i) newer \<and> context_omitted_messages plan = 0
       else \<exists>left. take n ?ms = left @ context_messages plan \<and> context_omitted_messages plan = length left
         \<and> (left \<noteq> [] \<longrightarrow> length (context_messages plan) = MAXIMUM_CONTEXT_MESSAGES))"
    using cases
  proof (elim disjE exE conjE)
    fix j newer
    assume j: "cursor_index ?ms continuation key n = Some j"
      and newer: "newer = filter (\<lambda>m. m_author_id m \<noteq> i) (drop (j + 1) (take n ?ms))"
        "length newer \<le> MAXIMUM_CONTEXT_MESSAGES"
      and plan: "plan = counted_plan True Context_Resumed newer 0"
    then show ?thesis
      using cursor_index_split [OF j len] by (fastforce simp: counted_plan_def)
  next
    fix mode
    assume plan: "plan = counted_plan False mode ?recent (n - MAXIMUM_CONTEXT_MESSAGES)"
    have "take n ?ms = take (n - MAXIMUM_CONTEXT_MESSAGES) ?ms @ ?recent"
      using append_take_drop_id [of "n - MAXIMUM_CONTEXT_MESSAGES" "take n ?ms"] by (simp add: min_def)
    then show ?thesis
      using len by (auto simp: plan counted_plan_def intro!: exI [of _ "take (n - MAXIMUM_CONTEXT_MESSAGES) ?ms"])
  qed
  have "\<exists>r m ms k. plan = counted_plan r m ms k"
    using cases by blast
  then have counted: "context_truncated_messages plan
      = length (filter (\<lambda>m. count_chars (m_body m) > MAXIMUM_CONTEXT_BODY_CHARS) (context_messages plan))"
    "context_omitted_characters plan = sum_list (map (\<lambda>m. count_chars (m_body m)
        - count_chars (take_chars MAXIMUM_CONTEXT_BODY_CHARS (m_body m))) (context_messages plan))"
    by (elim exE; simp only: counts; simp add: counted_plan_def)+
  show ?thesis
    by (rule exI, rule exI, rule exI, intro conjI, rule split, rule source)
      (rule conjunct1 [OF context'], rule conjunct2 [OF context'], rule counted(1), rule counted(2))
qed

section \<open>The workspace of a turn\<close>

text \<open>The folder of a turn, the key of its session and its request.\<close>

lemma prepare_turn_planned:
  assumes "prepare_turn sv prov d msg w = Ret (d', Inr planned) w'"
  obtains folder ctxt plan continuation c where
    "case workspace_access_for sv prov of None \<Rightarrow> folder = None
     | Some _ \<Rightarrow> available_root (dispatch_folders sv) (dispatch_workspaces sv) (m_room_id msg) = Ok folder"
    "planned_key planned = provider_key prov folder (workspace_access_for sv prov)
       (ai_instructions (dispatch_profiles sv) (provider_id prov)) (ai_model (dispatch_profiles sv) (provider_id prov))"
    "planned_request planned = turn_request sv prov ctxt msg plan continuation folder c"
proof -
  obtain d1 d2 folder w1 w2 where flight: "workspace_preflight sv prov d1 msg w1 = Ret (d2, Inr folder) w2"
    and plan: "plan_turn sv prov d2 msg folder w2 = Ret (d', Inr planned) w'"
    using assms unfolding prepare_turn_def by (elim dispatch_then_Inr)
  from plan obtain ctxt plan continuation c where
    "planned_key planned = provider_key prov folder (workspace_access_for sv prov)
       (ai_instructions (dispatch_profiles sv) (provider_id prov)) (ai_model (dispatch_profiles sv) (provider_id prov))"
    "planned_request planned = turn_request sv prov ctxt msg plan continuation folder c"
    by (rule plan_turn_planned)
  then show thesis
    using workspace_preflight_go [OF flight] that by blast
qed

lemma turn_request_workspace:
  "turn_workspace (turn_request sv prov ctxt msg plan continuation folder c) =
     (case (folder, workspace_access_for sv prov) of
        (Some folder, Some access) \<Rightarrow> Some \<lparr>turn_workspace_root = folder, turn_workspace_access = access\<rparr>
      | _ \<Rightarrow> None)"
  by (simp add: turn_request_def text_turn_builders Let_def split: option.split)

definition known_provider :: "provider \<Rightarrow> bool" where
  "known_provider prov \<longleftrightarrow>
     (\<exists>prefs. prov = codex_provider prefs) \<or> prov \<in> {grok_provider, gemini_provider, claude_provider}"

lemma provider_ids [simp]:
  "provider_id (codex_provider prefs) = ''codex''" "provider_id grok_provider = ''grok''"
  "provider_id gemini_provider = ''gemini''" "provider_id claude_provider = ''claude-code''"
  "provider_workspace (codex_provider prefs)" "provider_workspace grok_provider"
  "\<not> provider_workspace gemini_provider" "\<not> provider_workspace claude_provider"
  by (simp_all add: codex_provider_def grok_provider_def gemini_provider_def claude_provider_def
      CODEX_PARTICIPANT_ID_def GROK_PARTICIPANT_ID_def GEMINI_SEARCH_PARTICIPANT_ID_def
      CLAUDE_CODE_PARTICIPANT_ID_def)

text \<open>C16: A turn comes with a workspace only where one may: the provider is Codex or Grok, the folder is
  the checked folder of the Room, and write access is only for Codex and only when its profile says
  so.\<close>

theorem workspace_only_where_allowed:
  assumes "known_provider prov" "profiles_ok (profile_now (dispatch_profiles sv))"
    and "prepare_turn sv prov d msg w = Ret (d', Inr planned) w'"
    and "turn_workspace (planned_request planned) = Some workspace"
  shows "provider_id prov \<in> {''codex'', ''grok''}
    \<and> available_root (dispatch_folders sv) (dispatch_workspaces sv) (m_room_id msg)
        = Ok (Some (turn_workspace_root workspace))
    \<and> (turn_workspace_access workspace = Access_ReadWrite \<longrightarrow> provider_id prov = ''codex''
        \<and> ai_access_mode_of (dispatch_profiles sv) ''codex'' = WorkspaceWrite)"
proof -
  obtain folder ctxt plan continuation c where
    folder: "case workspace_access_for sv prov of None \<Rightarrow> folder = None
     | Some _ \<Rightarrow> available_root (dispatch_folders sv) (dispatch_workspaces sv) (m_room_id msg) = Ok folder"
    and "planned_request planned = turn_request sv prov ctxt msg plan continuation folder c"
    by (rule prepare_turn_planned [OF assms(3)])
  then obtain access where access: "workspace_access_for sv prov = Some access"
      "available_root (dispatch_folders sv) (dispatch_workspaces sv) (m_room_id msg)
        = Ok (Some (turn_workspace_root workspace))" "turn_workspace_access workspace = access"
    using assms(4) by (auto simp: turn_request_workspace split: option.splits)
  have "valid_access_mode ''grok'' (ai_access_mode_of (dispatch_profiles sv) ''grok'')"
    using access_mode_valid [OF assms(2)] .
  then have "ai_access_mode_of (dispatch_profiles sv) ''grok'' \<noteq> WorkspaceWrite"
    by (auto simp: valid_access_mode_def)
  then show ?thesis
    using access assms(1)
    by (auto simp: known_provider_def workspace_access_for_def split: if_splits ai_access_mode.splits)
qed

lemma workspace_key_invalid:
  assumes "CHR ''/'' \<in> set pre"
  shows "\<not> valid_environment_key (chat_environment_key pre instructions model)"
  using assms
  by (auto simp: valid_environment_key_def chat_environment_key_def list_all_iff entity_id_byte_def byte_class_defs
      intro!: exI [of _ "CHR ''/''"] bexI [of _ "CHR ''/''"])

lemma workspace_provider_key:
  assumes "prov = codex_provider prefs \<or> prov = grok_provider" "CHR ''/'' \<in> set folder"
  shows "\<not> valid_environment_key (provider_key prov (Some folder) access instructions model)"
  using assms
  by (elim disjE) (simp_all add: codex_provider_def grok_provider_def continuity_environment_key_def
      grok_continuity_environment_key_def workspace_key_invalid)

text \<open>C38: A turn with a workspace never keeps its session: the key of its environment has the path of the
  folder in it, which the store of sessions refuses, so each such turn starts a new session and
  its report says that continuity was not saved.\<close>

theorem workspace_session_is_never_kept:
  assumes "prov = codex_provider prefs \<or> prov = grok_provider"
    and "workspace_access_for sv prov \<noteq> None"
    and "available_root (dispatch_folders sv) (dispatch_workspaces sv) (m_room_id msg) = Ok (Some folder)"
    and "\<And>r canonical. folder_canonical (dispatch_folders sv) r = Some canonical \<Longrightarrow> is_absolute_path canonical"
    and "dispatch_turn sv prov d msg reply_to w = Ret (d', Ok result) w'"
    and "result_context result = Some report"
  shows "\<not> report_continuity_saved report"
  using assms(5)
proof (cases rule: dispatch_turn_returns)
  case 1
  then have "result_context result = None"
    by (auto simp: prepare_turn_def dispatch_then_def reserve_turn_def begin_dispatch_def
        workspace_preflight_def plan_turn_def begin_result_def plain_result_def unknown_dispatch_result_def
        failed_dispatch_result_def io_bind_def io_return_def Let_def
        split: outcome.splits sum.splits option.splits room_message_find_error.splits
          ai_dispatch_begin.splits ai_dispatch_state.splits if_splits prod.splits
        dest!: fail_turn_returns)
  then show ?thesis
    using assms(6) by simp
next
  case (2 d1 planned w1 d2 w2 d3)
  have absolute: "is_absolute_path folder"
    using assms(3,4)
    by (auto simp: available_root_def available_workspace_def safe_workspace_root_def is_ok_def
        split: sum.splits option.splits if_splits bool.splits)
  have slash: "CHR ''/'' \<in> set folder"
    using absolute by (auto simp: is_absolute_path_def split: list.splits)
  obtain folder' where "case workspace_access_for sv prov of None \<Rightarrow> folder' = None
     | Some _ \<Rightarrow> available_root (dispatch_folders sv) (dispatch_workspaces sv) (m_room_id msg) = Ok folder'"
    and "planned_key planned = provider_key prov folder' (workspace_access_for sv prov)
       (ai_instructions (dispatch_profiles sv) (provider_id prov)) (ai_model (dispatch_profiles sv) (provider_id prov))"
    by (rule prepare_turn_planned [OF 2(1)])
  then have "planned_key planned = provider_key prov (Some folder) (workspace_access_for sv prov)
       (ai_instructions (dispatch_profiles sv) (provider_id prov)) (ai_model (dispatch_profiles sv) (provider_id prov))"
    using assms(2,3) by auto
  then have "\<not> valid_environment_key (planned_key planned)"
    using workspace_provider_key [OF assms(1) slash] by simp
  then have "continuity_commit codec st r i \<lparr>continuation_session_id = s, last_synced_message_id = m,
      continuation_environment_key = planned_key planned\<rparr> = io_return (st, Err Continuity_Invalid)" for codec st r i s m
    by (simp add: continuity_commit_def)
  then show ?thesis
    using 2(3) assms(6)
    by (auto simp: answer_turn_def turn_failed_def outcome_unknown_def unknown_dispatch_result_def
        failed_dispatch_result_def reply_stored_def plan_report_def io_bind_def io_return_def Let_def
        split: sum.splits option.splits outcome.splits if_splits)
qed

section \<open>One result for each recipient\<close>

lemma prepare_turn_names:
  assumes "prepare_turn sv prov d msg w = Ret (d', Inl (Ok result)) w'"
  shows "result_recipient_id result = provider_id prov"
  using prepare_turn_early [OF assms] by (simp add: reported_in_room_def)

lemma dispatch_turn_names:
  assumes "dispatch_turn sv prov d msg reply_to w = Ret (d', Ok result) w'"
  shows "result_recipient_id result = provider_id prov"
  using assms
proof (cases rule: dispatch_turn_returns)
  case 1
  then show ?thesis
    by (rule prepare_turn_names)
next
  case 2
  then show ?thesis
    by (auto simp: answer_turn_def turn_failed_def outcome_unknown_def unknown_dispatch_result_def
        failed_dispatch_result_def reply_stored_def io_bind_def io_return_def Let_def
        split: sum.splits option.splits outcome.splits if_splits)
qed

lemma gemini_search_names:
  "dispatch_gemini_search sv d msg = (d', Ok result) \<Longrightarrow> result_recipient_id result = GEMINI_SEARCH_PARTICIPANT_ID"
  by (auto simp: dispatch_gemini_search_def plain_result_def Let_def
      split: if_splits sum.splits room_message_find_error.splits prod.splits browser_bridge_queue_result.splits)

lemma dispatch_recipient_result_names:
  assumes "dispatch_recipient_result sv d msg i reply_to w = Ret (d', result) w'"
  shows "result_recipient_id result = i"
proof -
  have named: "result_recipient_id (result_of_return i r) = i"
    if "\<And>result. r = Ok result \<Longrightarrow> result_recipient_id result = i" for r
    using that by (auto simp: result_of_return_def split: sum.split)
  have turn: "dispatch_turn sv prov d msg reply_to w = Ret (d1, r) w' \<Longrightarrow> provider_id prov = i
      \<Longrightarrow> result_recipient_id (result_of_return i r) = i" for prov d1 r
    by (rule named) (auto dest: dispatch_turn_names)
  have search: "dispatch_gemini_search sv d msg = (d1, r) \<Longrightarrow> i = GEMINI_SEARCH_PARTICIPANT_ID
      \<Longrightarrow> result_recipient_id (result_of_return i r) = i" for d1 r
    by (rule named) (auto dest: gemini_search_names)
  have plain: "result_recipient_id (result_of_return j (Ok (plain_result j s m))) = j" for j s m
    by (simp add: result_of_return_def plain_result_def)
  show ?thesis
    using assms
    by (auto simp: dispatch_recipient_result_def io_bind_def io_return_def Let_def plain dispatch_codex_def
        dispatch_codex_with_image_generation_def dispatch_claude_def dispatch_grok_def dispatch_gemini_def
        CODEX_PARTICIPANT_ID_def CLAUDE_CODE_PARTICIPANT_ID_def GROK_PARTICIPANT_ID_def
        GEMINI_SEARCH_PARTICIPANT_ID_def
        split: outcome.splits if_splits dest!: turn search)
qed

lemma dispatch_recipients_names:
  "dispatch_recipients sv d msg is w = Ret (d', results) w' \<Longrightarrow> map result_recipient_id results = is"
proof (induction "is" arbitrary: d w d' results w')
  case Nil
  then show ?case by (simp add: io_return_def)
next
  case (Cons i "is")
  then show ?case
    by (auto simp: io_bind_def io_return_def split: outcome.splits dest!: dispatch_recipient_result_names)
qed

text \<open>A message that was dispatched is one that a person wrote, and it comes back with exactly one
  result for each of its recipients, in their order, whatever happens with one of them.\<close>

theorem one_result_for_each_recipient:
  assumes "dispatch_message sv d room_id message_id' w = Ret (d', Ok success) w'"
  shows "\<exists>msg. desktop_find_message (st_source d) room_id message_id' = Ok msg
    \<and> is_human_participant (st_source d) (m_author_id msg)
    \<and> success_source_message_id success = m_id msg
    \<and> map result_recipient_id (success_results success) = m_recipients msg"
  using assms
  by (auto simp: dispatch_message_def io_bind_def io_return_def split: sum.splits if_splits outcome.splits
      dest!: dispatch_recipients_names)

end
