(* ===== verification/Ai_Turn_Example.thy ===== *)
theory Ai_Turn_Example
  imports Ai_Turn_Claims Room_Claims
begin

text \<open>
  One dispatch from start to end: the first message of the example Room goes to Codex, which may
  change the folder \<open>/work\<close>, and Codex answers. The theorems about dispatches are applied to it.
\<close>

section \<open>Writing without faults\<close>

text \<open>A directory in which nothing is in the way.\<close>

definition quiet :: "path \<Rightarrow> world \<Rightarrow> bool" where
  "quiet p w \<longleftrightarrow> faults w = [] \<and> fst p \<noteq> [] \<and> fst p \<in> directories w \<and> (\<forall>q. files w q \<noteq> Some Directory)
     \<and> (\<forall>n. files w (temp_path p (process_id w) n) = None)"

lemma settings_persist_succeeds:
  assumes "quiet p w" "length body \<le> limit"
  shows "\<exists>w'. settings_persist e e' limit p (Some body) w = Ret (Ok ()) w' \<and> quiet p w'"
proof -
  have paths: "p \<noteq> with_extension p ''json.backup''" "with_extension p ''json.backup'' \<noteq> p"
    "\<And>n pid. temp_path p pid n \<noteq> p" "\<And>n pid. p \<noteq> temp_path p pid n"
    "\<And>n pid. temp_path p pid n \<noteq> with_extension p ''json.backup''"
    "\<And>n pid. with_extension p ''json.backup'' \<noteq> temp_path p pid n"
    using temp_path_distinct [of p] backup_path_distinct [of p] by metis+
  have regular: "files w q = None \<or> (\<exists>b. files w q = Some (Regular b))" for q
    using assms(1) unfolding quiet_def by (metis node.exhaust option.exhaust)
  note run = settings_persist_def settings_write_file_def settings_rotate_def install_temp_def
    with_temp_guard_def io_bind_def io_try_def io_return_def fs_create_dir_all_def fs_create_new_def
    fs_write_all_sync_def fs_rename_def fs_remove_file_def atomic_op_def next_fault_def put_file_def
    fs_is_dir_def fs_exists_def fs_is_file_def Let_def quiet_def
  show ?thesis
    using regular [of p] regular [of "with_extension p ''json.backup''"]
    by (elim disjE exE) (use assms paths in \<open>simp add: run\<close>)+
qed

lemma dispatch_commit_succeeds:
  assumes "quiet p w" "d_persistence l = Some p" "dispatch_encode enc m = Some body"
    "length body \<le> MAXIMUM_DISPATCH_LEDGER_BYTES"
  shows "\<exists>w'. dispatch_commit enc l m act x w = Ret (l\<lparr>d_records := m, d_active := act\<rparr>, Ok x) w' \<and> quiet p w'"
  using settings_persist_succeeds [OF assms(1,4), of Dispatch_Invalid Dispatch_Io] assms(2,3)
  by (auto simp: dispatch_commit_def dispatch_persist_def dispatch_persist_file_settings io_bind_def io_return_def)

section \<open>The parties\<close>

definition asked :: room_message where
  "asked = example_message ''message-1'' ''body 1''"

definition asked_record :: "ai_dispatch_state \<Rightarrow> ai_dispatch_record" where
  "asked_record s = fresh_record asked ''codex'' ''1''\<lparr>d_state := s\<rparr>"

definition asked_records :: "ai_dispatch_state \<Rightarrow> dispatch_records" where
  "asked_records s = [(dispatch_id_of asked ''codex'', asked_record s)]"

definition turn_enc :: "persisted_dispatch_ledger \<Rightarrow> string option" where
  "turn_enc f =
     (if f = dispatch_file (asked_records DispatchPrepared) then Some ''p''
      else if f = dispatch_file (asked_records ExternalStarted) then Some ''s''
      else if f = dispatch_file (asked_records DispatchCompleted) then Some ''c'' else None)"

definition turn_dec :: "string \<Rightarrow> persisted_dispatch_ledger option" where
  "turn_dec body =
     (if body = ''p'' then Some (dispatch_file (asked_records DispatchPrepared))
      else if body = ''s'' then Some (dispatch_file (asked_records ExternalStarted))
      else if body = ''c'' then Some (dispatch_file (asked_records DispatchCompleted)) else None)"

definition turn_profiles :: desktop_participant_profiles where
  "turn_profiles = \<lparr>profile_path = ([], []), profile_now = [(''codex'', example_profile)], profile_poisoned = False\<rparr>"

definition turn_folders :: folders where
  "turn_folders = \<lparr>folder_is_dir = (\<lambda>_. True), folder_is_link = (\<lambda>_. Some False),
     folder_canonical = (\<lambda>r. if is_absolute_path r then Some r else None),
     folder_identity = (\<lambda>_. Some (1, 1))\<rparr>"

definition turn_services :: dispatch_services where
  "turn_services = \<lparr>dispatch_codec = turn_enc, dispatch_room_encoder = (\<lambda>_. None),
     dispatch_continuity_codec = \<lparr>continuity_to_vec = \<lambda>_. None, continuity_from_slice = \<lambda>_. None\<rparr>,
     dispatch_json = (\<lambda>_. []), dispatch_folders = turn_folders,
     dispatch_workspaces = \<lparr>settings_now = [(''room-1'', ''/work'')], settings_path = None, settings_poisoned = False\<rparr>,
     dispatch_profiles = turn_profiles, dispatch_gemini_available = True, gate_poisoned = (\<lambda>_. False),
     run_text_turn = (\<lambda>_ _. Ok \<lparr>response_text = ''ok'', response_session_id = Some ''s'', response_artifact_ids = []\<rparr>),
     other_threads = io_return, clock = (\<lambda>_ _. Some ''1''), default_hash = (\<lambda>_. 0), reply_token = (\<lambda>_. [])\<rparr>"

definition turn_ledger :: "dispatch_records \<Rightarrow> string set \<Rightarrow> dispatch_ledger" where
  "turn_ledger rs act = \<lparr>d_records = rs, d_active = act, d_persistence = Some dispatch_path, d_poisoned = False\<rparr>"

definition turn_state :: dispatch_state where
  "turn_state = \<lparr>st_source = \<lparr>room_inner = example_store, room_persistence = None\<rparr>,
     st_ledger = turn_ledger [] {},
     st_continuity = \<lparr>settings_now = [], settings_path = None, settings_poisoned = False\<rparr>,
     st_turns = turn_cancellations_default, st_bridge = desktop_browser_bridge_new False\<rparr>"

definition turn_world :: world where
  "turn_world = example_dispatch_world Map.empty []"

lemma turn_services_simps [simp]:
  "dispatch_codec turn_services = turn_enc" "dispatch_profiles turn_services = turn_profiles"
  "gate_poisoned turn_services i = False" "other_threads turn_services = io_return"
  "clock turn_services i look = Some ''1''"
  "run_text_turn turn_services i request
     = Ok \<lparr>response_text = ''ok'', response_session_id = Some ''s'', response_artifact_ids = []\<rparr>"
  by (simp_all add: turn_services_def)

lemma turn_state_simps [simp]:
  "st_source turn_state = \<lparr>room_inner = example_store, room_persistence = None\<rparr>"
  "st_ledger turn_state = turn_ledger [] {}"
  "st_continuity turn_state = \<lparr>settings_now = [], settings_path = None, settings_poisoned = False\<rparr>"
  "st_turns turn_state = turn_cancellations_default"
  by (simp_all add: turn_state_def)

lemma turn_codec: "dispatch_codec turn_services f = Some body \<Longrightarrow> turn_dec body = Some f"
  by (auto simp: turn_services_def turn_enc_def turn_dec_def split: if_splits)

lemma turn_world_quiet: "quiet dispatch_path turn_world"
  by (simp add: quiet_def turn_world_def dispatch_path_def example_dispatch_world_def)

section \<open>The run\<close>

lemma reply_id_valid:
  "valid_identifier (reply_message_id i ''codex'')" "valid_entity_id (reply_message_id i ''codex'')"
proof -
  have "list_all is_ascii_alphanumeric (hex16 n)" for n
    by (rule hex16_alphanumeric)
  then have "list_all identifier_tail_byte (hex16 n)" "list_all entity_id_byte (hex16 n)" for n
    by (auto simp: list_all_iff identifier_tail_byte_def entity_id_byte_def)
  then show "valid_identifier (reply_message_id i ''codex'')" "valid_entity_id (reply_message_id i ''codex'')"
    by (simp_all add: reply_message_id_def valid_identifier_eval valid_entity_id_def entity_id_byte_def
        identifier_tail_byte_def byte_class_defs)
qed

lemma asked_record_valid: "dispatch_validate_record (asked_record s) = Ok ()"
  using reply_id_valid
  by (simp add: dispatch_validate_record_iff asked_record_def fresh_record_def asked_def example_message_def
      dispatch_id_of_def valid_dispatch_id_def dispatch_valid_timestamp_def dispatch_id_byte_def byte_class_defs)
    (simp add: valid_entity_id_def entity_id_byte_def byte_class_defs)

lemma turn_encodes [simp]:
  "dispatch_encode turn_enc (asked_records DispatchPrepared) = Some ''p''"
  "dispatch_encode turn_enc (asked_records ExternalStarted) = Some ''s''"
  "dispatch_encode turn_enc (asked_records DispatchCompleted) = Some ''c''"
  by (simp_all add: turn_enc_def dispatch_file_def asked_records_def) (simp_all add: asked_record_def fresh_record_def)

lemma asked_moves:
  "bt_insert (dispatch_id_of asked ''codex'') (asked_record DispatchPrepared) [] = asked_records DispatchPrepared"
  "bt_update (dispatch_id_of asked ''codex'') (\<lambda>r. r\<lparr>d_state := s', d_updated_at := ''1''\<rparr>) (asked_records s)
     = asked_records s'"
  by (simp_all add: asked_records_def bt_update_def asked_record_def fresh_record_def)

lemma asked_begins:
  assumes "quiet dispatch_path w"
  shows "\<exists>w'. dispatch_begin turn_enc (turn_ledger [] {}) (fresh_record asked ''codex'' ''1'') w
      = Ret (turn_ledger (asked_records DispatchPrepared) {dispatch_id_of asked ''codex''}, Ok DispatchReserved) w'
    \<and> quiet dispatch_path w'"
  using dispatch_commit_succeeds [OF assms, of "turn_ledger [] {}" turn_enc "asked_records DispatchPrepared" "''p''"
      "{dispatch_id_of asked ''codex''}" DispatchReserved] asked_moves(1) asked_record_valid [of DispatchPrepared]
  by (simp add: dispatch_begin_def turn_ledger_def prune_terminal_records_def asked_record_def fresh_record_def)

lemma asked_transition:
  assumes "quiet dispatch_path w"
    and "(s, s') \<in> {(DispatchPrepared, ExternalStarted), (ExternalStarted, DispatchCompleted)}"
  shows "\<exists>w'. dispatch_transition turn_enc (turn_ledger (asked_records s) {dispatch_id_of asked ''codex''})
        (dispatch_id_of asked ''codex'') s s' ''1'' finish w
      = Ret (turn_ledger (asked_records s')
          (if finish then {} else {dispatch_id_of asked ''codex''}), Ok ()) w'
    \<and> quiet dispatch_path w'"
proof -
  have "d_dispatch_id (asked_record s) = dispatch_id_of asked ''codex''" "d_updated_at (asked_record s) = ''1''"
    by (simp_all add: asked_record_def fresh_record_def)
  then have "valid_dispatch_id (dispatch_id_of asked ''codex'')" "dispatch_valid_timestamp ''1''"
    using asked_record_valid [of s] by (metis dispatch_validate_record_iff)+
  moreover have "\<exists>body. dispatch_encode turn_enc (asked_records s') = Some body \<and> length body \<le> 1048576"
    using assms(2) by auto
  ultimately show ?thesis
    using dispatch_commit_succeeds [OF assms(1), of "turn_ledger (asked_records s) {dispatch_id_of asked ''codex''}"
        turn_enc "asked_records s'" _ "if finish then {} else {dispatch_id_of asked ''codex''}" "()"]
      asked_moves(2) [of s' s]
    by (auto simp: dispatch_transition_def turn_ledger_def asked_records_def asked_record_def)
qed

lemma asked_unanswered:
  "desktop_find_message \<lparr>room_inner = example_store, room_persistence = None\<rparr> ''room-1'' (reply_message_id i ''codex'')
     = Err Find_MessageNotFound"
  using reply_id_valid(1) [of i]
  by (simp add: desktop_find_message_def find_message_def example_store_defs identifier_eval)
    (simp add: reply_message_id_def)

definition asked_ctxt :: desktop_room_context where
  "asked_ctxt = \<lparr>context_room = example_room,
     participant_names = fold (\<lambda>p. bt_insert (p_id p) (p_display_name p)) (participants example_snapshot) [],
     participant_kinds = fold (\<lambda>p. bt_insert (p_id p) (p_kind p)) (participants example_snapshot) []\<rparr>"

lemma asked_context:
  "room_context \<lparr>room_inner = example_store, room_persistence = None\<rparr> ''room-1'' = Ok asked_ctxt"
  "room_context_plan asked_ctxt asked None key ''codex'' = Ok (counted_plan False Context_Initial [] 0)"
  by (simp_all add: room_context_def in_memory_snapshot_def asked_ctxt_def example_store_def example_snapshot_def
      example_room_def room_context_plan_def cursor_index_def asked_def example_message_def)

lemma asked_fields [simp]:
  "m_id asked = ''message-1''" "m_room_id asked = ''room-1''" "m_author_id asked = ''owner''"
  "m_recipients asked = [''codex'']"
  by (simp_all add: asked_def example_message_def)

lemma turn_access: "workspace_access_for turn_services (codex_provider None) = Some Access_ReadWrite"
  by (simp add: workspace_access_for_def turn_services_def turn_profiles_def ai_access_mode_of_def profile_get_def
      example_profile_def effective_for_def)

lemma turn_root:
  "available_root (dispatch_folders turn_services) (dispatch_workspaces turn_services) ''room-1'' = Ok (Some ''/work'')"
  by (simp add: available_root_def available_workspace_def configured_root_def safe_workspace_root_def
      turn_services_def turn_folders_def is_filesystem_link_def is_absolute_path_def workspace_identity_key_def
      valid_room_id_def entity_id_byte_def byte_class_defs)

lemma asked_is_planned:
  assumes "quiet dispatch_path w"
  shows "\<exists>turns planned w'. prepare_turn turn_services (codex_provider None) turn_state asked w
      = Ret (turn_state\<lparr>st_turns := turns,
          st_ledger := turn_ledger (asked_records ExternalStarted) {dispatch_id_of asked ''codex''}\<rparr>, Inr planned) w'
    \<and> quiet dispatch_path w'
    \<and> turn_workspace (planned_request planned) = Some \<lparr>turn_workspace_root = ''/work'', turn_workspace_access = Access_ReadWrite\<rparr>"
proof -
  obtain w1 where w1: "dispatch_begin turn_enc (turn_ledger [] {}) (fresh_record asked ''codex'' ''1'') w
      = Ret (turn_ledger (asked_records DispatchPrepared) {dispatch_id_of asked ''codex''}, Ok DispatchReserved) w1"
    and quiet1: "quiet dispatch_path w1"
    using asked_begins [OF assms] by blast
  obtain w2 where w2: "mark_external_started turn_enc
        (turn_ledger (asked_records DispatchPrepared) {dispatch_id_of asked ''codex''})
        (dispatch_id_of asked ''codex'') ''1'' w1
      = Ret (turn_ledger (asked_records ExternalStarted) {dispatch_id_of asked ''codex''}, Ok ()) w2"
    and quiet2: "quiet dispatch_path w2"
    using asked_transition [OF quiet1, of DispatchPrepared ExternalStarted False]
    by (auto simp: mark_external_started_def)
  let ?d1 = "turn_state\<lparr>st_ledger := turn_ledger (asked_records DispatchPrepared) {dispatch_id_of asked ''codex''}\<rparr>"
  have reserve: "reserve_turn turn_services (codex_provider None) turn_state asked w = Ret (?d1, Inr ()) w1"
    using asked_unanswered w1
    by (simp add: reserve_turn_def begin_dispatch_def io_bind_def io_return_def
        fresh_record_def begin_result_def Let_def)
  have flight: "workspace_preflight turn_services (codex_provider None) ?d1 asked w1 = Ret (?d1, Inr (Some ''/work'')) w1"
    using turn_access turn_root by (simp add: workspace_preflight_def io_return_def Let_def)
  have got: "continuity_get (st_continuity ?d1) ''room-1'' ''codex'' = Ok None"
    by (simp add: continuity_get_def continuity_valid_identifier_def entity_id_byte_def byte_class_defs)
  obtain turns c where registered: "register_turn (st_turns ?d1) ''room-1'' (dispatch_id_of asked ''codex'') = (turns, Ok c)"
    by (simp add: register_turn_def turn_cancellations_default_def new_cancellation_def
        bt_contains_key_def)
  show ?thesis
    using asked_context got registered w2 quiet2 turn_access
    by (simp add: prepare_turn_def dispatch_then_def io_bind_def reserve flight plan_turn_def start_external_turn_def
        ledger_step_def io_return_def turn_request_workspace Let_def) blast
qed

lemma turn_sync: "dispatch_sync turn_dec dispatch_path [] (st_ledger turn_state) turn_world"
  by (simp add: dispatch_sync_def dispatch_on_file_def durable_def turn_world_def example_dispatch_world_def
      dispatch_records_ok_def dispatch_active_ok_def turn_ledger_def prune_terminal_records_def)

lemma turn_intact: "dispatch_intact dispatch_path turn_world"
  by (simp add: dispatch_intact_def fs_exists_def turn_world_def example_dispatch_world_def)

text \<open>Codex answers, and the reply is stored.\<close>

lemma asked_is_answered:
  "\<exists>d' result report w'. dispatch_turn turn_services (codex_provider None) turn_state asked ''owner'' turn_world
      = Ret (d', Ok result) w'
    \<and> result_status result = Recipient_Completed \<and> result_context result = Some report"
proof -
  obtain turns planned w1 where prepared: "prepare_turn turn_services (codex_provider None) turn_state asked turn_world
      = Ret (turn_state\<lparr>st_turns := turns,
          st_ledger := turn_ledger (asked_records ExternalStarted) {dispatch_id_of asked ''codex''}\<rparr>, Inr planned) w1"
    and quiet: "quiet dispatch_path w1"
    using asked_is_planned [OF turn_world_quiet] by blast
  let ?reply = "\<lparr>m_id = reply_message_id ''message-1'' ''codex'', m_room_id = ''room-1'', m_author_id = ''codex'',
    m_recipients = [''owner''], m_body = ''ok'', m_created_at = ''1'', m_artifact_ids = [], m_provenance = None\<rparr>"
  have draft: "room_message_draft_try_new (reply_message_id ''message-1'' ''codex'') ''room-1'' ''codex'' [''owner'']
      ''ok'' ''1'' [] = Ok (RoomMessageDraft ?reply)"
    using reply_id_valid(1) [of "''message-1''"]
    by (simp add: room_message_draft_try_new_def room_message_draft_try_new_with_provenance_def Let_def
        valid_message_shape_def unique_valid_identifiers_iff identifier_eval valid_text_def room_limits
        trim_is_empty_def str_chars_def is_whitespace_def)
  have other: "reply_message_id ''message-1'' ''codex'' \<noteq> ''message-'' @ n"
    "''message-'' @ n \<noteq> reply_message_id ''message-1'' ''codex''" for n
    by (simp_all add: reply_message_id_def)
  obtain inner where "append_message example_store (RoomMessageDraft ?reply)
      = (inner, Ok (room_write_success_new Appended ?reply))"
    using other [of "''1''"] other [of "''2''"] other [of "''3''"]
    by (simp add: append_message_def example_store_defs room_limits Let_def)
  then have append: "desktop_append_message (dispatch_room_encoder turn_services)
      \<lparr>room_inner = example_store, room_persistence = None\<rparr> (RoomMessageDraft ?reply) w1
      = Ret (\<lparr>room_inner = inner, room_persistence = None\<rparr>, Ok (room_write_success_new Appended ?reply)) w1"
    by (simp add: desktop_append_message_def write_through_def in_memory_snapshot_def io_return_def)
      (simp add: example_store_def)
  obtain w2 where w2: "dispatch_mark_completed turn_enc
        (turn_ledger (asked_records ExternalStarted) {dispatch_id_of asked ''codex''})
        (dispatch_id_of asked ''codex'') ''1'' w1
      = Ret (turn_ledger (asked_records DispatchCompleted) {}, Ok ()) w2"
    using asked_transition [OF quiet, of ExternalStarted DispatchCompleted True]
    by (auto simp: dispatch_mark_completed_def)
  have commit: "\<exists>st r. continuity_commit codec \<lparr>settings_now = [], settings_path = None, settings_poisoned = False\<rparr>
      room i c w1 = Ret (st, r) w1" for codec room i c
    by (auto simp: continuity_commit_def settings_commit_def io_bind_def io_return_def)
  then obtain st r where commit': "continuity_commit (dispatch_continuity_codec turn_services)
      \<lparr>settings_now = [], settings_path = None, settings_poisoned = False\<rparr> ''room-1'' ''codex''
      \<lparr>continuation_session_id = ''s'', last_synced_message_id = ''message-1'',
        continuation_environment_key = planned_key planned\<rparr> w1 = Ret (st, r) w1"
    by blast
  show ?thesis
    using draft append w2 commit'
    by (simp add: dispatch_turn_def io_bind_def prepared io_return_def answer_turn_def reply_stored_def
        ledger_step_def room_write_success_new_def Let_def)
qed

section \<open>The theorems on the run\<close>

theorem adapter_is_called_only_when_recorded_witness:
  "\<exists>d' planned w'. prepare_turn turn_services (codex_provider None) turn_state asked turn_world = Ret (d', Inr planned) w'
     \<and> recorded_as_started (st_ledger d') asked ''codex''"
proof -
  obtain d' planned w' where run: "prepare_turn turn_services (codex_provider None) turn_state asked turn_world
      = Ret (d', Inr planned) w'"
    using asked_is_planned [OF turn_world_quiet] by blast
  from adapter_is_called_only_when_recorded [where dec = turn_dec, OF turn_codec turn_intact turn_sync run]
  show ?thesis
    using run by auto
qed

lemma turn_reopens:
  assumes "dispatch_on_file turn_dec dispatch_path (asked_records ExternalStarted) w" "quiet dispatch_path w"
  shows "\<exists>l. dispatch_open turn_dec dispatch_path (w\<lparr>faults := []\<rparr>) = Ret (Ok l) (w\<lparr>faults := []\<rparr>)"
proof -
  obtain body where body: "dispatch_durable dispatch_path w = Some body"
    "turn_dec body = Some (dispatch_file (asked_records ExternalStarted))"
    using assms(1) by (auto simp: dispatch_on_file_def asked_records_def dispatch_file_def split: option.splits)
  have size: "0 < length body" "length body \<le> 1048576"
    using body(2) by (auto simp: turn_dec_def split: if_splits)
  have "dispatch_records_of_file (dispatch_file (asked_records ExternalStarted)) = Ok (asked_records ExternalStarted)"
    using asked_record_valid [of ExternalStarted]
    by (simp add: dispatch_records_of_file_def dispatch_file_def asked_records_def bt_contains_key_def)
      (simp add: asked_record_def fresh_record_def)
  with body size show ?thesis
    by (auto elim!: durable_SomeE simp: dispatch_open_def dispatch_load_def Let_def io_bind_def io_try_def
        io_return_def fs_is_file_def fs_exists_def fs_read_def atomic_op_def next_fault_def)
qed


theorem completed_reply_is_in_the_room_witness:
  "\<exists>d' result w'. dispatch_turn turn_services (codex_provider None) turn_state asked ''owner'' turn_world
      = Ret (d', Ok result) w'
    \<and> (\<exists>m. result_message result = Some m
         \<and> desktop_find_message (st_source d') ''room-1'' (reply_message_id ''message-1'' ''codex'') = Ok m)"
proof -
  obtain d' result w' where run: "dispatch_turn turn_services (codex_provider None) turn_state asked ''owner'' turn_world
      = Ret (d', Ok result) w'" and "result_status result = Recipient_Completed"
    using asked_is_answered by blast
  then show ?thesis
    using completed_reply_is_in_the_room [OF run] example_store_ok by (auto simp: io_return_def)
qed

theorem workspace_only_where_allowed_witness:
  "\<exists>d' planned w'. prepare_turn turn_services (codex_provider None) turn_state asked turn_world = Ret (d', Inr planned) w'
     \<and> available_root (dispatch_folders turn_services) (dispatch_workspaces turn_services) ''room-1'' = Ok (Some ''/work'')
     \<and> ai_access_mode_of turn_profiles ''codex'' = WorkspaceWrite"
proof -
  obtain d' planned w' where run: "prepare_turn turn_services (codex_provider None) turn_state asked turn_world
      = Ret (d', Inr planned) w'"
    and workspace: "turn_workspace (planned_request planned)
      = Some \<lparr>turn_workspace_root = ''/work'', turn_workspace_access = Access_ReadWrite\<rparr>"
    using asked_is_planned [OF turn_world_quiet] by blast
  have "known_provider (codex_provider None)" "profiles_ok (profile_now (dispatch_profiles turn_services))"
    using example_profile_valid
    by (auto simp: known_provider_def profiles_ok_def turn_profiles_def bt_ok_def example_profile_def)
  from workspace_only_where_allowed [OF this run workspace] show ?thesis
    using run by auto
qed

theorem workspace_session_is_never_kept_witness:
  "\<exists>d' result report w'. dispatch_turn turn_services (codex_provider None) turn_state asked ''owner'' turn_world
      = Ret (d', Ok result) w'
    \<and> result_status result = Recipient_Completed \<and> result_context result = Some report
    \<and> \<not> report_continuity_saved report"
proof -
  obtain d' result report w' where run: "dispatch_turn turn_services (codex_provider None) turn_state asked ''owner'' turn_world
      = Ret (d', Ok result) w'" and done': "result_status result = Recipient_Completed" "result_context result = Some report"
    using asked_is_answered by blast
  have "\<not> report_continuity_saved report"
  proof (rule workspace_session_is_never_kept [where prefs = None, OF _ _ _ _ run done'(2)])
    show "available_root (dispatch_folders turn_services) (dispatch_workspaces turn_services) (m_room_id asked)
        = Ok (Some ''/work'')"
      using turn_root by simp
    show "\<And>r canonical. folder_canonical (dispatch_folders turn_services) r = Some canonical \<Longrightarrow> is_absolute_path canonical"
      by (simp add: turn_services_def turn_folders_def split: if_splits)
  qed (simp_all add: turn_access)
  then show ?thesis
    using run done' by blast
qed

theorem context_plan_misses_nothing_witness:
  "\<exists>before source rest. r_messages (context_room asked_ctxt) = before @ source # rest \<and> m_id source = ''message-3''
     \<and> length (context_messages (counted_plan True Context_Resumed [example_message ''message-2'' ''body 2''] 0))
         \<le> MAXIMUM_CONTEXT_MESSAGES"
proof -
  let ?c = "\<lparr>continuation_session_id = ''s'', last_synced_message_id = ''message-1'', continuation_environment_key = ''k''\<rparr>"
  have "room_context_plan asked_ctxt (example_message ''message-3'' ''body 3'') (Some ?c) ''k'' ''codex''
      = Ok (counted_plan True Context_Resumed [example_message ''message-2'' ''body 2''] 0)"
    by (simp add: room_context_plan_def cursor_index_def asked_ctxt_def example_room_def example_message_def
        MAXIMUM_CONTEXT_MESSAGES_def)
  from context_plan_misses_nothing [OF this] show ?thesis
    by (auto simp: example_message_def)
qed

theorem one_result_for_each_recipient_witness:
  "\<exists>d' success w'. dispatch_message turn_services turn_state ''room-1'' ''message-1'' turn_world = Ret (d', Ok success) w'
     \<and> map result_recipient_id (success_results success) = [''codex'']"
proof -
  have found: "desktop_find_message (st_source turn_state) ''room-1'' ''message-1'' = Ok asked"
    by (simp add: desktop_find_message_def find_message_def example_store_defs identifier_eval asked_def)
  have human: "is_human_participant (st_source turn_state) ''owner''"
    by (simp add: is_human_participant_def in_memory_snapshot_def example_store_defs)
  obtain d' success w' where run: "dispatch_message turn_services turn_state ''room-1'' ''message-1'' turn_world
      = Ret (d', Ok success) w'"
    using asked_is_answered found human
    by (auto simp: dispatch_message_def dispatch_recipient_result_def dispatch_codex_def
        dispatch_codex_with_image_generation_def io_bind_def io_return_def Let_def CODEX_PARTICIPANT_ID_def)
  show ?thesis
    using run one_result_for_each_recipient [OF run] found by auto
qed

end
