(* ===== verification/Spec2Isabelle.thy ===== *)
theory Spec2Isabelle
  imports Mcp_Tools Conductor_Driver Confirmation_Claims Command_Broker Orchestration_Claims
    Dispatch_Claims Relay_Claims Relay_Client Relay_Lifecycle Relay_Runtime Relay_Runtime_Claims
    Credential_Store Command_Confirmation_Claims Command_Helper_Protocol Room_Command_Claims
    Adapter_Sdk Room_Workspace Ai_Continuity Participant_Profiles Appearance_Settings
    Conductor_Settings Browser_Bridge_Claims Ai_Turn_Example
begin

text \<open>
  M.I.O. is a local application in which people and AI participants share Rooms. The desktop
  (\<open>apps/desktop/src-tauri/src\<close>) keeps the Rooms, sends their messages to AI providers through
  adapters, lets one AI lead the others, asks the owner before commands run, and talks to a relay
  and to a browser extension; the crates under \<open>crates/\<close> hold the parts that do not depend on the
  desktop. This development models the Rust code of these parts and proves what keeps them right.

  \<^bold>\<open>How the code is read.\<close> A struct is a record, an enum a datatype, a \<open>u8\<close> or \<open>u64\<close> a word, a byte
  string or UTF-8 string a list of bytes as characters (\<open>Utf8\_Text\<close> has the functions that see
  characters), a \<open>usize\<close> that counts a list a natural number (in the HTTP parser of the bridge it
  is a word, because there the sum can wrap around), a \<open>BTreeMap\<close> a sorted association list
  (\<open>Btree\_Map\<close>, the locale \<open>keyed\_map\<close>), a \<open>Result\<close> a sum with \<open>Ok\<close> and \<open>Err\<close>. A method with
  \<open>\&mut self\<close> or a lock returns the new state; a poisoned lock is a flag of the state. Where the
  interleaving of threads matters, each critical section is a function of its own and other threads
  run any sequence of theirs in between: the waiting confirmations, the relay service and runtime,
  the running turns. \<open>room\_post\_as\_owner\<close> and \<open>conductor\_mode\_save\<close>, which lock twice, take what others do
  in between as an argument. Three kinds of functions are coarser: \<open>dispatch\_turn\<close> lets other threads run
  only while the adapter does, not in its other gaps; \<open>wait\_for\_room\_authorization\<close> is not interrupted up
  to its wait (its sections are also given one by one); and the commands of the interface that look
  something up before they change it (Rooms, backups, the leader's status) do so in one step. File operations run in the \<open>io\<close> monad of \<open>File\_System\<close>: a script
  of faults says for each operation whether it works, fails or is where the process dies, so a
  statement over all scripts covers every failure and every crash point.

  \<^bold>\<open>Foundations.\<close>
  \<^item> \<open>Prelude\<close>: \<open>Result\<close>, machine integers, byte classes, list lemmas, and the two locales for state
    machines, \<open>invariant\_machine\<close> (what every step keeps, every run keeps) and \<open>monotone\_machine\<close>
    (what only grows). The registry, the Room store, the conductor operation and the desktop's
    confirmations interpret them on their own steps.
  \<^item> \<open>Btree\_Map\<close>, \<open>File\_System\<close>, \<open>Utf8\_Text\<close>: maps, files with faults and the weakest preconditions
    \<open>wp\<close> (what holds if a call returns, and what holds if the process dies in it), text.

  \<^bold>\<open>Rooms.\<close>
  \<^item> \<open>Protocol\<close> (\<open>moe-protocol\<close>): identifiers, frames and their checks.
  \<^item> \<open>Room\<close>, \<open>Room\_Store\<close>, \<open>Room\_Store\_Props\<close>, \<open>Room\_Claims\<close> (\<open>moe-core/src/room.rs\<close>): data, drafts,
    queries, and \<open>InMemoryRoomSource\<close> with every operation. Snapshots stay valid, histories only
    grow, a message is stored once, and following the cursor reads everything. \<open>follow\_pages\<close> is the
    loop of a client; one round more than there are messages left is enough.
  \<^item> \<open>Mcp\_Tools\<close> (\<open>moe-mcp\<close>): the four tools over the interface \<open>room\_contract\<close> of the store, which
    \<open>in\_memory\_contract\<close> shows for the model of the store.
  \<^item> \<open>Room\_Catalog\<close>, \<open>Room\_Source\<close>, \<open>Room\_Source\_Claims\<close> (\<open>room\_source.rs\<close>): the bundled Rooms, loading
    and repair, the write-through file with its backup (16 names are tried for a temporary file),
    export and restore. The file or its backup always holds the Rooms in memory, where a restore
    makes them exactly those of the backup it was given (\<open>room\_change\<close>, \<open>backup\_rooms\<close>); a crash leaves the
    Rooms from before or after the call.
  \<^item> \<open>Room\_Backups\<close> (\<open>room\_backup\_commands.rs\<close>): backups in a folder of the owner: their names, the latest
    one, export, preview, restore, and the setting of the folder with its file.
  \<^item> \<open>Room\_Commands\<close>, \<open>Room\_Command\_Claims\<close> (\<open>room\_commands.rs\<close>): the commands of the interface; every
    Room keeps its owner and an AI. \<open>room\_life\<close> is all that can happen to the Rooms, the restoring of
    backups included; the Rooms that were restored are listed in it, since a restore does not look
    for an owner and an AI, and the statement asks that of them.

  \<^bold>\<open>A message goes to an AI.\<close>
  \<^item> \<open>Adapter\_Sdk\<close> (\<open>moe-adapter-sdk\<close>, \<open>turn\_cancellation.rs\<close>): requests, answers and the flags that stop a
    turn, as cells of a store, since the turn and the table of running turns share them. The stop
    command looks 21 times, as in the code.
  \<^item> \<open>Dispatch\_Ledger\<close>, \<open>Dispatch\_Claims\<close> (\<open>ai\_dispatch\_ledger.rs\<close>): which message was sent to whom, in
    memory and in a file. A dispatch without known outcome is never reserved again as long as no call
    begins while a crash has left the file as its backup only (\<open>dispatch\_life\<close> lists the states in which
    calls begin, the statements ask \<open>dispatch\_intact\<close> of them); the last section shows how two crashes
    lose the file without that condition.
  \<^item> \<open>Settings\_File\<close>, \<open>Ai\_Continuity\<close>, \<open>Room\_Workspace\<close> (\<open>room\_ai\_continuity.rs\<close>, \<open>room\_workspace.rs\<close>): the two
    stores share the code of their file, which is modelled once; the locale \<open>settings\_contract\<close> is
    what a store needs of its codec, and both stores interpret it.
  \<^item> \<open>Profile\_File\<close>, \<open>Participant\_Profiles\<close>, \<open>Appearance\_Settings\<close>, \<open>Conductor\_Settings\<close>
    (\<open>participant\_profiles.rs\<close>, \<open>appearance\_settings.rs\<close>, \<open>room\_conductor\_settings.rs\<close>): profiles, looks and
    the AI that leads a Room; a leader is always a member of its Room that can lead.
  \<^item> \<open>Browser\_Bridge\<close>, \<open>Browser\_Bridge\_Claims\<close> (\<open>browser\_bridge.rs\<close>): the queue of questions for the browser
    extension, the replies, and the HTTP requests from the bytes of the socket. A reply is taken once,
    over any later questions and connections (\<open>bridge\_moves\<close>), and fits into a message; a huge content length ends the thread. The \<open>HashMap\<close> of the questions is
    read in the order of its keys; no two questions have the same dispatch id (\<open>bridge\_ok\<close>), so
    no other order finds another question.
  \<^item> \<open>Dispatch\_Context\<close>, \<open>Ai\_Dispatcher\<close> (\<open>ai\_dispatch.rs\<close>): the messages and prompts that go along, the keys
    of sessions, and the dispatch itself. The four provider functions of the source have the same
    text but for names and sentences; they are one function \<open>dispatch\_turn\<close> of a \<open>provider\<close>, in the
    parts \<open>reserve\_turn\<close>, \<open>workspace\_preflight\<close>, \<open>plan\_turn\<close>, the adapter, \<open>answer\_turn\<close> and \<open>reply\_stored\<close>.
    \<open>Ai\_Dispatch\_Claims\<close>, \<open>Ai\_Turn\_Claims\<close> and \<open>Ai\_Turn\_Example\<close>: an adapter is only called for a pair that
    is on record; an interrupted turn is never sent again (under the condition of the ledger); a
    reported reply is in the Room; nothing
    is left out of the context silently; a workspace is only given where it may be.

  \<^bold>\<open>One AI leads the others.\<close>
  \<^item> \<open>Conductor\_Ids\<close>, \<open>Conductor\_Plan\<close>, \<open>Conductor\_Op\<close>, \<open>Conductor\_Claims\<close>, \<open>Conductor\_Driver\<close>
    (\<open>moe-core/src/conductor.rs\<close>): derived ids, the parser of plans and the operation. Reachable
    operations are consistent, what is recorded is final, and if the participants answer, five
    rounds of the next action (planning, plan, workers, synthesis, saving) end the operation.
  \<^item> \<open>Orchestration\_Ledger\<close>, \<open>Orchestration\_Claims\<close> (\<open>room\_orchestration\_ledger.rs\<close>): the records of
    operations in memory and file; interrupted work is unknown after a restart, which finds
    the records from before the interrupted call or those that call makes.

  \<^bold>\<open>Commands.\<close>
  \<^item> \<open>Command\_Broker\<close>, \<open>Confirmation\<close>, \<open>Confirmation\_Claims\<close> (\<open>moe-command-broker\<close>): which commands may run,
    in which directory, and the registry of the owner's decisions.
  \<^item> \<open>Command\_Confirmations\<close>, \<open>Command\_Confirmation\_Claims\<close> (\<open>command\_confirmations.rs\<close>): threads that wait for a
    decision; one that returns leaves no entry, and its request settled (unless the table of settled
    requests is full). \<open>Command\_Helper\_Protocol\<close>: the request to the helper process, and its round trip.

  \<^bold>\<open>Relay.\<close>
  \<^item> \<open>Credential\_Store\<close>, \<open>Relay\_Client\<close>, \<open>Relay\_Lifecycle\<close>, \<open>Relay\_Claims\<close> (\<open>moe-credential-store\<close>,
    \<open>moe-relay-client\<close>): credentials over a vault given by its operations, pairing, the connection
    service and the state machine of an account.
  \<^item> \<open>Relay\_Runtime\<close>, \<open>Relay\_Runtime\_Claims\<close> (\<open>relay\_runtime.rs\<close>): tasks, channel and pump. Generations are
    words; the statements suppose that fewer than \<open>2 ^ 64\<close> tasks were started.

  \<^bold>\<open>What is a parameter.\<close> The JSON codecs (with the hypothesis that what was written is read back),
  the adapters' answers, the clock, \<open>DefaultHasher\<close>, what the operating system says about folders,
  the credential vault, the relay transport, and what other threads do while an adapter runs.

  \<^bold>\<open>What is not modelled.\<close> Loss of data that the disk had confirmed; wiping of secrets from memory;
  the drivers of the provider programs and their process trees; \<open>room\_orchestration.rs\<close>, which calls the
  conductor, the dispatcher and the ledger in turn (the three are modelled); the command runner and
  launcher of Windows; the brokers for workspaces and Git; artifacts, the dialogs for backups, the MCP and
  relay sockets; system fonts and the start of the application; the interface in TypeScript.
\<close>

end
